(* ===== verification/Prelude.thy ===== *)
theory Prelude
  imports Main "HOL-Library.Multiset"
begin

text \<open>
  What every other theory shares: the fallible-result type and its sequencing, lookup in Go
  composite-literal tables, iteration over a Go map (whose order is not fixed by the language), and
  the development's collections of simplification rules.

  A Go function returning \<open>(T, error)\<close> is a HOL function returning \<open>'e + 'a\<close>: \<open>Inl\<close> is a non-nil
  error, \<open>Inr\<close> the value returned with a nil error. A Go map is \<open>'k \<rightharpoonup> 'v\<close> when it is only looked
  up; a \<^emph>\<open>range\<close> over a map is a recursion over an association list with distinct keys, the
  order of the list being the order in which that one iteration visits the keys.
\<close>

named_theorems tenara_defs \<open>definitions of the operations of a component, unfolded in its proofs\<close>
named_theorems tenara_inv \<open>preservation lemmas of component invariants\<close>

section \<open>Fallible results\<close>

definition and_then :: "'e + 'a \<Rightarrow> ('a \<Rightarrow> 'e + 'b) \<Rightarrow> 'e + 'b" where
  "and_then r f = (case r of Inl e \<Rightarrow> Inl e | Inr x \<Rightarrow> f x)"

lemma and_then_simps [simp]:
  "and_then (Inl e) f = Inl e"
  "and_then (Inr x) f = f x"
  by (simp_all add: and_then_def)

lemma and_then_Inr_iff: "and_then r f = Inr y \<longleftrightarrow> (\<exists>x. r = Inr x \<and> f x = Inr y)"
  by (cases r) auto

lemma and_then_Inl_iff:
  "and_then r f = Inl e \<longleftrightarrow> r = Inl e \<or> (\<exists>x. r = Inr x \<and> f x = Inl e)"
  by (cases r) auto

definition is_ok :: "'e + 'a \<Rightarrow> bool" where
  "is_ok r = (case r of Inl _ \<Rightarrow> False | Inr _ \<Rightarrow> True)"

lemma is_ok_simps [simp]: "\<not> is_ok (Inl e)" "is_ok (Inr x)"
  by (simp_all add: is_ok_def)

lemma is_ok_iff: "is_ok r \<longleftrightarrow> (\<exists>x. r = Inr x)"
  by (cases r) auto

text \<open>A loop that returns at the first error: the error of the first failing element.\<close>

fun first_error :: "('a \<Rightarrow> 'e + 'b) \<Rightarrow> 'a list \<Rightarrow> 'e option" where
  "first_error f [] = None"
| "first_error f (x # xs) = (case f x of Inl e \<Rightarrow> Some e | Inr _ \<Rightarrow> first_error f xs)"

lemma first_error_None_iff: "first_error f xs = None \<longleftrightarrow> (\<forall>x \<in> set xs. is_ok (f x))"
  by (induction xs) (auto simp: is_ok_def split: sum.splits)

lemma first_error_Some: "first_error f xs = Some e \<Longrightarrow> \<exists>x \<in> set xs. f x = Inl e"
  by (induction xs) (auto split: sum.splits)

text \<open>A loop that collects results and stops at the first error.\<close>

fun collect :: "('a \<Rightarrow> 'e + 'b) \<Rightarrow> 'a list \<Rightarrow> 'e + 'b list" where
  "collect f [] = Inr []"
| "collect f (x # xs) = and_then (f x) (\<lambda>y. and_then (collect f xs) (\<lambda>ys. Inr (y # ys)))"

lemma collect_Inr_iff: "collect f xs = Inr ys \<longleftrightarrow> list_all2 (\<lambda>x y. f x = Inr y) xs ys"
proof (induction xs arbitrary: ys)
  case Nil
  show ?case by auto
next
  case (Cons x xs)
  show ?case by (cases ys) (auto simp: and_then_Inr_iff Cons.IH)
qed

lemma collect_Inr_length: "collect f xs = Inr ys \<Longrightarrow> length ys = length xs"
  by (simp add: collect_Inr_iff list_all2_lengthD)

lemma collect_ok_iff: "is_ok (collect f xs) \<longleftrightarrow> (\<forall>x \<in> set xs. is_ok (f x))"
  by (induction xs) (auto simp: is_ok_iff and_then_Inr_iff)

section \<open>Tables and map iteration\<close>

text \<open>Two orders of visiting one Go map hold the same entries.\<close>

lemma map_of_mset_cong:
  assumes "distinct (map fst xs)" and "mset xs = mset ys"
  shows "map_of xs = map_of ys"
proof -
  from assms have "mset (map fst xs) = mset (map fst ys)" by simp
  with assms(1) have "distinct (map fst ys)" by (metis mset_eq_imp_distinct_iff)
  moreover from assms(2) have "set xs = set ys" by (metis set_mset_mset)
  ultimately show ?thesis using assms(1) by (simp add: map_of_inject_set)
qed

lemma map_of_map_values: "map_of (map (\<lambda>(k, v). (k, f v)) xs) k = map_option f (map_of xs k)"
  by (induction xs) auto

text \<open>A lookup in a table with distinct keys, when a missing key reads as false.\<close>

lemma table_lookup_iff:
  assumes "distinct (map fst tbl)"
  shows "(case map_of tbl k of None \<Rightarrow> False | Some v \<Rightarrow> P v) \<longleftrightarrow> (\<exists>v. (k, v) \<in> set tbl \<and> P v)"
proof (cases "map_of tbl k")
  case None
  then have "\<forall>v. (k, v) \<notin> set tbl" by (metis map_of_eq_None_iff fst_conv image_eqI)
  with None show ?thesis by simp
next
  case (Some v)
  have uniq: "w = v" if "(k, w) \<in> set tbl" for w
    using map_of_is_SomeI [OF assms that] Some by simp
  have mem: "(k, v) \<in> set tbl" using Some by (rule map_of_SomeD)
  show ?thesis unfolding Some option.case using mem uniq by blast
qed

lemma sort_mset_cong: "mset xs = mset ys \<Longrightarrow> sort xs = sort ys"
  by (metis properties_for_sort sorted_sort mset_sort)

lemma sort_key_Nil_iff [simp]: "sort_key f xs = [] \<longleftrightarrow> xs = []"
  by (metis length_0_conv length_sort)

lemma mset_map_filter_cong:
  "mset xs = mset ys \<Longrightarrow> mset (map f (filter P xs)) = mset (map f (filter P ys))"
  by (metis mset_filter mset_map)

lemma filter_mset_eq_length: "mset xs = mset ys \<Longrightarrow> length (filter P xs) = length (filter P ys)"
  by (metis mset_filter size_mset)

text \<open>A Go \<open>map[K]bool\<close> read: a missing key reads as the zero value \<open>false\<close>.\<close>

definition truthy :: "('k \<rightharpoonup> bool) \<Rightarrow> 'k \<Rightarrow> bool" where
  "truthy m k = (m k = Some True)"

lemma truthy_simps [simp]:
  "truthy (m(k \<mapsto> b)) k' = (if k' = k then b else truthy m k')"
  "\<not> truthy Map.empty k"
  "truthy (m(k := None)) k' = (k' \<noteq> k \<and> truthy m k')"
  by (auto simp: truthy_def)

text \<open>A Go \<open>map[K]int\<close> read: a missing key reads as 0.\<close>

definition count_of :: "('k \<rightharpoonup> int) \<Rightarrow> 'k \<Rightarrow> int" where
  "count_of m k = (case m k of None \<Rightarrow> 0 | Some n \<Rightarrow> n)"

lemma count_of_simps [simp]:
  "count_of (m(k \<mapsto> n)) k' = (if k' = k then n else count_of m k')"
  "count_of Map.empty k = 0"
  by (auto simp: count_of_def)

section \<open>Association lists as the entries of a table\<close>

lemma find_Some_mem: "find P xs = Some x \<Longrightarrow> x \<in> set xs \<and> P x"
  by (induction xs) (auto split: if_splits)

lemma find_None_iff_all: "find P xs = None \<longleftrightarrow> (\<forall>x \<in> set xs. \<not> P x)"
  by (induction xs) auto

lemma find_append: "find P (xs @ ys) = (case find P xs of None \<Rightarrow> find P ys | Some x \<Rightarrow> Some x)"
  by (induction xs) auto

text \<open>A lookup by a key that is unique in the table finds exactly the row with that key.\<close>

lemma find_unique:
  assumes "distinct (map k xs)" and "x \<in> set xs" and "P x"
    and "\<And>y. P y \<Longrightarrow> k y = k x"
  shows "find P xs = Some x"
proof -
  from assms(2,3) obtain y where y: "find P xs = Some y"
    by (metis find_None_iff_all not_None_eq)
  then have "y \<in> set xs" "P y" by (auto dest: find_Some_mem)
  with assms have "y = x" by (metis distinct_map inj_on_def)
  with y show ?thesis by simp
qed

text \<open>Rewriting the rows that satisfy a condition, as an SQL \<^verbatim>\<open>UPDATE\<close> does.\<close>

definition update_where :: "('r \<Rightarrow> bool) \<Rightarrow> ('r \<Rightarrow> 'r) \<Rightarrow> 'r list \<Rightarrow> 'r list" where
  "update_where P f xs = map (\<lambda>x. if P x then f x else x) xs"

lemma update_where_simps [simp]:
  "update_where P f [] = []"
  "update_where P f (x # xs) = (if P x then f x else x) # update_where P f xs"
  "length (update_where P f xs) = length xs"
  by (simp_all add: update_where_def)

lemma update_where_append: "update_where P f (xs @ ys) = update_where P f xs @ update_where P f ys"
  by (simp add: update_where_def)

lemma set_update_where: "set (update_where P f xs) = (\<lambda>x. if P x then f x else x) ` set xs"
  by (simp add: update_where_def)

lemma map_update_where_same: "(\<And>x. P x \<Longrightarrow> k (f x) = k x) \<Longrightarrow> map k (update_where P f xs) = map k xs"
  by (induction xs) auto

lemma update_where_idle: "(\<And>x. x \<in> set xs \<Longrightarrow> \<not> P x) \<Longrightarrow> update_where P f xs = xs"
  by (induction xs) auto

lemma filter_update_where_disjoint:
  "(\<And>x. P x \<Longrightarrow> \<not> Q x \<and> \<not> Q (f x)) \<Longrightarrow> filter Q (update_where P f xs) = filter Q xs"
  by (induction xs) auto

end
