(* ===== verification/Contracts.thy ===== *)
theory Contracts
  imports Prelude "HOL-Library.Sublist"
begin

text \<open>
  The interfaces several components of the platform share, each stated once as a locale with the
  laws a client relies on, and the client's lemmas proved from those laws alone.
  \<^item> \<open>slot_gate\<close>: a counting gate per key (in-flight deploys per application, running builds per
    organisation): a bounded number of holders under every interleaving of enter and leave.
  \<^item> \<open>step_catalog\<close>: a fixed ordered catalogue of steps, worked through one at a time (the
    deletion pipeline).
  \<^item> \<open>once_guard\<close>: a key is admitted at most once per window (webhook deliveries).
  \<^item> \<open>transition_guard\<close>: a table of approved moves with an audit payload per accepted move.
  Each is interpreted on the definitions of the component that provides it.
\<close>

section \<open>A gate with a bounded number of slots per key\<close>

datatype 'k gate_op = Enter 'k | Leave 'k

text \<open>
  The clients of a gate: the multiset of keys currently held. A client that was admitted holds its
  key until it leaves; only a holder leaves.
\<close>

fun gate_step ::
  "('s \<Rightarrow> 'k \<Rightarrow> bool \<times> 's) \<Rightarrow> ('s \<Rightarrow> 'k \<Rightarrow> 's) \<Rightarrow> 'k gate_op \<Rightarrow> 's \<times> 'k multiset \<Rightarrow> 's \<times> 'k multiset" where
  "gate_step acq rel (Enter k) (s, H) = (case acq s k of (ok, s') \<Rightarrow> (s', if ok then add_mset k H else H))"
| "gate_step acq rel (Leave k) (s, H) = (if k \<in># H then (rel s k, H - {#k#}) else (s, H))"

definition gate_run ::
  "('s \<Rightarrow> 'k \<Rightarrow> bool \<times> 's) \<Rightarrow> ('s \<Rightarrow> 'k \<Rightarrow> 's) \<Rightarrow> 'k gate_op list \<Rightarrow> 's \<Rightarrow> 's \<times> 'k multiset" where
  "gate_run acq rel ops s = fold (gate_step acq rel) ops (s, {#})"

locale slot_gate =
  fixes wf :: "'s \<Rightarrow> bool"
    and used :: "'s \<Rightarrow> 'k \<Rightarrow> nat"
    and slots :: "'s \<Rightarrow> nat"
    and acq :: "'s \<Rightarrow> 'k \<Rightarrow> bool \<times> 's"
    and rel :: "'s \<Rightarrow> 'k \<Rightarrow> 's"
  assumes acq_wf: "wf s \<Longrightarrow> wf (snd (acq s k))"
    and acq_admits: "wf s \<Longrightarrow> fst (acq s k) \<longleftrightarrow> used s k < slots s"
    and acq_used: "wf s \<Longrightarrow> used (snd (acq s k)) j = used s j + (if j = k \<and> fst (acq s k) then 1 else 0)"
    and acq_slots: "slots (snd (acq s k)) = slots s"
    and rel_wf: "wf s \<Longrightarrow> wf (rel s k)"
    and rel_used: "wf s \<Longrightarrow> used (rel s k) j = (if j = k then used s j - 1 else used s j)"
    and rel_slots: "slots (rel s k) = slots s"
begin

definition tracks :: "nat \<Rightarrow> 's \<times> 'k multiset \<Rightarrow> bool" where
  "tracks n c = (wf (fst c) \<and> slots (fst c) = n \<and> (\<forall>k. used (fst c) k = count (snd c) k \<and> count (snd c) k \<le> n))"

lemma tracks_step: "tracks n c \<Longrightarrow> tracks n (gate_step acq rel op c)"
proof (cases c; cases op)
  fix s H k assume "tracks n c" "c = (s, H)" "op = Enter k"
  then show ?thesis
    using acq_admits [of s k] acq_used [of s k] acq_slots [of s k] acq_wf [of s k]
    by (cases "acq s k") (auto simp: tracks_def Suc_le_eq)
next
  fix s H k assume "tracks n c" "c = (s, H)" "op = Leave k"
  then show ?thesis
    by (auto simp: tracks_def rel_used rel_slots rel_wf intro: le_trans [OF diff_le_self])
qed

lemma tracks_fold: "tracks n c \<Longrightarrow> tracks n (fold (gate_step acq rel) ops c)"
proof (induction ops arbitrary: c)
  case Nil
  then show ?case by simp
next
  case (Cons op ops)
  show ?case using Cons.IH [OF tracks_step [OF Cons.prems, of op]] by simp
qed

lemma tracks_run:
  "wf s \<Longrightarrow> (\<And>k. used s k = 0) \<Longrightarrow> tracks (slots s) (gate_run acq rel ops s)"
  using tracks_fold [of "slots s" "(s, {#})" ops] by (simp add: gate_run_def tracks_def)

lemma holders_bounded:
  assumes "wf s" and "\<And>k. used s k = 0"
  shows "count (snd (gate_run acq rel ops s)) k \<le> slots s"
  using tracks_run [OF assms, of ops] by (simp add: tracks_def)

text \<open>No slot is lost: a key is refused only while all its slots are held, so after a holder
  leaves the next client is admitted.\<close>

lemma refused_iff_full:
  assumes "wf s" and "\<And>k. used s k = 0"
  shows "fst (acq (fst (gate_run acq rel ops s)) k) \<longleftrightarrow> count (snd (gate_run acq rel ops s)) k < slots s"
  using tracks_run [OF assms, of ops] by (simp add: tracks_def acq_admits)

lemma leave_readmits:
  assumes "wf s" and "\<And>k. used s k = 0" and "k \<in># snd (gate_run acq rel ops s)"
  shows "fst (acq (fst (gate_run acq rel (ops @ [Leave k]) s)) k)"
proof -
  from assms(3) have "0 < count (snd (gate_run acq rel ops s)) k" by simp
  then have "count (snd (gate_run acq rel ops s)) k - 1 < slots s"
    using holders_bounded [OF assms(1,2), of ops k] by linarith
  then have "count (snd (gate_run acq rel (ops @ [Leave k]) s)) k < slots s"
    using assms(3) by (cases "gate_run acq rel ops s") (simp add: gate_run_def)
  then show ?thesis by (simp add: refused_iff_full [OF assms(1,2)])
qed

end

section \<open>A catalogue of steps worked through in order\<close>

text \<open>The driver that performs the next step, records it and asks again, \<open>n\<close> times.\<close>

fun drive :: "('k list \<Rightarrow> 'e + 'k) \<Rightarrow> nat \<Rightarrow> 'k list \<Rightarrow> 'k list" where
  "drive nxt 0 done = done"
| "drive nxt (Suc n) done = (case nxt done of Inl _ \<Rightarrow> done | Inr k \<Rightarrow> drive nxt n (done @ [k]))"

locale step_catalog =
  fixes catalog :: "'k list"
    and nxt :: "'k list \<Rightarrow> 'e + 'k"
  assumes catalog_distinct: "distinct catalog"
    and nxt_first: "set done \<subseteq> set catalog \<Longrightarrow> nxt done = Inr k \<longleftrightarrow> find (\<lambda>x. x \<notin> set done) catalog = Some k"
begin

lemma nxt_missing: "set done \<subseteq> set catalog \<Longrightarrow> nxt done = Inr k \<Longrightarrow> k \<in> set catalog - set done"
  by (auto simp: nxt_first dest: find_Some_mem)

text \<open>The earlier steps are done when a step is offered.\<close>

lemma nxt_predecessors:
  assumes "set done \<subseteq> set catalog" and "nxt done = Inr k" and "catalog = pre @ k # post"
  shows "set pre \<subseteq> set done"
proof -
  have whole: "find (\<lambda>x. x \<notin> set done) (pre @ k # post) = Some k"
    using assms nxt_first [OF assms(1), of k] by simp
  have fresh: "k \<notin> set pre" using catalog_distinct assms(3) by simp
  have "find (\<lambda>x. x \<notin> set done) pre = None"
  proof (rule ccontr)
    assume "find (\<lambda>x. x \<notin> set done) pre \<noteq> None"
    then obtain y where y: "find (\<lambda>x. x \<notin> set done) pre = Some y" by blast
    with whole have "y = k" by (simp add: find_append)
    with find_Some_mem [OF y] fresh show False by simp
  qed
  then show ?thesis by (auto simp: find_None_iff_all)
qed

lemma nxt_none_complete:
  assumes "set done \<subseteq> set catalog"
  shows "(\<exists>e. nxt done = Inl e) \<longleftrightarrow> set done = set catalog"
proof -
  have "(\<exists>e. nxt done = Inl e) \<longleftrightarrow> find (\<lambda>x. x \<notin> set done) catalog = None"
    using nxt_first [OF assms] by (metis Inl_Inr_False not_None_eq old.sum.exhaust)
  with assms show ?thesis by (auto simp: find_None_iff_all)
qed

lemma drive_prefix: "k \<le> length catalog \<Longrightarrow> drive nxt n (take k catalog) = take (k + n) catalog"
proof (induction n arbitrary: k)
  case 0
  show ?case by simp
next
  case (Suc n)
  show ?case
  proof (cases "k = length catalog")
    case True
    then have "\<exists>e. nxt (take k catalog) = Inl e" using nxt_none_complete [of "take k catalog"] by simp
    with True show ?thesis by auto
  next
    case False
    with Suc.prems have k: "k < length catalog" by simp
    then have "catalog = take k catalog @ catalog ! k # drop (Suc k) catalog" by (rule id_take_nth_drop)
    moreover have "catalog ! k \<notin> set (take k catalog)"
      using catalog_distinct calculation by (metis distinct.simps(2) distinct_append disjoint_iff list.set_intros(1))
    ultimately have "find (\<lambda>x. x \<notin> set (take k catalog)) catalog = Some (catalog ! k)"
      by (metis (no_types, lifting) find_append find.simps(2) find_None_iff_all option.simps(4))
    then have "nxt (take k catalog) = Inr (catalog ! k)" by (simp add: nxt_first set_take_subset)
    then show ?thesis using Suc.IH [of "Suc k"] k by (simp add: take_Suc_conv_app_nth [symmetric])
  qed
qed

lemma drive_completes: "length catalog \<le> n \<Longrightarrow> drive nxt n [] = catalog"
  using drive_prefix [of 0 n] by simp

lemma drive_order: "drive nxt n [] = take n catalog"
  using drive_prefix [of 0 n] by simp

end

lemma sorted_wrt_subseq: "subseq xs ys \<Longrightarrow> sorted_wrt P ys \<Longrightarrow> sorted_wrt P xs"
proof (induction rule: list_emb.induct)
  case (list_emb_Cons2 x y xs ys)
  then show ?case by (auto dest: list_emb_set)
qed auto

section \<open>At most one admission of a key per window\<close>

text \<open>Calls at increasing instants, and the ones that were admitted.\<close>

fun admitted :: "('s \<Rightarrow> 'k \<Rightarrow> int \<Rightarrow> bool \<times> 's) \<Rightarrow> 's \<Rightarrow> ('k \<times> int) list \<Rightarrow> ('k \<times> int) list" where
  "admitted admit s [] = []"
| "admitted admit s ((k, t) # calls) =
     (case admit s k t of (ok, s') \<Rightarrow> (if ok then [(k, t)] else []) @ admitted admit s' calls)"

locale once_guard =
  fixes live :: "'s \<Rightarrow> 'k \<Rightarrow> int \<Rightarrow> bool"
    and admit :: "'s \<Rightarrow> 'k \<Rightarrow> int \<Rightarrow> bool \<times> 's"
    and ttl :: "'s \<Rightarrow> int"
  assumes refuses_live: "live s k t \<Longrightarrow> \<not> fst (admit s k t)"
    and admit_live: "fst (admit s k t) \<Longrightarrow> t \<le> t' \<Longrightarrow> t' < t + ttl s \<Longrightarrow> live (snd (admit s k t)) k t'"
    and keeps_live: "live s k t' \<Longrightarrow> t \<le> t' \<Longrightarrow> live (snd (admit s j t)) k t'"
    and keeps_ttl: "ttl (snd (admit s k t)) = ttl s"
begin

lemma live_not_admitted:
  assumes "\<forall>t' < bound. t \<le> t' \<longrightarrow> live s k t'" and "\<forall>c \<in> set calls. t \<le> snd c" and "sorted (map snd calls)"
  shows "\<forall>c \<in> set (admitted admit s calls). fst c = k \<longrightarrow> bound \<le> snd c"
  using assms
proof (induction calls arbitrary: s t)
  case Nil
  then show ?case by simp
next
  case (Cons c calls)
  obtain j u where c: "c = (j, u)" by (cases c)
  obtain ok s' where step: "admit s j u = (ok, s')" by (cases "admit s j u")
  have "\<forall>t' < bound. u \<le> t' \<longrightarrow> live s' k t'"
    using keeps_live [of s k _ u j] Cons.prems(1,2) step c by auto
  moreover have "\<forall>c \<in> set calls. u \<le> snd c" "sorted (map snd calls)" using Cons.prems(3) c by auto
  ultimately have rest: "\<forall>c \<in> set (admitted admit s' calls). fst c = k \<longrightarrow> bound \<le> snd c" by (rule Cons.IH)
  have "bound \<le> u" if "ok" "j = k"
  proof (rule ccontr)
    assume "\<not> bound \<le> u"
    then have "live s k u" using Cons.prems(1,2) c by auto
    with refuses_live [of s k u] step that show False by simp
  qed
  with rest step c show ?case by auto
qed

lemma admitted_spaced:
  assumes "sorted (map snd calls)"
  shows "sorted_wrt (\<lambda>(k, t) (k', t'). k = k' \<longrightarrow> t + ttl s \<le> t') (admitted admit s calls)"
  using assms
proof (induction calls arbitrary: s)
  case Nil
  then show ?case by simp
next
  case (Cons c calls)
  obtain k t where c: "c = (k, t)" by (cases c)
  obtain ok s' where step: "admit s k t = (ok, s')" by (cases "admit s k t")
  have ttl: "ttl s' = ttl s" using keeps_ttl [of s k t] step by simp
  have rest: "sorted_wrt (\<lambda>(k, t) (k', t'). k = k' \<longrightarrow> t + ttl s \<le> t') (admitted admit s' calls)"
    using Cons.IH [of s'] Cons.prems ttl by simp
  have "\<forall>c \<in> set (admitted admit s' calls). fst c = k \<longrightarrow> t + ttl s \<le> snd c" if ok
    using admit_live [of s k t] Cons.prems step that c by (intro live_not_admitted [of _ t]) auto
  with rest step c show ?case by fastforce
qed

end

section \<open>A table of approved moves\<close>

text \<open>
  Histories of accepted moves: each event was produced by the guard from the state the previous
  one led to.
\<close>

inductive moves :: "('s \<Rightarrow> 's \<Rightarrow> 'ev \<Rightarrow> bool) \<Rightarrow> 's \<Rightarrow> 'ev list \<Rightarrow> 's \<Rightarrow> bool"
  for guard :: "'s \<Rightarrow> 's \<Rightarrow> 'ev \<Rightarrow> bool"
where
  Stay: "moves guard s [] s"
| Move: "moves guard s evs t \<Longrightarrow> guard t u ev \<Longrightarrow> moves guard s (evs @ [ev]) u"

inductive_cases moves_snocE: "moves guard s (evs @ [ev]) u"

lemma moves_append: "moves guard t ys u \<Longrightarrow> moves guard s xs t \<Longrightarrow> moves guard s (xs @ ys) u"
proof (induction rule: moves.induct)
  case (Stay t)
  then show ?case by simp
next
  case (Move t ys u v ev)
  from moves.Move [OF Move.IH [OF Move.prems] Move.hyps(2)] show ?case by simp
qed

lemma moves_Cons: "guard s t ev \<Longrightarrow> moves guard t evs u \<Longrightarrow> moves guard s (ev # evs) u"
  using moves_append [of guard t evs u s "[ev]"] moves.Move [OF moves.Stay, of guard s t ev] by simp

locale transition_guard =
  fixes guard :: "'s \<Rightarrow> 's \<Rightarrow> 'ev \<Rightarrow> bool"
    and ok :: "'s \<Rightarrow> 's \<Rightarrow> bool"
    and src :: "'ev \<Rightarrow> 's"
    and dst :: "'ev \<Rightarrow> 's"
  assumes guard_ok: "guard s t ev \<Longrightarrow> ok s t \<and> src ev = s \<and> dst ev = t"
begin

text \<open>An audit trail is contiguous and every entry is an approved move.\<close>

lemma trail_contiguous:
  assumes "moves guard s evs t"
  shows "map src evs @ [t] = s # map dst evs"
  using assms by (induction rule: moves.induct) (auto dest: guard_ok simp: append_eq_Cons_conv)

lemma trail_approved: "moves guard s evs t \<Longrightarrow> ev \<in> set evs \<Longrightarrow> ok (src ev) (dst ev)"
  by (induction rule: moves.induct) (auto dest: guard_ok)

lemma moves_invariant:
  assumes "moves guard s evs t" and "I s" and "\<And>x y. I x \<Longrightarrow> ok x y \<Longrightarrow> I y"
  shows "I t"
  using assms(1,2) by (induction rule: moves.induct) (auto dest: guard_ok assms(3))

lemma terminal_stuck:
  assumes "moves guard s evs t" and "\<And>y. \<not> ok s y"
  shows "evs = [] \<and> t = s"
  using assms by (induction rule: moves.induct) (auto dest: guard_ok)

text \<open>
  Mandatory stages: if each approved move to \<open>y\<close> from \<open>x\<close> leaves the stages \<open>req y\<close> required on
  arrival covered by those of \<open>x\<close> followed by \<open>y\<close>, every history ending in \<open>t\<close> went through
  \<open>req t\<close> in that order.
\<close>

lemma mandatory_stages:
  assumes "moves guard s evs t" and "req s = []"
    and "\<And>x y. ok x y \<Longrightarrow> subseq (req y) (req x @ [y])"
  shows "subseq (req t) (map dst evs)"
  using assms(1,2)
proof (induction rule: moves.induct)
  case (Stay s)
  then show ?case by simp
next
  case (Move s evs t u ev)
  then have "ok t u" "dst ev = u" by (auto dest: guard_ok)
  moreover have "subseq (req t @ [u]) (map dst evs @ [u])"
    using Move by (intro list_emb_append_mono) auto
  ultimately show ?case using assms(3) [of t u] by (auto intro: subseq_order.trans)
qed

end

end
