(* ===== verification/Go_Strings.thy ===== *)
theory Go_Strings
  imports Prelude "HOL-Library.Char_ord" "HOL-Library.List_Lexorder" "HOL-Library.Sublist"
begin

text \<open>
  The part of Go's standard library that the program applies to strings: packages \<open>strings\<close>,
  \<open>strconv\<close> and the byte-level facts of the language. A Go string is a list of bytes, so a HOL
  \<open>string\<close>; order is bytewise lexicographic, which is what \<open>List_Lexorder\<close> over \<open>Char_ord\<close> gives.
  A non-ASCII literal does not occur in the code modelled.
\<close>

named_theorems go_strings \<open>definitions of the string library, for evaluation\<close>

section \<open>Prefixes, substrings, cutting and splitting\<close>

definition has_prefix :: "string \<Rightarrow> string \<Rightarrow> bool" where
  [go_strings]: "has_prefix s p = (take (length p) s = p)"

definition has_suffix :: "string \<Rightarrow> string \<Rightarrow> bool" where
  [go_strings]: "has_suffix s p = has_prefix (rev s) (rev p)"

lemma has_prefix_iff: "has_prefix s p \<longleftrightarrow> (\<exists>t. s = p @ t)"
  by (metis append_eq_conv_conj append_take_drop_id has_prefix_def)

lemma has_prefix_append [simp]: "has_prefix (p @ t) p"
  by (simp add: has_prefix_def)

fun contains :: "string \<Rightarrow> string \<Rightarrow> bool" where
  "contains [] sub = (sub = [])"
| "contains (c # s) sub = (has_prefix (c # s) sub \<or> contains s sub)"

lemma contains_iff: "contains s sub \<longleftrightarrow> (\<exists>a b. s = a @ sub @ b)"
proof (induction s)
  case Nil
  show ?case by auto
next
  case (Cons c s)
  show ?case
  proof
    assume "contains (c # s) sub"
    then consider t where "c # s = sub @ t" | a b where "s = a @ sub @ b"
      using Cons.IH by (auto simp: has_prefix_iff)
    then show "\<exists>a b. c # s = a @ sub @ b"
    proof cases
      case 1
      then have "c # s = [] @ sub @ t" by simp
      then show ?thesis by blast
    next
      case 2
      then have "c # s = (c # a) @ sub @ b" by simp
      then show ?thesis by blast
    qed
  next
    assume "\<exists>a b. c # s = a @ sub @ b"
    then obtain a b where ab: "c # s = a @ sub @ b" by blast
    show "contains (c # s) sub"
    proof (cases a)
      case Nil
      with ab have "has_prefix (c # s) sub" by (auto simp: has_prefix_iff)
      then show ?thesis by simp
    next
      case (Cons d a')
      with ab have "s = a' @ sub @ b" by simp
      then show ?thesis using Cons.IH by simp blast
    qed
  qed
qed

lemma contains_sublist: "contains s sub \<longleftrightarrow> sublist sub s"
  by (simp add: contains_iff sublist_def)

text \<open>\<open>strings.CutPrefix\<close>: the rest and whether the prefix was there.\<close>

definition cut_prefix :: "string \<Rightarrow> string \<Rightarrow> string option" where
  [go_strings]: "cut_prefix s p = (if has_prefix s p then Some (drop (length p) s) else None)"

text \<open>\<open>strings.TrimSuffix\<close>.\<close>

definition trim_suffix :: "string \<Rightarrow> string \<Rightarrow> string" where
  [go_strings]: "trim_suffix s p = (if has_suffix s p then take (length s - length p) s else s)"

text \<open>
  \<open>strings.Cut\<close> with a one-byte separator: the parts around the first occurrence, \<open>None\<close> when
  there is none. \<open>before\<close> is also \<open>strings.SplitN(s, sep, 2)[0]\<close>.
\<close>

definition before :: "char \<Rightarrow> string \<Rightarrow> string" where
  [go_strings]: "before c s = takeWhile (\<lambda>d. d \<noteq> c) s"

definition cut :: "char \<Rightarrow> string \<Rightarrow> (string \<times> string) option" where
  [go_strings]: "cut c s =
     (if c \<in> set s then Some (before c s, drop (Suc (length (before c s))) s) else None)"

fun split_on :: "char \<Rightarrow> string \<Rightarrow> string list" where
  "split_on c [] = [[]]"
| "split_on c (d # s) =
     (if d = c then [] # split_on c s
      else (case split_on c s of [] \<Rightarrow> [[d]] | p # ps \<Rightarrow> (d # p) # ps))"

fun join :: "string \<Rightarrow> string list \<Rightarrow> string" where
  "join sep [] = []"
| "join sep [x] = x"
| "join sep (x # y # ys) = x @ sep @ join sep (y # ys)"

lemma split_on_not_Nil [simp]: "split_on c s \<noteq> []"
  by (induction s) (auto split: list.splits)

lemma join_Cons: "xs \<noteq> [] \<Longrightarrow> join sep (x # xs) = x @ sep @ join sep xs"
  by (cases xs) auto

lemma join_split_on: "join [c] (split_on c s) = s"
proof (induction s)
  case Nil
  show ?case by simp
next
  case (Cons d s)
  obtain p ps where ps: "split_on c s = p # ps" by (cases "split_on c s") auto
  show ?case using Cons.IH by (cases ps) (auto simp: ps join_Cons)
qed

lemma split_on_parts: "p \<in> set (split_on c s) \<Longrightarrow> c \<notin> set p"
  by (induction s arbitrary: p) (auto split: list.splits if_splits)

lemma split_on_append_sep: "c \<notin> set x \<Longrightarrow> split_on c (x @ c # y) = x # split_on c y"
  by (induction x) auto

lemma split_on_join:
  "xs \<noteq> [] \<Longrightarrow> \<forall>x \<in> set xs. c \<notin> set x \<Longrightarrow> split_on c (join [c] xs) = xs"
proof (induction xs)
  case (Cons x xs)
  show ?case
  proof (cases xs)
    case Nil
    have "c \<notin> set x \<Longrightarrow> split_on c x = [x]" by (induction x) auto
    with Nil Cons.prems show ?thesis by simp
  next
    case (Cons y ys)
    with Cons.IH Cons.prems show ?thesis by (simp add: split_on_append_sep)
  qed
qed simp

lemma split_on_no_sep: "c \<notin> set s \<Longrightarrow> split_on c s = [s]"
  by (induction s) auto

lemma before_prefix: "before c s @ drop (length (before c s)) s = s"
  by (simp add: before_def) (metis append_eq_conv_conj takeWhile_dropWhile_id)

lemma before_append_sep: "c \<notin> set a \<Longrightarrow> before c (a @ c # b) = a"
  by (simp add: before_def takeWhile_append)

lemma before_no_sep: "c \<notin> set (before c s)"
  by (auto simp: before_def dest: set_takeWhileD)

lemma before_idle: "c \<notin> set s \<Longrightarrow> before c s = s"
  by (simp add: before_def) (metis takeWhile_eq_all_conv)

section \<open>White space\<close>

text \<open>
  The encodings of the code points \<open>unicode.IsSpace\<close> accepts: six ASCII controls and the space,
  U+0085, U+00A0, U+1680, U+2000 to U+200A, U+2028, U+2029, U+202F, U+205F and U+3000.
\<close>

definition space_encodings :: "string list" where
  [go_strings]: "space_encodings =
     [[CHR 0x09], [CHR 0x0A], [CHR 0x0B], [CHR 0x0C], [CHR 0x0D], [CHR 0x20],
      [CHR 0xC2, CHR 0x85], [CHR 0xC2, CHR 0xA0], [CHR 0xE1, CHR 0x9A, CHR 0x80],
      [CHR 0xE2, CHR 0x80, CHR 0x80], [CHR 0xE2, CHR 0x80, CHR 0x81],
      [CHR 0xE2, CHR 0x80, CHR 0x82], [CHR 0xE2, CHR 0x80, CHR 0x83],
      [CHR 0xE2, CHR 0x80, CHR 0x84], [CHR 0xE2, CHR 0x80, CHR 0x85],
      [CHR 0xE2, CHR 0x80, CHR 0x86], [CHR 0xE2, CHR 0x80, CHR 0x87],
      [CHR 0xE2, CHR 0x80, CHR 0x88], [CHR 0xE2, CHR 0x80, CHR 0x89],
      [CHR 0xE2, CHR 0x80, CHR 0x8A], [CHR 0xE2, CHR 0x80, CHR 0xA8],
      [CHR 0xE2, CHR 0x80, CHR 0xA9], [CHR 0xE2, CHR 0x80, CHR 0xAF],
      [CHR 0xE2, CHR 0x81, CHR 0x9F], [CHR 0xE3, CHR 0x80, CHR 0x80]]"

text \<open>The length of the first of these encodings that \<open>s\<close> starts with, 0 when there is none.\<close>

definition space_len :: "string list \<Rightarrow> string \<Rightarrow> nat" where
  [go_strings]: "space_len encs s = (case find (has_prefix s) encs of None \<Rightarrow> 0 | Some e \<Rightarrow> length e)"

function trim_left :: "string list \<Rightarrow> string \<Rightarrow> string" where
  "trim_left encs s =
     (if space_len encs s = 0 \<or> s = [] then s else trim_left encs (drop (space_len encs s) s))"
  by pat_completeness auto
termination
  by (relation "measure (\<lambda>(encs, s). length s)") auto

declare trim_left.simps [simp del]

definition trim_space :: "string \<Rightarrow> string" where
  "trim_space s =
     rev (trim_left (map rev space_encodings) (rev (trim_left space_encodings s)))"

text \<open>\<open>strings.Fields\<close>: the maximal runs of non-space text; \<open>acc\<close> is the current run, reversed.\<close>

function split_fields_from :: "string \<Rightarrow> string \<Rightarrow> string list" where
  "split_fields_from acc [] = (if acc = [] then [] else [rev acc])"
| "split_fields_from acc (c # s) =
     (let n = space_len space_encodings (c # s)
      in if n = 0 then split_fields_from (c # acc) s
         else (if acc = [] then [] else [rev acc]) @ split_fields_from [] (drop n (c # s)))"
  by pat_completeness auto
termination
  by (relation "measure (\<lambda>(acc, s). length s)") auto

definition split_fields :: "string \<Rightarrow> string list" where
  "split_fields s = split_fields_from [] s"

text \<open>Text over printable ASCII other than the space is left alone.\<close>

definition plain_char :: "char \<Rightarrow> bool" where
  [go_strings]: "plain_char c = (32 < (of_char c :: nat) \<and> (of_char c :: nat) < 127)"

lemma plain_not_space: "plain_char c \<Longrightarrow> space_len space_encodings (c # s) = 0"
proof -
  assume "plain_char c"
  then have "\<not> has_prefix (c # s) e" if "e \<in> set space_encodings" for e
    using that
    by (auto simp: space_encodings_def has_prefix_def plain_char_def)
  then have "find (has_prefix (c # s)) space_encodings = None"
    by (auto simp: find_None_iff_all)
  then show ?thesis by (simp add: space_len_def)
qed

lemma plain_not_space_rev: "plain_char c \<Longrightarrow> space_len (map rev space_encodings) (c # s) = 0"
proof -
  assume "plain_char c"
  then have "\<not> has_prefix (c # s) e" if "e \<in> set (map rev space_encodings)" for e
    using that
    by (auto simp: space_encodings_def has_prefix_def plain_char_def)
  then have "find (has_prefix (c # s)) (map rev space_encodings) = None"
    by (auto simp: find_None_iff_all)
  then show ?thesis by (simp add: space_len_def)
qed

lemma trim_left_Nil [simp]: "trim_left encs [] = []"
  by (simp add: trim_left.simps)

lemma trim_space_plain:
  assumes "list_all plain_char s"
  shows "trim_space s = s"
proof (cases s)
  case Nil
  then show ?thesis by (simp add: trim_space_def)
next
  case (Cons c s')
  with assms have l: "trim_left space_encodings s = s"
    by (subst trim_left.simps) (simp add: plain_not_space)
  obtain d r where r: "rev s = d # r" using Cons by (cases "rev s") auto
  with assms have "plain_char d"
    by (metis list.set_intros(1) list_all_iff set_rev)
  then have "trim_left (map rev space_encodings) (rev s) = rev s"
    by (subst trim_left.simps) (simp add: plain_not_space_rev r)
  then show ?thesis by (simp add: trim_space_def l)
qed

lemma split_fields_from_plain: "list_all plain_char s \<Longrightarrow> split_fields_from acc s = (if acc = [] \<and> s = [] then [] else [rev acc @ s])"
  by (induction s arbitrary: acc) (auto simp: plain_not_space)

lemma split_fields_from_app_space:
  assumes "list_all plain_char s"
  shows "split_fields_from acc (s @ CHR '' '' # t) =
    (if acc = [] \<and> s = [] then split_fields_from [] t else (rev acc @ s) # split_fields_from [] t)"
proof -
  have sp: "space_len space_encodings (CHR '' '' # t) = 1"
    by (simp add: space_len_def space_encodings_def has_prefix_def)
  show ?thesis using assms
    by (induction s arbitrary: acc) (auto simp: plain_not_space sp)
qed

text \<open>Joining plain words by single spaces and taking the fields gives the words back.\<close>

lemma split_fields_join:
  assumes "\<forall>w \<in> set ws. w \<noteq> [] \<and> list_all plain_char w"
  shows "split_fields (join '' '' ws) = ws"
  using assms
proof (induction ws)
  case Nil
  show ?case by (simp add: split_fields_def)
next
  case (Cons w ws)
  show ?case
  proof (cases ws)
    case Nil
    with Cons.prems show ?thesis by (simp add: split_fields_def split_fields_from_plain)
  next
    case (Cons v vs)
    with Cons.prems Cons.IH show ?thesis
      by (simp add: split_fields_def split_fields_from_app_space)
  qed
qed

end
