(* ===== verification/Go_Numbers.thy ===== *)
theory Go_Numbers
  imports Go_Strings "HOL-Library.Signed_Division" Complex_Main
begin

text \<open>
  Go's numbers as the program uses them: \<open>int\<close> is a 64-bit integer (modelled as \<open>int\<close>, with the
  range check of \<open>strconv.Atoi\<close> written out; nothing modelled adds or multiplies close to the
  range), \<open>time.Time\<close> and \<open>time.Duration\<close> are counts of nanoseconds, integer division truncates
  towards zero, and \<open>float64\<close> is a finite binary floating-point value, represented by the rational
  number it denotes, with \<open>fl64\<close> the rounding of every operation to nearest, ties to even.
\<close>

section \<open>Decimal integers: strconv.Atoi, strconv.Itoa\<close>

definition int64_min :: int where "int64_min = - (2 ^ 63)"
definition int64_max :: int where "int64_max = 2 ^ 63 - 1"

definition in_int64 :: "int \<Rightarrow> bool" where
  "in_int64 n = (int64_min \<le> n \<and> n \<le> int64_max)"

definition digit_val :: "char \<Rightarrow> nat" where
  "digit_val c = of_char c - 48"

definition is_digit :: "char \<Rightarrow> bool" where
  "is_digit c = (48 \<le> (of_char c :: nat) \<and> (of_char c :: nat) \<le> 57)"

definition digits_val :: "string \<Rightarrow> nat" where
  "digits_val s = foldl (\<lambda>acc c. 10 * acc + digit_val c) 0 s"

definition atoi :: "string \<Rightarrow> int option" where
  "atoi s =
     (let neg = has_prefix s ''-'';
          ds = (if neg \<or> has_prefix s ''+'' then drop 1 s else s);
          n = int (digits_val ds);
          v = (if neg then - n else n)
      in if ds \<noteq> [] \<and> list_all is_digit ds \<and> in_int64 v then Some v else None)"

definition digit_char :: "nat \<Rightarrow> char" where
  "digit_char d = char_of (48 + d)"

fun show_nat :: "nat \<Rightarrow> string" where
  "show_nat n = (if n < 10 then [digit_char n] else show_nat (n div 10) @ [digit_char (n mod 10)])"

declare show_nat.simps [simp del]

definition itoa :: "int \<Rightarrow> string" where
  "itoa n = (if n < 0 then CHR ''-'' # show_nat (nat (- n)) else show_nat (nat n))"

lemma digit_char_digit: "d < 10 \<Longrightarrow> is_digit (digit_char d) \<and> digit_val (digit_char d) = d"
  by (simp add: is_digit_def digit_val_def digit_char_def)

lemma show_nat_digits: "list_all is_digit (show_nat n) \<and> show_nat n \<noteq> [] \<and> digits_val (show_nat n) = n"
proof (induction n rule: show_nat.induct)
  case (1 n)
  show ?case
  proof (cases "n < 10")
    case True
    then show ?thesis
      by (subst (1 2 3) show_nat.simps) (simp add: digit_char_digit digits_val_def)
  next
    case False
    with "1.IH" have ih: "list_all is_digit (show_nat (n div 10))" "digits_val (show_nat (n div 10)) = n div 10"
      by auto
    have u: "show_nat n = show_nat (n div 10) @ [digit_char (n mod 10)]"
      using False by (subst show_nat.simps) simp
    have "digits_val (show_nat n) = 10 * digits_val (show_nat (n div 10)) + n mod 10"
      by (simp add: u digits_val_def digit_char_digit)
    then show ?thesis using ih by (simp add: u digit_char_digit)
  qed
qed

lemma digit_not_sign: "is_digit c \<Longrightarrow> c \<noteq> CHR ''-'' \<and> c \<noteq> CHR ''+''"
  by (auto simp: is_digit_def)

lemma digits_no_sign:
  assumes "list_all is_digit s"
  shows "\<not> has_prefix s ''-'' \<and> \<not> has_prefix s ''+''"
  using assms by (cases s) (auto simp: has_prefix_def dest: digit_not_sign)

lemma atoi_show_nat: "int n \<le> int64_max \<Longrightarrow> atoi (show_nat n) = Some (int n)"
  using show_nat_digits [of n] digits_no_sign [of "show_nat n"]
  by (simp add: atoi_def in_int64_def int64_min_def)

lemma atoi_itoa:
  assumes "in_int64 n"
  shows "atoi (itoa n) = Some n"
proof (cases "n < 0")
  case True
  then show ?thesis
    using show_nat_digits [of "nat (- n)"] assms
    by (simp add: atoi_def itoa_def has_prefix_def)
next
  case False
  then show ?thesis
    using assms atoi_show_nat [of "nat n"] by (simp add: itoa_def in_int64_def)
qed

lemma itoa_inject: "in_int64 m \<Longrightarrow> in_int64 n \<Longrightarrow> itoa m = itoa n \<Longrightarrow> m = n"
  by (metis atoi_itoa option.inject)

lemma atoi_range: "atoi s = Some n \<Longrightarrow> in_int64 n"
  by (auto simp: atoi_def Let_def split: if_splits)

lemma digit_plain: "is_digit c \<Longrightarrow> plain_char c"
  by (simp add: is_digit_def plain_char_def)

lemma itoa_plain: "list_all plain_char (itoa n) \<and> itoa n \<noteq> []"
  using show_nat_digits [of "nat n"] show_nat_digits [of "nat (- n)"]
  by (auto simp: itoa_def list_all_iff digit_plain) (simp add: plain_char_def)

section \<open>Time\<close>

type_synonym time = int
type_synonym duration = int

definition second :: duration where "second = 1000000000"
definition minute :: duration where "minute = 60 * second"
definition hour :: duration where "hour = 60 * minute"

section \<open>float64\<close>

definition two_pow :: "int \<Rightarrow> rat" where
  "two_pow e = (if 0 \<le> e then 2 ^ nat e else 1 / 2 ^ nat (- e))"

fun bitlen :: "nat \<Rightarrow> nat" where
  "bitlen n = (if n = 0 then 0 else Suc (bitlen (n div 2)))"

declare bitlen.simps [simp del]

text \<open>The exponent \<open>e\<close> with \<open>2\<^sup>e \<le> x < 2\<^sup>e\<^sup>+\<^sup>1\<close>, from the bit lengths of numerator and denominator.\<close>

definition ilog2 :: "rat \<Rightarrow> int" where
  "ilog2 x =
     (let (n, d) = quotient_of x; e = int (bitlen (nat n)) - int (bitlen (nat d))
      in if two_pow e \<le> x then e else e - 1)"

definition round_half_even :: "rat \<Rightarrow> int" where
  "round_half_even y =
     (let f = \<lfloor>y\<rfloor>; r = y - of_int f
      in if r < 1 / 2 then f else if 1 / 2 < r then f + 1 else if even f then f else f + 1)"

text \<open>
  Rounding to the nearest float64: 53 significant bits, gradual underflow below \<open>2\<^sup>-\<^sup>1\<^sup>0\<^sup>2\<^sup>2\<close>. Overflow
  to infinity is not represented: the quantities rounded here stay far below \<open>2\<^sup>1\<^sup>0\<^sup>2\<^sup>3\<close>.
\<close>

definition fl64 :: "rat \<Rightarrow> rat" where
  "fl64 x =
     (if x = 0 then 0
      else let q = two_pow (max (ilog2 \<bar>x\<bar>) (- 1022) - 52) in of_int (round_half_even (x / q)) * q)"

text \<open>Conversion float64 to int64 truncates; out of range Go leaves the result to the platform.\<close>

definition to_int64 :: "rat \<Rightarrow> int option" where
  "to_int64 x =
     (let t = (if 0 \<le> x then \<lfloor>x\<rfloor> else \<lceil>x\<rceil>) in if in_int64 t then Some t else None)"

text \<open>\<^verbatim>\<open>Time.Sub\<close> saturates at the range of a duration.\<close>

definition time_sub :: "time \<Rightarrow> time \<Rightarrow> duration" where
  "time_sub t u = max int64_min (min int64_max (t - u))"

text \<open>\<open>Duration.Minutes\<close> of the standard library.\<close>

definition minutes :: "duration \<Rightarrow> rat" where
  "minutes d =
     fl64 (fl64 (of_int (d sdiv minute)) + fl64 (fl64 (of_int (d smod minute)) / of_int minute))"

lemma two_pow_pos [simp]: "0 < two_pow e"
  by (simp add: two_pow_def)

lemma two_pow_nonneg [simp]: "0 \<le> two_pow e"
  by (simp add: less_imp_le)

lemma two_pow_neq0 [simp]: "two_pow e \<noteq> 0"
  using two_pow_pos [of e] by linarith

lemma two_pow_Suc: "two_pow (e + 1) = 2 * two_pow e"
proof (cases "0 \<le> e")
  case True
  then show ?thesis by (simp add: two_pow_def nat_add_distrib)
next
  case False
  then have "nat (- e) = Suc (nat (- (e + 1)))" by linarith
  with False show ?thesis
    by (cases "e = - 1") (simp_all add: two_pow_def)
qed

lemma two_pow_add_nat: "two_pow (e + int k) = two_pow e * 2 ^ k"
proof (induction k)
  case 0
  show ?case by simp
next
  case (Suc k)
  have "two_pow (e + int (Suc k)) = two_pow ((e + int k) + 1)" by (simp add: algebra_simps)
  then show ?case using Suc.IH by (simp add: two_pow_Suc)
qed

lemma two_pow_add: "two_pow (a + b) = two_pow a * two_pow b"
proof (cases "0 \<le> b")
  case True
  then show ?thesis using two_pow_add_nat [of a "nat b"] by (simp add: two_pow_def)
next
  case False
  then have "two_pow a = two_pow (a + b) * 2 ^ nat (- b)"
    using two_pow_add_nat [of "a + b" "nat (- b)"] by simp
  with False show ?thesis by (simp add: two_pow_def [of b])
qed

lemma two_pow_mono: "a \<le> b \<Longrightarrow> two_pow a \<le> two_pow b"
  using two_pow_add_nat [of a "nat (b - a)"]
    mult_left_mono [of 1 "2 ^ nat (b - a)" "two_pow a"]
  by (simp add: less_imp_le)

lemma bitlen_bounds: "0 < n \<Longrightarrow> 2 ^ bitlen n \<le> 2 * n \<and> n < 2 ^ bitlen n"
proof (induction n rule: bitlen.induct)
  case (1 n)
  show ?case
  proof (cases "n div 2 = 0")
    case True
    with "1.prems" have "n = 1" by linarith
    then show ?thesis by (simp add: bitlen.simps)
  next
    case False
    with "1.IH" "1.prems" have "2 ^ bitlen (n div 2) \<le> 2 * (n div 2)" "n div 2 < 2 ^ bitlen (n div 2)"
      by auto
    moreover have "bitlen n = Suc (bitlen (n div 2))"
      using "1.prems" by (subst bitlen.simps) simp
    ultimately show ?thesis by simp linarith
  qed
qed

lemma ilog2_le: assumes "0 < x" shows "two_pow (ilog2 x) \<le> x"
proof -
  obtain n d where nd: "quotient_of x = (n, d)" by force
  have d: "0 < d" using nd quotient_of_denom_pos by blast
  have x: "x = of_int n / of_int d" using nd quotient_of_div by blast
  with assms d have n: "0 < n" by (simp add: zero_less_divide_iff)
  define a b where "a = bitlen (nat n)" and "b = bitlen (nat d)"
  from n d have "2 ^ a \<le> 2 * nat n" "nat d < 2 ^ b"
    using bitlen_bounds [of "nat n"] bitlen_bounds [of "nat d"] by (auto simp: a_def b_def)
  then have "int (2 ^ a) \<le> int (2 * nat n)" "int (nat d) < int (2 ^ b)"
    by (simp_all only: of_nat_le_iff of_nat_less_iff)
  then have nb: "(2 ^ a :: int) \<le> 2 * n" "d < (2 ^ b :: int)"
    using n d by simp_all
  have "two_pow (int a - int b - 1) \<le> x"
  proof -
    have "two_pow (int a) = two_pow (int a - int b - 1) * (2 ^ b * 2)"
      using two_pow_add_nat [of "int a - int b - 1" "Suc b"] by (simp add: mult.commute)
    moreover have "two_pow (int a) = 2 ^ a" by (simp add: two_pow_def)
    moreover have "(2 ^ a :: rat) \<le> 2 * of_int n" using nb(1) by (metis of_int_le_iff of_int_mult of_int_numeral of_int_power)
    moreover have "(of_int d :: rat) \<le> 2 ^ b" using nb(2) by (metis less_imp_le of_int_le_iff of_int_numeral of_int_power)
    ultimately have "two_pow (int a - int b - 1) * (2 ^ b * 2) \<le> 2 * of_int n" by simp
    then have "two_pow (int a - int b - 1) * 2 ^ b \<le> of_int n" by simp
    moreover have "two_pow (int a - int b - 1) * of_int d \<le> two_pow (int a - int b - 1) * 2 ^ b"
      using \<open>(of_int d :: rat) \<le> 2 ^ b\<close> by (simp add: mult_left_mono)
    ultimately have "two_pow (int a - int b - 1) * of_int d \<le> of_int n" by linarith
    then show ?thesis using d by (simp add: x pos_le_divide_eq)
  qed
  then show ?thesis by (simp add: ilog2_def nd Let_def a_def b_def)
qed

lemma round_half_even_err: "\<bar>of_int (round_half_even y) - y\<bar> \<le> 1 / 2"
  unfolding round_half_even_def Let_def
  by (cases "y - of_int \<lfloor>y\<rfloor> < 1 / 2"; cases "1 / 2 < y - of_int \<lfloor>y\<rfloor>"; cases "even \<lfloor>y\<rfloor>")
     (simp_all add: abs_if, linarith+)

lemma round_half_even_of_int [simp]: "round_half_even (of_int n) = n"
  by (simp add: round_half_even_def)

lemma round_half_even_nonneg: "0 \<le> y \<Longrightarrow> 0 \<le> round_half_even y"
  by (auto simp: round_half_even_def Let_def)

lemma fl64_0 [simp]: "fl64 0 = 0"
  by (simp add: fl64_def)

lemma fl64_nonneg: "0 \<le> x \<Longrightarrow> 0 \<le> fl64 x"
  by (auto simp: fl64_def Let_def
      intro!: mult_nonneg_nonneg round_half_even_nonneg divide_nonneg_pos less_imp_le [OF two_pow_pos])

lemma fl64_nonpos: "x \<le> 0 \<Longrightarrow> fl64 x \<le> 0"
proof -
  assume "x \<le> 0"
  have rhe: "round_half_even y \<le> 0" if "y \<le> 0" for y
    using that unfolding round_half_even_def Let_def by (auto simp: floor_le_iff)
  with \<open>x \<le> 0\<close> show ?thesis
    by (auto simp: fl64_def Let_def intro!: mult_nonpos_nonneg rhe divide_nonpos_pos less_imp_le [OF two_pow_pos])
qed

text \<open>The rounding error is at most half a unit in the last place.\<close>

lemma fl64_err: "\<bar>fl64 x - x\<bar> \<le> max (\<bar>x\<bar> * two_pow (- 53)) (two_pow (- 1075))"
proof (cases "x = 0")
  case True
  then show ?thesis by (simp add: le_max_iff_disj less_imp_le)
next
  case False
  define e where "e = max (ilog2 \<bar>x\<bar>) (- 1022)"
  define q where "q = two_pow (e - 52)"
  have q: "0 < q" by (simp add: q_def)
  have "fl64 x - x = (of_int (round_half_even (x / q)) - x / q) * q"
    using False q by (simp add: fl64_def e_def [symmetric] q_def [symmetric] Let_def algebra_simps)
  then have "\<bar>fl64 x - x\<bar> \<le> 1 / 2 * q"
    using round_half_even_err [of "x / q"] q by (simp add: abs_mult mult_right_mono)
  also have "1 / 2 * q = two_pow (e - 53)"
    using two_pow_Suc [of "e - 53"] by (simp add: q_def)
  also have "\<dots> \<le> max (\<bar>x\<bar> * two_pow (- 53)) (two_pow (- 1075))"
  proof (cases "ilog2 \<bar>x\<bar> \<le> - 1022")
    case True
    then show ?thesis by (simp add: e_def)
  next
    case False
    then have "two_pow (e - 53) = two_pow (ilog2 \<bar>x\<bar>) * two_pow (- 53)"
      using two_pow_add [of "ilog2 \<bar>x\<bar>" "- 53"] by (simp add: e_def)
    also have "\<dots> \<le> \<bar>x\<bar> * two_pow (- 53)"
      using \<open>x \<noteq> 0\<close> by (intro mult_right_mono ilog2_le) (auto simp: less_imp_le)
    finally show ?thesis by simp
  qed
  finally show ?thesis .
qed

text \<open>Integers below \<open>2\<^sup>5\<^sup>3\<close> are represented exactly.\<close>

lemma fl64_of_int: assumes "\<bar>n\<bar> < 2 ^ 53" shows "fl64 (of_int n) = of_int n"
proof (cases "n = 0")
  case True
  then show ?thesis by simp
next
  case False
  define e where "e = max (ilog2 \<bar>of_int n :: rat\<bar>) (- 1022)"
  have pos: "0 < \<bar>of_int n :: rat\<bar>" using False by simp
  have "two_pow (ilog2 \<bar>of_int n\<bar>) \<le> \<bar>of_int n\<bar>" using pos by (rule ilog2_le)
  also have "\<dots> < two_pow 53"
    using assms by (simp add: two_pow_def)
  finally have "ilog2 \<bar>of_int n :: rat\<bar> < 53"
    using two_pow_mono [of 53 "ilog2 \<bar>of_int n\<bar>"] by (meson leD leI)
  then have e: "e \<le> 52" by (simp add: e_def)
  have "two_pow (e - 52) * 2 ^ nat (52 - e) = 1"
    using two_pow_add_nat [of "e - 52" "nat (52 - e)"] e by (simp add: two_pow_def)
  then have "of_int n / two_pow (e - 52) = of_int (n * 2 ^ nat (52 - e))"
    by (simp add: field_simps)
  then have "of_int (round_half_even (of_int n / two_pow (e - 52))) * two_pow (e - 52) = of_int n"
    by (simp only: round_half_even_of_int) (metis \<open>of_int n / two_pow (e - 52) = _\<close> nonzero_eq_divide_eq two_pow_neq0)
  then show ?thesis using False by (simp add: fl64_def e_def [symmetric] Let_def)
qed

lemma to_int64_of_int [simp]: "to_int64 (of_int n) = (if in_int64 n then Some n else None)"
  by (simp add: to_int64_def)

lemma fl64_hours: "\<bar>n\<bar> < 2500 \<Longrightarrow> to_int64 (fl64 (of_int n * of_int hour)) = Some (n * hour)"
proof -
  assume n: "\<bar>n\<bar> < 2500"
  then have "\<bar>n * hour\<bar> < 2 ^ 53" by (simp add: hour_def minute_def second_def abs_mult)
  then have "fl64 (of_int (n * hour)) = of_int (n * hour)" by (rule fl64_of_int)
  moreover have "in_int64 (n * hour)"
    using n by (auto simp: in_int64_def int64_min_def int64_max_def hour_def minute_def second_def)
  ultimately show ?thesis by (metis of_int_mult to_int64_of_int)
qed

text \<open>Away from the subnormal range the error is relative.\<close>

lemma fl64_rel: "x = 0 \<or> two_pow (- 1022) \<le> \<bar>x\<bar> \<Longrightarrow> \<bar>fl64 x - x\<bar> \<le> \<bar>x\<bar> * two_pow (- 53)"
proof (elim disjE)
  assume "two_pow (- 1022) \<le> \<bar>x\<bar>"
  then have "two_pow (- 1022) * two_pow (- 53) \<le> \<bar>x\<bar> * two_pow (- 53)"
    by (intro mult_right_mono) (simp_all add: less_imp_le)
  then have "two_pow (- 1075) \<le> \<bar>x\<bar> * two_pow (- 53)" by (simp add: two_pow_add [symmetric])
  with fl64_err [of x] show ?thesis by (simp add: max_def split: if_splits)
qed simp

lemma fl64_upper: "0 \<le> x \<Longrightarrow> x = 0 \<or> two_pow (- 1022) \<le> x \<Longrightarrow> fl64 x \<le> x * (1 + two_pow (- 53))"
  using fl64_rel [of x] by (auto simp: algebra_simps)

end
