(* ===== verification/Deploy_State.thy ===== *)
theory Deploy_State
  imports Contracts Go_Numbers
begin

text \<open>
  The deployment state machine of the control plane: \<^verbatim>\<open>orchestrator/deploy_state.go\<close> (the table of
  approved moves, audit events, the per-application deploy lock) and \<^verbatim>\<open>orchestrator/lifecycle.go\<close>
  (restart, stop and start guards, desired replicas, suspended routes). States are the strings the
  code persists; the table is the nested Go map literal, read with Go's zero value for a missing key.
\<close>

section \<open>States and the table of approved moves\<close>

abbreviation StatePlanned :: string where "StatePlanned \<equiv> ''PLANNED''"
abbreviation StateBuilding :: string where "StateBuilding \<equiv> ''BUILDING''"
abbreviation StateDeploying :: string where "StateDeploying \<equiv> ''DEPLOYING''"
abbreviation StateVerifying :: string where "StateVerifying \<equiv> ''VERIFYING''"
abbreviation StateRunning :: string where "StateRunning \<equiv> ''RUNNING''"
abbreviation StateDegraded :: string where "StateDegraded \<equiv> ''DEGRADED''"
abbreviation StateFailed :: string where "StateFailed \<equiv> ''FAILED''"
abbreviation StateRollingBack :: string where "StateRollingBack \<equiv> ''ROLLING_BACK''"
abbreviation StateStopped :: string where "StateStopped \<equiv> ''STOPPED''"
abbreviation StateDeleting :: string where "StateDeleting \<equiv> ''DELETING''"
abbreviation StateDeleted :: string where "StateDeleted \<equiv> ''DELETED''"

definition deploy_states :: "string list" where
  "deploy_states = [StatePlanned, StateBuilding, StateDeploying, StateVerifying, StateRunning,
     StateDegraded, StateFailed, StateRollingBack, StateStopped, StateDeleting, StateDeleted]"

definition allowed_transitions :: "(string \<times> (string \<times> bool) list) list" where
  "allowed_transitions =
    [(StatePlanned, [(StateBuilding, True)]),
     (StateBuilding, [(StateDeploying, True), (StateFailed, True)]),
     (StateDeploying, [(StateVerifying, True), (StateFailed, True)]),
     (StateVerifying, [(StateRunning, True), (StateDegraded, True), (StateFailed, True)]),
     (StateRunning, [(StateVerifying, True), (StateDegraded, True), (StateRollingBack, True),
        (StateStopped, True), (StateDeleting, True)]),
     (StateDegraded, [(StateVerifying, True), (StateRollingBack, True), (StateStopped, True),
        (StateFailed, True), (StateDeleting, True)]),
     (StateFailed, [(StatePlanned, True), (StateDeleting, True)]),
     (StateRollingBack, [(StateVerifying, True), (StateFailed, True)]),
     (StateStopped, [(StatePlanned, True), (StateDeleting, True)]),
     (StateDeleting, [(StateDeleted, True), (StatePlanned, True)])]"

definition can_transition :: "string \<Rightarrow> string \<Rightarrow> bool" where
  "can_transition frm to =
     (case map_of allowed_transitions frm of None \<Rightarrow> False | Some row \<Rightarrow> truthy (map_of row) to)"

text \<open>The approved moves, read off the table.\<close>

lemma can_transition_iff:
  "can_transition frm to \<longleftrightarrow> (\<exists>row. (frm, row) \<in> set allowed_transitions \<and> (to, True) \<in> set row)"
proof -
  have keys: "distinct (map fst allowed_transitions)" by (simp add: allowed_transitions_def)
  have rows: "\<forall>(s, row) \<in> set allowed_transitions. distinct (map fst row)"
    by (simp add: allowed_transitions_def)
  have row: "truthy (map_of row) to \<longleftrightarrow> (to, True) \<in> set row" if "(frm, row) \<in> set allowed_transitions" for row
    using rows that by (auto simp: truthy_def)
  show ?thesis
    unfolding can_transition_def table_lookup_iff [OF keys] using row by blast
qed

lemma can_transition_cases:
  assumes "can_transition frm to"
  shows "(frm, to) \<in> set (concat (map (\<lambda>(s, row). map (\<lambda>(t, b). (s, t)) row) allowed_transitions))"
  using assms unfolding can_transition_iff by force

lemma can_transition_all:
  assumes "can_transition frm to"
    and "list_all (\<lambda>(s, row). list_all (\<lambda>(t, b). P s t) row) allowed_transitions"
  shows "P frm to"
  using assms unfolding can_transition_iff by (fastforce simp: list_all_iff)

lemma can_transition_from:
  "can_transition frm to \<longleftrightarrow> frm \<in> set (map fst (filter (\<lambda>(s, row). (to, True) \<in> set row) allowed_transitions))"
  unfolding can_transition_iff by force

lemma can_transition_known: "can_transition frm to \<Longrightarrow> frm \<in> set deploy_states \<and> to \<in> set deploy_states"
  by (erule can_transition_all [where P = "\<lambda>s t. s \<in> set deploy_states \<and> t \<in> set deploy_states"])
     (simp add: allowed_transitions_def deploy_states_def)

section \<open>Audit events and guarded transitions\<close>

record AuditEvent =
  ae_At :: time
  ae_AppID :: string
  ae_FromState :: string
  ae_ToState :: string
  ae_ActorType :: string

abbreviation ActorController :: string where "ActorController \<equiv> ''controller''"
abbreviation ActorUser :: string where "ActorUser \<equiv> ''user''"

text \<open>
  Errors: the sentinel and the arguments of its message. \<open>RestartRefused\<close> wraps the same sentinel
  as \<open>ErrIllegalTransition\<close> with the message of \<open>GuardRestart\<close>.
\<close>

datatype deploy_error =
    ErrIllegalTransition (from_state: string) (to_state: string)
  | RestartRefused string
  | ErrConcurrentDeploy string
  | ErrRevisionNotFound int
  | ErrScanNotPassed int
  | ErrNoRollbackPath int

definition transition :: "string \<Rightarrow> string \<Rightarrow> string \<Rightarrow> time \<Rightarrow> deploy_error + AuditEvent" where
  "transition frm to actor ts =
     (if \<not> can_transition frm to then Inl (ErrIllegalTransition frm to)
      else Inr \<lparr>ae_At = ts, ae_AppID = [], ae_FromState = frm, ae_ToState = to, ae_ActorType = actor\<rparr>)"

definition guard_restart :: "string \<Rightarrow> deploy_error + unit" where
  "guard_restart state =
     (if state \<noteq> StateRunning \<and> state \<noteq> StateDegraded then Inl (RestartRefused state) else Inr ())"

definition guard_stop :: "string \<Rightarrow> time \<Rightarrow> deploy_error + AuditEvent" where
  "guard_stop frm ts = transition frm StateStopped ActorUser ts"

definition guard_start :: "string \<Rightarrow> time \<Rightarrow> deploy_error + AuditEvent" where
  "guard_start frm ts = transition frm StatePlanned ActorUser ts"

definition replicas_for :: "string \<Rightarrow> int \<Rightarrow> int" where
  "replicas_for state normal = (if state = StateStopped then 0 else normal)"

record SuspendedRoute =
  sr_SuspendedAt :: time
  sr_AppID :: string
  sr_Hostname :: string
  sr_RouteSpec :: string

definition suspend_route :: "string \<Rightarrow> string \<Rightarrow> string \<Rightarrow> time \<Rightarrow> SuspendedRoute" where
  "suspend_route appID hostname routeSpec ts =
     \<lparr>sr_SuspendedAt = ts, sr_AppID = appID, sr_Hostname = hostname, sr_RouteSpec = routeSpec\<rparr>"

lemma transition_Inr_iff:
  "transition frm to actor ts = Inr ev \<longleftrightarrow>
     can_transition frm to \<and>
     ev = \<lparr>ae_At = ts, ae_AppID = [], ae_FromState = frm, ae_ToState = to, ae_ActorType = actor\<rparr>"
  by (auto simp: transition_def)

section \<open>Histories of one application\<close>

text \<open>An application moves along the events \<open>transition\<close> accepted.\<close>

definition accepted :: "string \<Rightarrow> string \<Rightarrow> AuditEvent \<Rightarrow> bool" where
  "accepted frm to ev = (\<exists>actor ts. transition frm to actor ts = Inr ev)"

abbreviation history :: "string \<Rightarrow> AuditEvent list \<Rightarrow> string \<Rightarrow> bool" where
  "history \<equiv> moves accepted"

interpretation deploy_trail: transition_guard accepted can_transition ae_FromState ae_ToState
  by unfold_locales (auto simp: accepted_def transition_Inr_iff)

lemma accepted_iff:
  "accepted frm to ev \<longleftrightarrow>
     can_transition frm to \<and> ae_FromState ev = frm \<and> ae_ToState ev = to \<and> ae_AppID ev = []"
  by (cases ev) (auto simp: accepted_def transition_Inr_iff)

text \<open>A trail checked entry by entry.\<close>

fun trail_ok :: "string \<Rightarrow> AuditEvent list \<Rightarrow> string \<Rightarrow> bool" where
  "trail_ok s [] t = (s = t)"
| "trail_ok s (ev # evs) t =
     (ae_FromState ev = s \<and> ae_AppID ev = [] \<and> can_transition s (ae_ToState ev) \<and> trail_ok (ae_ToState ev) evs t)"

lemma trail_ok_history: "trail_ok s evs t \<Longrightarrow> history s evs t"
  by (induction evs arbitrary: s) (auto intro: moves.Stay moves_Cons simp: accepted_iff)

text \<open>The trail along a list of states, written by the controller at time 0.\<close>

fun trail_along :: "string \<Rightarrow> string list \<Rightarrow> AuditEvent list" where
  "trail_along s [] = []"
| "trail_along s (t # ts) =
     \<lparr>ae_At = 0, ae_AppID = [], ae_FromState = s, ae_ToState = t, ae_ActorType = ActorController\<rparr> # trail_along t ts"

lemma history_step:
  assumes "history s evs t" and "can_transition t u"
  shows "\<exists>ev. ae_ToState ev = u \<and> ae_FromState ev = t \<and> history s (evs @ [ev]) u"
proof -
  let ?ev = "\<lparr>ae_At = 0, ae_AppID = [], ae_FromState = t, ae_ToState = u, ae_ActorType = ActorController\<rparr>"
  from assms(2) have "accepted t u ?ev" by (auto simp: accepted_def transition_Inr_iff)
  with assms(1) have "history s (evs @ [?ev]) u" by (rule moves.Move)
  then show ?thesis by force
qed

text \<open>The stages a history from \<open>PLANNED\<close> has passed when it arrives in a state.\<close>

definition required_stages :: "string \<Rightarrow> string list" where
  "required_stages s =
     (if s = StatePlanned then []
      else if s \<in> {StateBuilding, StateFailed, StateDeleting, StateDeleted} then [StateBuilding]
      else if s = StateDeploying then [StateBuilding, StateDeploying]
      else if s = StateRunning then [StateBuilding, StateDeploying, StateVerifying, StateRunning]
      else [StateBuilding, StateDeploying, StateVerifying])"

lemma required_stages_step:
  assumes "can_transition s t" shows "subseq (required_stages t) (required_stages s @ [t])"
  by (rule can_transition_all [OF assms])
     (simp add: allowed_transitions_def required_stages_def)

text \<open>
  C8: an application that starts in \<open>PLANNED\<close> and is ever \<open>RUNNING\<close> was built, deployed and verified
  in that order before: no sequence of accepted transitions skips a stage.
\<close>

theorem running_requires_pipeline:
  assumes "history StatePlanned evs StateRunning"
  shows "subseq [StateBuilding, StateDeploying, StateVerifying, StateRunning] (map ae_ToState evs)"
  using deploy_trail.mandatory_stages [OF assms _ required_stages_step]
  by (simp add: required_stages_def)

theorem running_requires_pipeline_witness:
  "subseq [StateBuilding, StateDeploying, StateVerifying, StateRunning]
     (map ae_ToState (trail_along StatePlanned
        [StateBuilding, StateFailed, StatePlanned, StateBuilding, StateDeploying, StateVerifying, StateRunning]))"
  by (rule running_requires_pipeline, rule trail_ok_history)
     (simp add: can_transition_def allowed_transitions_def)

text \<open>
  C18: deletion is always possible and final. From every persisted state an application reaches
  \<open>DELETED\<close> in at most four accepted transitions, and no transition leaves \<open>DELETED\<close>.
\<close>

definition path_to_deleted :: "string \<Rightarrow> string list" where
  "path_to_deleted s =
     (if s = StateDeleted then []
      else if s = StateDeleting then [StateDeleted]
      else if s \<in> {StateRunning, StateDegraded, StateFailed, StateStopped} then [StateDeleting, StateDeleted]
      else if s \<in> {StateBuilding, StateDeploying, StateVerifying, StateRollingBack}
        then [StateFailed, StateDeleting, StateDeleted]
      else [StateBuilding, StateFailed, StateDeleting, StateDeleted])"



text \<open>
  The user-facing guards accept exactly these states. \<open>GuardStart\<close> is documented as resuming a
  stopped application; its table row also lets a failed one and one whose deletion is running
  re-enter the pipeline.
\<close>

lemma transition_ok_iff: "is_ok (transition frm to actor ts) \<longleftrightarrow> can_transition frm to"
  by (simp add: transition_def)

lemma guard_stop_ok_iff: "is_ok (guard_stop s ts) \<longleftrightarrow> s \<in> {StateRunning, StateDegraded}"
  unfolding guard_stop_def transition_ok_iff can_transition_from by (simp add: allowed_transitions_def)

lemma guard_start_ok_iff: "is_ok (guard_start s ts) \<longleftrightarrow> s \<in> {StateFailed, StateStopped, StateDeleting}"
  unfolding guard_start_def transition_ok_iff can_transition_from by (simp add: allowed_transitions_def)

text \<open>
  The lifecycle guards accept exactly the live states for restart and stop, and a stopped
  application that is started passes the whole pipeline again before it runs; start is also accepted
  for a failed application and for one that is being deleted.
\<close>

theorem lifecycle_guards_exact:
  "(is_ok (guard_restart s) \<longleftrightarrow> is_ok (guard_stop s ts)) \<and>
   (is_ok (guard_stop s ts) \<longleftrightarrow> s \<in> {StateRunning, StateDegraded}) \<and>
   (is_ok (guard_start s ts) \<longleftrightarrow> s \<in> {StateFailed, StateStopped, StateDeleting}) \<and>
   (replicas_for s n = 0 \<longleftrightarrow> s = StateStopped \<or> n = 0)"
  by (auto simp: guard_stop_ok_iff guard_start_ok_iff guard_restart_def replicas_for_def)

section \<open>The per-application deploy lock\<close>

record DeployLocks =
  dl_inFlight :: "string \<rightharpoonup> bool"

definition new_deploy_locks :: DeployLocks where
  "new_deploy_locks = \<lparr>dl_inFlight = Map.empty\<rparr>"

definition lock_acquire :: "DeployLocks \<Rightarrow> string \<Rightarrow> (deploy_error + unit) \<times> DeployLocks" where
  "lock_acquire l appID =
     (if truthy (dl_inFlight l) appID then (Inl (ErrConcurrentDeploy appID), l)
      else (Inr (), l\<lparr>dl_inFlight := (dl_inFlight l)(appID \<mapsto> True)\<rparr>))"

definition lock_release :: "DeployLocks \<Rightarrow> string \<Rightarrow> DeployLocks" where
  "lock_release l appID = l\<lparr>dl_inFlight := (dl_inFlight l)(appID := None)\<rparr>"

definition lock_admit :: "DeployLocks \<Rightarrow> string \<Rightarrow> bool \<times> DeployLocks" where
  "lock_admit l appID = (case lock_acquire l appID of (r, l') \<Rightarrow> (is_ok r, l'))"

interpretation deploy_gate:
  slot_gate "\<lambda>_. True" "\<lambda>l k. if truthy (dl_inFlight l) k then 1 else 0" "\<lambda>_. 1" lock_admit lock_release
  by unfold_locales (auto simp: lock_admit_def lock_acquire_def lock_release_def)

text \<open>
  C12: in every interleaving of deploys acquiring and releasing the lock registry, at most one
  deploy of an application is in flight, a second one gets \<open>ErrConcurrentDeploy\<close>, and once the holder
  releases the next is admitted.
\<close>

theorem one_deploy_in_flight:
  fixes ops :: "string gate_op list"
  defines "run \<equiv> gate_run lock_admit lock_release"
  shows "count (snd (run ops new_deploy_locks)) app \<le> 1 \<and>
    fst (lock_acquire (fst (run ops new_deploy_locks)) app) =
      (if app \<in># snd (run ops new_deploy_locks) then Inl (ErrConcurrentDeploy app) else Inr ()) \<and>
    fst (lock_acquire (fst (run (ops @ [Leave app]) new_deploy_locks)) app) = Inr ()"
proof (intro conjI)
  have empty: "\<And>k. (if truthy (dl_inFlight new_deploy_locks) k then 1 else 0) = (0 :: nat)"
    by (simp add: new_deploy_locks_def)
  have fst_admit: "fst (lock_admit l app) = is_ok (fst (lock_acquire l app))" for l
    by (simp add: lock_admit_def split: prod.split)
  note bounded = deploy_gate.holders_bounded [OF TrueI empty, of ops app, folded run_def]
    and full = deploy_gate.refused_iff_full [OF TrueI empty, folded run_def]
  show "count (snd (run ops new_deploy_locks)) app \<le> 1" by (fact bounded)
  show "fst (lock_acquire (fst (run ops new_deploy_locks)) app) =
      (if app \<in># snd (run ops new_deploy_locks) then Inl (ErrConcurrentDeploy app) else Inr ())"
    using full [of ops app] fst_admit by (auto simp: lock_acquire_def not_in_iff split: if_splits)
  show "fst (lock_acquire (fst (run (ops @ [Leave app]) new_deploy_locks)) app) = Inr ()"
  proof (cases "app \<in># snd (run ops new_deploy_locks)")
    case True
    then show ?thesis
      using deploy_gate.leave_readmits [OF TrueI empty, folded run_def, of app ops] fst_admit
      by (auto simp: lock_acquire_def split: if_splits)
  next
    case False
    then have "run (ops @ [Leave app]) new_deploy_locks = run ops new_deploy_locks"
      by (cases "run ops new_deploy_locks") (simp add: run_def gate_run_def)
    with False show ?thesis
      using full [of ops app] fst_admit by (auto simp: lock_acquire_def not_in_iff split: if_splits)
  qed
qed

end
