(* ===== verification/Rollback_Plan.thy ===== *)
theory Rollback_Plan
  imports Deploy_State
begin

text \<open>
  Choosing where a rollback goes: \<^verbatim>\<open>orchestrator/rollback.go\<close>. The loop of
  \<open>ResolveRollbackTarget\<close> is a recursion that carries \<open>best\<close> and \<open>found\<close> as the code does.
\<close>

record RevisionSnapshot =
  rs_ImageDigest :: string
  rs_SignatureRef :: string
  rs_Number :: int
  rs_ConfigRev :: int
  rs_SecretRev :: int
  rs_AppSpecVer :: int
  rs_ScanPassed :: bool

definition zero_snapshot :: RevisionSnapshot where
  "zero_snapshot = \<lparr>rs_ImageDigest = [], rs_SignatureRef = [], rs_Number = 0, rs_ConfigRev = 0,
     rs_SecretRev = 0, rs_AppSpecVer = 0, rs_ScanPassed = False\<rparr>"

definition eligible :: "RevisionSnapshot \<Rightarrow> bool" where
  "eligible s = (rs_ScanPassed s \<and> rs_SignatureRef s \<noteq> [])"

fun find_snapshot :: "RevisionSnapshot list \<Rightarrow> int \<Rightarrow> RevisionSnapshot \<times> bool" where
  "find_snapshot [] number = (zero_snapshot, False)"
| "find_snapshot (s # revs) number = (if rs_Number s = number then (s, True) else find_snapshot revs number)"

fun newest_eligible :: "int \<Rightarrow> RevisionSnapshot \<Rightarrow> bool \<Rightarrow> RevisionSnapshot list \<Rightarrow> RevisionSnapshot \<times> bool" where
  "newest_eligible current best found [] = (best, found)"
| "newest_eligible current best found (s # revs) =
     (if current \<le> rs_Number s \<or> \<not> eligible s then newest_eligible current best found revs
      else if \<not> found \<or> rs_Number best < rs_Number s then newest_eligible current s True revs
      else newest_eligible current best found revs)"

definition resolve_rollback_target ::
  "RevisionSnapshot list \<Rightarrow> int \<Rightarrow> int option \<Rightarrow> deploy_error + RevisionSnapshot" where
  "resolve_rollback_target revs current target =
     (case target of
        Some number \<Rightarrow>
          (case find_snapshot revs number of (s, ok) \<Rightarrow>
            if \<not> ok \<or> current \<le> rs_Number s then Inl (ErrRevisionNotFound number)
            else if \<not> eligible s then Inl (ErrScanNotPassed number)
            else Inr s)
      | None \<Rightarrow>
          (case newest_eligible current zero_snapshot False revs of (best, found) \<Rightarrow>
            if \<not> found then Inl (ErrNoRollbackPath current) else Inr best))"

definition plan_rollback ::
  "string \<Rightarrow> RevisionSnapshot list \<Rightarrow> int \<Rightarrow> int option \<Rightarrow> time \<Rightarrow> deploy_error + AuditEvent \<times> RevisionSnapshot" where
  "plan_rollback fromState revs current target ts =
     and_then (transition fromState StateRollingBack ActorUser ts) (\<lambda>ev.
     and_then (resolve_rollback_target revs current target) (\<lambda>dest.
     Inr (ev, dest)))"

section \<open>The loop finds the newest eligible predecessor\<close>

definition candidates :: "int \<Rightarrow> RevisionSnapshot list \<Rightarrow> RevisionSnapshot list" where
  "candidates current revs = filter (\<lambda>s. rs_Number s < current \<and> eligible s) revs"

lemma candidates_simps [simp]:
  "candidates current [] = []"
  "candidates current (s # revs) =
     (if rs_Number s < current \<and> eligible s then s # candidates current revs else candidates current revs)"
  by (simp_all add: candidates_def)

lemma newest_eligible_found:
  "snd (newest_eligible current best found revs) \<longleftrightarrow> found \<or> candidates current revs \<noteq> []"
  by (induction current best found revs rule: newest_eligible.induct) auto

lemma newest_eligible_from_best:
  "fst (newest_eligible current best True revs) \<in> set (best # candidates current revs) \<and>
    (\<forall>r \<in> set (best # candidates current revs).
       rs_Number r \<le> rs_Number (fst (newest_eligible current best True revs)))"
proof (induction revs arbitrary: best)
  case Nil
  show ?case by simp
next
  case (Cons r revs)
  show ?case using Cons.IH [of best] Cons.IH [of r] by (auto intro: order_trans)
qed

lemma newest_eligible_best:
  assumes "candidates current revs \<noteq> []"
  shows "fst (newest_eligible current best False revs) \<in> set (candidates current revs) \<and>
    (\<forall>r \<in> set (candidates current revs).
       rs_Number r \<le> rs_Number (fst (newest_eligible current best False revs)))"
  using assms
proof (induction revs)
  case Nil
  then show ?case by simp
next
  case (Cons r revs)
  then show ?case using newest_eligible_from_best [of current r revs] by (auto split: if_splits)
qed

lemma find_snapshot_iff:
  "find_snapshot revs number = (s, True) \<longleftrightarrow> find (\<lambda>r. rs_Number r = number) revs = Some s"
  by (induction revs) auto

lemma find_snapshot_missing:
  "snd (find_snapshot revs number) \<longleftrightarrow> (\<exists>r \<in> set revs. rs_Number r = number)"
  by (induction revs) auto

text \<open>
  C13: without an explicit target a rollback goes to the newest revision older than the current one
  that passed scan and signature, and fails exactly when there is none.
\<close>

theorem default_rollback_newest:
  "(case resolve_rollback_target revs current None of
      Inr s \<Rightarrow> s \<in> set revs \<and> rs_Number s < current \<and> rs_ScanPassed s \<and> rs_SignatureRef s \<noteq> [] \<and>
               list_all (\<lambda>r. rs_Number r \<le> rs_Number s) (filter (\<lambda>r. rs_Number r < current \<and> eligible r) revs)
    | Inl e \<Rightarrow> e = ErrNoRollbackPath current \<and> filter (\<lambda>r. rs_Number r < current \<and> eligible r) revs = [])"
proof (cases "candidates current revs = []")
  case True
  with newest_eligible_found [of current zero_snapshot False revs] show ?thesis
    by (cases "newest_eligible current zero_snapshot False revs")
       (auto simp: resolve_rollback_target_def candidates_def filter_empty_conv list_all_iff)
next
  case False
  with newest_eligible_found [of current zero_snapshot False revs]
    newest_eligible_best [OF False, of zero_snapshot] show ?thesis
    by (cases "newest_eligible current zero_snapshot False revs")
       (auto simp: resolve_rollback_target_def candidates_def eligible_def list_all_iff)
qed

text \<open>
  With an explicit target the rollback goes to that revision or nowhere: it succeeds exactly when
  the (first) revision with that number is older than the current one and cleared both gates; an unknown or
  not-older number is reported as not found, an ungated one as not passed.
\<close>

theorem explicit_rollback_exact:
  "resolve_rollback_target revs current (Some n) =
     (case find (\<lambda>r. rs_Number r = n) revs of
        None \<Rightarrow> Inl (ErrRevisionNotFound n)
      | Some r \<Rightarrow> if current \<le> n then Inl (ErrRevisionNotFound n)
                  else if rs_ScanPassed r \<and> rs_SignatureRef r \<noteq> [] then Inr r
                  else Inl (ErrScanNotPassed n))"
proof (cases "find (\<lambda>r. rs_Number r = n) revs")
  case None
  then have "\<not> snd (find_snapshot revs n)" by (auto simp: find_snapshot_missing find_None_iff_all)
  with None show ?thesis by (cases "find_snapshot revs n") (simp add: resolve_rollback_target_def)
next
  case (Some r)
  then have "find_snapshot revs n = (r, True)" by (simp add: find_snapshot_iff)
  moreover from Some have "rs_Number r = n" by (auto dest: find_Some_mem)
  ultimately show ?thesis using Some by (simp add: resolve_rollback_target_def eligible_def)
qed

text \<open>
  C19: planning a rollback succeeds only for a live application, yields the move into
  \<open>ROLLING_BACK\<close> and a gated predecessor, and is followed by verification or failure only.
\<close>

theorem plan_rollback_sound:
  assumes "plan_rollback st revs current target ts = Inr (ev, dest)"
  shows "st \<in> {StateRunning, StateDegraded} \<and> ae_FromState ev = st \<and> ae_ToState ev = StateRollingBack \<and>
    ae_At ev = ts \<and> dest \<in> set revs \<and> rs_Number dest < current \<and> eligible dest \<and>
    (\<forall>t. can_transition (ae_ToState ev) t \<longleftrightarrow> t \<in> {StateVerifying, StateFailed})"
proof -
  from assms have tr: "transition st StateRollingBack ActorUser ts = Inr ev"
    and dest: "resolve_rollback_target revs current target = Inr dest"
    by (auto simp: plan_rollback_def and_then_Inr_iff)
  from tr have "can_transition st StateRollingBack" by (simp add: transition_Inr_iff)
  then have "st \<in> {StateRunning, StateDegraded}"
    unfolding can_transition_from by (simp add: allowed_transitions_def)
  moreover have "dest \<in> set revs \<and> rs_Number dest < current \<and> eligible dest"
  proof (cases target)
    case None
    then show ?thesis using dest default_rollback_newest [of current revs] by (simp add: eligible_def)
  next
    case (Some n)
    then show ?thesis using dest explicit_rollback_exact [of revs current n]
      by (auto simp: eligible_def not_le split: option.splits if_splits dest: find_Some_mem)
  qed
  moreover have "can_transition StateRollingBack t \<longleftrightarrow> t \<in> {StateVerifying, StateFailed}" for t
    by (auto simp: can_transition_def allowed_transitions_def truthy_def)
  ultimately show ?thesis using tr by (simp add: transition_Inr_iff)
qed

definition sample_revision :: "int \<Rightarrow> string \<Rightarrow> bool \<Rightarrow> RevisionSnapshot" where
  "sample_revision n sig scanned = \<lparr>rs_ImageDigest = ''sha256:00'', rs_SignatureRef = sig, rs_Number = n,
     rs_ConfigRev = 1, rs_SecretRev = 1, rs_AppSpecVer = 1, rs_ScanPassed = scanned\<rparr>"

theorem plan_rollback_sound_witness:
  "\<exists>ev. plan_rollback StateDegraded
      [sample_revision 1 ''cosign'' True, sample_revision 2 ''cosign'' True, sample_revision 3 [] True,
       sample_revision 4 ''cosign'' True] 4 None 9 = Inr (ev, sample_revision 2 ''cosign'' True) \<and>
    ae_FromState ev = StateDegraded \<and> ae_ToState ev = StateRollingBack"
proof -
  obtain ev where ok: "plan_rollback StateDegraded
      [sample_revision 1 ''cosign'' True, sample_revision 2 ''cosign'' True, sample_revision 3 [] True,
       sample_revision 4 ''cosign'' True] 4 None 9 = Inr (ev, sample_revision 2 ''cosign'' True)"
    by (simp add: plan_rollback_def transition_def can_transition_def allowed_transitions_def
        resolve_rollback_target_def sample_revision_def eligible_def zero_snapshot_def)
  from plan_rollback_sound [OF ok] ok show ?thesis by blast
qed

end
