(* ===== verification/Delete_Pipeline.thy ===== *)
theory Delete_Pipeline
  imports Deploy_State
begin

text \<open>
  The ordered soft-delete pipeline: \<^verbatim>\<open>orchestrator/delete_pipeline.go\<close>. \<open>NextDeleteStep\<close> is the
  catalogue interface of \<open>Contracts\<close>. \<^verbatim>\<open>strconv.ParseFloat\<close> is a parameter returning a Go float
  (a rational, an infinity or NaN), because the retention check depends on how these compare.
\<close>

abbreviation (input) DelStepTrafficDisabled :: int where "DelStepTrafficDisabled \<equiv> 1"
abbreviation (input) DelStepWorkloadStopped :: int where "DelStepWorkloadStopped \<equiv> 2"
abbreviation (input) DelStepDBSnapshotted :: int where "DelStepDBSnapshotted \<equiv> 3"
abbreviation (input) DelStepSoftDeleted :: int where "DelStepSoftDeleted \<equiv> 4"
abbreviation (input) DelStepRuntimeDestroyed :: int where "DelStepRuntimeDestroyed \<equiv> 5"
abbreviation (input) DelStepCredentialDestroyed :: int where "DelStepCredentialDestroyed \<equiv> 6"
abbreviation (input) DelStepDataPurged :: int where "DelStepDataPurged \<equiv> 7"

definition delete_step_names :: "(int \<times> string) list" where
  "delete_step_names =
    [(DelStepTrafficDisabled, ''traffic disabled''),
     (DelStepWorkloadStopped, ''workload stopped''),
     (DelStepDBSnapshotted, ''database snapshotted to backups/''),
     (DelStepSoftDeleted, ''soft deleted (retention window)''),
     (DelStepRuntimeDestroyed, ''runtime namespace destroyed''),
     (DelStepCredentialDestroyed, ''credentials destroyed''),
     (DelStepDataPurged, ''backups and data purged'')]"

definition delete_step_order :: "int list" where
  "delete_step_order =
    [DelStepTrafficDisabled, DelStepWorkloadStopped, DelStepDBSnapshotted, DelStepSoftDeleted,
     DelStepRuntimeDestroyed, DelStepCredentialDestroyed, DelStepDataPurged]"

definition delete_step_ids :: "int list" where
  "delete_step_ids = [] @ delete_step_order"

definition delete_step_name :: "int \<Rightarrow> string" where
  "delete_step_name i = (case map_of delete_step_names i of None \<Rightarrow> [] | Some n \<Rightarrow> n)"

datatype delete_error =
    UnknownDeletionStep int
  | ErrPipelineComplete
  | BadRetention string

text \<open>The first loop fills the \<open>done\<close> set and rejects an id outside the catalogue.\<close>

fun mark_done :: "(int \<rightharpoonup> bool) \<Rightarrow> int list \<Rightarrow> delete_error + (int \<rightharpoonup> bool)" where
  "mark_done m [] = Inr m"
| "mark_done m (c # cs) =
     (if c < DelStepTrafficDisabled \<or> DelStepDataPurged < c then Inl (UnknownDeletionStep c)
      else mark_done (m(c \<mapsto> True)) cs)"

fun first_undone :: "(int \<rightharpoonup> bool) \<Rightarrow> int list \<Rightarrow> delete_error + int" where
  "first_undone m [] = Inl ErrPipelineComplete"
| "first_undone m (i # ids) = (if \<not> truthy m i then Inr i else first_undone m ids)"

definition next_delete_step :: "int list \<Rightarrow> delete_error + int" where
  "next_delete_step completed =
     and_then (mark_done Map.empty completed) (\<lambda>m. first_undone m delete_step_order)"

datatype go_float = Finite rat | PosInf | NegInf | NaN

text \<open>Go compares floats as IEEE 754 does: nothing is less than a NaN, and a NaN is less than nothing.\<close>

instantiation go_float :: ord
begin

fun less_go_float :: "go_float \<Rightarrow> go_float \<Rightarrow> bool" where
  "less_go_float (Finite x) (Finite y) = (x < y)"
| "less_go_float (Finite x) PosInf = True"
| "less_go_float NegInf (Finite y) = True"
| "less_go_float NegInf PosInf = True"
| "less_go_float x y = False"

definition less_eq_go_float :: "go_float \<Rightarrow> go_float \<Rightarrow> bool" where
  "less_eq_go_float x y = (x < y \<or> x = y \<and> x \<noteq> NaN)"

instance ..

end

lemma nan_incomparable: "\<not> x < NaN" "\<not> NaN < x" "\<not> x \<le> NaN" "\<not> NaN \<le> x"
  by (cases x; simp add: less_eq_go_float_def)+

text \<open>
  \<^verbatim>\<open>time.Duration(hours * float64(time.Hour))\<close>; \<open>None\<close> is a value Go leaves to the platform (not
  representable as an int64, an infinity or NaN).
\<close>

fun hours_to_duration :: "go_float \<Rightarrow> duration option" where
  "hours_to_duration (Finite q) = to_int64 (fl64 (q * of_int hour))"
| "hours_to_duration _ = None"

definition retention_period :: "(string \<Rightarrow> go_float option) \<Rightarrow> string \<Rightarrow> delete_error + duration option" where
  "retention_period parse_float value =
     (if value = [] then Inr (Some (7 * 24 * hour))
      else case parse_float value of
        None \<Rightarrow> Inl (BadRetention value)
      | Some hours \<Rightarrow> if hours < Finite 0 then Inl (BadRetention value) else Inr (hours_to_duration hours))"

definition soft_delete_until :: "time \<Rightarrow> duration \<Rightarrow> time" where
  "soft_delete_until deletedAt retention = deletedAt + retention"

definition purge_allowed :: "time \<Rightarrow> time \<Rightarrow> bool" where
  "purge_allowed now retentionUntil = (\<not> now < retentionUntil)"

fun restore_window_open :: "int list \<Rightarrow> bool" where
  "restore_window_open [] = True"
| "restore_window_open (c # cs) = (if DelStepSoftDeleted \<le> c then False else restore_window_open cs)"

section \<open>The pipeline offers the first missing step\<close>

lemma mark_done_iff:
  "mark_done m cs = Inr m' \<longleftrightarrow>
     list_all (\<lambda>c. 1 \<le> c \<and> c \<le> 7) cs \<and> m' = (\<lambda>k. if k \<in> set cs then Some True else m k)"
  by (induction cs arbitrary: m) (auto simp: fun_eq_iff)

lemma mark_done_error:
  "mark_done m cs = Inl e \<longleftrightarrow>
     (\<exists>c. find (\<lambda>c. c < 1 \<or> 7 < c) cs = Some c \<and> e = UnknownDeletionStep c)"
  by (induction cs arbitrary: m) auto

lemma first_undone_find:
  "first_undone m ids = (case find (\<lambda>i. \<not> truthy m i) ids of None \<Rightarrow> Inl ErrPipelineComplete | Some i \<Rightarrow> Inr i)"
  by (induction ids) auto

lemma set_delete_step_order: "set delete_step_order = {1..7}"
  by (auto simp: delete_step_order_def)

lemma delete_step_order_upto: "delete_step_order = [1..7]"
  by (simp add: delete_step_order_def upto.simps)

lemma next_delete_step_valid:
  assumes "set completed \<subseteq> set delete_step_order"
  shows "next_delete_step completed =
    (case find (\<lambda>i. i \<notin> set completed) delete_step_order of None \<Rightarrow> Inl ErrPipelineComplete | Some i \<Rightarrow> Inr i)"
proof -
  have "mark_done Map.empty completed = Inr (\<lambda>k. if k \<in> set completed then Some True else None)"
    using assms by (auto simp: mark_done_iff set_delete_step_order list_all_iff subset_iff)
  then show ?thesis
    by (simp add: next_delete_step_def first_undone_find truthy_def if_distrib cong: if_cong)
qed

interpretation deletion: step_catalog delete_step_order next_delete_step
  by unfold_locales (auto simp: next_delete_step_valid delete_step_order_def split: option.splits)

text \<open>
  Whatever completed steps are recorded, in any order and with repetitions, the pipeline offers
  the least step that is not recorded; it reports completion exactly when all seven are recorded, and
  an id outside the catalogue stops it.
\<close>

theorem next_delete_step_exact:
  "(case next_delete_step completed of
      Inr k \<Rightarrow> set completed \<subseteq> {1..7} \<and> k \<in> {1..7} - set completed \<and> {1..<k} \<subseteq> set completed
    | Inl ErrPipelineComplete \<Rightarrow> set completed = {1..7}
    | Inl e \<Rightarrow> (\<exists>c \<in> set completed. c \<notin> {1..7} \<and> e = UnknownDeletionStep c))"
proof (cases "set completed \<subseteq> {1..7}")
  case True
  then have sub: "set completed \<subseteq> set delete_step_order" by (simp add: set_delete_step_order)
  show ?thesis
  proof (cases "next_delete_step completed")
    case (Inl e)
    with next_delete_step_valid [OF sub] have "e = ErrPipelineComplete" by (auto split: option.splits)
    moreover have "set completed = {1..7}"
      using deletion.nxt_none_complete [OF sub] Inl by (auto simp: set_delete_step_order)
    ultimately show ?thesis using Inl by simp
  next
    case (Inr k)
    with deletion.nxt_missing [OF sub] have k: "k \<in> {1..7} - set completed"
      by (auto simp: set_delete_step_order)
    have "{1..<k} \<subseteq> set completed"
    proof
      fix j assume j: "j \<in> {1..<k}"
      have order: "delete_step_order = [1..k - 1] @ k # [k + 1..7]"
        using upto_split3 [of 1 k 7] k by (simp add: delete_step_order_upto)
      from deletion.nxt_predecessors [OF sub Inr order] j show "j \<in> set completed" by auto
    qed
    with True k Inr show ?thesis by simp
  qed
next
  case False
  then have "\<not> list_all (\<lambda>c. 1 \<le> c \<and> c \<le> 7) completed" by (auto simp: list_all_iff)
  then have "\<exists>e. mark_done Map.empty completed = Inl e"
    by (metis mark_done_iff obj_sumE)
  then obtain c where "find (\<lambda>c. c < 1 \<or> 7 < c) completed = Some c"
    "mark_done Map.empty completed = Inl (UnknownDeletionStep c)" by (auto simp: mark_done_error)
  then show ?thesis by (auto simp: next_delete_step_def dest!: find_Some_mem)
qed

text \<open>
  Driving the pipeline from the start performs the seven steps in catalogue order: after \<open>n\<close>
  rounds exactly the first \<open>n\<close> steps are recorded, seven rounds complete it, backups and data are
  purged only as the last of the seven, and the restore window is open exactly for the first three.
\<close>

theorem deletion_runs_in_order:
  "drive next_delete_step n [] = take n [1..7] \<and>
   (drive next_delete_step n [] = [1..7] \<longleftrightarrow> 7 \<le> n) \<and>
   (DelStepDataPurged \<in> set (drive next_delete_step n []) \<longleftrightarrow> 7 \<le> n) \<and>
   (restore_window_open (drive next_delete_step n []) \<longleftrightarrow> n < 4)"
proof -
  have drive: "drive next_delete_step n [] = take n [1..7]"
    using deletion.drive_order [of n] by (simp add: delete_step_order_upto)
  have seven: "[1..7] = [1, 2, 3, 4, 5, 6, 7 :: int]" by (simp add: upto.simps)
  have "n \<in> {0, 1, 2, 3, 4, 5, 6} \<or> 7 \<le> n" by auto
  then have "(take n [1..7] = [1..7] \<longleftrightarrow> 7 \<le> n) \<and> (7 \<in> set (take n [1..7 :: int]) \<longleftrightarrow> 7 \<le> n) \<and>
    (restore_window_open (take n [1..7]) \<longleftrightarrow> n < 4)"
    unfolding seven by (elim disjE insertE) (simp_all add: numeral_eq_Suc)
  with drive show ?thesis by simp
qed

lemma restore_window_open_iff: "restore_window_open cs \<longleftrightarrow> (\<forall>c \<in> set cs. c < 4)"
  by (induction cs) auto

text \<open>The purge gate opens exactly when the retention has elapsed since the deletion.\<close>

lemma purge_allowed_iff: "purge_allowed now (soft_delete_until d r) \<longleftrightarrow> r \<le> now - d"
  by (auto simp: purge_allowed_def soft_delete_until_def)

text \<open>
  The retention window. Unset, it is seven days; set to a whole number of hours below 2500 it is exactly
  that long; a negative or unparsable value is an error. A value that parses as NaN is not rejected:
  the comparison with zero is false for it, and the resulting duration is whatever the platform makes of it.
\<close>

theorem retention_period_cases:
  "retention_period pf [] = Inr (Some (168 * hour)) \<and>
   (value \<noteq> [] \<and> pf value = Some (Finite (of_int n)) \<and> 0 \<le> n \<and> n < 2500
      \<longrightarrow> retention_period pf value = Inr (Some (n * hour)) \<and>
          (purge_allowed now (soft_delete_until d (n * hour)) \<longleftrightarrow> n * hour \<le> now - d)) \<and>
   (value \<noteq> [] \<and> (pf value = None \<or> (\<exists>q < 0. pf value = Some (Finite q)))
      \<longrightarrow> retention_period pf value = Inl (BadRetention value)) \<and>
   (value \<noteq> [] \<and> pf value = Some NaN \<longrightarrow> retention_period pf value = Inr None)"
proof (intro conjI impI)
  show "retention_period pf [] = Inr (Some (168 * hour))" by (simp add: retention_period_def)
next
  assume a: "value \<noteq> [] \<and> pf value = Some (Finite (of_int n)) \<and> 0 \<le> n \<and> n < 2500"
  then have "hours_to_duration (Finite (of_int n)) = Some (n * hour)" by (simp add: fl64_hours)
  then show "retention_period pf value = Inr (Some (n * hour))" using a by (simp add: retention_period_def)
  show "purge_allowed now (soft_delete_until d (n * hour)) \<longleftrightarrow> n * hour \<le> now - d"
    by (rule purge_allowed_iff)
qed (auto simp: retention_period_def)

theorem retention_period_cases_witness:
  "retention_period (\<lambda>_. Some (Finite (of_int 24))) ''24'' = Inr (Some (24 * hour)) \<and>
   retention_period (\<lambda>_. Some NaN) ''nan'' = Inr None \<and>
   retention_period (\<lambda>_. Some (Finite (- 1))) ''-1'' = Inl (BadRetention ''-1'')"
  using retention_period_cases [of "\<lambda>_. Some (Finite (of_int 24))" "''24''" 24 0 0]
    retention_period_cases [of "\<lambda>_. Some NaN" "''nan''" 0 0 0]
    retention_period_cases [of "\<lambda>_. Some (Finite (- 1))" "''-1''" 0 0 0]
  by auto

end
