(* ===== verification/Rate_Limits.thy ===== *)
theory Rate_Limits
  imports Contracts Go_Numbers
begin

text \<open>
  Rate limiting and build concurrency: \<^verbatim>\<open>limits/limits.go\<close>. A token bucket computes with float64,
  so every arithmetic operation of the code is followed by \<open>fl64\<close>, rounding to the nearest float;
  the bound on admitted requests accounts for the rounding. The mutexes make each call atomic: a
  concurrent use is a sequence of calls.
\<close>

abbreviation (input) TokenReqPerMinute :: rat where "TokenReqPerMinute \<equiv> 100"
abbreviation (input) LoginIPPerMinute :: rat where "LoginIPPerMinute \<equiv> 10"
abbreviation (input) AdminReqPerMinute :: rat where "AdminReqPerMinute \<equiv> 600"
abbreviation (input) BuildConcurrencyFree :: int where "BuildConcurrencyFree \<equiv> 1"

definition BuildRetryAfter :: duration where
  "BuildRetryAfter = 30 * second"

section \<open>Token buckets\<close>

record TokenBucket =
  tb_lastRefill :: time
  tb_tokens :: rat
  tb_capacity :: rat
  tb_perMinute :: rat

definition new_token_bucket :: "rat \<Rightarrow> rat \<Rightarrow> time \<Rightarrow> TokenBucket" where
  "new_token_bucket capacity perMinute now =
     \<lparr>tb_lastRefill = now, tb_tokens = capacity, tb_capacity = capacity, tb_perMinute = perMinute\<rparr>"

definition bucket_refill :: "TokenBucket \<Rightarrow> time \<Rightarrow> TokenBucket" where
  "bucket_refill b now =
     (let elapsed = minutes (time_sub now (tb_lastRefill b)) in
      if 0 < elapsed then
        let tokens = fl64 (tb_tokens b + fl64 (elapsed * tb_perMinute b)) in
        b\<lparr>tb_tokens := (if tb_capacity b < tokens then tb_capacity b else tokens), tb_lastRefill := now\<rparr>
      else b)"

text \<open>The verdict, the wait hint (\<open>None\<close>: outside int64, left to the platform) and the bucket.\<close>

definition bucket_allow :: "TokenBucket \<Rightarrow> time \<Rightarrow> bool \<times> duration option \<times> TokenBucket" where
  "bucket_allow b now =
     (let b' = bucket_refill b now in
      if tb_tokens b' < 1 then
        (False, to_int64 (fl64 (fl64 (fl64 (1 - tb_tokens b') / tb_perMinute b') * of_int minute)), b')
      else (True, Some 0, b'\<lparr>tb_tokens := fl64 (tb_tokens b' - 1)\<rparr>))"

record RateLimiter =
  rl_buckets :: "string \<rightharpoonup> TokenBucket"
  rl_capacity :: rat
  rl_perMinute :: rat

definition new_rate_limiter :: "rat \<Rightarrow> rat \<Rightarrow> RateLimiter" where
  "new_rate_limiter capacity perMinute =
     \<lparr>rl_buckets = Map.empty, rl_capacity = capacity, rl_perMinute = perMinute\<rparr>"

definition limiter_allow :: "RateLimiter \<Rightarrow> string \<Rightarrow> time \<Rightarrow> bool \<times> duration option \<times> RateLimiter" where
  "limiter_allow r key now =
     (let bucket = (case rl_buckets r key of None \<Rightarrow> new_token_bucket (rl_capacity r) (rl_perMinute r) now
                                         | Some b \<Rightarrow> b);
          (ok, wait, bucket') = bucket_allow bucket now
      in (ok, wait, r\<lparr>rl_buckets := (rl_buckets r)(key \<mapsto> bucket')\<rparr>))"

text \<open>A sequence of calls to one limiter, and the verdicts in order.\<close>

fun limiter_run :: "RateLimiter \<Rightarrow> (string \<times> time) list \<Rightarrow> (string \<times> bool) list" where
  "limiter_run r [] = []"
| "limiter_run r ((key, now) # calls) =
     (case limiter_allow r key now of (ok, _, r') \<Rightarrow> (key, ok) # limiter_run r' calls)"

fun bucket_run :: "TokenBucket \<Rightarrow> time list \<Rightarrow> bool list" where
  "bucket_run b [] = []"
| "bucket_run b (now # calls) = (case bucket_allow b now of (ok, _, b') \<Rightarrow> ok # bucket_run b' calls)"

section \<open>Keys do not interfere\<close>

lemma limiter_run_key:
  assumes "rl_buckets r key = Some b"
  shows "map snd (filter (\<lambda>(k, _). k = key) (limiter_run r calls)) =
         bucket_run b (map snd (filter (\<lambda>(k, _). k = key) calls))"
  using assms
proof (induction r calls arbitrary: b rule: limiter_run.induct)
  case (1 r)
  show ?case by simp
next
  case (2 r k now calls)
  obtain ok w r' where step: "limiter_allow r k now = (ok, w, r')" by (cases "limiter_allow r k now")
  show ?case
  proof (cases "k = key")
    case True
    obtain b' where b': "bucket_allow b now = (ok, w, b')" "rl_buckets r' key = Some b'"
      using step True 2(2) by (auto simp: limiter_allow_def Let_def split: prod.splits)
    from 2(1) [OF step [symmetric] refl b'(2)] True step b'(1) show ?thesis by simp
  next
    case False
    then have "rl_buckets r' key = Some b"
      using step 2(2) by (auto simp: limiter_allow_def Let_def split: prod.splits)
    from 2(1) [OF step [symmetric] refl this] False step show ?thesis by simp
  qed
qed

text \<open>
  Clients do not share a budget. The verdicts a key gets in any interleaving with other keys are
  those of a bucket of its own, created at its first call and used by its calls alone.
\<close>

theorem limiter_keys_independent:
  "map snd (filter (\<lambda>(k, _). k = key) (limiter_run (new_rate_limiter c p) calls)) =
     (case map snd (filter (\<lambda>(k, _). k = key) calls) of
        [] \<Rightarrow> [] | t # ts \<Rightarrow> bucket_run (new_token_bucket c p t) (t # ts))"
proof -
  have "map snd (filter (\<lambda>(k, _). k = key) (limiter_run r calls)) =
     (case map snd (filter (\<lambda>(k, _). k = key) calls) of
        [] \<Rightarrow> [] | t # ts \<Rightarrow> bucket_run (new_token_bucket c p t) (t # ts))"
    if "rl_buckets r key = None" "rl_capacity r = c" "rl_perMinute r = p" for r
    using that
  proof (induction r calls rule: limiter_run.induct)
    case (1 r)
    show ?case by simp
  next
    case (2 r k now calls)
    obtain ok w r' where step: "limiter_allow r k now = (ok, w, r')" by (cases "limiter_allow r k now")
    show ?case
    proof (cases "k = key")
      case True
      obtain b' where b': "bucket_allow (new_token_bucket c p now) now = (ok, w, b')" "rl_buckets r' key = Some b'"
        using step True 2(2,3,4) by (auto simp: limiter_allow_def Let_def split: prod.splits)
      from limiter_run_key [OF b'(2), of calls] True step b'(1) show ?thesis by simp
    next
      case False
      then have "rl_buckets r' key = None" "rl_capacity r' = c" "rl_perMinute r' = p"
        using step 2(2,3,4) by (auto simp: limiter_allow_def Let_def split: prod.splits)
      from 2(1) [OF step [symmetric] refl this] False step show ?thesis by simp
    qed
  qed
  from this [of "new_rate_limiter c p"] show ?thesis by (simp add: new_rate_limiter_def)
qed

section \<open>The rate a bucket enforces, rounding included\<close>

abbreviation ulp :: rat where "ulp \<equiv> two_pow (- 53)"
abbreviation tiny :: rat where "tiny \<equiv> two_pow (- 1075)"

lemma ulp_succ_nonneg [simp]: "0 \<le> 1 + ulp"
  by (intro add_nonneg_nonneg less_imp_le [OF two_pow_pos]) simp

lemma fl64_up: assumes "0 \<le> x" shows "fl64 x \<le> x * (1 + ulp) + tiny"
proof -
  have "0 \<le> x * ulp" "0 \<le> tiny" using assms by (simp_all add: less_imp_le)
  then have "max (\<bar>x\<bar> * ulp) tiny \<le> x * ulp + tiny" using assms by simp
  then show ?thesis using fl64_err [of x] unfolding distrib_left by linarith
qed

lemma minutes_nonpos: "d \<le> 0 \<Longrightarrow> minutes d \<le> 0"
  unfolding minutes_def
  by (intro fl64_nonpos add_nonpos_nonpos divide_nonpos_pos)
     (auto simp: signed_divide_int_def signed_modulo_int_def minute_def second_def sgn_if)

lemma minutes_up:
  assumes "0 \<le> d" and "in_int64 d"
  shows "minutes d \<le> of_int d / of_int minute * (1 + ulp)\<^sup>2 + 3 * tiny"
proof -
  have min: "minute = 60000000000" by (simp add: minute_def second_def)
  define q where "q = d div minute"
  define s where "s = d mod minute"
  have qs: "d sdiv minute = q" "d smod minute = s"
    using assms(1) by (simp_all add: q_def s_def min sgn_if signed_divide_int_def signed_modulo_int_def)
  have s: "0 \<le> s" "s < minute" by (simp_all add: s_def min)
  have "q \<le> 9223372036854775807 div minute"
    using assms unfolding q_def by (intro zdiv_mono1) (simp_all add: min in_int64_def int64_max_def)
  then have q: "0 \<le> q" "q < 2 ^ 53"
    using assms by (simp_all add: q_def min)
  have d: "(of_int d :: rat) / of_int minute = of_int q + of_int s / of_int minute"
  proof -
    have "(of_int d :: rat) = of_int (minute * q + s)" by (simp add: q_def s_def)
    then show ?thesis by (simp add: min field_simps)
  qed
  define z where "z = (of_int s :: rat) / of_int minute"
  have z: "0 \<le> z" using s by (simp add: z_def min)
  have exact: "fl64 (of_int q) = of_int q" "fl64 (of_int s) = of_int s"
    using q s by (auto intro!: fl64_of_int simp: min)
  have t: "0 < tiny" and u: "0 < ulp" "ulp \<le> 1" by (simp, simp, simp add: two_pow_def)
  have "minutes d = fl64 (of_int q + fl64 z)" by (simp add: minutes_def qs exact z_def)
  also have "\<dots> \<le> (of_int q + fl64 z) * (1 + ulp) + tiny"
    using q fl64_nonneg [OF z] by (intro fl64_up) simp
  also have "\<dots> \<le> (of_int q + (z * (1 + ulp) + tiny)) * (1 + ulp) + tiny"
    using fl64_up [OF z] u by (intro add_right_mono mult_right_mono add_left_mono) auto
  also have "\<dots> \<le> (of_int q + z) * (1 + ulp)\<^sup>2 + 3 * tiny"
  proof -
    have "(of_int q :: rat) \<le> of_int q * (1 + ulp)" using q u by (simp add: mult_le_cancel_left1)
    then have "of_int q + (z * (1 + ulp) + tiny) \<le> (of_int q + z) * (1 + ulp) + tiny"
      by (simp add: algebra_simps)
    then have "(of_int q + (z * (1 + ulp) + tiny)) * (1 + ulp) \<le> ((of_int q + z) * (1 + ulp) + tiny) * (1 + ulp)"
      using u by (intro mult_right_mono) auto
    also have "\<dots> = (of_int q + z) * (1 + ulp)\<^sup>2 + tiny * (1 + ulp)"
      by (simp add: power2_eq_square algebra_simps)
    also have "tiny * (1 + ulp) \<le> 2 * tiny" using t u by simp
    finally show ?thesis by simp
  qed
  finally show ?thesis by (simp add: d z_def)
qed

definition bucket_ok :: "rat \<Rightarrow> rat \<Rightarrow> TokenBucket \<Rightarrow> bool" where
  "bucket_ok K r b = (tb_capacity b = K \<and> tb_perMinute b = r \<and> 0 \<le> tb_tokens b \<and> tb_tokens b \<le> K)"

lemma refill_product:
  assumes "0 < r" and "r \<le> 2 ^ 53" and "0 \<le> d" and "in_int64 d" and "0 \<le> minutes d"
  shows "fl64 (minutes d * r) \<le> r * (of_int d / of_int minute) * (1 + 4 * ulp) + ulp"
proof -
  define x where "x = (of_int d :: rat) / of_int minute"
  have x: "0 \<le> x" using assms(3) by (simp add: x_def minute_def second_def)
  have t: "0 < tiny" and u: "0 < ulp" "ulp \<le> 1 / 4" by (simp, simp, simp add: two_pow_def)
  have "fl64 (minutes d * r) \<le> minutes d * r * (1 + ulp) + tiny"
    using assms by (intro fl64_up) simp
  also have "\<dots> \<le> (x * (1 + ulp)\<^sup>2 + 3 * tiny) * r * (1 + ulp) + tiny"
    using minutes_up [OF assms(3,4)] assms(1) u unfolding x_def
    by (intro add_right_mono mult_right_mono) auto
  also have "\<dots> = r * x * ((1 + ulp)\<^sup>2 * (1 + ulp)) + (3 * r * (1 + ulp) + 1) * tiny"
    by (simp add: algebra_simps)
  also have "\<dots> \<le> r * x * (1 + 4 * ulp) + ulp"
  proof (rule add_mono)
    have "(1 + ulp)\<^sup>2 * (1 + ulp) \<le> 1 + 4 * ulp" by (simp add: two_pow_def power2_eq_square)
    then show "r * x * ((1 + ulp)\<^sup>2 * (1 + ulp)) \<le> r * x * (1 + 4 * ulp)"
      using x assms(1) by (intro mult_left_mono) auto
    have "3 * r * (1 + ulp) + 1 \<le> 3 * 2 ^ 53 * (1 + ulp) + 1"
      using assms(2) u by (intro add_right_mono mult_right_mono mult_left_mono) auto
    also have "\<dots> \<le> 2 ^ 55" by (simp add: two_pow_def)
    finally have "(3 * r * (1 + ulp) + 1) * tiny \<le> 2 ^ 55 * tiny" using t by (intro mult_right_mono less_imp_le [OF t]) auto
    also have "2 ^ 55 * tiny = two_pow (- 1020)" using two_pow_add_nat [of "- 1075" 55] by simp
    also have "\<dots> \<le> ulp" by (rule two_pow_mono) simp
    finally show "(3 * r * (1 + ulp) + 1) * tiny \<le> ulp" .
  qed
  finally show ?thesis by (simp add: x_def)
qed

lemma time_sub_bounds: "in_int64 (time_sub t u)" "0 < time_sub t u \<Longrightarrow> time_sub t u \<le> t - u \<and> u < t"
  by (auto simp: time_sub_def in_int64_def int64_min_def int64_max_def)

lemma minute_pos: "0 < (of_int minute :: rat)"
  by (simp add: minute_def second_def)

lemma refill_step:
  assumes "bucket_ok K r b" and "1 \<le> K" and "0 < r" and "r \<le> 2 ^ 53"
  shows "bucket_ok K r (bucket_refill b now) \<and> tb_lastRefill b \<le> tb_lastRefill (bucket_refill b now) \<and>
    tb_lastRefill (bucket_refill b now) \<le> max (tb_lastRefill b) now \<and>
    tb_tokens (bucket_refill b now) \<le> tb_tokens b +
      r * (of_int (tb_lastRefill (bucket_refill b now) - tb_lastRefill b) / of_int minute) * (1 + 4 * ulp) + 2 * K * ulp"
proof (cases "0 < minutes (time_sub now (tb_lastRefill b))")
  case False
  then show ?thesis using assms by (simp add: bucket_refill_def Let_def less_imp_le)
next
  case True
  define d where "d = time_sub now (tb_lastRefill b)"
  define x where "x = tb_tokens b + fl64 (minutes d * r)"
  have d: "0 < d" "in_int64 d" "d \<le> now - tb_lastRefill b" "tb_lastRefill b < now"
    using True minutes_nonpos [of d] time_sub_bounds [of now "tb_lastRefill b"]
    by (auto simp: d_def not_le [symmetric])
  have u: "0 < ulp" by simp
  have prod0: "0 \<le> fl64 (minutes d * r)" using True assms(3) by (intro fl64_nonneg) (simp add: d_def)
  have "of_int d / of_int minute \<le> (of_int (now - tb_lastRefill b) / of_int minute :: rat)"
    using d(3) minute_pos by (intro divide_right_mono) (auto simp: less_imp_le of_int_le_iff simp del: of_int_diff)
  then have "r * (of_int d / of_int minute) * (1 + 4 * ulp)
      \<le> r * (of_int (now - tb_lastRefill b) / of_int minute) * (1 + 4 * ulp)"
    using assms(3) u by (intro mult_right_mono mult_left_mono) (auto simp del: of_int_diff)
  with refill_product [OF assms(3,4), of d] d True
  have prod: "fl64 (minutes d * r) \<le> r * (of_int (now - tb_lastRefill b) / of_int minute) * (1 + 4 * ulp) + ulp"
    by (simp add: d_def)
  have x0: "0 \<le> x" using assms(1) prod0 by (simp add: x_def bucket_ok_def)
  have clamp: "min K (fl64 x) \<le> x + K * ulp"
  proof (cases "x \<le> K")
    case True
    have "K * ulp \<ge> ulp" using assms(2) u by simp
    moreover have "tiny \<le> ulp" by (rule two_pow_mono) simp
    ultimately have "tiny \<le> K * ulp" by linarith
    moreover have "x * ulp \<le> K * ulp" using True u by simp
    ultimately have "\<bar>fl64 x - x\<bar> \<le> K * ulp"
      using fl64_err [of x] x0 by (auto intro: order_trans simp del: mult_le_cancel_right)
    then show ?thesis by linarith
  next
    case False
    have "0 \<le> K * ulp" using assms(2) u by simp
    with False show ?thesis by linarith
  qed
  have b': "bucket_refill b now = b\<lparr>tb_tokens := min K (fl64 x), tb_lastRefill := now\<rparr>"
    using True assms(1) by (simp add: bucket_refill_def Let_def d_def x_def bucket_ok_def min_def not_less)
  have "ulp \<le> K * ulp" using assms(2) u by simp
  then have "min K (fl64 x) \<le> tb_tokens b +
      r * (of_int (now - tb_lastRefill b) / of_int minute) * (1 + 4 * ulp) + 2 * K * ulp"
    using clamp prod unfolding x_def by linarith
  then show ?thesis using assms(1,2) d(4) fl64_nonneg [OF x0] by (simp add: b' bucket_ok_def)
qed

lemma allow_step:
  assumes "bucket_ok K r b" and "1 \<le> K" and "0 < r" and "r \<le> 2 ^ 53" and "bucket_allow b now = (ok, w, b')" and "K \<le> 2 ^ 53"
  shows "bucket_ok K r b' \<and> tb_lastRefill b \<le> tb_lastRefill b' \<and> tb_lastRefill b' \<le> max (tb_lastRefill b) now \<and>
    (if ok then 1 else 0) + tb_tokens b' \<le> tb_tokens b +
      r * (of_int (tb_lastRefill b' - tb_lastRefill b) / of_int minute) * (1 + 4 * ulp) + 3 * K * ulp"
proof -
  note refill = refill_step [OF assms(1-4), of now]
  define t where "t = tb_tokens (bucket_refill b now)"
  have u: "0 < ulp" by simp
  then have Ku: "ulp \<le> K * ulp" using assms(2) by simp
  show ?thesis
  proof (cases "t < 1")
    case True
    then have "ok = False" "b' = bucket_refill b now"
      using assms(5) by (auto simp: bucket_allow_def Let_def t_def)
    moreover have "0 \<le> K * ulp" using Ku u by linarith
    ultimately show ?thesis using refill by auto
  next
    case False
    then have b': "ok = True" "b' = (bucket_refill b now)\<lparr>tb_tokens := fl64 (t - 1)\<rparr>"
      using assms(5) by (auto simp: bucket_allow_def Let_def t_def)
    have t: "0 \<le> t - 1" "t \<le> K" using False refill by (auto simp: t_def bucket_ok_def)
    have "tiny \<le> ulp" by (rule two_pow_mono) simp
    moreover have "(t - 1) * ulp \<le> (K - 1) * ulp" using t(2) u by (intro mult_right_mono) auto
    moreover have "(K - 1) * ulp = K * ulp - ulp" by (simp add: algebra_simps)
    moreover have "fl64 (t - 1) \<le> (t - 1) * (1 + ulp) + tiny" using t(1) by (rule fl64_up)
    moreover have "(t - 1) * (1 + ulp) = t - 1 + (t - 1) * ulp" by (simp add: algebra_simps)
    ultimately have up: "fl64 (t - 1) \<le> t - 1 + K * ulp" by linarith
    have "K * ulp \<le> 2 ^ 53 * ulp" using assms(6) u by simp
    also have "2 ^ 53 * ulp = 1" by (simp add: two_pow_def)
    finally have "fl64 (t - 1) \<le> K" using up t(2) by linarith
    moreover have "0 \<le> fl64 (t - 1)" using t(1) by (rule fl64_nonneg)
    ultimately show ?thesis using refill up b' by (auto simp: bucket_ok_def t_def)
  qed
qed

text \<open>The admitted requests of a sequence of calls, and the time up to which it has refilled.\<close>

lemma bucket_run_bound:
  assumes "bucket_ok K r b" and "1 \<le> K" and "0 < r" and "r \<le> 2 ^ 53" and "K \<le> 2 ^ 53"
    and "\<forall>t \<in> set ts. t \<le> upto_t" and "tb_lastRefill b \<le> upto_t"
  shows "of_nat (length (filter id (bucket_run b ts))) \<le> tb_tokens b +
    r * (of_int (upto_t - tb_lastRefill b) / of_int minute) * (1 + 4 * ulp) + of_nat (length ts) * (3 * K * ulp)"
  using assms(1,6,7)
proof (induction ts arbitrary: b)
  case Nil
  then have "0 \<le> r * (of_int (upto_t - tb_lastRefill b) / of_int minute) * (1 + 4 * ulp)"
    using assms(3) minute_pos by (intro mult_nonneg_nonneg divide_nonneg_pos) auto
  with Nil show ?case by (simp add: bucket_ok_def)
next
  case (Cons t ts)
  obtain ok w b' where step: "bucket_allow b t = (ok, w, b')" by (cases "bucket_allow b t")
  note one = allow_step [OF Cons.prems(1) assms(2-4) step assms(5)]
  define c where "c = r / of_int minute * (1 + 4 * ulp)"
  have scale: "r * (of_int m / of_int minute) * (1 + 4 * ulp) = c * of_int m" for m
    by (simp add: c_def)
  have "tb_lastRefill b' \<le> upto_t" using one Cons.prems by auto
  then have ih: "of_nat (length (filter id (bucket_run b' ts))) \<le> tb_tokens b' +
      c * of_int (upto_t - tb_lastRefill b') + of_nat (length ts) * (3 * K * ulp)"
    unfolding scale [symmetric] using one Cons.prems(2) by (intro Cons.IH) auto
  have now: "(if ok then 1 else 0) + tb_tokens b' \<le> tb_tokens b + c * of_int (tb_lastRefill b' - tb_lastRefill b) + 3 * K * ulp"
    using one by (simp only: scale)
  have "c * of_int (upto_t - tb_lastRefill b) = c * of_int (upto_t - tb_lastRefill b') + c * of_int (tb_lastRefill b' - tb_lastRefill b)"
    by (simp add: algebra_simps)
  moreover have "of_nat (length (filter id (bucket_run b (t # ts)))) =
      (if ok then 1 else 0) + (of_nat (length (filter id (bucket_run b' ts))) :: rat)" using step by simp
  moreover have "of_nat (length (t # ts)) * (3 * K * ulp) = of_nat (length ts) * (3 * K * ulp) + 3 * K * ulp"
    by (simp add: algebra_simps)
  ultimately show ?case using ih now unfolding scale by linarith
qed



text \<open>A burst at one instant: the bucket serves its capacity exactly, and then refuses.\<close>

lemma minutes_0 [simp]: "minutes 0 = 0"
  by (simp add: minutes_def)

lemma time_sub_self [simp]: "time_sub t t = 0"
  by (simp add: time_sub_def int64_min_def int64_max_def)

lemma allow_same_instant:
  assumes "tb_lastRefill b = now"
  shows "bucket_allow b now =
    (if tb_tokens b < 1
     then (False, to_int64 (fl64 (fl64 (fl64 (1 - tb_tokens b) / tb_perMinute b) * of_int minute)), b)
     else (True, Some 0, b\<lparr>tb_tokens := fl64 (tb_tokens b - 1)\<rparr>))"
  using assms by (simp add: bucket_allow_def bucket_refill_def)

lemma burst_run:
  "tb_lastRefill b = now \<Longrightarrow> tb_tokens b = of_nat k \<Longrightarrow> k < 2 ^ 53 \<Longrightarrow>
   bucket_run b (replicate n now) = replicate (min n k) True @ replicate (n - k) False"
proof (induction n arbitrary: b k)
  case 0
  then show ?case by simp
next
  case (Suc n)
  show ?case
  proof (cases k)
    case 0
    with Suc.prems have "bucket_allow b now = (False, to_int64 (fl64 (fl64 (fl64 1 / tb_perMinute b) * of_int minute)), b)"
      by (simp add: allow_same_instant)
    then show ?thesis using Suc.IH [of b 0] Suc.prems 0 by simp
  next
    case (Suc j)
    have "fl64 (of_int (int j)) = of_int (int j)"
      using Suc.prems(3) Suc by (intro fl64_of_int) simp
    then have "bucket_allow b now = (True, Some 0, b\<lparr>tb_tokens := of_nat j\<rparr>)"
      using Suc.prems Suc by (simp add: allow_same_instant)
    then show ?thesis using Suc.IH [of "b\<lparr>tb_tokens := of_nat j\<rparr>" j] Suc.prems Suc by simp
  qed
qed

text \<open>
  A new bucket of capacity \<open>k\<close> admits exactly the first \<open>k\<close> calls made at its creation instant
  and refuses all later calls at that instant: a key gets its whole budget, and no more, as a burst.
\<close>

theorem bucket_burst_exact:
  assumes "k < 2 ^ 53"
  shows "bucket_run (new_token_bucket (of_nat k) r now) (replicate n now) =
    replicate (min n k) True @ replicate (n - k) False"
  using burst_run [of "new_token_bucket (of_nat k) r now" now k n] assms by (simp add: new_token_bucket_def)

theorem bucket_burst_exact_witness:
  "bucket_run (new_token_bucket (of_nat 10) LoginIPPerMinute 5) (replicate 12 5) = replicate 10 True @ replicate 2 False"
  using bucket_burst_exact [of 10 LoginIPPerMinute 5 12] by simp

section \<open>The build concurrency gate\<close>

record BuildGate =
  bg_inFlight :: "string \<rightharpoonup> int"
  bg_limit :: int

definition new_build_gate :: "int \<Rightarrow> BuildGate" where
  "new_build_gate limit = \<lparr>bg_inFlight = Map.empty, bg_limit = limit\<rparr>"

definition build_try_acquire :: "BuildGate \<Rightarrow> string \<Rightarrow> bool \<times> duration \<times> BuildGate" where
  "build_try_acquire g orgID =
     (if bg_limit g \<le> count_of (bg_inFlight g) orgID then (False, BuildRetryAfter, g)
      else (True, 0, g\<lparr>bg_inFlight := (bg_inFlight g)(orgID \<mapsto> count_of (bg_inFlight g) orgID + 1)\<rparr>))"

definition build_release :: "BuildGate \<Rightarrow> string \<Rightarrow> BuildGate" where
  "build_release g orgID =
     (if 0 < count_of (bg_inFlight g) orgID
      then g\<lparr>bg_inFlight := (bg_inFlight g)(orgID \<mapsto> count_of (bg_inFlight g) orgID - 1)\<rparr>
      else g)"

definition conflict_error :: "string \<Rightarrow> string" where
  "conflict_error action = action @ '' conflicts with an in-flight operation''"

definition build_admit :: "BuildGate \<Rightarrow> string \<Rightarrow> bool \<times> BuildGate" where
  "build_admit g orgID = (case build_try_acquire g orgID of (ok, _, g') \<Rightarrow> (ok, g'))"

interpretation builds:
  slot_gate "\<lambda>g. \<forall>k. 0 \<le> count_of (bg_inFlight g) k" "\<lambda>g k. nat (count_of (bg_inFlight g) k)"
    "\<lambda>g. nat (bg_limit g)" build_admit build_release
  by unfold_locales
     (auto simp: build_admit_def build_try_acquire_def build_release_def nat_diff_distrib nat_add_distrib not_le
       intro: le_less_trans)

text \<open>
  C23: per organisation at most \<open>limit\<close> builds run at any time, in every interleaving of builds
  starting and finishing; a build is refused only while all slots of its own organisation are taken,
  and the free tier runs one build at a time.
\<close>

theorem build_gate_bounded:
  fixes ops :: "string gate_op list"
  defines "run \<equiv> \<lambda>limit. gate_run build_admit build_release ops (new_build_gate limit)"
  shows "count (snd (run limit)) org \<le> nat limit \<and>
    count (snd (run BuildConcurrencyFree)) org \<le> 1 \<and>
    (fst (build_try_acquire (fst (run limit)) org) \<longleftrightarrow> count (snd (run limit)) org < nat limit)"
proof -
  have fresh: "\<forall>k. 0 \<le> count_of (bg_inFlight (new_build_gate l)) k"
    "nat (count_of (bg_inFlight (new_build_gate l)) k) = 0" for k l
    by (simp_all add: new_build_gate_def)
  have slots: "nat (bg_limit (new_build_gate l)) = nat l" for l by (simp add: new_build_gate_def)
  have "fst (build_try_acquire g org) = fst (build_admit g org)" for g
    by (simp add: build_admit_def split: prod.split)
  then show ?thesis
    using builds.holders_bounded [OF fresh, of ops limit org, unfolded slots]
      builds.holders_bounded [OF fresh, of ops 1 org, unfolded slots]
      builds.refused_iff_full [OF fresh, of ops limit org, unfolded slots]
    by (simp add: run_def)
qed

end
