(* ===== verification/Go_Http.thy ===== *)
theory Go_Http
  imports Go_Strings
begin

text \<open>
  Requests and responses of \<^verbatim>\<open>net/http\<close> as far as the handlers use them. A request carries its
  method, path, headers (canonical names), query, path values and the bytes of its body, \<open>None\<close> when
  reading it fails. A handler is a function of the request and the state it may change; the response is
  what it wrote. The body of a response is kept structured: plain text of \<^verbatim>\<open>http.Error\<close>, a problem
  document, or a JSON value; its bytes are the business of the encoder, a parameter where they matter.
\<close>

datatype json =
    JNull
  | JBool bool
  | JInt int
  | JStr string
  | JArr "json list"
  | JObj "(string \<times> json) list"

datatype body =
    NoBody
  | Plain string
  | Problem int string string
  | Json json
  | Raw string

record http_request =
  rq_Method :: string
  rq_Path :: string
  rq_Headers :: "(string \<times> string) list"
  rq_Query :: "(string \<times> string) list"
  rq_PathValues :: "(string \<times> string) list"
  rq_Body :: "string option"

record http_response =
  hr_Status :: int
  hr_Headers :: "(string \<times> string) list"
  hr_Body :: body

text \<open>\<^verbatim>\<open>Header.Get\<close>, \<^verbatim>\<open>URL.Query().Get\<close> and \<^verbatim>\<open>PathValue\<close>: the empty string when absent.\<close>

definition lookup_or_empty :: "(string \<times> string) list \<Rightarrow> string \<Rightarrow> string" where
  "lookup_or_empty kvs k = (case map_of kvs k of None \<Rightarrow> [] | Some v \<Rightarrow> v)"

abbreviation header :: "http_request \<Rightarrow> string \<Rightarrow> string" where
  "header r k \<equiv> lookup_or_empty (rq_Headers r) k"

abbreviation query :: "http_request \<Rightarrow> string \<Rightarrow> string" where
  "query r k \<equiv> lookup_or_empty (rq_Query r) k"

abbreviation path_value :: "http_request \<Rightarrow> string \<Rightarrow> string" where
  "path_value r k \<equiv> lookup_or_empty (rq_PathValues r) k"

text \<open>\<^verbatim>\<open>http.Error\<close>: plain text followed by a newline.\<close>

definition http_error :: "string \<Rightarrow> int \<Rightarrow> http_response" where
  "http_error msg status =
     \<lparr>hr_Status = status,
      hr_Headers = [(''Content-Type'', ''text/plain; charset=utf-8''), (''X-Content-Type-Options'', ''nosniff'')],
      hr_Body = Plain (msg @ [CHR 0x0A])\<rparr>"

definition bare_status :: "int \<Rightarrow> http_response" where
  "bare_status status = \<lparr>hr_Status = status, hr_Headers = [], hr_Body = NoBody\<rparr>"

text \<open>\<^verbatim>\<open>io.LimitReader\<close> delivers at most \<open>n\<close> bytes; \<^verbatim>\<open>io.ReadAll\<close> of it fails when reading fails.\<close>

definition limited_body :: "nat \<Rightarrow> http_request \<Rightarrow> string option" where
  "limited_body n r = map_option (take n) (rq_Body r)"

text \<open>Lower-case hexadecimal of bytes (\<^verbatim>\<open>encoding/hex\<close>).\<close>

definition hex_digit :: "nat \<Rightarrow> char" where
  "hex_digit n = ''0123456789abcdef'' ! n"

definition hex_encode :: "string \<Rightarrow> string" where
  "hex_encode bs = concat (map (\<lambda>c. [hex_digit (of_char c div 16), hex_digit (of_char c mod 16)]) bs)"

text \<open>\<^verbatim>\<open>url.QueryEscape\<close> and \<^verbatim>\<open>Values.Encode\<close>, keys sorted.\<close>

definition unreserved :: "char \<Rightarrow> bool" where
  "unreserved c =
     ((CHR ''a'' \<le> c \<and> c \<le> CHR ''z'') \<or> (CHR ''A'' \<le> c \<and> c \<le> CHR ''Z'') \<or> (CHR ''0'' \<le> c \<and> c \<le> CHR ''9'') \<or>
      c \<in> {CHR ''-'', CHR ''_'', CHR ''.'', CHR 0x7E})"

definition upper_hex :: "nat \<Rightarrow> char" where
  "upper_hex n = (''0123456789ABCDEF'' ! n)"

definition query_escape :: "string \<Rightarrow> string" where
  "query_escape s = concat (map (\<lambda>c.
     if unreserved c then [c]
     else if c = CHR '' '' then ''+''
     else [CHR ''%'', upper_hex (of_char c div 16), upper_hex (of_char c mod 16)]) s)"

definition encode_values :: "(string \<times> string) list \<Rightarrow> string" where
  "encode_values kvs = join ''&'' (map (\<lambda>(k, v). query_escape k @ ''='' @ query_escape v) (sort_key fst kvs))"

text \<open>An HTTP client: a request is accepted or not, and answered with a status and a body, \<open>None\<close> when
  reading it fails, or not at all.\<close>

record 's wire =
  wi_accepts :: "string \<Rightarrow> bool"
  wi_send :: "string \<Rightarrow> string \<Rightarrow> (string \<times> string) list \<Rightarrow> body \<Rightarrow> 's \<Rightarrow> (int \<times> string option) option \<times> 's"

end
