(* ===== verification/Previews.thy ===== *)
theory Previews
  imports Go_Http Go_Numbers Contracts
begin

text \<open>
  Preview deployments driven by GitHub webhooks: \<^verbatim>\<open>previews/webhook.go\<close> and \<^verbatim>\<open>previews/commenter.go\<close>.
  HMAC-SHA256 and JSON decoding are parameters; the hooks are functions on the state \<open>'w\<close> of the
  platform around the handler, \<open>None\<close> when the field is nil.
\<close>

section \<open>Names and decisions\<close>

abbreviation (input) EnvPrefix :: string where "EnvPrefix \<equiv> ''preview-pr-''"
abbreviation (input) maxPayloadBytes :: nat where "maxPayloadBytes \<equiv> 1048576"

definition preview_env_name :: "int \<Rightarrow> string" where
  "preview_env_name prNumber = EnvPrefix @ itoa prNumber"

datatype pr_action = ActionOpen | ActionClose | ActionIgnore

definition decide_pr_action :: "string \<Rightarrow> bool \<Rightarrow> pr_action" where
  "decide_pr_action action merged =
     (if action = ''opened'' \<or> action = ''reopened'' then ActionOpen
      else if action = ''closed'' then ActionClose
      else ActionIgnore)"

text \<open>\<open>hmac secret payload\<close> is the raw tag; comparing in constant time is comparing.\<close>

definition verify_signature :: "(string \<Rightarrow> string \<Rightarrow> string) \<Rightarrow> string \<Rightarrow> string \<Rightarrow> string \<Rightarrow> bool" where
  "verify_signature hmac secret payload sigHeader =
     (if \<not> has_prefix sigHeader ''sha256='' then False
      else ''sha256='' @ hex_encode (hmac secret payload) = sigHeader)"

section \<open>The replay guard\<close>

record ReplayGuard =
  rg_seen :: "string \<rightharpoonup> time"
  rg_ttl :: duration

definition new_replay_guard :: "duration \<Rightarrow> ReplayGuard" where
  "new_replay_guard ttl = \<lparr>rg_seen = Map.empty, rg_ttl = ttl\<rparr>"

text \<open>The loop deletes each expired entry; the order in which it visits them does not matter.\<close>

definition prune_seen :: "ReplayGuard \<Rightarrow> time \<Rightarrow> (string \<rightharpoonup> time)" where
  "prune_seen g now = (\<lambda>i. case rg_seen g i of
      None \<Rightarrow> None
    | Some ts \<Rightarrow> if rg_ttl g < time_sub now ts then None else Some ts)"

definition guard_allow :: "ReplayGuard \<Rightarrow> string \<Rightarrow> time \<Rightarrow> bool \<times> ReplayGuard" where
  "guard_allow g delivery now =
     (if delivery = [] then (False, g)
      else
        let seen = prune_seen g now in
        if seen delivery \<noteq> None then (False, g\<lparr>rg_seen := seen\<rparr>)
        else (True, g\<lparr>rg_seen := seen(delivery \<mapsto> now)\<rparr>))"

definition guard_live :: "ReplayGuard \<Rightarrow> string \<Rightarrow> time \<Rightarrow> bool" where
  "guard_live g delivery now = (\<exists>ts. rg_seen g delivery = Some ts \<and> \<not> rg_ttl g < time_sub now ts)"

lemma time_sub_mono: "t \<le> t' \<Longrightarrow> time_sub t u \<le> time_sub t' u"
  by (auto simp: time_sub_def)

text \<open>The window that counts is the part of the ttl a saturating difference can measure.\<close>

interpretation replay: once_guard guard_live guard_allow "\<lambda>g. min (rg_ttl g) int64_max"
proof
  fix g :: ReplayGuard and d e :: string and t t' :: time
  show "guard_live g d t \<Longrightarrow> \<not> fst (guard_allow g d t)"
    by (auto simp: guard_live_def guard_allow_def prune_seen_def Let_def)
  show "guard_live (snd (guard_allow g d t)) d t'"
    if "fst (guard_allow g d t)" "t \<le> t'" "t' < t + min (rg_ttl g) int64_max"
    using that by (auto simp: guard_live_def guard_allow_def Let_def time_sub_def int64_min_def int64_max_def split: if_splits)
  show "guard_live (snd (guard_allow g e t)) d t'" if live: "guard_live g d t'" and le: "t \<le> t'"
  proof -
    obtain ts where ts: "rg_seen g d = Some ts" "\<not> rg_ttl g < time_sub t' ts"
      using live by (auto simp: guard_live_def)
    then have "\<not> rg_ttl g < time_sub t ts" using time_sub_mono [OF le, of ts] by simp
    with ts show ?thesis by (auto simp: guard_live_def guard_allow_def prune_seen_def Let_def)
  qed
  show "min (rg_ttl (snd (guard_allow g d t))) int64_max = min (rg_ttl g) int64_max"
    by (simp add: guard_allow_def Let_def)
qed

section \<open>The webhook handler\<close>

record pr_payload =
  pp_Action :: string
  pp_Number :: int
  pp_Merged :: "bool option"  \<comment> \<open>\<open>pull_request.merged\<close>, \<open>None\<close> for a nil \<open>pull_request\<close>\<close>

record 'w Hooks =
  hk_OnOpen :: "(int \<Rightarrow> 'w \<Rightarrow> bool \<times> 'w) option"
  hk_OnClose :: "(int \<Rightarrow> 'w \<Rightarrow> bool \<times> 'w) option"

text \<open>A hook returns whether it succeeded.\<close>

definition run_hook :: "(int \<Rightarrow> 'w \<Rightarrow> bool \<times> 'w) option \<Rightarrow> int \<Rightarrow> string \<Rightarrow> 'w \<Rightarrow> http_response \<times> 'w" where
  "run_hook hook number failure w =
     (case hook of
        None \<Rightarrow> (bare_status 202, w)
      | Some h \<Rightarrow> (case h number w of (ok, w') \<Rightarrow>
          if \<not> ok then (http_error failure 500, w') else (bare_status 202, w')))"

definition serve_webhook ::
  "(string \<Rightarrow> string \<Rightarrow> string) \<Rightarrow> (string \<Rightarrow> pr_payload option) \<Rightarrow> string \<Rightarrow> 'w Hooks \<Rightarrow>
   time \<Rightarrow> http_request \<Rightarrow> ReplayGuard \<times> 'w \<Rightarrow> http_response \<times> ReplayGuard \<times> 'w" where
  "serve_webhook hmac decode secret hooks now r st =
     (case st of (g, w) \<Rightarrow>
      case limited_body maxPayloadBytes r of
        None \<Rightarrow> (http_error ''read body'' 400, g, w)
      | Some body \<Rightarrow>
        if \<not> verify_signature hmac secret body (header r ''X-Hub-Signature-256'')
        then (http_error ''invalid signature'' 401, g, w)
        else (case guard_allow g (header r ''X-GitHub-Delivery'') now of (fresh, g') \<Rightarrow>
          if \<not> fresh then (http_error ''replayed delivery'' 409, g', w)
          else (case decode body of
              None \<Rightarrow> (http_error ''unsupported payload'' 400, g', w)
            | Some p \<Rightarrow>
              (case pp_Merged p of
                 None \<Rightarrow> (http_error ''unsupported payload'' 400, g', w)
               | Some merged \<Rightarrow>
                 if pp_Number p \<le> 0 then (http_error ''unsupported payload'' 400, g', w)
                 else (case decide_pr_action (pp_Action p) merged of
                     ActionOpen \<Rightarrow>
                       (case run_hook (hk_OnOpen hooks) (pp_Number p) ''preview create failed'' w of
                          (resp, w') \<Rightarrow> (resp, g', w'))
                   | ActionClose \<Rightarrow>
                       (case run_hook (hk_OnClose hooks) (pp_Number p) ''preview teardown failed'' w of
                          (resp, w') \<Rightarrow> (resp, g', w'))
                   | ActionIgnore \<Rightarrow> (bare_status 202, g', w))))))"

text \<open>A sequence of deliveries.\<close>

fun serve_all ::
  "(string \<Rightarrow> string \<Rightarrow> string) \<Rightarrow> (string \<Rightarrow> pr_payload option) \<Rightarrow> string \<Rightarrow> 'w Hooks \<Rightarrow>
   (http_request \<times> time) list \<Rightarrow> ReplayGuard \<times> 'w \<Rightarrow> http_response list \<times> ReplayGuard \<times> 'w" where
  "serve_all hmac decode secret hooks [] st = ([], st)"
| "serve_all hmac decode secret hooks ((r, now) # rs) st =
     (case serve_webhook hmac decode secret hooks now r st of (resp, st') \<Rightarrow>
      case serve_all hmac decode secret hooks rs st' of (resps, st'') \<Rightarrow> (resp # resps, st''))"

section \<open>The comment on the pull request\<close>

record GHCommenter =
  gh_BaseURL :: string
  gh_Token :: string

record comment_request =
  cr_Method :: string
  cr_URL :: string
  cr_Body :: json
  cr_Headers :: "(string \<times> string) list"

datatype comment_error = BuildRequest | ErrGHTransport | ErrGHStatus int

definition comment_request_for :: "GHCommenter \<Rightarrow> string \<Rightarrow> int \<Rightarrow> string \<Rightarrow> comment_request" where
  "comment_request_for c repo prNumber previewURL =
     (let base = (if gh_BaseURL c = [] then ''https://api.github.com'' else gh_BaseURL c) in
      \<lparr>cr_Method = ''POST'',
       cr_URL = base @ ''/repos/'' @ repo @ ''/issues/'' @ itoa prNumber @ ''/comments'',
       cr_Body = JObj [(''body'', JStr ('':rocket: preview ready: '' @ previewURL @ '' (env `'' @ preview_env_name prNumber @ ''`)''))],
       cr_Headers = [(''Authorization'', ''Bearer '' @ gh_Token c), (''Accept'', ''application/vnd.github+json'')]\<rparr>)"

text \<open>\<open>valid_url\<close> is the parse check of \<^verbatim>\<open>http.NewRequestWithContext\<close>, \<open>send\<close> the HTTP client: the status
  of the response, or \<open>None\<close> on a transport failure. Marshalling a map of strings does not fail.\<close>

definition post_preview_url ::
  "(string \<Rightarrow> bool) \<Rightarrow> (comment_request \<Rightarrow> int option) \<Rightarrow> GHCommenter \<Rightarrow> string \<Rightarrow> int \<Rightarrow> string \<Rightarrow> comment_error + unit" where
  "post_preview_url valid_url send c repo prNumber previewURL =
     (let req = comment_request_for c repo prNumber previewURL in
      if \<not> valid_url (cr_URL req) then Inl BuildRequest
      else case send req of
        None \<Rightarrow> Inl ErrGHTransport
      | Some status \<Rightarrow> if 300 \<le> status then Inl (ErrGHStatus status) else Inr ())"

lemma run_hook_effect:
  "run_hook hook n f w = (resp, w') \<Longrightarrow> w' \<noteq> w \<Longrightarrow>
   \<exists>h ok. hook = Some h \<and> h n w = (ok, w') \<and> hr_Status resp = (if ok then 202 else 500)"
proof (cases hook)
  case None
  then show "run_hook hook n f w = (resp, w') \<Longrightarrow> w' \<noteq> w \<Longrightarrow> ?thesis" by (simp add: run_hook_def)
next
  case (Some h)
  obtain ok w1 where "h n w = (ok, w1)" by (cases "h n w")
  with Some show "run_hook hook n f w = (resp, w') \<Longrightarrow> w' \<noteq> w \<Longrightarrow> ?thesis"
    by (auto simp: run_hook_def http_error_def bare_status_def split: if_splits)
qed

section \<open>Only signed, fresh deliveries have an effect, and at most once\<close>

definition signed :: "(string \<Rightarrow> string \<Rightarrow> string) \<Rightarrow> string \<Rightarrow> http_request \<Rightarrow> bool" where
  "signed hmac secret r =
     (case limited_body maxPayloadBytes r of None \<Rightarrow> False
      | Some body \<Rightarrow> verify_signature hmac secret body (header r ''X-Hub-Signature-256''))"

definition delivery_of :: "http_request \<times> time \<Rightarrow> string \<times> time" where
  "delivery_of c = (header (fst c) ''X-GitHub-Delivery'', snd c)"

lemma serve_webhook_unsigned:
  "\<not> signed hmac secret r \<Longrightarrow>
   snd (serve_webhook hmac decode secret hooks now r st) = st \<and>
   hr_Status (fst (serve_webhook hmac decode secret hooks now r st)) \<in> {400, 401}"
  by (cases st) (auto simp: serve_webhook_def signed_def http_error_def split: option.splits)

lemma serve_webhook_guard:
  "signed hmac secret r \<Longrightarrow>
   fst (snd (serve_webhook hmac decode secret hooks now r (g, w))) = snd (guard_allow g (header r ''X-GitHub-Delivery'') now)"
  by (cases "guard_allow g (header r ''X-GitHub-Delivery'') now")
     (auto simp: serve_webhook_def signed_def split: option.splits prod.splits pr_action.splits)

lemma serve_webhook_stale:
  "signed hmac secret r \<Longrightarrow> \<not> fst (guard_allow g (header r ''X-GitHub-Delivery'') now) \<Longrightarrow>
   hr_Status (fst (serve_webhook hmac decode secret hooks now r (g, w))) = 409 \<and>
   snd (snd (serve_webhook hmac decode secret hooks now r (g, w))) = w"
  by (cases "guard_allow g (header r ''X-GitHub-Delivery'') now")
     (auto simp: serve_webhook_def signed_def http_error_def split: option.splits)

text \<open>Deliveries answered as accepted or as a failed hook: those whose hook may have run.\<close>

definition acted :: "http_response \<Rightarrow> bool" where
  "acted resp = (hr_Status resp \<in> {202, 500})"

lemma acted_admitted:
  "subseq (map (delivery_of \<circ> fst) (filter (acted \<circ> snd) (zip rs (fst (serve_all hmac decode secret hooks rs (g, w))))))
     (admitted guard_allow g (map delivery_of (filter (\<lambda>(r, _). signed hmac secret r) rs)))"
proof (induction rs arbitrary: g w)
  case Nil
  show ?case by simp
next
  case (Cons c rs)
  obtain r now where c: "c = (r, now)" by (cases c)
  obtain resp g' w' where step: "serve_webhook hmac decode secret hooks now r (g, w) = (resp, g', w')"
    by (metis prod_cases3)
  obtain resps st'' where rest: "serve_all hmac decode secret hooks rs (g', w') = (resps, st'')"
    by (cases "serve_all hmac decode secret hooks rs (g', w')")
  note IH = Cons.IH [of g' w', unfolded rest fst_conv]
  show ?case
  proof (cases "signed hmac secret r")
    case False
    then have "g' = g" "\<not> acted resp"
      using serve_webhook_unsigned [of hmac secret r decode hooks now "(g, w)"] step by (auto simp: acted_def)
    then show ?thesis using IH False c step rest by simp
  next
    case True
    obtain ok where allow: "guard_allow g (header r ''X-GitHub-Delivery'') now = (ok, g')"
      using serve_webhook_guard [OF True, of decode hooks now g w] step
      by (cases "guard_allow g (header r ''X-GitHub-Delivery'') now") auto
    have "\<not> acted resp" if "\<not> ok"
      using serve_webhook_stale [OF True, of g now decode hooks w] allow step that by (auto simp: acted_def)
    then show ?thesis using IH True c step rest allow
      by (auto simp: delivery_of_def intro: list_emb_Cons)
  qed
qed

text \<open>
  C16: a delivery is acted on at most once per replay window. In any sequence of requests arriving in
  time order, two requests with the same delivery id that both got past the guard (whether their
  hook succeeded or failed) are at least the guard's ttl apart.
\<close>

theorem delivery_acted_once:
  assumes "sorted (map snd rs)"
  shows "sorted_wrt (\<lambda>(d, t) (d', t'). d = d' \<longrightarrow> t + min ttl int64_max \<le> t')
     (map (delivery_of \<circ> fst)
       (filter (acted \<circ> snd) (zip rs (fst (serve_all hmac decode secret hooks rs (new_replay_guard ttl, w))))))"
proof -
  have "sorted (map snd (map delivery_of (filter (\<lambda>(r, _). signed hmac secret r) rs)))"
    using assms by (simp add: delivery_of_def comp_def case_prod_unfold sorted_filter)
  from replay.admitted_spaced [OF this, of "new_replay_guard ttl"]
  show ?thesis
    using acted_admitted [of rs hmac decode secret hooks "new_replay_guard ttl" w]
    by (auto simp: new_replay_guard_def intro: sorted_wrt_subseq)
qed

text \<open>An admitted request acts through the hook its payload decides on.\<close>

lemma hooked:
  assumes "(case decide_pr_action act merged of
      ActionOpen \<Rightarrow> (case run_hook (hk_OnOpen hooks) n m1 w of (resp, w') \<Rightarrow> (resp, g, w'))
    | ActionClose \<Rightarrow> (case run_hook (hk_OnClose hooks) n m2 w of (resp, w') \<Rightarrow> (resp, g, w'))
    | ActionIgnore \<Rightarrow> (bare_status 202, g, w)) = (resp, g', w')" and "w' \<noteq> w"
  obtains h ok where "act \<in> {''opened'', ''reopened''} \<and> hk_OnOpen hooks = Some h \<or> act = ''closed'' \<and> hk_OnClose hooks = Some h"
    "h n w = (ok, w')" "hr_Status resp = (if ok then 202 else 500)"
proof (cases "decide_pr_action act merged")
  case ActionOpen
  then have "act \<in> {''opened'', ''reopened''}" by (simp add: decide_pr_action_def split: if_splits)
  moreover have "run_hook (hk_OnOpen hooks) n m1 w = (resp, w')" using assms(1) ActionOpen by (simp split: prod.splits)
  from run_hook_effect [OF this assms(2)] obtain h ok where "hk_OnOpen hooks = Some h" "h n w = (ok, w')" "hr_Status resp = (if ok then 202 else 500)"
    by blast
  ultimately show thesis by (intro that [of h ok]) simp_all
next
  case ActionClose
  then have "act = ''closed''" by (simp add: decide_pr_action_def split: if_splits)
  moreover have "run_hook (hk_OnClose hooks) n m2 w = (resp, w')" using assms(1) ActionClose by (simp split: prod.splits)
  from run_hook_effect [OF this assms(2)] obtain h ok where "hk_OnClose hooks = Some h" "h n w = (ok, w')" "hr_Status resp = (if ok then 202 else 500)"
    by blast
  ultimately show thesis by (intro that [of h ok]) simp_all
next
  case ActionIgnore
  then show thesis using assms by simp
qed

lemma admitted_payload:
  assumes run: "serve_webhook hmac decode secret hooks now r (g, w) = (resp, g', w')" "w' \<noteq> w"
    and body: "limited_body maxPayloadBytes r = Some body" "verify_signature hmac secret body (header r ''X-Hub-Signature-256'')"
    and fresh: "fst (guard_allow g (header r ''X-GitHub-Delivery'') now)"
  obtains p merged h ok where "decode body = Some p" "pp_Merged p = Some merged" "0 < pp_Number p"
    "pp_Action p \<in> {''opened'', ''reopened''} \<and> hk_OnOpen hooks = Some h \<or> pp_Action p = ''closed'' \<and> hk_OnClose hooks = Some h"
    "h (pp_Number p) w = (ok, w')" "hr_Status resp = (if ok then 202 else 500)"
proof -
  obtain gg where allow: "guard_allow g (header r ''X-GitHub-Delivery'') now = (True, gg)"
    using fresh by (cases "guard_allow g (header r ''X-GitHub-Delivery'') now") simp
  have served: "(case decode body of
        None \<Rightarrow> (http_error ''unsupported payload'' 400, gg, w)
      | Some p \<Rightarrow>
          (case pp_Merged p of
             None \<Rightarrow> (http_error ''unsupported payload'' 400, gg, w)
           | Some merged \<Rightarrow>
               if pp_Number p \<le> 0 then (http_error ''unsupported payload'' 400, gg, w)
               else (case decide_pr_action (pp_Action p) merged of
                  ActionOpen \<Rightarrow> (case run_hook (hk_OnOpen hooks) (pp_Number p) ''preview create failed'' w of (resp, w') \<Rightarrow> (resp, gg, w'))
                | ActionClose \<Rightarrow> (case run_hook (hk_OnClose hooks) (pp_Number p) ''preview teardown failed'' w of (resp, w') \<Rightarrow> (resp, gg, w'))
                | ActionIgnore \<Rightarrow> (bare_status 202, gg, w)))) = (resp, g', w')"
    using run(1) body allow by (simp add: serve_webhook_def)
  from served run(2) obtain p where p: "decode body = Some p" by (cases "decode body") auto
  from served run(2) p obtain merged where m: "pp_Merged p = Some merged" by (cases "pp_Merged p") auto
  from served run(2) p m have n: "0 < pp_Number p" by (auto split: if_splits)
  show thesis
  proof (rule hooked [where act = "pp_Action p" and merged = merged and n = "pp_Number p", OF _ run(2)])
    show "(case decide_pr_action (pp_Action p) merged of
        ActionOpen \<Rightarrow> (case run_hook (hk_OnOpen hooks) (pp_Number p) ''preview create failed'' w of (resp, w') \<Rightarrow> (resp, gg, w'))
      | ActionClose \<Rightarrow> (case run_hook (hk_OnClose hooks) (pp_Number p) ''preview teardown failed'' w of (resp, w') \<Rightarrow> (resp, gg, w'))
      | ActionIgnore \<Rightarrow> (bare_status 202, gg, w)) = (resp, g', w')"
      using served p m n by simp
  qed (rule that [OF p m n])
qed

text \<open>
  C15: a request changes the platform only when its body carries a valid signature, its delivery id is
  not empty and not remembered, and its payload is a pull request with a positive number that opens or closes;
  it then runs exactly the hook for that action with that number.
\<close>

theorem webhook_effect:
  assumes "serve_webhook hmac decode secret hooks now r (g, w) = (resp, g', w')" and "w' \<noteq> w"
  shows "signed hmac secret r \<and> header r ''X-GitHub-Delivery'' \<noteq> [] \<and>
    \<not> guard_live g (header r ''X-GitHub-Delivery'') now \<and>
    (\<exists>p merged h ok. decode (take maxPayloadBytes (the (rq_Body r))) = Some p \<and> pp_Merged p = Some merged \<and> 0 < pp_Number p \<and>
       ((pp_Action p \<in> {''opened'', ''reopened''} \<and> hk_OnOpen hooks = Some h) \<or>
        (pp_Action p = ''closed'' \<and> hk_OnClose hooks = Some h)) \<and>
       h (pp_Number p) w = (ok, w') \<and> hr_Status resp = (if ok then 202 else 500))"
proof -
  have sgn: "signed hmac secret r"
    using serve_webhook_unsigned [of hmac secret r decode hooks now "(g, w)"] assms by auto
  have fresh: "fst (guard_allow g (header r ''X-GitHub-Delivery'') now)"
    using serve_webhook_stale [OF sgn, of g now decode hooks w] assms by auto
  then have "header r ''X-GitHub-Delivery'' \<noteq> []" by (auto simp: guard_allow_def)
  moreover have "\<not> guard_live g (header r ''X-GitHub-Delivery'') now"
    using fresh replay.refuses_live by blast
  moreover obtain body where body: "limited_body maxPayloadBytes r = Some body"
    "verify_signature hmac secret body (header r ''X-Hub-Signature-256'')"
    using sgn by (auto simp: signed_def split: option.splits)
  moreover have "body = take maxPayloadBytes (the (rq_Body r))" using body(1) by (auto simp: limited_body_def)
  moreover obtain p merged h ok where "decode body = Some p" "pp_Merged p = Some merged" "0 < pp_Number p"
    "pp_Action p \<in> {''opened'', ''reopened''} \<and> hk_OnOpen hooks = Some h \<or> pp_Action p = ''closed'' \<and> hk_OnClose hooks = Some h"
    "h (pp_Number p) w = (ok, w')" "hr_Status resp = (if ok then 202 else 500)"
    by (rule admitted_payload [OF assms body fresh])
  ultimately show ?thesis using sgn by (intro conjI exI [of _ p] exI [of _ merged] exI [of _ h] exI [of _ ok]) simp_all
qed

definition sample_delivery :: "string \<Rightarrow> http_request" where
  "sample_delivery d = \<lparr>rq_Method = ''POST'', rq_Path = ''/v1/webhooks/github'',
     rq_Headers = [(''X-Hub-Signature-256'', ''sha256=''), (''X-GitHub-Delivery'', d)],
     rq_Query = [], rq_PathValues = [], rq_Body = Some ''{}''\<rparr>"

definition sample_payload :: "string \<Rightarrow> pr_payload option" where
  "sample_payload _ = Some \<lparr>pp_Action = ''opened'', pp_Number = 7, pp_Merged = Some False\<rparr>"

definition sample_hooks :: "int list Hooks" where
  "sample_hooks = \<lparr>hk_OnOpen = Some (\<lambda>n w. (False, w @ [n])), hk_OnClose = None\<rparr>"

lemma sample_delivery_run:
  "serve_webhook (\<lambda>_ _. []) sample_payload ''s'' sample_hooks 0 (sample_delivery ''d1'') (new_replay_guard 60, []) =
   (http_error ''preview create failed'' 500, \<lparr>rg_seen = [''d1'' \<mapsto> 0], rg_ttl = 60\<rparr>, [7])"
  by (simp add: serve_webhook_def limited_body_def sample_delivery_def sample_payload_def sample_hooks_def
      verify_signature_def has_prefix_def hex_encode_def lookup_or_empty_def guard_allow_def prune_seen_def
      new_replay_guard_def decide_pr_action_def run_hook_def fun_eq_iff Let_def)

theorem webhook_effect_witness:
  "signed (\<lambda>_ _. []) ''s'' (sample_delivery ''d1'') \<and>
   \<not> guard_live (new_replay_guard 60) (header (sample_delivery ''d1'') ''X-GitHub-Delivery'') 0"
  using webhook_effect [OF sample_delivery_run list.distinct(2)] by blast

theorem delivery_acted_once_witness:
  "map (delivery_of \<circ> fst)
     (filter (acted \<circ> snd) (zip [(sample_delivery ''d1'', 0), (sample_delivery ''d1'', 5)]
        (fst (serve_all (\<lambda>_ _. []) sample_payload ''s'' sample_hooks
           [(sample_delivery ''d1'', 0), (sample_delivery ''d1'', 5)] (new_replay_guard 60, []))))) \<noteq>
   [(''d1'', 0), (''d1'', 5)]"
proof
  assume both: "map (delivery_of \<circ> fst)
     (filter (acted \<circ> snd) (zip [(sample_delivery ''d1'', 0), (sample_delivery ''d1'', 5)]
        (fst (serve_all (\<lambda>_ _. []) sample_payload ''s'' sample_hooks
           [(sample_delivery ''d1'', 0), (sample_delivery ''d1'', 5)] (new_replay_guard 60, []))))) =
   [(''d1'', 0), (''d1'', 5)]"
  have "sorted (map snd [(sample_delivery ''d1'', 0), (sample_delivery ''d1'', 5 :: int)])" by simp
  from delivery_acted_once [OF this, of 60 "\<lambda>_ _. []" sample_payload "''s''" sample_hooks "[]"]
  have "sorted_wrt (\<lambda>(d, t) (d', t'). d = d' \<longrightarrow> t + min 60 int64_max \<le> t') [(''d1'', 0), (''d1'', 5)]"
    unfolding both .
  then show False by (simp add: int64_max_def)
qed

text \<open>
  The guard records a delivery before its hook runs: a delivery whose hook failed is answered 500,
  and its redelivery within the window is refused as a replay without running the hook again.
\<close>

lemma failed_delivery_not_retried:
  assumes "serve_webhook hmac decode secret hooks now r (g, w) = (resp, g', w')" and "hr_Status resp = 500"
    and "now \<le> later" and "later < now + min (rg_ttl g) int64_max"
  shows "hr_Status (fst (serve_webhook hmac decode secret hooks later r (g', w'))) = 409 \<and>
    snd (snd (serve_webhook hmac decode secret hooks later r (g', w'))) = w'"
proof -
  have sgn: "signed hmac secret r"
    using serve_webhook_unsigned [of hmac secret r decode hooks now "(g, w)"] assms(1,2) by auto
  have fresh: "fst (guard_allow g (header r ''X-GitHub-Delivery'') now)"
    using serve_webhook_stale [OF sgn, of g now decode hooks w] assms(1,2) by auto
  have "g' = snd (guard_allow g (header r ''X-GitHub-Delivery'') now)"
    using serve_webhook_guard [OF sgn, of decode hooks now g w] assms(1) by simp
  then have "guard_live g' (header r ''X-GitHub-Delivery'') later"
    using replay.admit_live [OF fresh assms(3,4)] by simp
  then have "\<not> fst (guard_allow g' (header r ''X-GitHub-Delivery'') later)" by (rule replay.refuses_live)
  then show ?thesis by (rule serve_webhook_stale [OF sgn])
qed

end
