(* ===== verification/Repair.thy ===== *)
theory Repair
  imports Go_Numbers
begin

text \<open>
  The auto-repair loop and the security-event schema: \<^verbatim>\<open>repair/repair.go\<close> and
  \<^verbatim>\<open>securityevent/event.go\<close>. The patch source, the auditor and the apply-and-verify step are interfaces
  of the loop: parameters, each a function on the state \<open>'w\<close> of the world around it. The \<^verbatim>\<open>for\<close> loop has
  no bound of its own and is a \<open>partial_function\<close>; that it returns is proved.
\<close>

section \<open>The repair loop\<close>

abbreviation (input) MaxAttempts :: int where "MaxAttempts \<equiv> 3"

datatype 'e repair_error =
    AttemptOutOfRange int
  | ErrAttemptsExhausted int
  | Joined "'e list"
  | AuditFailed 'e

definition can_trigger :: "int \<Rightarrow> 'e repair_error + unit" where
  "can_trigger n =
     (if n < 1 then Inl (AttemptOutOfRange n)
      else if MaxAttempts < n then Inl (ErrAttemptsExhausted n)
      else Inr ())"

record DiagnosticsBundle =
  db_AppID :: string
  db_Summary :: string
  db_Events :: "string list"

record Patch =
  pt_Description :: string
  pt_Files :: "(string \<times> string) list"

definition empty_patch :: Patch where
  "empty_patch = \<lparr>pt_Description = [], pt_Files = []\<rparr>"

text \<open>\<open>None\<close> for the auditor and the apply step is a nil field.\<close>

record ('e, 'w) repair_loop =
  rp_Source :: "DiagnosticsBundle \<Rightarrow> 'w \<Rightarrow> ('e + Patch) \<times> 'w"
  rp_Auditor :: "(string \<Rightarrow> int \<Rightarrow> Patch \<Rightarrow> 'e repair_error option \<Rightarrow> 'w \<Rightarrow> 'e option \<times> 'w) option"
  rp_Apply :: "(Patch \<Rightarrow> 'w \<Rightarrow> 'e option \<times> 'w) option"

text \<open>\<^verbatim>\<open>errors.Join\<close>: nil when all are nil.\<close>

definition join_errors :: "'e option list \<Rightarrow> 'e repair_error option" where
  "join_errors es = (case concat (map (case_option [] (\<lambda>e. [e])) es) of [] \<Rightarrow> None | xs \<Rightarrow> Some (Joined xs))"

definition record_attempt ::
  "('e, 'w) repair_loop \<Rightarrow> string \<Rightarrow> int \<Rightarrow> Patch \<Rightarrow> 'e repair_error option \<Rightarrow> 'w \<Rightarrow> 'e option \<times> 'w" where
  "record_attempt l appID n p err w =
     (case rp_Auditor l of None \<Rightarrow> (None, w) | Some rec \<Rightarrow> rec appID n p err w)"

text \<open>Generate a patch and, when that worked, apply and verify it: the patch and the joined error.\<close>

definition generate_and_apply ::
  "('e, 'w) repair_loop \<Rightarrow> DiagnosticsBundle \<Rightarrow> 'w \<Rightarrow> Patch \<times> 'e repair_error option \<times> 'w" where
  "generate_and_apply l b w =
     (case rp_Source l b w of
        (Inl genErr, w1) \<Rightarrow> (empty_patch, join_errors [Some genErr, None], w1)
      | (Inr patch, w1) \<Rightarrow>
          (case rp_Apply l of
             None \<Rightarrow> (patch, join_errors [None, None], w1)
           | Some apply_verify \<Rightarrow>
               (case apply_verify patch w1 of (verifyErr, w2) \<Rightarrow> (patch, join_errors [None, verifyErr], w2))))"

text \<open>One turn of the loop: \<open>Inl\<close> the result of \<open>Run\<close> when it returns (\<open>None\<close>: nil), \<open>Inr\<close> when it goes on.\<close>

definition repair_turn ::
  "('e, 'w) repair_loop \<Rightarrow> string \<Rightarrow> DiagnosticsBundle \<Rightarrow> int \<Rightarrow> 'w \<Rightarrow> ('e repair_error option + unit) \<times> 'w" where
  "repair_turn l appID b n w =
     (case can_trigger n of
        Inl gateErr \<Rightarrow>
          (case record_attempt l appID n empty_patch (Some gateErr) w of
             (Some recErr, w1) \<Rightarrow> (Inl (Some (AuditFailed recErr)), w1)
           | (None, w1) \<Rightarrow> (Inl (Some gateErr), w1))
      | Inr _ \<Rightarrow>
          (case generate_and_apply l b w of (patch, lastErr, w2) \<Rightarrow>
             case record_attempt l appID n patch lastErr w2 of
               (Some recErr, w3) \<Rightarrow> (Inl (Some (AuditFailed recErr)), w3)
             | (None, w3) \<Rightarrow> (if lastErr = None then Inl None else Inr (), w3)))"

partial_function (option) repair_from ::
  "('e, 'w) repair_loop \<Rightarrow> string \<Rightarrow> DiagnosticsBundle \<Rightarrow> int \<Rightarrow> 'w \<Rightarrow> ('e repair_error option \<times> 'w) option" where
  "repair_from l appID b n w =
     (case repair_turn l appID b n w of
        (Inl result, w') \<Rightarrow> Some (result, w')
      | (Inr _, w') \<Rightarrow> repair_from l appID b (n + 1) w')"

definition repair_run ::
  "('e, 'w) repair_loop \<Rightarrow> string \<Rightarrow> DiagnosticsBundle \<Rightarrow> 'w \<Rightarrow> ('e repair_error option \<times> 'w) option" where
  "repair_run l appID b w = repair_from l appID b 1 w"

section \<open>At most three attempts\<close>

lemma can_trigger_ok: "is_ok (can_trigger n) \<longleftrightarrow> 1 \<le> n \<and> n \<le> 3"
  by (auto simp: can_trigger_def)

text \<open>A counter of generated patches, kept beside the world.\<close>

definition counting :: "('e, 'w) repair_loop \<Rightarrow> ('e, 'w \<times> nat) repair_loop" where
  "counting l =
     \<lparr>rp_Source = (\<lambda>b (w, k). case rp_Source l b w of (r, w') \<Rightarrow> (r, w', Suc k)),
      rp_Auditor = map_option (\<lambda>rec app n p e (w, k). case rec app n p e w of (r, w') \<Rightarrow> (r, w', k)) (rp_Auditor l),
      rp_Apply = map_option (\<lambda>ap p (w, k). case ap p w of (r, w') \<Rightarrow> (r, w', k)) (rp_Apply l)\<rparr>"

lemma counting_record:
  "record_attempt (counting l) app n p e (w, k) =
     (case record_attempt l app n p e w of (r, w') \<Rightarrow> (r, w', k))"
  by (simp add: record_attempt_def counting_def split: option.split)

lemma counting_generate:
  "generate_and_apply (counting l) b (w, k) =
     (case generate_and_apply l b w of (p, e, w') \<Rightarrow> (p, e, w', Suc k))"
proof (cases "rp_Source l b w")
  case (Pair g w1)
  then show ?thesis
    by (cases g; cases "rp_Apply l") (simp_all add: generate_and_apply_def counting_def split: prod.split)
qed

lemma can_trigger_in: "1 \<le> n \<Longrightarrow> n \<le> 3 \<Longrightarrow> can_trigger n = Inr ()"
  by (simp add: can_trigger_def)

lemma can_trigger_past: "3 < n \<Longrightarrow> can_trigger n = Inl (ErrAttemptsExhausted n)"
  by (simp add: can_trigger_def)

lemma repair_turn_in:
  "1 \<le> n \<Longrightarrow> n \<le> 3 \<Longrightarrow> repair_turn l app b n w =
     (case generate_and_apply l b w of (patch, lastErr, w2) \<Rightarrow>
        case record_attempt l app n patch lastErr w2 of
          (Some recErr, w3) \<Rightarrow> (Inl (Some (AuditFailed recErr)), w3)
        | (None, w3) \<Rightarrow> (if lastErr = None then Inl None else Inr (), w3))"
  by (simp add: repair_turn_def can_trigger_in)

lemma repair_turn_past:
  "3 < n \<Longrightarrow> repair_turn l app b n w =
     (case record_attempt l app n empty_patch (Some (ErrAttemptsExhausted n)) w of
        (Some recErr, w1) \<Rightarrow> (Inl (Some (AuditFailed recErr)), w1)
      | (None, w1) \<Rightarrow> (Inl (Some (ErrAttemptsExhausted n)), w1))"
  by (simp add: repair_turn_def can_trigger_past)

lemma counting_turn_in:
  assumes "1 \<le> n" and "n \<le> 3"
  shows "repair_turn (counting l) app b n (w, k) = (case repair_turn l app b n w of (r, w') \<Rightarrow> (r, w', Suc k))"
proof (cases "generate_and_apply l b w")
  case (fields patch lastErr w2)
  obtain r w3 where "record_attempt l app n patch lastErr w2 = (r, w3)"
    by (cases "record_attempt l app n patch lastErr w2")
  with fields assms show ?thesis
    by (cases r) (simp_all add: repair_turn_in counting_generate counting_record)
qed

lemma counting_turn_past:
  assumes "3 < n"
  shows "repair_turn (counting l) app b n (w, k) = (case repair_turn l app b n w of (r, w') \<Rightarrow> (r, w', k))"
proof -
  obtain r w3 where "record_attempt l app n empty_patch (Some (ErrAttemptsExhausted n)) w = (r, w3)"
    by (cases "record_attempt l app n empty_patch (Some (ErrAttemptsExhausted n)) w")
  with assms show ?thesis by (cases r) (simp_all add: repair_turn_past counting_record)
qed

text \<open>A turn past the cap returns; a turn within it never returns exhaustion.\<close>

lemma repair_turn_past_cap:
  assumes "3 < n"
  shows "\<exists>r w'. repair_turn l app b n w = (Inl (Some r), w') \<and> (r = ErrAttemptsExhausted m \<longrightarrow> m = n)"
proof -
  obtain r w3 where "record_attempt l app n empty_patch (Some (ErrAttemptsExhausted n)) w = (r, w3)"
    by (cases "record_attempt l app n empty_patch (Some (ErrAttemptsExhausted n)) w")
  with assms show ?thesis by (cases r) (auto simp: repair_turn_past)
qed

lemma repair_turn_in_cap:
  assumes "1 \<le> n" and "n \<le> 3" and "repair_turn l app b n w = (Inl r, w')"
  shows "r \<noteq> Some (ErrAttemptsExhausted m) \<and> (rp_Auditor l = None \<longrightarrow> r = None)"
proof (cases "generate_and_apply l b w")
  case (fields patch lastErr w2)
  obtain q w3 where "record_attempt l app n patch lastErr w2 = (q, w3)"
    by (cases "record_attempt l app n patch lastErr w2")
  with fields assms show ?thesis
    by (cases q) (auto simp: repair_turn_in record_attempt_def split: if_splits)
qed

lemma repair_from_stop:
  "repair_turn l app b n w = (Inl r, w') \<Longrightarrow> repair_from l app b n w = Some (r, w')"
  by (subst repair_from.simps) simp

lemma repair_from_go:
  "repair_turn l app b n w = (Inr u, w') \<Longrightarrow> repair_from l app b n w = repair_from l app b (n + 1) w'"
  by (subst repair_from.simps) simp

lemma repair_from_returns:
  assumes "1 \<le> n" and "n \<le> 4"
  shows "\<exists>r w' j. repair_from (counting l) app b n (w, k) = Some (r, w', j) \<and>
    int j \<le> int k + (4 - n) \<and> (r = Some (ErrAttemptsExhausted m) \<longrightarrow> int j = int k + (4 - n) \<and> m = 4)"
  using assms
proof (induction "nat (4 - n)" arbitrary: n w k)
  case 0
  then have n: "n = 4" "3 < n" by simp_all
  obtain r w' where r: "repair_turn l app b n w = (Inl (Some r), w')" "r = ErrAttemptsExhausted m \<longrightarrow> m = n"
    using repair_turn_past_cap [OF n(2), of l app b w m] by blast
  then have "repair_turn (counting l) app b n (w, k) = (Inl (Some r), w', k)"
    by (simp add: counting_turn_past [OF n(2)])
  from repair_from_stop [OF this] r(2) n(1) show ?case by simp
next
  case (Suc i)
  then have n: "1 \<le> n" "n \<le> 3" by auto
  obtain t w' where turn: "repair_turn l app b n w = (t, w')" by (cases "repair_turn l app b n w")
  then have cturn: "repair_turn (counting l) app b n (w, k) = (t, w', Suc k)"
    by (simp add: counting_turn_in [OF n])
  show ?case
  proof (cases t)
    case (Inl r)
    have "r \<noteq> Some (ErrAttemptsExhausted m)"
      by (rule repair_turn_in_cap [OF n turn [unfolded Inl], THEN conjunct1])
    moreover have "int (Suc k) \<le> int k + (4 - n)" using n by simp
    ultimately show ?thesis using repair_from_stop [OF cturn [unfolded Inl]] by blast
  next
    case (Inr u)
    have "i = nat (4 - (n + 1))" "1 \<le> n + 1" "n + 1 \<le> 4" using Suc(2) n by auto
    from Suc(1) [OF this, of w' "Suc k"] show ?thesis
      unfolding repair_from_go [OF cturn [unfolded Inr]] by (simp add: algebra_simps)
  qed
qed

text \<open>Counting does not change what the loop does.\<close>

lemma counting_erased:
  assumes "1 \<le> n" and "n \<le> 4"
  shows "map_option (\<lambda>(r, w', j). (r, w')) (repair_from (counting l) app b n (w, k)) = repair_from l app b n w"
  using assms
proof (induction "nat (4 - n)" arbitrary: n w k)
  case 0
  then have n: "3 < n" by simp
  obtain r w' where r: "repair_turn l app b n w = (Inl (Some r), w')"
    using repair_turn_past_cap [OF n, of l app b w] by blast
  then have "repair_turn (counting l) app b n (w, k) = (Inl (Some r), w', k)"
    by (simp add: counting_turn_past [OF n])
  from repair_from_stop [OF this] repair_from_stop [OF r] show ?case by simp
next
  case (Suc i)
  then have n: "1 \<le> n" "n \<le> 3" by auto
  obtain t w' where turn: "repair_turn l app b n w = (t, w')" by (cases "repair_turn l app b n w")
  then have cturn: "repair_turn (counting l) app b n (w, k) = (t, w', Suc k)"
    by (simp add: counting_turn_in [OF n])
  show ?case
  proof (cases t)
    case (Inl r)
    show ?thesis
      using repair_from_stop [OF cturn [unfolded Inl]] repair_from_stop [OF turn [unfolded Inl]] by simp
  next
    case (Inr u)
    have "i = nat (4 - (n + 1))" "1 \<le> n + 1" "n + 1 \<le> 4" using Suc(2) n by auto
    from Suc(1) [OF this, of w' "Suc k"] show ?thesis
      unfolding repair_from_go [OF cturn [unfolded Inr]] repair_from_go [OF turn [unfolded Inr]] .
  qed
qed

text \<open>
  C17: the repair loop always returns, and asks the patch source at most three times, whatever the
  source, the verify chain and the auditor do; it reports exhaustion only after exactly three
  generated patches, and then for attempt number four.
\<close>

theorem repair_terminates_within_cap:
  "\<exists>r w' j. repair_run (counting l) app b (w, 0) = Some (r, w', j) \<and> repair_run l app b w = Some (r, w') \<and> j \<le> 3 \<and>
     (case r of Some (ErrAttemptsExhausted m) \<Rightarrow> j = 3 \<and> m = 4 | _ \<Rightarrow> True)"
proof -
  have one: "1 \<le> (1 :: int)" "(1 :: int) \<le> 4" by simp_all
  from repair_from_returns [OF one, of l app b w 0 0] obtain r w' j where
    run: "repair_from (counting l) app b 1 (w, 0) = Some (r, w', j)" "j \<le> 3" by auto
  have "r = Some (ErrAttemptsExhausted m) \<longrightarrow> j = 3 \<and> m = 4" for m
    using repair_from_returns [OF one, of l app b w 0 m] run(1) by auto
  then have "case r of Some (ErrAttemptsExhausted m) \<Rightarrow> j = 3 \<and> m = 4 | _ \<Rightarrow> True"
    by (simp split: option.split repair_error.split)
  note run this
  moreover from counting_erased [of 1 l app b w 0] run(1) have "repair_from l app b 1 w = Some (r, w')" by simp
  ultimately show ?thesis unfolding repair_run_def by blast
qed

text \<open>
  The loop succeeds exactly as soon as one of the first three patches generates, applies and
  verifies; when none does, the error returned is the exhaustion of the attempts alone: the errors of the
  patches reach the auditor but not the caller.
\<close>

theorem repair_outcome:
  fixes l :: "('e, 'w) repair_loop"
  assumes "rp_Auditor l = None" and "repair_run l app b w = Some (r, w')"
  shows "r = None \<or> r = Some (ErrAttemptsExhausted 4)"
proof -
  have main: "1 \<le> n \<Longrightarrow> n \<le> 4 \<Longrightarrow> repair_from l app b n w = Some (r, w') \<Longrightarrow>
      r = None \<or> r = Some (ErrAttemptsExhausted 4)" for n w
  proof (induction "nat (4 - n)" arbitrary: n w)
    case 0
    then have "n = 4" by simp
    moreover have "repair_turn l app b 4 w = (Inl (Some (ErrAttemptsExhausted 4)), w)"
      using assms(1) by (simp add: repair_turn_past record_attempt_def)
    ultimately show ?case using repair_from_stop [of l app b 4 w] 0(4) by simp
  next
    case (Suc i)
    then have n: "1 \<le> n" "n \<le> 3" by auto
    obtain t w1 where turn: "repair_turn l app b n w = (t, w1)" by (cases "repair_turn l app b n w")
    show ?case
    proof (cases t)
      case (Inl r0)
      have "r0 = None" using repair_turn_in_cap [OF n turn [unfolded Inl]] assms(1) by simp
      with repair_from_stop [OF turn [unfolded Inl]] Suc.prems(3) show ?thesis by simp
    next
      case (Inr u)
      have "i = nat (4 - (n + 1))" "1 \<le> n + 1" "n + 1 \<le> 4" using Suc(2) n by auto
      from Suc(1) [OF this, of w1] Suc.prems(3) show ?thesis
        unfolding repair_from_go [OF turn [unfolded Inr]] .
    qed
  qed
  from main [of 1] assms(2) show ?thesis by (simp add: repair_run_def)
qed

definition hopeless_loop :: "(string, nat) repair_loop" where
  "hopeless_loop = \<lparr>rp_Source = (\<lambda>b w. (Inl ''no patch'', Suc w)), rp_Auditor = None, rp_Apply = None\<rparr>"

theorem repair_outcome_witness:
  "repair_run hopeless_loop ''a'' \<lparr>db_AppID = ''a'', db_Summary = [], db_Events = []\<rparr> 0 =
     Some (Some (ErrAttemptsExhausted 4), 3)"
proof -
  have run: "repair_run hopeless_loop ''a'' b w = Some (Some (ErrAttemptsExhausted 4), w + 3)" for b w
    unfolding repair_run_def
    by (simp add: repair_from.simps [of _ _ _ 1] repair_from.simps [of _ _ _ 2] repair_from.simps [of _ _ _ 3]
        repair_from.simps [of _ _ _ 4] repair_turn_in repair_turn_past hopeless_loop_def generate_and_apply_def
        join_errors_def record_attempt_def)
  have "rp_Auditor hopeless_loop = None" by (simp add: hopeless_loop_def)
  from repair_outcome [OF this run [of _ 0]] run [of _ 0] show ?thesis by simp
qed

section \<open>Security events\<close>

abbreviation (input) SeverityInfo :: string where "SeverityInfo \<equiv> ''info''"
abbreviation (input) SeverityWarn :: string where "SeverityWarn \<equiv> ''warn''"
abbreviation (input) SeverityCritical :: string where "SeverityCritical \<equiv> ''critical''"
abbreviation (input) CodeLoginFailed :: string where "CodeLoginFailed \<equiv> ''auth.login.failed''"
abbreviation (input) CodeUserSuspended :: string where "CodeUserSuspended \<equiv> ''user.suspended''"
abbreviation (input) CodeBuildConcurrencyDenied :: string where "CodeBuildConcurrencyDenied \<equiv> ''build.concurrency.denied''"
abbreviation (input) CodeRateLimitRejected :: string where "CodeRateLimitRejected \<equiv> ''rate.limit.rejected''"
abbreviation (input) CodeNetpolDenied :: string where "CodeNetpolDenied \<equiv> ''netpol.denied''"

definition security_catalog :: "(string \<times> string) list" where
  "security_catalog =
    [(CodeLoginFailed, SeverityWarn), (CodeUserSuspended, SeverityWarn),
     (CodeBuildConcurrencyDenied, SeverityInfo), (CodeRateLimitRejected, SeverityInfo),
     (CodeNetpolDenied, SeverityWarn)]"

record SecurityEvent =
  se_EventCode :: string
  se_Severity :: string
  se_ActorType :: string
  se_ActorID :: string
  se_OrgID :: string
  se_AppID :: string
  se_Detail :: string
  se_At :: time

datatype security_error = UnknownEventCode string | TimestampRequired | InvalidActorType string

text \<open>
  \<open>Validate\<close> takes the event by value: the default severity is written to its own copy (the second
  component), which the caller never sees.
\<close>

definition validate_event_local :: "SecurityEvent \<Rightarrow> (security_error + unit) \<times> SecurityEvent" where
  "validate_event_local e =
     (case map_of security_catalog (se_EventCode e) of
        None \<Rightarrow> (Inl (UnknownEventCode (se_EventCode e)), e)
      | Some severity \<Rightarrow>
          if se_At e = 0 then (Inl TimestampRequired, e)
          else if se_ActorType e \<noteq> ''user'' \<and> se_ActorType e \<noteq> ''controller''
            then (Inl (InvalidActorType (se_ActorType e)), e)
          else (Inr (), if se_Severity e = [] then e\<lparr>se_Severity := severity\<rparr> else e))"

definition validate_event :: "SecurityEvent \<Rightarrow> security_error + unit" where
  "validate_event e = fst (validate_event_local e)"

text \<open>A valid event may still have no severity, or one outside the three defined: neither is refused.\<close>

lemma validate_event_ignores_severity: "validate_event (e\<lparr>se_Severity := s\<rparr>) = validate_event e"
  by (simp add: validate_event_def validate_event_local_def split: option.split)

lemma validate_event_ok_iff:
  "is_ok (validate_event e) \<longleftrightarrow>
     se_EventCode e \<in> set (map fst security_catalog) \<and> se_At e \<noteq> 0 \<and> se_ActorType e \<in> {''user'', ''controller''}"
proof (cases "map_of security_catalog (se_EventCode e)")
  case None
  then have "se_EventCode e \<notin> set (map fst security_catalog)" by (simp add: map_of_eq_None_iff)
  with None show ?thesis by (simp add: validate_event_def validate_event_local_def)
next
  case (Some severity)
  then have "se_EventCode e \<in> set (map fst security_catalog)"
    by (metis map_of_SomeD fst_conv image_eqI set_map)
  with Some show ?thesis by (simp add: validate_event_def validate_event_local_def)
qed

end
