(* ===== verification/Rbac.thy ===== *)
theory Rbac
  imports Prelude
begin

text \<open>
  The capability model: \<^verbatim>\<open>rbac/rbac.go\<close>. Roles and capabilities are string types in the code, so
  an unknown role or capability is a possible argument and denied by the table lookup.
\<close>

abbreviation (input) CapAppCreate :: string where "CapAppCreate \<equiv> ''app:create''"
abbreviation (input) CapAppRead :: string where "CapAppRead \<equiv> ''app:read''"
abbreviation (input) CapAppDeploy :: string where "CapAppDeploy \<equiv> ''app:deploy''"
abbreviation (input) CapAppRollback :: string where "CapAppRollback \<equiv> ''app:rollback''"
abbreviation (input) CapAppDelete :: string where "CapAppDelete \<equiv> ''app:delete''"
abbreviation (input) CapDatabaseCreate :: string where "CapDatabaseCreate \<equiv> ''database:create''"
abbreviation (input) CapDatabaseDelete :: string where "CapDatabaseDelete \<equiv> ''database:delete''"
abbreviation (input) CapSecretWrite :: string where "CapSecretWrite \<equiv> ''secret:write''"
abbreviation (input) CapSecretReveal :: string where "CapSecretReveal \<equiv> ''secret:reveal''"
abbreviation (input) CapDomainBind :: string where "CapDomainBind \<equiv> ''domain:bind''"
abbreviation (input) CapMemberInvite :: string where "CapMemberInvite \<equiv> ''member:invite''"
abbreviation (input) CapAdminUserManage :: string where "CapAdminUserManage \<equiv> ''admin:user:manage''"
abbreviation (input) CapAdminQuotaManage :: string where "CapAdminQuotaManage \<equiv> ''admin:quota:manage''"
abbreviation (input) CapAdminClusterRead :: string where "CapAdminClusterRead \<equiv> ''admin:cluster:read''"
abbreviation (input) CapAdminSecurityRead :: string where "CapAdminSecurityRead \<equiv> ''admin:security:read''"
abbreviation (input) CapBillingManage :: string where "CapBillingManage \<equiv> ''billing:manage''"

abbreviation (input) RolePlatformAdmin :: string where "RolePlatformAdmin \<equiv> ''platform_admin''"
abbreviation (input) RoleWorkspaceAdmin :: string where "RoleWorkspaceAdmin \<equiv> ''workspace_admin''"
abbreviation (input) RoleDeveloper :: string where "RoleDeveloper \<equiv> ''developer''"
abbreviation (input) RoleMember :: string where "RoleMember \<equiv> ''member''"
abbreviation (input) RoleViewer :: string where "RoleViewer \<equiv> ''viewer''"
abbreviation (input) RoleBillingAdmin :: string where "RoleBillingAdmin \<equiv> ''billing_admin''"
abbreviation (input) RoleSecurityAdmin :: string where "RoleSecurityAdmin \<equiv> ''security_admin''"

definition all_capabilities :: "string list" where
  "all_capabilities =
    [CapAppCreate, CapAppRead, CapAppDeploy, CapAppRollback, CapAppDelete,
     CapDatabaseCreate, CapDatabaseDelete,
     CapSecretWrite, CapSecretReveal,
     CapDomainBind,
     CapMemberInvite,
     CapAdminUserManage, CapAdminQuotaManage, CapAdminClusterRead, CapAdminSecurityRead,
     CapBillingManage]"

definition all_roles :: "string list" where
  "all_roles = [RolePlatformAdmin, RoleWorkspaceAdmin, RoleDeveloper, RoleMember, RoleViewer,
     RoleBillingAdmin, RoleSecurityAdmin]"

text \<open>\<^verbatim>\<open>map[Role]map[Capability]struct{}\<close>: the inner maps are sets.\<close>

definition role_capabilities :: "(string \<times> string set) list" where
  "role_capabilities =
    [(RolePlatformAdmin, set all_capabilities),
     (RoleWorkspaceAdmin, set
       [CapAppCreate, CapAppRead, CapAppDeploy, CapAppRollback, CapAppDelete,
        CapDatabaseCreate, CapDatabaseDelete,
        CapSecretWrite, CapSecretReveal,
        CapDomainBind,
        CapMemberInvite]),
     (RoleMember, set
       [CapAppCreate, CapAppRead, CapAppDeploy, CapAppRollback,
        CapDatabaseCreate,
        CapSecretWrite,
        CapDomainBind]),
     (RoleDeveloper, set
       [CapAppCreate, CapAppRead, CapAppDeploy, CapAppRollback, CapAppDelete,
        CapDatabaseCreate, CapDatabaseDelete,
        CapSecretWrite,
        CapDomainBind]),
     (RoleViewer, set [CapAppRead]),
     (RoleBillingAdmin, set [CapAppRead, CapBillingManage]),
     (RoleSecurityAdmin, set [CapAppRead, CapAdminSecurityRead])]"

definition can :: "string \<Rightarrow> string \<Rightarrow> bool" where
  "can role capability =
     (case map_of role_capabilities role of None \<Rightarrow> False | Some caps \<Rightarrow> capability \<in> caps)"

definition is_valid_role :: "string \<Rightarrow> bool" where
  "is_valid_role role = (map_of role_capabilities role \<noteq> None)"

section \<open>The matrix, read by capability\<close>

lemma role_keys_distinct: "distinct (map fst role_capabilities)"
  by (simp add: role_capabilities_def)

lemma can_iff: "can role capability \<longleftrightarrow> (\<exists>caps. (role, caps) \<in> set role_capabilities \<and> capability \<in> caps)"
  unfolding can_def by (rule table_lookup_iff [OF role_keys_distinct])

definition holders :: "string \<Rightarrow> string list" where
  "holders capability = map fst (filter (\<lambda>(r, caps). capability \<in> caps) role_capabilities)"

lemma can_holders: "can role capability \<longleftrightarrow> role \<in> set (holders capability)"
  unfolding can_iff holders_def by force

lemma is_valid_role_iff: "is_valid_role role \<longleftrightarrow> role \<in> set all_roles"
  by (auto simp: is_valid_role_def map_of_eq_None_iff role_capabilities_def all_roles_def)

lemma can_valid: "can role capability \<Longrightarrow> role \<in> set all_roles \<and> capability \<in> set all_capabilities"
  unfolding can_iff by (auto simp: role_capabilities_def all_roles_def all_capabilities_def)

text \<open>
  The sensitive capabilities are held by exactly these roles, whatever string is passed as the
  role: revealing secrets and inviting members by the two administrators; managing users, quotas and
  reading clusters by the platform administrator alone; the security surface and billing also by their own
  administrators. Nothing outside the two catalogues is granted to anyone.
\<close>

theorem sensitive_capabilities_confined:
  "(can role CapSecretReveal \<longleftrightarrow> role \<in> {RolePlatformAdmin, RoleWorkspaceAdmin}) \<and>
   (can role CapMemberInvite \<longleftrightarrow> role \<in> {RolePlatformAdmin, RoleWorkspaceAdmin}) \<and>
   (can role CapAdminUserManage \<longleftrightarrow> role = RolePlatformAdmin) \<and>
   (can role CapAdminQuotaManage \<longleftrightarrow> role = RolePlatformAdmin) \<and>
   (can role CapAdminClusterRead \<longleftrightarrow> role = RolePlatformAdmin) \<and>
   (can role CapAdminSecurityRead \<longleftrightarrow> role \<in> {RolePlatformAdmin, RoleSecurityAdmin}) \<and>
   (can role CapBillingManage \<longleftrightarrow> role \<in> {RolePlatformAdmin, RoleBillingAdmin}) \<and>
   (can role CapAppDelete \<longleftrightarrow> role \<in> {RolePlatformAdmin, RoleWorkspaceAdmin, RoleDeveloper}) \<and>
   (is_valid_role role \<longleftrightarrow> role \<in> set all_roles) \<and>
   {(r, c). can r c} \<subseteq> set all_roles \<times> set all_capabilities"
proof (intro conjI)
  show "{(r, c). can r c} \<subseteq> set all_roles \<times> set all_capabilities" using can_valid by blast
qed (simp_all add: can_holders holders_def role_capabilities_def all_capabilities_def is_valid_role_iff insert_commute)

lemma caps_of_role:
  "{c. can RoleViewer c} = {CapAppRead}"
  "{c. can RoleMember c} = {CapAppCreate, CapAppRead, CapAppDeploy, CapAppRollback, CapDatabaseCreate,
     CapSecretWrite, CapDomainBind}"
  "{c. can RoleDeveloper c} = {CapAppCreate, CapAppRead, CapAppDeploy, CapAppRollback, CapAppDelete,
     CapDatabaseCreate, CapDatabaseDelete, CapSecretWrite, CapDomainBind}"
  "{c. can RoleWorkspaceAdmin c} = {CapAppCreate, CapAppRead, CapAppDeploy, CapAppRollback, CapAppDelete,
     CapDatabaseCreate, CapDatabaseDelete, CapSecretWrite, CapSecretReveal, CapDomainBind, CapMemberInvite}"
  "{c. can RolePlatformAdmin c} = set all_capabilities"
  by (simp_all add: can_def role_capabilities_def set_eq_iff)

lemma psubset_witness: "A \<subseteq> B \<Longrightarrow> x \<in> B \<Longrightarrow> x \<notin> A \<Longrightarrow> A \<subset> B"
  by blast

text \<open>
  Privileges are nested along viewer, member, developer, workspace administrator and platform
  administrator, strictly at each step, and the platform administrator holds every capability.
\<close>

theorem role_hierarchy:
  "{c. can RoleViewer c} \<subset> {c. can RoleMember c} \<and>
   {c. can RoleMember c} \<subset> {c. can RoleDeveloper c} \<and>
   {c. can RoleDeveloper c} \<subset> {c. can RoleWorkspaceAdmin c} \<and>
   {c. can RoleWorkspaceAdmin c} \<subset> {c. can RolePlatformAdmin c} \<and>
   {c. can RolePlatformAdmin c} = set all_capabilities"
  unfolding caps_of_role
proof (intro conjI)
  show "{CapAppRead} \<subset> {CapAppCreate, CapAppRead, CapAppDeploy, CapAppRollback, CapDatabaseCreate,
     CapSecretWrite, CapDomainBind}"
    by (rule psubset_witness [of _ _ CapAppCreate]) simp_all
  show "{CapAppCreate, CapAppRead, CapAppDeploy, CapAppRollback, CapDatabaseCreate, CapSecretWrite, CapDomainBind} \<subset>
    {CapAppCreate, CapAppRead, CapAppDeploy, CapAppRollback, CapAppDelete,
     CapDatabaseCreate, CapDatabaseDelete, CapSecretWrite, CapDomainBind}"
    by (rule psubset_witness [of _ _ CapAppDelete]) simp_all
  show "{CapAppCreate, CapAppRead, CapAppDeploy, CapAppRollback, CapAppDelete,
     CapDatabaseCreate, CapDatabaseDelete, CapSecretWrite, CapDomainBind} \<subset>
    {CapAppCreate, CapAppRead, CapAppDeploy, CapAppRollback, CapAppDelete,
     CapDatabaseCreate, CapDatabaseDelete, CapSecretWrite, CapSecretReveal, CapDomainBind, CapMemberInvite}"
    by (rule psubset_witness [of _ _ CapMemberInvite]) simp_all
  show "{CapAppCreate, CapAppRead, CapAppDeploy, CapAppRollback, CapAppDelete,
     CapDatabaseCreate, CapDatabaseDelete, CapSecretWrite, CapSecretReveal, CapDomainBind, CapMemberInvite} \<subset>
    set all_capabilities"
    by (rule psubset_witness [of _ _ CapBillingManage]) (simp_all add: all_capabilities_def)
qed simp

end
