(* ===== verification/Cells.thy ===== *)
theory Cells
  imports Go_Strings
begin

text \<open>
  The multi-cluster cell registry: \<^verbatim>\<open>cells/cells.go\<close>. The registry keeps the cells by name and the
  names in registration order; a cell keeps the set of organisations pinned to it. Reading a missing
  cell yields a nil pointer in the code, so the routing loop has a \<open>NilCell\<close> branch, which the registry
  invariant makes unreachable.
\<close>

section \<open>Cells and the registry\<close>

record Cell =
  c_Name :: string
  c_Cloud :: string
  c_Endpoint :: string
  c_Region :: string
  c_Default :: bool
  c_orgs :: "string set"

definition known_clouds :: "(string \<times> bool) list" where
  "known_clouds = [(''baidu-cce'', True), (''aliyun-ack'', True), (''tencent-tke'', True), (''selfhosted'', True)]"

datatype cell_error =
    CellNameEndpointRequired
  | ErrNoCell
  | ErrDuplicateCell
  | ErrUnknownCell
  | ErrUnknownCloud string
  | NilCell

record CellSpec =
  s_Name :: string
  s_Cloud :: string
  s_Endpoint :: string
  s_Region :: string
  s_Default :: bool

record CellTarget =
  t_CellName :: string
  t_Cloud :: string
  t_Endpoint :: string
  t_Region :: string

record CellRegistry =
  r_cells :: "string \<rightharpoonup> Cell"
  r_names :: "string list"

definition new_registry :: CellRegistry where
  "new_registry = \<lparr>r_cells = Map.empty, r_names = []\<rparr>"

definition register_cell :: "CellRegistry \<Rightarrow> CellSpec \<Rightarrow> (cell_error + unit) \<times> CellRegistry" where
  "register_cell r s =
     (if s_Name s = [] \<or> s_Endpoint s = [] then (Inl CellNameEndpointRequired, r)
      else if \<not> truthy (map_of known_clouds) (s_Cloud s) then (Inl (ErrUnknownCloud (s_Cloud s)), r)
      else if r_cells r (s_Name s) \<noteq> None then (Inl ErrDuplicateCell, r)
      else (Inr (), \<lparr>r_cells = (r_cells r)(s_Name s \<mapsto>
                       \<lparr>c_Name = s_Name s, c_Cloud = s_Cloud s, c_Endpoint = s_Endpoint s,
                        c_Region = s_Region s, c_Default = s_Default s, c_orgs = {}\<rparr>),
                     r_names = r_names r @ [s_Name s]\<rparr>))"

definition assign_org :: "CellRegistry \<Rightarrow> string \<Rightarrow> string \<Rightarrow> (cell_error + unit) \<times> CellRegistry" where
  "assign_org r orgID cellName =
     (case r_cells r cellName of
        None \<Rightarrow> (Inl ErrUnknownCell, r)
      | Some c \<Rightarrow> (Inr (), r\<lparr>r_cells := (r_cells r)(cellName \<mapsto> c\<lparr>c_orgs := insert orgID (c_orgs c)\<rparr>)\<rparr>))"

text \<open>The copy handed out: all fields, and a fresh set with the same members.\<close>

definition snapshot :: "Cell \<Rightarrow> Cell" where
  "snapshot c = c\<lparr>c_orgs := {} \<union> c_orgs c\<rparr>"

fun route_loop :: "(string \<rightharpoonup> Cell) \<Rightarrow> string \<Rightarrow> Cell option \<Rightarrow> string list \<Rightarrow> cell_error + Cell" where
  "route_loop cells orgID fallback [] =
     (case fallback of Some c \<Rightarrow> Inr (snapshot c) | None \<Rightarrow> Inl ErrNoCell)"
| "route_loop cells orgID fallback (name # names) =
     (case cells name of
        None \<Rightarrow> Inl NilCell
      | Some c \<Rightarrow>
          if orgID \<in> c_orgs c then Inr (snapshot c)
          else route_loop cells orgID (if c_Default c \<and> fallback = None then Some c else fallback) names)"

definition route_for_org :: "CellRegistry \<Rightarrow> string \<Rightarrow> cell_error + Cell" where
  "route_for_org r orgID = route_loop (r_cells r) orgID None (r_names r)"

definition target_for_org :: "CellRegistry \<Rightarrow> string \<Rightarrow> cell_error + CellTarget" where
  "target_for_org r orgID =
     and_then (route_for_org r orgID) (\<lambda>c.
       Inr \<lparr>t_CellName = c_Name c, t_Cloud = c_Cloud c, t_Endpoint = c_Endpoint c, t_Region = c_Region c\<rparr>)"

fun fleet_loop :: "(string \<rightharpoonup> Cell) \<Rightarrow> (string \<rightharpoonup> string list) \<Rightarrow> string list \<Rightarrow> cell_error + (string \<rightharpoonup> string list)" where
  "fleet_loop cells out [] = Inr out"
| "fleet_loop cells out (name # names) =
     (case cells name of
        None \<Rightarrow> Inl NilCell
      | Some c \<Rightarrow> fleet_loop cells
          (out(c_Cloud c \<mapsto> (case out (c_Cloud c) of None \<Rightarrow> [name] | Some ns \<Rightarrow> ns @ [name]))) names)"

definition fleet_by_cloud :: "CellRegistry \<Rightarrow> cell_error + (string \<rightharpoonup> string list)" where
  "fleet_by_cloud r =
     and_then (fleet_loop (r_cells r) Map.empty (r_names r)) (\<lambda>out. Inr (\<lambda>k. map_option sort (out k)))"

text \<open>\<open>appToCell\<close> in the order in which the range statement visits it.\<close>

fun affected_loop :: "string \<Rightarrow> string list \<Rightarrow> (string \<times> string) list \<Rightarrow> string list" where
  "affected_loop failedCell out [] = out"
| "affected_loop failedCell out ((app, cell) # rest) =
     affected_loop failedCell (if cell = failedCell then out @ [app] else out) rest"

definition affected_apps :: "(string \<times> string) list \<Rightarrow> string \<Rightarrow> string list" where
  "affected_apps appToCell failedCell = sort (affected_loop failedCell [] appToCell)"

definition assigned_orgs :: "Cell \<Rightarrow> string list" where
  "assigned_orgs c = sorted_list_of_set (c_orgs c)"

section \<open>The registry invariant\<close>

definition registry_inv :: "CellRegistry \<Rightarrow> bool" where
  "registry_inv r =
     (distinct (r_names r) \<and> dom (r_cells r) = set (r_names r) \<and>
      (\<forall>n c. r_cells r n = Some c \<longrightarrow>
         c_Name c = n \<and> n \<noteq> [] \<and> c_Endpoint c \<noteq> [] \<and> truthy (map_of known_clouds) (c_Cloud c) \<and> finite (c_orgs c)))"

lemma registry_inv_new: "registry_inv new_registry"
  by (simp add: registry_inv_def new_registry_def)

lemma registry_inv_register [tenara_inv]: "registry_inv r \<Longrightarrow> registry_inv (snd (register_cell r s))"
  by (auto simp: registry_inv_def register_cell_def split: if_splits)

lemma registry_inv_assign [tenara_inv]: "registry_inv r \<Longrightarrow> registry_inv (snd (assign_org r o1 n))"
  unfolding registry_inv_def assign_org_def by (cases "r_cells r n") (auto split: if_splits)

datatype registry_op = OpRegister CellSpec | OpAssign string string

fun registry_step :: "registry_op \<Rightarrow> CellRegistry \<Rightarrow> CellRegistry" where
  "registry_step (OpRegister s) r = snd (register_cell r s)"
| "registry_step (OpAssign orgID n) r = snd (assign_org r orgID n)"

definition registry_run :: "registry_op list \<Rightarrow> CellRegistry" where
  "registry_run ops = fold registry_step ops new_registry"

lemma registry_inv_run: "registry_inv (registry_run ops)"
proof -
  have "registry_inv r \<Longrightarrow> registry_inv (fold registry_step ops r)" for r
  proof (induction ops arbitrary: r)
    case (Cons op ops)
    then show ?case by (cases op) (auto intro: tenara_inv)
  qed simp
  then show ?thesis by (simp add: registry_run_def registry_inv_new)
qed

section \<open>Routing\<close>

text \<open>The cells in registration order.\<close>

definition cell_list :: "CellRegistry \<Rightarrow> Cell list" where
  "cell_list r = map (\<lambda>n. the (r_cells r n)) (r_names r)"

lemma snapshot_id [simp]: "snapshot c = c"
  by (simp add: snapshot_def)

lemma route_loop_spec:
  assumes "\<forall>n \<in> set names. \<exists>c. cells n = Some c"
  shows "route_loop cells orgID fb names =
    (case find (\<lambda>c. orgID \<in> c_orgs c) (map (\<lambda>n. the (cells n)) names) of
       Some c \<Rightarrow> Inr c
     | None \<Rightarrow>
         (case (case fb of Some c \<Rightarrow> Some c | None \<Rightarrow> find c_Default (map (\<lambda>n. the (cells n)) names)) of
            Some c \<Rightarrow> Inr c | None \<Rightarrow> Inl ErrNoCell))"
  using assms
proof (induction names arbitrary: fb)
  case Nil
  then show ?case by (simp split: option.split)
next
  case (Cons n names)
  then obtain c where c: "cells n = Some c" by auto
  show ?case
    using Cons.IH [of "if c_Default c \<and> fb = None then Some c else fb"] Cons.prems c
    by (auto split: option.splits)
qed

text \<open>
  Routing an organisation over any registry built by registrations and assignments never meets a
  missing cell: it picks the first registered cell the organisation is pinned to, else the first
  registered default cell, else reports \<open>ErrNoCell\<close>; the cell picked has a known cloud and an endpoint.
\<close>

theorem routing_explicit_over_default:
  "route_for_org (registry_run ops) orgID =
     (case find (\<lambda>c. orgID \<in> c_orgs c) (cell_list (registry_run ops)) of
        Some c \<Rightarrow> Inr c
      | None \<Rightarrow> (case find c_Default (cell_list (registry_run ops)) of
                  Some c \<Rightarrow> Inr c | None \<Rightarrow> Inl ErrNoCell)) \<and>
   list_all (\<lambda>c. c_Endpoint c \<noteq> [] \<and> truthy (map_of known_clouds) (c_Cloud c)) (cell_list (registry_run ops)) \<and>
   distinct (map c_Name (cell_list (registry_run ops)))"
proof -
  define r where "r = registry_run ops"
  have inv: "registry_inv r" by (simp add: r_def registry_inv_run)
  then have all: "\<forall>n \<in> set (r_names r). \<exists>c. r_cells r n = Some c" by (auto simp: registry_inv_def)
  with inv have "\<forall>n \<in> set (r_names r). c_Name (the (r_cells r n)) = n \<and> c_Endpoint (the (r_cells r n)) \<noteq> [] \<and>
      truthy (map_of known_clouds) (c_Cloud (the (r_cells r n)))"
    by (fastforce simp: registry_inv_def)
  then have "list_all (\<lambda>c. c_Endpoint c \<noteq> [] \<and> truthy (map_of known_clouds) (c_Cloud c)) (cell_list r)"
    "map c_Name (cell_list r) = r_names r"
    by (auto simp: cell_list_def list_all_iff intro: map_idI)
  moreover have "distinct (r_names r)" using inv by (simp add: registry_inv_def)
  ultimately show ?thesis
    using route_loop_spec [OF all, of orgID None, unfolded option.case, folded cell_list_def]
    unfolding r_def [symmetric] route_for_org_def by metis
qed

text \<open>
  Pinning an organisation again does not move it to a cell registered later. Assignments are
  only ever added, and routing takes the first registered cell that has one.
\<close>

theorem repin_to_later_cell_ignored:
  assumes "registry_inv r" and "r_names r = pre @ a # mid @ b # post"
    and "r_cells r a = Some ca" and "orgID \<in> c_orgs ca"
    and "\<forall>n \<in> set pre. \<forall>c. r_cells r n = Some c \<longrightarrow> orgID \<notin> c_orgs c"
  shows "fst (assign_org r orgID b) = Inr () \<and>
    route_for_org (snd (assign_org r orgID b)) orgID = Inr ca"
proof -
  have b: "\<exists>cb. r_cells r b = Some cb" "b \<notin> set pre" "a \<noteq> b"
    using assms(1,2) by (auto simp: registry_inv_def)
  then obtain cb where cb: "r_cells r b = Some cb" by blast
  define cells where "cells = (r_cells r)(b \<mapsto> cb\<lparr>c_orgs := insert orgID (c_orgs cb)\<rparr>)"
  have skip: "route_loop cells orgID fb (ns @ a # rest) = Inr ca" if "set ns \<subseteq> set pre" for ns fb rest
    using that
  proof (induction ns arbitrary: fb)
    case Nil
    then show ?case using assms(3,4) b(3) by (simp add: cells_def)
  next
    case (Cons n ns)
    then have n: "n \<in> set pre" by simp
    then have "n \<in> dom (r_cells r)" using assms(1,2) by (simp add: registry_inv_def)
    then obtain c where c: "r_cells r n = Some c" by blast
    moreover have "n \<noteq> b" using n b(2) by blast
    moreover have "orgID \<notin> c_orgs c" using assms(5) n c by blast
    moreover have "set ns \<subseteq> set pre" using Cons.prems by simp
    ultimately show ?case using Cons.IH by (simp add: cells_def)
  qed
  show ?thesis using skip [of pre None "mid @ b # post"] assms(2) cb
    by (simp add: assign_org_def route_for_org_def cells_def)
qed

definition sample_cell :: "string \<Rightarrow> bool \<Rightarrow> CellSpec" where
  "sample_cell n d = \<lparr>s_Name = n, s_Cloud = ''selfhosted'', s_Endpoint = ''https://cell'', s_Region = ''r1'', s_Default = d\<rparr>"

definition pinned_registry :: CellRegistry where
  "pinned_registry = registry_run
     [OpRegister (sample_cell ''a'' True), OpRegister (sample_cell ''b'' False), OpAssign ''org'' ''a'']"

theorem repin_to_later_cell_ignored_witness:
  "\<exists>ca. c_Name ca = ''a'' \<and> route_for_org (snd (assign_org pinned_registry ''org'' ''b'')) ''org'' = Inr ca"
proof -
  have eval: "r_names pinned_registry = [''a'', ''b'']"
    "r_cells pinned_registry ''a'' = Some \<lparr>c_Name = ''a'', c_Cloud = ''selfhosted'', c_Endpoint = ''https://cell'',
       c_Region = ''r1'', c_Default = True, c_orgs = {''org''}\<rparr>"
    by (simp_all add: pinned_registry_def registry_run_def new_registry_def register_cell_def assign_org_def
        sample_cell_def known_clouds_def truthy_def)
  show ?thesis
    using repin_to_later_cell_ignored [of pinned_registry "[]" "''a''" "[]" "''b''" "[]" _ "''org''"] eval
    by (simp add: pinned_registry_def registry_inv_run)
qed

section \<open>Blast radius\<close>

lemma affected_loop_spec:
  "affected_loop failedCell out apps = out @ map fst (filter (\<lambda>(_, cell). cell = failedCell) apps)"
  by (induction failedCell out apps rule: affected_loop.induct) auto

text \<open>
  The apps reported for a failed cell are exactly the ones homed on it, sorted, whatever order the
  map is visited in; apps of two different cells are never reported together.
\<close>

theorem affected_apps_exact:
  assumes "distinct (map fst apps)" and "mset apps = mset apps'"
  shows "affected_apps apps cell = affected_apps apps' cell \<and>
    sorted (affected_apps apps cell) \<and> distinct (affected_apps apps cell) \<and>
    set (affected_apps apps cell) = {a. map_of apps a = Some cell} \<and>
    (cell \<noteq> cell' \<longrightarrow> set (affected_apps apps cell) \<inter> set (affected_apps apps cell') = {})"
proof -
  have set: "set (affected_apps apps c) = {a. map_of apps a = Some c}" for c
    using assms(1) by (force simp: affected_apps_def affected_loop_spec)
  have "affected_apps apps cell = affected_apps apps' cell"
    unfolding affected_apps_def affected_loop_spec append_Nil
    by (intro sort_mset_cong mset_map_filter_cong assms(2))
  moreover have "distinct (affected_apps apps cell)"
    using assms(1) by (simp add: affected_apps_def affected_loop_spec distinct_map_filter)
  moreover have "sorted (affected_apps apps cell)" by (simp add: affected_apps_def)
  moreover have "cell \<noteq> cell' \<longrightarrow> set (affected_apps apps cell) \<inter> set (affected_apps apps cell') = {}"
    unfolding set by auto
  ultimately show ?thesis using set by blast
qed

theorem affected_apps_exact_witness:
  "affected_apps [(''shop'', ''B''), (''blog'', ''A''), (''api'', ''B'')] ''B'' =
   affected_apps [(''api'', ''B''), (''shop'', ''B''), (''blog'', ''A'')] ''B''"
  using affected_apps_exact [of "[(''shop'', ''B''), (''blog'', ''A''), (''api'', ''B'')]"
    "[(''api'', ''B''), (''shop'', ''B''), (''blog'', ''A'')]" "''B''"] by simp

end
