(* ===== verification/Billing.thy ===== *)
theory Billing
  imports Go_Numbers
begin

text \<open>
  Plans, invoices, the payment face and usage sampling: \<^verbatim>\<open>billing/plan.go\<close>, \<^verbatim>\<open>billing/invoice.go\<close>,
  \<^verbatim>\<open>billing/payment.go\<close> and \<^verbatim>\<open>metering/metering.go\<close>. Floating-point steps are rounded by \<open>fl64\<close>; the
  conversion of an out-of-range float to int64 is the parameter \<open>oob\<close>. The calendar of the standard
  library is modelled as far as \<open>BillingPeriod\<close> uses it: the month of an instant, whose first days
  are counted from the zero time (1 January of year 1, UTC).
\<close>

section \<open>The plan catalogue\<close>

abbreviation (input) TierFree :: string where "TierFree \<equiv> ''free''"
abbreviation (input) TierPro :: string where "TierPro \<equiv> ''pro''"

record Plan =
  p_Tier :: string
  p_MonthlyBaseCents :: int
  p_IncludedBuildMinutes :: rat
  p_IncludedCPUCoreHours :: rat
  p_OverageCPUCentsHour :: int
  p_MaxBuildConcurrency :: int

definition plan_catalog :: "(string \<times> Plan) list" where
  "plan_catalog =
    [(TierFree, \<lparr>p_Tier = TierFree, p_MonthlyBaseCents = 0, p_IncludedBuildMinutes = 200,
        p_IncludedCPUCoreHours = 10, p_OverageCPUCentsHour = 0, p_MaxBuildConcurrency = 1\<rparr>),
     (TierPro, \<lparr>p_Tier = TierPro, p_MonthlyBaseCents = 1900, p_IncludedBuildMinutes = 2000,
        p_IncludedCPUCoreHours = 120, p_OverageCPUCentsHour = 8, p_MaxBuildConcurrency = 4\<rparr>)]"

datatype billing_error =
    ErrUnknownTier string
  | DecodeTierChange
  | OrgIDRequired

definition plan_for :: "string \<Rightarrow> billing_error + Plan" where
  "plan_for tier = (case map_of plan_catalog tier of None \<Rightarrow> Inl (ErrUnknownTier tier) | Some p \<Rightarrow> Inr p)"

section \<open>Invoices\<close>

record InvoiceLine =
  il_Kind :: string
  il_Quantity :: rat
  il_UnitCents :: int
  il_AmountCents :: int

record Invoice =
  inv_OrgID :: string
  inv_PeriodStart :: time
  inv_PeriodEnd :: time
  inv_Lines :: "InvoiceLine list"
  inv_TotalCents :: int

text \<open>\<^verbatim>\<open>math.Round\<close> rounds half away from zero.\<close>

definition math_round :: "rat \<Rightarrow> rat" where
  "math_round x = (if 0 \<le> x then of_int \<lfloor>x + 1 / 2\<rfloor> else - of_int \<lfloor>- x + 1 / 2\<rfloor>)"

definition round2 :: "rat \<Rightarrow> rat" where
  "round2 f = fl64 (math_round (fl64 (f * 100)) / 100)"

definition float_to_int64 :: "(rat \<Rightarrow> int) \<Rightarrow> rat \<Rightarrow> int" where
  "float_to_int64 oob x = (case to_int64 x of Some n \<Rightarrow> n | None \<Rightarrow> oob x)"

definition wrap64 :: "int \<Rightarrow> int" where
  "wrap64 n = (n + 2 ^ 63) mod 2 ^ 64 - 2 ^ 63"

definition overage_lines :: "(rat \<Rightarrow> int) \<Rightarrow> Plan \<Rightarrow> rat \<Rightarrow> InvoiceLine list" where
  "overage_lines oob plan cpuCoreHours =
     (let extra = fl64 (cpuCoreHours - p_IncludedCPUCoreHours plan) in
      if 0 < extra \<and> 0 < p_OverageCPUCentsHour plan then
        let q = round2 extra in
        [\<lparr>il_Kind = ''overage-cpu-core-hour'', il_Quantity = q, il_UnitCents = p_OverageCPUCentsHour plan,
          il_AmountCents = float_to_int64 oob (fl64 (q * fl64 (of_int (p_OverageCPUCentsHour plan))))\<rparr>]
      else [])"

definition throttle_lines :: "Plan \<Rightarrow> rat \<Rightarrow> InvoiceLine list" where
  "throttle_lines plan buildMinutes =
     (let extraMin = fl64 (buildMinutes - p_IncludedBuildMinutes plan) in
      if 0 < extraMin then
        [\<lparr>il_Kind = ''throttled-build-minutes'', il_Quantity = round2 extraMin, il_UnitCents = 0, il_AmountCents = 0\<rparr>]
      else [])"

definition aggregate_invoice ::
  "(rat \<Rightarrow> int) \<Rightarrow> string \<Rightarrow> Plan \<Rightarrow> time \<Rightarrow> time \<Rightarrow> rat \<Rightarrow> rat \<Rightarrow> Invoice" where
  "aggregate_invoice oob orgID plan start fin buildMinutes cpuCoreHours =
     (let lines = [\<lparr>il_Kind = ''base-'' @ p_Tier plan, il_Quantity = 1,
                     il_UnitCents = p_MonthlyBaseCents plan, il_AmountCents = p_MonthlyBaseCents plan\<rparr>]
                  @ overage_lines oob plan cpuCoreHours
                  @ throttle_lines plan buildMinutes
      in \<lparr>inv_OrgID = orgID, inv_PeriodStart = start, inv_PeriodEnd = fin, inv_Lines = lines,
          inv_TotalCents = foldl (\<lambda>total l. wrap64 (total + il_AmountCents l)) 0 lines\<rparr>)"

section \<open>Payment callbacks\<close>

record TierChange =
  tc_OrgID :: string
  tc_From :: string
  tc_To :: string

definition create_checkout :: "string \<Rightarrow> string \<Rightarrow> billing_error + string" where
  "create_checkout orgID tier =
     and_then (plan_for tier) (\<lambda>_. Inr (''mock-checkout-'' @ orgID @ ''-'' @ tier))"

text \<open>The payload as \<^verbatim>\<open>json.Unmarshal\<close> decodes it, \<open>None\<close> when it fails.\<close>

definition handle_webhook :: "TierChange option \<Rightarrow> billing_error + TierChange" where
  "handle_webhook decoded =
     (case decoded of
        None \<Rightarrow> Inl DecodeTierChange
      | Some ch \<Rightarrow>
          if tc_OrgID ch = [] then Inl OrgIDRequired
          else
            let ch = (if tc_From ch = [] then ch\<lparr>tc_From := TierFree\<rparr> else ch) in
            and_then (plan_for (tc_To ch)) (\<lambda>_. Inr ch))"

text \<open>The atomic value holds a string or nothing.\<close>

record TierStore =
  ts_current :: "string option"

definition new_tier_store :: "string \<Rightarrow> TierStore" where
  "new_tier_store initial = \<lparr>ts_current = Some initial\<rparr>"

definition tier_get :: "TierStore \<Rightarrow> string" where
  "tier_get s = (case ts_current s of None \<Rightarrow> TierFree | Some v \<Rightarrow> v)"

definition tier_set :: "TierStore \<Rightarrow> string \<Rightarrow> TierStore" where
  "tier_set s tier = s\<lparr>ts_current := Some tier\<rparr>"

section \<open>Billing periods\<close>

definition leap :: "int \<Rightarrow> bool" where
  "leap y = (4 dvd y \<and> (\<not> 100 dvd y \<or> 400 dvd y))"

definition month_offset :: "int \<Rightarrow> int" where
  "month_offset m = [0, 31, 59, 90, 120, 151, 181, 212, 243, 273, 304, 334] ! nat m"

text \<open>The day on which month \<open>k\<close> starts, months and days counted from January of year 1.\<close>

definition month_start :: "int \<Rightarrow> int" where
  "month_start k =
     (let y = k div 12; m = k mod 12 in
      365 * y + y div 4 - y div 100 + y div 400 + month_offset m + (if 2 \<le> m \<and> leap (y + 1) then 1 else 0))"

fun month_search :: "nat \<Rightarrow> int \<Rightarrow> int" where
  "month_search 0 d = 0"
| "month_search (Suc k) d = (if month_start (int (Suc k)) \<le> d then int (Suc k) else month_search k d)"

definition month_of_day :: "int \<Rightarrow> int" where
  "month_of_day d = month_search (nat (12 * d div 365 + 1)) d"

abbreviation day :: duration where "day \<equiv> 24 * hour"

text \<open>\<open>offset\<close> is the zone offset of the location \<open>now\<close> carries: \<^verbatim>\<open>now.Year()\<close> and \<^verbatim>\<open>now.Month()\<close> are
  local, while the period is built in UTC.\<close>

definition billing_period :: "time \<Rightarrow> duration \<Rightarrow> time \<times> time" where
  "billing_period now offset =
     (let k = month_of_day ((now + offset) div day) in (month_start k * day, month_start (k + 1) * day))"

section \<open>Usage sampling\<close>

record UsageRecord =
  ur_AppID :: string
  ur_SampledAt :: time
  ur_CPUMillicores :: rat
  ur_MemoryBytes :: rat
  ur_StorageBytes :: rat
  ur_BuildMinutes :: rat
  ur_DBSizeBytes :: rat

datatype 'e sample_error = SampleError (se_Resource: string) (se_Err: 'e)

text \<open>\<open>quote\<close> stands for the \<^verbatim>\<open>%q\<close> verb.\<close>

definition cpu_query :: "(string \<Rightarrow> string) \<Rightarrow> string \<Rightarrow> int \<Rightarrow> string" where
  "cpu_query quote appID windowMinutes =
     ''sum(rate(container_cpu_usage_seconds_total{app_id='' @ quote appID @ ''}['' @ itoa windowMinutes @ ''m])) * 1000''"

definition mem_query :: "(string \<Rightarrow> string) \<Rightarrow> string \<Rightarrow> string" where
  "mem_query quote appID = ''sum(container_memory_working_set_bytes{app_id='' @ quote appID @ ''})''"

definition collect_usage ::
  "(string \<Rightarrow> string) \<Rightarrow> (string \<Rightarrow> 'e + rat) \<Rightarrow> time \<Rightarrow> string \<Rightarrow> UsageRecord \<times> 'e sample_error list" where
  "collect_usage quote scalar now appID =
     (let record0 = \<lparr>ur_AppID = appID, ur_SampledAt = now, ur_CPUMillicores = 0, ur_MemoryBytes = 0,
            ur_StorageBytes = 0, ur_BuildMinutes = 0, ur_DBSizeBytes = 0\<rparr>;
          (record1, errs1) = (case scalar (cpu_query quote appID 5) of
              Inl e \<Rightarrow> (record0, [SampleError ''cpu'' e])
            | Inr cpu \<Rightarrow> (record0\<lparr>ur_CPUMillicores := cpu\<rparr>, []))
      in case scalar (mem_query quote appID) of
            Inl e \<Rightarrow> (record1, errs1 @ [SampleError ''memory'' e])
          | Inr mem \<Rightarrow> (record1\<lparr>ur_MemoryBytes := mem\<rparr>, errs1))"

definition build_minutes :: "rat \<Rightarrow> rat" where
  "build_minutes seconds = fl64 (seconds / 60)"

section \<open>What is billed\<close>

lemma wrap64_id: "in_int64 n \<Longrightarrow> wrap64 n = n"
  by (simp add: wrap64_def in_int64_def int64_min_def int64_max_def)

lemma math_round_of_int [simp]: "math_round (of_int n) = of_int n"
proof -
  have "\<lfloor>of_int n + 1 / 2 :: rat\<rfloor> = n" for n :: int by linarith
  from this [of n] this [of "- n"] show ?thesis by (simp add: math_round_def)
qed

lemma round2_of_int: assumes "\<bar>n\<bar> < 2 ^ 40" shows "round2 (of_int n) = of_int n"
proof -
  have "fl64 (of_int (n * 100)) = of_int (n * 100)" using assms by (intro fl64_of_int) simp
  moreover have "fl64 (of_int n) = of_int n" using assms by (intro fl64_of_int) simp
  moreover have "math_round (of_int n * 100) = of_int n * 100"
    using math_round_of_int [of "n * 100"] by simp
  ultimately show ?thesis by (simp add: round2_def)
qed

lemma throttle_lines_free: "l \<in> set (throttle_lines plan b) \<Longrightarrow> il_AmountCents l = 0"
  by (auto simp: throttle_lines_def Let_def split: if_splits)

lemma throttle_lines_total:
  "in_int64 t \<Longrightarrow> foldl (\<lambda>total l. wrap64 (total + il_AmountCents l)) t (throttle_lines plan b) = t"
  by (simp add: throttle_lines_def Let_def wrap64_id)

text \<open>The lines of an invoice are added up in \<^verbatim>\<open>int64\<close>.\<close>

abbreviation (input) sum_lines :: "int \<Rightarrow> InvoiceLine list \<Rightarrow> int" where
  "sum_lines \<equiv> foldl (\<lambda>total l. wrap64 (total + il_AmountCents l))"

abbreviation (input) pro_plan :: Plan where
  "pro_plan \<equiv> the (map_of plan_catalog TierPro)"

lemma pro_plan: "p_OverageCPUCentsHour pro_plan = 8" "p_MonthlyBaseCents pro_plan = 1900" "p_IncludedCPUCoreHours pro_plan = 120"
  by (simp_all add: plan_catalog_def)

lemma in_int64_small: "0 \<le> k \<Longrightarrow> k < 2 ^ 60 \<Longrightarrow> in_int64 k"
  by (simp add: in_int64_def int64_min_def int64_max_def)

lemma within_included: "cpu \<le> 120 \<Longrightarrow> overage_lines oob pro_plan cpu = []"
proof -
  assume "cpu \<le> 120"
  then have "fl64 (cpu - 120) \<le> 0" by (intro fl64_nonpos) simp
  then show ?thesis by (simp add: overage_lines_def pro_plan Let_def)
qed

lemma whole_hours_over:
  assumes n: "0 \<le> n" "n < 2 ^ 40"
  shows "sum_lines 1900 (overage_lines oob pro_plan (of_int (120 + n))) = 1900 + 8 * n"
proof (cases "n = 0")
  case True
  then show ?thesis using within_included [of 120] by simp
next
  case False
  have "fl64 (of_int n) = of_int n" "fl64 (of_int (n * 8)) = of_int (n * 8)" "fl64 (of_int 8) = of_int 8"
    using n fl64_of_int [of n] fl64_of_int [of "n * 8"] fl64_of_int [of 8] by simp_all
  moreover have "to_int64 (of_int n * 8) = Some (n * 8)"
    using to_int64_of_int [of "n * 8"] in_int64_small [of "n * 8"] n by simp
  moreover have "wrap64 (1900 + n * 8) = 1900 + n * 8" using in_int64_small [of "1900 + n * 8"] n by (simp add: wrap64_id)
  ultimately show ?thesis using n False by (simp add: overage_lines_def pro_plan Let_def round2_of_int float_to_int64_def)
qed

lemma sum_in_int64: "in_int64 t \<Longrightarrow> in_int64 (sum_lines t ls)"
proof (induction ls arbitrary: t)
  case (Cons l ls)
  have "in_int64 (wrap64 k)" for k by (simp add: wrap64_def in_int64_def int64_min_def int64_max_def)
  from Cons.IH [OF this] show ?case by simp
qed simp

lemma pro_total:
  "inv_TotalCents (aggregate_invoice oob orgID pro_plan start fin b cpu) = sum_lines 1900 (overage_lines oob pro_plan cpu)"
  using throttle_lines_total [OF sum_in_int64, of 1900] in_int64_small [of 1900]
  by (simp add: aggregate_invoice_def pro_plan wrap64_id)



section \<open>The billing period contains the instant in its own zone\<close>

lemma month_start_step:
  assumes "0 \<le> k" shows "month_start k + 28 \<le> month_start (k + 1)"
proof -
  define y m where "y = k div 12" and "m = k mod 12"
  have k: "k = 12 * y + m" "0 \<le> m" "m < 12" by (simp_all add: y_def m_def)
  show ?thesis
  proof (cases "m = 11")
    case True
    then have "(k + 1) div 12 = y + 1" "(k + 1) mod 12 = 0" using k by presburger+
    then have next_start: "month_start (k + 1) = 365 * (y + 1) + (y + 1) div 4 - (y + 1) div 100 + (y + 1) div 400"
      by (simp add: month_start_def Let_def month_offset_def)
    have start: "month_start k = 365 * y + y div 4 - y div 100 + y div 400 + 334 + (if leap (y + 1) then 1 else 0)"
      using True by (simp add: month_start_def Let_def y_def m_def month_offset_def)
    have divs: "y div 4 \<le> (y + 1) div 4" "(y + 1) div 100 \<le> y div 100 + 1" "y div 400 \<le> (y + 1) div 400"
      using zdiv_mono1 [of "y + 1" "y + 100" 100] by (simp_all add: zdiv_mono1)
    have leap1: "(if leap (y + 1) then 1 else 0 :: int) \<le> 1" by simp
    have arith: "M + 28 \<le> M'"
      if "M = 365 * y + a - b + c + 334 + e" "e \<le> 1" "M' = 365 * (y + 1) + a' - b' + c'" "a \<le> a'" "b' \<le> b + 1" "c \<le> c'"
      for M M' a a' b b' c c' e :: int
      using that by simp
    show ?thesis by (rule arith [OF start leap1 next_start divs])
  next
    case False
    with k have "k + 1 = (m + 1) + y * 12" "0 \<le> m + 1" "m + 1 < 12" by auto
    then have "(k + 1) div 12 = y" "(k + 1) mod 12 = m + 1"
      by (simp_all only: div_mult_self1 mod_mult_self1 div_pos_pos_trivial mod_pos_pos_trivial)
    moreover have "m = 0 \<or> m = 1 \<or> m = 2 \<or> m = 3 \<or> m = 4 \<or> m = 5 \<or> m = 6 \<or> m = 7 \<or> m = 8 \<or> m = 9 \<or> m = 10"
      using k(2,3) False by presburger
    ultimately show ?thesis
      by (auto simp: month_start_def Let_def y_def [symmetric] m_def [symmetric] month_offset_def)
  qed
qed

lemma month_start_lower: assumes "0 \<le> k" shows "365 * k \<le> 12 * month_start k + 22"
proof -
  define y m where "y = k div 12" and "m = k mod 12"
  have k: "k = 12 * y + m" "0 \<le> m" "m < 12" "0 \<le> y" using assms by (simp_all add: y_def m_def)
  have "y div 100 \<le> y div 4" using k(4) by (intro zdiv_mono2) auto
  moreover have "0 \<le> y div 400" using k(4) by (simp add: pos_imp_zdiv_nonneg_iff)
  moreover have "m = 0 \<or> m = 1 \<or> m = 2 \<or> m = 3 \<or> m = 4 \<or> m = 5 \<or> m = 6 \<or> m = 7 \<or> m = 8 \<or> m = 9 \<or> m = 10 \<or> m = 11"
    using k(2,3) by presburger
  then have "365 * m \<le> 12 * month_offset m + 22" by (auto simp: month_offset_def)
  moreover have "month_start k = 365 * y + y div 4 - y div 100 + y div 400 + month_offset m + (if 2 \<le> m \<and> leap (y + 1) then 1 else 0)"
    by (simp add: month_start_def Let_def y_def m_def)
  moreover have "0 \<le> (if 2 \<le> m \<and> leap (y + 1) then 1 else 0 :: int)" by simp
  ultimately show ?thesis using k(1) by linarith
qed

lemma month_search_spec:
  assumes "0 \<le> d" and "d < month_start (int k + 1)"
  shows "0 \<le> month_search k d \<and> month_start (month_search k d) \<le> d \<and> d < month_start (month_search k d + 1)"
  using assms(2)
proof (induction k)
  case 0
  then show ?case using assms(1) by (simp add: month_start_def month_offset_def)
next
  case (Suc k)
  then show ?case by (simp add: add.commute)
qed

lemma month_of_day_spec:
  assumes "0 \<le> d"
  shows "0 \<le> month_of_day d \<and> month_start (month_of_day d) \<le> d \<and> d < month_start (month_of_day d + 1)"
proof -
  define k where "k = 12 * d div 365 + 1"
  have "0 \<le> k" using assms by (simp add: k_def)
  then have "365 * (k + 1) \<le> 12 * month_start (k + 1) + 22" by (intro month_start_lower) simp
  moreover have "12 * d < 365 * k" unfolding k_def by presburger
  ultimately have "12 * d < 12 * month_start (k + 1)" by simp
  then have "d < month_start (k + 1)" by simp
  then have "d < month_start (int (nat k) + 1)" using \<open>0 \<le> k\<close> by simp
  from month_search_spec [OF assms this] show ?thesis by (simp add: month_of_day_def k_def)
qed

text \<open>
  The billing period is the calendar month of the instant as its own location reads it, between
  28 and 31 days long. For an instant in UTC it contains the instant.
\<close>

theorem billing_period_month:
  assumes "0 \<le> now + offset"
  shows "fst (billing_period now offset) \<le> now + offset \<and> now + offset < snd (billing_period now offset) \<and>
    28 * day \<le> snd (billing_period now offset) - fst (billing_period now offset) \<and>
    (offset = 0 \<longrightarrow> fst (billing_period now 0) \<le> now \<and> now < snd (billing_period now 0))"
proof -
  have pos: "0 < day" by (simp add: hour_def minute_def second_def)
  have main: "month_start (month_of_day (t div day)) * day \<le> t \<and> t < month_start (month_of_day (t div day) + 1) * day \<and>
      28 * day \<le> (month_start (month_of_day (t div day) + 1) - month_start (month_of_day (t div day))) * day"
    if "0 \<le> t" for t
  proof -
    define d where "d = t div day"
    have d: "0 \<le> d" using that pos by (simp add: d_def pos_imp_zdiv_nonneg_iff)
    have t: "d * day \<le> t" "t < (d + 1) * day"
      using pos div_mult_mod_eq [of t day] pos_mod_bound [of day t] pos_mod_sign [of day t]
      unfolding d_def distrib_right by linarith+
    note m = month_of_day_spec [OF d]
    have "month_start (month_of_day d) * day \<le> d * day" using m pos by (intro mult_right_mono) auto
    moreover have "(d + 1) * day \<le> month_start (month_of_day d + 1) * day" using m pos by (intro mult_right_mono) auto
    moreover have "28 * day \<le> (month_start (month_of_day d + 1) - month_start (month_of_day d)) * day"
      using month_start_step [of "month_of_day d"] m pos by (intro mult_right_mono) auto
    ultimately show ?thesis using t unfolding d_def by linarith
  qed
  show ?thesis using main [OF assms] assms main [of now] by (auto simp: billing_period_def Let_def left_diff_distrib)
qed

theorem billing_period_month_witness:
  "fst (billing_period (1000 * day) 0) \<le> 1000 * day \<and> 1000 * day < snd (billing_period (1000 * day) 0)"
  using billing_period_month [of "1000 * day" 0] by (simp add: hour_def minute_def second_def)

text \<open>
  An instant read in a zone east of UTC in the first hours of a month gets the next month's period,
  which does not contain it: 8 hours before the end of January of year 1 in UTC is already February
  there.
\<close>

lemma billing_period_local_zone:
  "31 * day - 8 * hour < fst (billing_period (31 * day - 8 * hour) (8 * hour))"
proof -
  have pos: "0 < hour" "0 < day" by (simp_all add: hour_def minute_def second_def)
  have "(31 * day - 8 * hour + 8 * hour) div day = 31" using pos by simp
  moreover have "month_start 1 = 31" "month_start 2 = 59" by (simp_all add: month_start_def month_offset_def Let_def leap_def)
  then have "month_of_day 31 = 1" by (simp add: month_of_day_def numeral_2_eq_2)
  ultimately have "fst (billing_period (31 * day - 8 * hour) (8 * hour)) = 31 * day"
    using \<open>month_start 1 = 31\<close> by (simp add: billing_period_def Let_def)
  then show ?thesis using pos by simp
qed

end
