(* ===== verification/Appspec.thy ===== *)
theory Appspec
  imports Go_Numbers
begin

text \<open>
  AppSpec v1 validation and the cron grammar: \<^verbatim>\<open>appspec/cron.go\<close> and \<^verbatim>\<open>appspec/spec.go\<close>. The maps
  of a spec are association lists with distinct keys, in the order in which a range statement visits
  them in that run. The strict JSON decoder is a parameter of \<open>parse_spec\<close>.
\<close>

section \<open>Cron expressions\<close>

datatype cron_error =
    WantFiveFields int
  | BadStep string
  | BadRange string
  | ValueOut int int

record field_error =
  fe_Name :: string
  fe_Field :: string
  fe_Cause :: cron_error

definition check_part :: "string \<Rightarrow> int \<Rightarrow> int \<Rightarrow> cron_error + unit" where
  "check_part part lo hi =
     (if part = ''*'' then Inr ()
      else case cut_prefix part ''*/'' of
        Some step \<Rightarrow>
          (case atoi step of
             None \<Rightarrow> Inl (BadStep step)
           | Some n \<Rightarrow> if n < 1 then Inl (BadStep step) else Inr ())
      | None \<Rightarrow>
          (case cut CHR ''-'' part of
             Some (a, b) \<Rightarrow>
               (case (atoi a, atoi b) of
                  (Some loV, Some hiV) \<Rightarrow>
                    if hiV < loV \<or> loV < lo \<or> hi < hiV then Inl (BadRange part) else Inr ()
                | _ \<Rightarrow> Inl (BadRange part))
           | None \<Rightarrow>
               (case atoi part of
                  None \<Rightarrow> Inl (ValueOut lo hi)
                | Some n \<Rightarrow> if n < lo \<or> hi < n then Inl (ValueOut lo hi) else Inr ())))"

fun check_parts :: "string list \<Rightarrow> int \<Rightarrow> int \<Rightarrow> cron_error + unit" where
  "check_parts [] lo hi = Inr ()"
| "check_parts (part # parts) lo hi =
     (case check_part part lo hi of Inl e \<Rightarrow> Inl e | Inr _ \<Rightarrow> check_parts parts lo hi)"

definition check_field :: "string \<Rightarrow> int \<Rightarrow> int \<Rightarrow> cron_error + unit" where
  "check_field field lo hi = check_parts (split_on CHR '','' field) lo hi"

definition cron_domains :: "(string \<times> int \<times> int) list" where
  "cron_domains = [(''minute'', 0, 59), (''hour'', 0, 23), (''day-of-month'', 1, 31), (''month'', 1, 12), (''day-of-week'', 0, 7)]"

fun check_fields :: "(string \<times> int \<times> int) list \<Rightarrow> string list \<Rightarrow> field_error option" where
  "check_fields ((name, lo, hi) # ds) (field # rest) =
     (case check_field field lo hi of
        Inl e \<Rightarrow> Some \<lparr>fe_Name = name, fe_Field = field, fe_Cause = e\<rparr>
      | Inr _ \<Rightarrow> check_fields ds rest)"
| "check_fields _ _ = None"

datatype schedule_error = FieldCount int | FieldInvalid field_error

definition validate_schedule :: "string \<Rightarrow> schedule_error + unit" where
  "validate_schedule expr =
     (let fs = split_fields expr in
      if length fs \<noteq> 5 then Inl (FieldCount (int (length fs)))
      else case check_fields cron_domains fs of
        Some e \<Rightarrow> Inl (FieldInvalid e)
      | None \<Rightarrow> Inr ())"

section \<open>Specs\<close>

record ServiceDef =
  sd_Type :: string
  sd_Runtime :: string
  sd_Path :: string
  sd_Schedule :: string
  sd_Port :: int

record RouteTarget =
  rt_Service :: string

text \<open>\<open>sp_Database\<close> is the pointer to \<open>DatabaseDef\<close>, whose only field is \<open>MongoDB\<close>.\<close>

record Spec =
  sp_Services :: "(string \<times> ServiceDef) list"
  sp_Routing :: "(string \<times> RouteTarget) list"
  sp_Database :: "bool option"
  sp_Version :: string

abbreviation (input) TypeFrontend :: string where "TypeFrontend \<equiv> ''frontend''"
abbreviation (input) TypeBackend :: string where "TypeBackend \<equiv> ''backend''"
abbreviation (input) TypeWorker :: string where "TypeWorker \<equiv> ''worker''"
abbreviation (input) TypeCron :: string where "TypeCron \<equiv> ''cron''"

definition valid_types :: "(string \<times> bool) list" where
  "valid_types = [(TypeFrontend, True), (TypeBackend, True), (TypeWorker, True), (TypeCron, True)]"

definition valid_runtimes :: "(string \<times> bool) list" where
  "valid_runtimes = [(''node'', True), (''python'', True), (''go'', True)]"

definition is_http_type :: "string \<Rightarrow> bool" where
  "is_http_type t = (t = TypeFrontend \<or> t = TypeBackend)"

datatype spec_error =
    EmptyDocument
  | DecodeFailed
  | UnsupportedVersion string
  | NoServices
  | InvalidType string string
  | InvalidRuntime string string
  | MissingPath string
  | InvalidSchedule string schedule_error
  | UnknownRouteTarget string string
  | NonHTTPRouteTarget string string

definition check_service :: "string \<times> ServiceDef \<Rightarrow> spec_error + unit" where
  "check_service e =
     (case e of (name, svc) \<Rightarrow>
      if \<not> truthy (map_of valid_types) (sd_Type svc) then Inl (InvalidType name (sd_Type svc))
      else if \<not> truthy (map_of valid_runtimes) (sd_Runtime svc) then Inl (InvalidRuntime name (sd_Runtime svc))
      else if is_http_type (sd_Type svc) \<and> trim_space (sd_Path svc) = [] then Inl (MissingPath name)
      else if sd_Type svc = TypeCron then
        (case validate_schedule (sd_Schedule svc) of
           Inl schedErr \<Rightarrow> Inl (InvalidSchedule name schedErr)
         | Inr _ \<Rightarrow> Inr ())
      else Inr ())"

definition check_route :: "(string \<times> ServiceDef) list \<Rightarrow> string \<times> RouteTarget \<Rightarrow> spec_error + unit" where
  "check_route services e =
     (case e of (route, target) \<Rightarrow>
      case map_of services (rt_Service target) of
        None \<Rightarrow> Inl (UnknownRouteTarget route (rt_Service target))
      | Some targetSvc \<Rightarrow>
          if \<not> is_http_type (sd_Type targetSvc) then Inl (NonHTTPRouteTarget route (rt_Service target)) else Inr ())"

definition validate_spec :: "Spec \<Rightarrow> spec_error option" where
  "validate_spec s =
     (if sp_Version s \<noteq> ''v1'' then Some (UnsupportedVersion (sp_Version s))
      else if sp_Services s = [] then Some NoServices
      else case first_error check_service (sp_Services s) of
        Some e \<Rightarrow> Some e
      | None \<Rightarrow> first_error (check_route (sp_Services s)) (sp_Routing s))"

text \<open>\<open>decode\<close> is the strict decoder run on the trimmed document. Like the code, the result carries the
  decoded spec together with the validation error.\<close>

definition zero_spec :: Spec where
  "zero_spec = \<lparr>sp_Services = [], sp_Routing = [], sp_Database = None, sp_Version = []\<rparr>"

definition parse_spec :: "(string \<Rightarrow> Spec option) \<Rightarrow> string \<Rightarrow> Spec \<times> spec_error option" where
  "parse_spec decode data =
     (let trimmed = trim_space data in
      if trimmed = [] then (zero_spec, Some EmptyDocument)
      else case decode trimmed of
        None \<Rightarrow> (zero_spec, Some DecodeFailed)
      | Some s \<Rightarrow> (s, validate_spec s))"

section \<open>The cron grammar accepted\<close>

text \<open>The expressions the grammar describes, and how they are written.\<close>

datatype cron_part = Every | Step nat | Span nat nat | At nat

fun print_part :: "cron_part \<Rightarrow> string" where
  "print_part Every = ''*''"
| "print_part (Step n) = ''*/'' @ itoa (int n)"
| "print_part (Span a b) = itoa (int a) @ ''-'' @ itoa (int b)"
| "print_part (At n) = itoa (int n)"

fun part_in :: "int \<Rightarrow> int \<Rightarrow> cron_part \<Rightarrow> bool" where
  "part_in lo hi Every = True"
| "part_in lo hi (Step n) = (1 \<le> n)"
| "part_in lo hi (Span a b) = (a \<le> b \<and> lo \<le> int a \<and> int b \<le> hi)"
| "part_in lo hi (At n) = (lo \<le> int n \<and> int n \<le> hi)"

fun part_small :: "cron_part \<Rightarrow> bool" where
  "part_small Every = True"
| "part_small (Step n) = (int n \<le> int64_max)"
| "part_small (Span a b) = (int a \<le> int64_max \<and> int b \<le> int64_max)"
| "part_small (At n) = (int n \<le> int64_max)"

definition print_field :: "cron_part list \<Rightarrow> string" where
  "print_field ps = join '','' (map print_part ps)"

definition print_cron :: "cron_part list list \<Rightarrow> string" where
  "print_cron fs = join '' '' (map print_field fs)"

lemma itoa_nat_digits: "list_all is_digit (itoa (int n)) \<and> itoa (int n) \<noteq> []"
  using show_nat_digits [of n] by (auto simp: itoa_def)

lemma itoa_nat_no: "\<not> is_digit c \<Longrightarrow> c \<notin> set (itoa (int n))"
  using itoa_nat_digits [of n] by (auto simp: list_all_iff)

lemma atoi_itoa_nat: "int n \<le> int64_max \<Longrightarrow> atoi (itoa (int n)) = Some (int n)"
  by (rule atoi_itoa) (simp add: in_int64_def int64_min_def)

lemma not_digits [simp]: "\<not> is_digit CHR '',''" "\<not> is_digit CHR ''-''" "\<not> is_digit CHR ''*''" "\<not> is_digit CHR '' ''"
  by (simp_all add: is_digit_def)

lemma itoa_no_star: "has_prefix (itoa (int n) @ s) ''*/'' = False" "itoa (int n) @ s \<noteq> ''*''"
  using itoa_nat_digits [of n] by (cases "itoa (int n)"; auto simp: has_prefix_def is_digit_def)+

lemma check_part_print:
  assumes "part_small p"
  shows "is_ok (check_part (print_part p) lo hi) \<longleftrightarrow> part_in lo hi p"
proof (cases p)
  case Every
  then show ?thesis by (simp add: check_part_def)
next
  case (Step n)
  then have "cut_prefix (print_part p) ''*/'' = Some (itoa (int n))"
    by (simp add: cut_prefix_def has_prefix_def)
  with Step assms itoa_nat_digits [of n] show ?thesis
    by (auto simp: check_part_def atoi_itoa_nat)
next
  case (Span a b)
  have no: "CHR ''-'' \<notin> set (itoa (int a))" by (rule itoa_nat_no) simp
  have "cut CHR ''-'' (print_part p) = Some (itoa (int a), itoa (int b))"
    using Span no before_append_sep [OF no, of "itoa (int b)"] by (simp add: cut_def)
  moreover have "cut_prefix (print_part p) ''*/'' = None" "print_part p \<noteq> ''*''"
    using Span itoa_no_star [of a] by (simp_all add: cut_prefix_def)
  ultimately show ?thesis using Span assms by (auto simp: check_part_def atoi_itoa_nat)
next
  case (At n)
  have no: "CHR ''-'' \<notin> set (itoa (int n))" by (rule itoa_nat_no) simp
  have "cut_prefix (print_part p) ''*/'' = None" "print_part p \<noteq> ''*''"
    using At itoa_no_star [of n "[]"] by (simp_all add: cut_prefix_def)
  with At assms no show ?thesis by (auto simp: check_part_def cut_def atoi_itoa_nat)
qed

lemma print_part_plain: "list_all plain_char (print_part p) \<and> print_part p \<noteq> [] \<and> CHR '','' \<notin> set (print_part p)"
  using itoa_plain itoa_nat_no [of "CHR '',''"]
  by (cases p) (auto simp: plain_char_def)

lemma check_parts_ok: "is_ok (check_parts ps lo hi) \<longleftrightarrow> (\<forall>p \<in> set ps. is_ok (check_part p lo hi))"
  by (induction ps) (auto split: sum.split)

lemma check_field_print:
  assumes "ps \<noteq> []" and "list_all part_small ps"
  shows "is_ok (check_field (print_field ps) lo hi) \<longleftrightarrow> list_all (part_in lo hi) ps"
proof -
  have "split_on CHR '','' (print_field ps) = map print_part ps"
    unfolding print_field_def using assms(1) print_part_plain by (intro split_on_join) auto
  then show ?thesis using assms(2) check_part_print
    by (auto simp: check_field_def check_parts_ok list_all_iff)
qed

lemma join_plain: "\<forall>x \<in> set xs. list_all plain_char x \<Longrightarrow> list_all plain_char sep \<Longrightarrow> list_all plain_char (join sep xs)"
  by (induction sep xs rule: join.induct) auto

lemma print_field_plain: "ps \<noteq> [] \<Longrightarrow> print_field ps \<noteq> [] \<and> list_all plain_char (print_field ps)"
  using print_part_plain
  by (auto simp: print_field_def plain_char_def [of "CHR '',''"] intro!: join_plain)
     (cases ps; cases "tl ps"; auto)

text \<open>
  The schedule validator accepts a five-field expression written from the grammar (every, step,
  range, value, comma lists) exactly when every step is positive and every range and value lies in the domain
  of its field; with another number of fields it reports the number found.
\<close>

lemma check_fields_ok:
  assumes "length fs = length ds" and "\<forall>ps \<in> set fs. ps \<noteq> [] \<and> list_all part_small ps"
  shows "check_fields ds (map print_field fs) = None \<longleftrightarrow> list_all2 (\<lambda>ps (_, lo, hi). list_all (part_in lo hi) ps) fs ds"
  using assms
proof (induction fs ds rule: list_induct2)
  case Nil
  show ?case by simp
next
  case (Cons ps fs d ds)
  obtain n lo hi where d: "d = (n, lo, hi)" by (cases d)
  have "is_ok (check_field (print_field ps) lo hi) \<longleftrightarrow> list_all (part_in lo hi) ps"
    using Cons.prems by (intro check_field_print) simp_all
  with Cons.IH Cons.prems d show ?case by (simp split: sum.split) (auto simp: is_ok_def)
qed

theorem schedule_grammar_exact:
  assumes "\<forall>ps \<in> set fs. ps \<noteq> [] \<and> list_all part_small ps"
  shows "(is_ok (validate_schedule (print_cron fs)) \<longleftrightarrow>
      length fs = 5 \<and> list_all2 (\<lambda>ps (_, lo, hi). list_all (part_in lo hi) ps) fs cron_domains) \<and>
    (length fs \<noteq> 5 \<longrightarrow> validate_schedule (print_cron fs) = Inl (FieldCount (int (length fs))))"
proof -
  have "split_fields (print_cron fs) = map print_field fs"
    unfolding print_cron_def using assms print_field_plain by (intro split_fields_join) auto
  moreover have "length cron_domains = 5" by (simp add: cron_domains_def)
  ultimately show ?thesis using check_fields_ok [of fs cron_domains] assms
    by (auto simp: validate_schedule_def Let_def split: option.splits)
qed

theorem schedule_grammar_exact_witness:
  "is_ok (validate_schedule (print_cron [[At 0, At 30], [Span 8 18], [Every], [Step 2], [Span 1 5, At 7]]))"
  using schedule_grammar_exact [of "[[At 0, At 30], [Span 8 18], [Every], [Step 2], [Span 1 5, At 7]]"]
  by (simp add: cron_domains_def int64_max_def)

text \<open>The grammar is not all that is accepted: \<^verbatim>\<open>strconv.Atoi\<close> also reads a sign.\<close>

lemma schedule_accepts_plus: "is_ok (check_field ''+5'' 0 59)"
  by (simp add: check_field_def check_part_def cut_prefix_def has_prefix_def cut_def atoi_def digits_val_def
      is_digit_def digit_val_def in_int64_def int64_min_def int64_max_def)

section \<open>What a valid spec is\<close>

definition service_ok :: "ServiceDef \<Rightarrow> bool" where
  "service_ok svc =
     (sd_Type svc \<in> {TypeFrontend, TypeBackend, TypeWorker, TypeCron} \<and>
      sd_Runtime svc \<in> {''node'', ''python'', ''go''} \<and>
      (is_http_type (sd_Type svc) \<longrightarrow> trim_space (sd_Path svc) \<noteq> []) \<and>
      (sd_Type svc = TypeCron \<longrightarrow> is_ok (validate_schedule (sd_Schedule svc))))"

lemma truthy_valid_types: "truthy (map_of valid_types) t \<longleftrightarrow> t \<in> {TypeFrontend, TypeBackend, TypeWorker, TypeCron}"
  by (simp add: valid_types_def truthy_def)

lemma truthy_valid_runtimes: "truthy (map_of valid_runtimes) t \<longleftrightarrow> t \<in> {''node'', ''python'', ''go''}"
  by (simp add: valid_runtimes_def truthy_def)

lemma check_service_ok: "is_ok (check_service (name, svc)) \<longleftrightarrow> service_ok svc"
  unfolding check_service_def service_ok_def truthy_valid_types truthy_valid_runtimes
  by (auto split: sum.splits)

lemma check_route_ok:
  "is_ok (check_route services (route, target)) \<longleftrightarrow>
     (\<exists>svc. map_of services (rt_Service target) = Some svc \<and> is_http_type (sd_Type svc))"
  by (auto simp: check_route_def split: option.split)

definition spec_ok :: "Spec \<Rightarrow> bool" where
  "spec_ok s =
     (sp_Version s = ''v1'' \<and> sp_Services s \<noteq> [] \<and> (\<forall>(n, svc) \<in> set (sp_Services s). service_ok svc) \<and>
      (\<forall>(r, t) \<in> set (sp_Routing s).
         \<exists>svc. map_of (sp_Services s) (rt_Service t) = Some svc \<and> is_http_type (sd_Type svc)))"

lemma validate_spec_ok: "validate_spec s = None \<longleftrightarrow> spec_ok s"
proof -
  have "first_error check_service (sp_Services s) = None \<longleftrightarrow> (\<forall>(n, svc) \<in> set (sp_Services s). service_ok svc)"
    by (auto simp: first_error_None_iff check_service_ok)
  moreover have "first_error (check_route (sp_Services s)) (sp_Routing s) = None \<longleftrightarrow>
      (\<forall>(r, t) \<in> set (sp_Routing s). \<exists>svc. map_of (sp_Services s) (rt_Service t) = Some svc \<and> is_http_type (sd_Type svc))"
    by (auto simp: first_error_None_iff check_route_ok)
  ultimately show ?thesis unfolding validate_spec_def spec_ok_def by (auto split: option.split)
qed

text \<open>
  A spec is accepted exactly when it is a v1 document with a service, every service has a known type
  and runtime, HTTP services have a path, cron services a valid schedule, and every route targets an existing HTTP
  service; the verdict does not depend on the order in which the maps are visited.
\<close>

theorem spec_validation_exact:
  assumes "distinct (map fst (sp_Services s))"
    and "mset (sp_Services s) = mset services" and "mset (sp_Routing s) = mset routing"
  shows "(validate_spec s = None \<longleftrightarrow> spec_ok s) \<and>
    (validate_spec (s\<lparr>sp_Services := services, sp_Routing := routing\<rparr>) = None \<longleftrightarrow> validate_spec s = None)"
proof -
  have "set (sp_Services s) = set services" "set (sp_Routing s) = set routing"
    using assms(2,3) by (metis set_mset_mset)+
  moreover have "map_of (sp_Services s) = map_of services" using assms(1,2) by (rule map_of_mset_cong)
  ultimately show ?thesis by (auto simp: validate_spec_ok spec_ok_def)
qed

definition sample_spec :: Spec where
  "sample_spec =
     \<lparr>sp_Services = [(''web'', \<lparr>sd_Type = TypeFrontend, sd_Runtime = ''node'', sd_Path = ''web'', sd_Schedule = [], sd_Port = 80\<rparr>),
                     (''api'', \<lparr>sd_Type = TypeBackend, sd_Runtime = ''go'', sd_Path = ''api'', sd_Schedule = [], sd_Port = 8080\<rparr>)],
      sp_Routing = [(''/'', \<lparr>rt_Service = ''web''\<rparr>), (''/api'', \<lparr>rt_Service = ''api''\<rparr>)],
      sp_Database = Some True, sp_Version = ''v1''\<rparr>"

lemma sample_spec_ok: "spec_ok sample_spec"
  by (simp add: sample_spec_def spec_ok_def service_ok_def is_http_type_def trim_space_plain plain_char_def)

theorem spec_validation_exact_witness:
  "validate_spec (sample_spec\<lparr>sp_Services := rev (sp_Services sample_spec), sp_Routing := rev (sp_Routing sample_spec)\<rparr>) = None"
  using spec_validation_exact [of sample_spec "rev (sp_Services sample_spec)" "rev (sp_Routing sample_spec)"] sample_spec_ok
  by (simp add: sample_spec_def)

end
