(* ===== verification/Plan_Generator.thy ===== *)
theory Plan_Generator
  imports Appspec
begin

text \<open>
  The plan shown before approval: \<^verbatim>\<open>orchestrator/plan/generator.go\<close>. The services of the spec come in
  the order in which the range statement visits the map; the generator sorts the names.
\<close>

record ServiceResources =
  sr_CPUMillicores :: int
  sr_MemoryMegabytes :: int

record PlanService =
  ps_Name :: string
  ps_Resources :: ServiceResources

record DeployPlan =
  dp_Services :: "PlanService list"
  dp_ExpiresAt :: time
  dp_NamespaceName :: string
  dp_DatabaseName :: string
  dp_Domain :: string
  dp_PlanID :: string

definition resource_by_type :: "(string \<times> ServiceResources) list" where
  "resource_by_type =
    [(''frontend'', \<lparr>sr_CPUMillicores = 250, sr_MemoryMegabytes = 256\<rparr>),
     (''backend'', \<lparr>sr_CPUMillicores = 500, sr_MemoryMegabytes = 512\<rparr>)]"

record PlanInput =
  pi_Spec :: Spec
  pi_Now :: time
  pi_AppID :: string
  pi_Slug :: string
  pi_Env :: string
  pi_BaseDomain :: string
  pi_TTL :: duration

datatype plan_error = PlanInputIncomplete | NoResourceEstimate string

text \<open>\<^verbatim>\<open>strings.SplitN(id, "-", 2)[0]\<close>.\<close>

definition short_id :: "string \<Rightarrow> string" where
  "short_id appID = before CHR ''-'' appID"

text \<open>Reading a name that is in the map; a missing key reads as the zero value.\<close>

definition service_of :: "(string \<times> ServiceDef) list \<Rightarrow> string \<Rightarrow> ServiceDef" where
  "service_of services name =
     (case map_of services name of
        None \<Rightarrow> \<lparr>sd_Type = [], sd_Runtime = [], sd_Path = [], sd_Schedule = [], sd_Port = 0\<rparr>
      | Some d \<Rightarrow> d)"

definition plan_service :: "(string \<times> ServiceDef) list \<Rightarrow> string \<Rightarrow> plan_error + PlanService" where
  "plan_service services name =
     (case map_of resource_by_type (sd_Type (service_of services name)) of
        None \<Rightarrow> Inl (NoResourceEstimate (sd_Type (service_of services name)))
      | Some res \<Rightarrow> Inr \<lparr>ps_Name = name, ps_Resources = res\<rparr>)"

definition generate_plan :: "PlanInput \<Rightarrow> plan_error + DeployPlan" where
  "generate_plan inp =
     (if pi_AppID inp = [] \<or> pi_Slug inp = [] \<or> pi_Env inp = [] \<or> pi_BaseDomain inp = []
      then Inl PlanInputIncomplete
      else
        let shortID = short_id (pi_AppID inp);
            spec = pi_Spec inp;
            names = sort (map fst (sp_Services spec))
        in and_then (collect (plan_service (sp_Services spec)) names) (\<lambda>services.
          Inr \<lparr>dp_Services = services,
               dp_ExpiresAt = pi_Now inp + pi_TTL inp,
               dp_NamespaceName = ''app-'' @ shortID @ ''-'' @ pi_Env inp,
               dp_DatabaseName = (if sp_Database spec = Some True then ''app_'' @ shortID else []),
               dp_Domain = (if pi_Env inp \<noteq> ''production''
                            then pi_Slug inp @ ''-'' @ pi_Env inp @ ''.'' @ pi_BaseDomain inp
                            else pi_Slug inp @ ''.'' @ pi_BaseDomain inp),
               dp_PlanID = []\<rparr>))"

section \<open>Determinism and coverage\<close>

definition input_complete :: "PlanInput \<Rightarrow> bool" where
  "input_complete inp = (pi_AppID inp \<noteq> [] \<and> pi_Slug inp \<noteq> [] \<and> pi_Env inp \<noteq> [] \<and> pi_BaseDomain inp \<noteq> [])"

lemma plan_service_ok: "is_ok (plan_service services name) \<longleftrightarrow> is_http_type (sd_Type (service_of services name))"
  by (auto simp: plan_service_def resource_by_type_def is_http_type_def)

lemma plan_service_name: "plan_service services name = Inr ps \<Longrightarrow> ps_Name ps = name"
  by (auto simp: plan_service_def split: option.splits)

lemma collect_names: "collect (plan_service services) names = Inr ps \<Longrightarrow> map ps_Name ps = names"
proof -
  assume "collect (plan_service services) names = Inr ps"
  then have "list_all2 (\<lambda>n p. plan_service services n = Inr p) names ps" by (simp add: collect_Inr_iff)
  then show ?thesis by (induction rule: list_all2_induct) (auto dest: plan_service_name)
qed

text \<open>
  C21: a plan lists every service of the spec exactly once, in name order, and does not depend on the
  order in which the map of services is visited.
\<close>

theorem plan_deterministic:
  assumes "distinct (map fst (sp_Services (pi_Spec inp)))"
    and "mset (sp_Services (pi_Spec inp)) = mset services"
  shows "generate_plan (inp\<lparr>pi_Spec := (pi_Spec inp)\<lparr>sp_Services := services\<rparr>\<rparr>) = generate_plan inp \<and>
    (case generate_plan inp of
       Inr p \<Rightarrow> map ps_Name (dp_Services p) = sorted_list_of_set (set (map fst (sp_Services (pi_Spec inp)))) \<and>
              dp_ExpiresAt p - pi_Now inp = pi_TTL inp
     | Inl e \<Rightarrow> True)"
proof -
  let ?ss = "sp_Services (pi_Spec inp)"
  have look: "map_of ?ss = map_of services" using assms by (rule map_of_mset_cong)
  have "mset (map fst ?ss) = mset (map fst services)" using assms(2) by simp
  then have names: "sort (map fst ?ss) = sort (map fst services)" by (rule sort_mset_cong)
  have "service_of ?ss = service_of services" by (simp add: service_of_def look fun_eq_iff)
  then have "plan_service ?ss = plan_service services" by (intro ext) (simp only: plan_service_def)
  with names have same: "generate_plan (inp\<lparr>pi_Spec := (pi_Spec inp)\<lparr>sp_Services := services\<rparr>\<rparr>) = generate_plan inp"
    by (simp add: generate_plan_def Let_def)
  have "sort (map fst ?ss) = sorted_list_of_set (set (map fst ?ss))"
    using assms(1) by (metis sorted_list_of_set_sort_remdups distinct_remdups_id)
  moreover have "map ps_Name (dp_Services p) = sort (map fst ?ss) \<and> dp_ExpiresAt p - pi_Now inp = pi_TTL inp"
    if "generate_plan inp = Inr p" for p
    using that by (auto simp: generate_plan_def Let_def and_then_Inr_iff dest: collect_names split: if_splits)
  ultimately show ?thesis using same by (auto split: sum.split)
qed

theorem plan_deterministic_witness:
  "generate_plan \<lparr>pi_Spec = sample_spec\<lparr>sp_Services := rev (sp_Services sample_spec)\<rparr>, pi_Now = 5, pi_AppID = ''ab-cd'',
      pi_Slug = ''shop'', pi_Env = ''production'', pi_BaseDomain = ''x.io'', pi_TTL = 10\<rparr> =
   generate_plan \<lparr>pi_Spec = sample_spec, pi_Now = 5, pi_AppID = ''ab-cd'',
      pi_Slug = ''shop'', pi_Env = ''production'', pi_BaseDomain = ''x.io'', pi_TTL = 10\<rparr>"
  using plan_deterministic [of "\<lparr>pi_Spec = sample_spec, pi_Now = 5, pi_AppID = ''ab-cd'',
      pi_Slug = ''shop'', pi_Env = ''production'', pi_BaseDomain = ''x.io'', pi_TTL = 10\<rparr>" "rev (sp_Services sample_spec)"]
  by (simp add: sample_spec_def)

text \<open>With complete input and one entry per name, planning succeeds exactly for HTTP services.\<close>

lemma plannable_iff:
  assumes "distinct (map fst (sp_Services (pi_Spec inp)))" and "input_complete inp"
  shows "is_ok (generate_plan inp) \<longleftrightarrow> (\<forall>(n, svc) \<in> set (sp_Services (pi_Spec inp)). is_http_type (sd_Type svc))"
proof -
  let ?ss = "sp_Services (pi_Spec inp)"
  have svc: "service_of ?ss n = d" if "(n, d) \<in> set ?ss" for n d
    using that assms(1) by (simp add: service_of_def)
  have "is_ok (generate_plan inp) \<longleftrightarrow> is_ok (collect (plan_service ?ss) (sort (map fst ?ss)))"
    using assms(2) by (auto simp: generate_plan_def Let_def input_complete_def is_ok_iff and_then_Inr_iff)
  also have "\<dots> \<longleftrightarrow> (\<forall>(n, d) \<in> set ?ss. is_http_type (sd_Type d))"
    using svc by (force simp: collect_ok_iff plan_service_ok)
  finally show ?thesis .
qed

text \<open>
  C22: with complete input, planning succeeds exactly when every service is a frontend or a backend.
  A valid spec with a worker or cron service, which validation accepts, can never be planned.
\<close>

theorem plan_rejects_background_services:
  assumes "distinct (map fst (sp_Services (pi_Spec inp)))" and "input_complete inp"
  shows "(is_ok (generate_plan inp) \<longleftrightarrow> (\<forall>(n, svc) \<in> set (sp_Services (pi_Spec inp)). is_http_type (sd_Type svc))) \<and>
    (\<forall>(n, svc) \<in> set (sp_Services (pi_Spec inp)). sd_Type svc \<in> {TypeWorker, TypeCron} \<longrightarrow>
       (\<exists>t. generate_plan inp = Inl (NoResourceEstimate t)))"
proof -
  let ?ss = "sp_Services (pi_Spec inp)"
  have ok: "is_ok (generate_plan inp) \<longleftrightarrow> is_ok (collect (plan_service ?ss) (sort (map fst ?ss)))"
    using assms(2) by (auto simp: generate_plan_def Let_def input_complete_def is_ok_iff and_then_Inr_iff)
  note iff = plannable_iff [OF assms]
  have "\<exists>t. generate_plan inp = Inl (NoResourceEstimate t)" if bad: "\<not> is_ok (generate_plan inp)"
  proof -
    have err: "\<exists>t. r = Inl (NoResourceEstimate t)" if "collect (plan_service ?ss) ns = r" "\<not> is_ok r" for ns r
      using that
      by (induction ns arbitrary: r) (auto simp: plan_service_def and_then_def is_ok_def split: option.splits sum.splits)
    obtain t where "collect (plan_service ?ss) (sort (map fst ?ss)) = Inl (NoResourceEstimate t)"
      using err [OF refl] bad ok by blast
    then show ?thesis using assms(2) by (auto simp: generate_plan_def Let_def input_complete_def)
  qed
  moreover have "\<not> is_http_type TypeWorker" "\<not> is_http_type TypeCron" by (simp_all add: is_http_type_def)
  ultimately show ?thesis using iff by fastforce
qed

theorem plan_rejects_background_services_witness:
  "\<exists>t. generate_plan \<lparr>pi_Spec = sample_spec\<lparr>sp_Services := [(''jobs'', \<lparr>sd_Type = TypeWorker, sd_Runtime = ''go'', sd_Path = [],
        sd_Schedule = [], sd_Port = 0\<rparr>)]\<rparr>, pi_Now = 5, pi_AppID = ''ab-cd'',
      pi_Slug = ''shop'', pi_Env = ''production'', pi_BaseDomain = ''x.io'', pi_TTL = 10\<rparr> = Inl (NoResourceEstimate t)"
  using plan_rejects_background_services [of "\<lparr>pi_Spec = sample_spec\<lparr>sp_Services := [(''jobs'', \<lparr>sd_Type = TypeWorker,
        sd_Runtime = ''go'', sd_Path = [], sd_Schedule = [], sd_Port = 0\<rparr>)]\<rparr>, pi_Now = 5, pi_AppID = ''ab-cd'',
      pi_Slug = ''shop'', pi_Env = ''production'', pi_BaseDomain = ''x.io'', pi_TTL = 10\<rparr>"]
  by (simp add: input_complete_def)

end
