(* ===== verification/Go_Files.thy ===== *)
theory Go_Files
  imports Go_Strings "HOL-Library.Char_ord" "HOL-Library.List_Lexorder"
begin

text \<open>
  Paths, files and letter case of the Go standard library as far as the repository analyzer and the
  tools around it use them: \<^verbatim>\<open>path/filepath\<close> on a system with slash separators (clean, join, base,
  rel, match, glob, walk) and UTF-8 decoding. A file tree is a finite table from clean paths to
  entries.
\<close>

section \<open>UTF-8 and letter case\<close>

definition byte :: "char \<Rightarrow> nat" where
  "byte c = of_char c"

definition cont_byte :: "char \<Rightarrow> bool" where
  "cont_byte c = (128 \<le> byte c \<and> byte c < 192)"

text \<open>The first rune of a non-empty string and its width; an invalid encoding is U+FFFD of width 1.\<close>

fun decode_rune :: "string \<Rightarrow> nat \<times> nat" where
  "decode_rune [] = (65533, 0)"
| "decode_rune (a # s) =
     (if byte a < 128 then (byte a, 1)
      else if 194 \<le> byte a \<and> byte a < 224 then
        (case s of b # _ \<Rightarrow> if cont_byte b then ((byte a - 192) * 64 + (byte b - 128), 2) else (65533, 1)
                 | [] \<Rightarrow> (65533, 1))
      else if 224 \<le> byte a \<and> byte a < 240 then
        (case s of
           b # c # _ \<Rightarrow>
             let r = (byte a - 224) * 4096 + (byte b - 128) * 64 + (byte c - 128) in
             if cont_byte b \<and> cont_byte c \<and> 2048 \<le> r \<and> \<not> (55296 \<le> r \<and> r < 57344) then (r, 3) else (65533, 1)
         | _ \<Rightarrow> (65533, 1))
      else if 240 \<le> byte a \<and> byte a < 245 then
        (case s of
           b # c # d # _ \<Rightarrow>
             let r = (byte a - 240) * 262144 + (byte b - 128) * 4096 + (byte c - 128) * 64 + (byte d - 128) in
             if cont_byte b \<and> cont_byte c \<and> cont_byte d \<and> 65536 \<le> r \<and> r < 1114112 then (r, 4) else (65533, 1)
         | _ \<Rightarrow> (65533, 1))
      else (65533, 1))"

lemma decode_rune_width: "s \<noteq> [] \<Longrightarrow> 1 \<le> snd (decode_rune s) \<and> snd (decode_rune s) \<le> 4"
  by (cases s) (auto simp: Let_def split: list.split)

text \<open>The runes of a string, each with its bytes.\<close>

function runes :: "string \<Rightarrow> (nat \<times> string) list" where
  "runes [] = []"
| "runes (c # s) =
     (case decode_rune (c # s) of (r, n) \<Rightarrow> (r, take n (c # s)) # runes (drop n (c # s)))"
  by pat_completeness auto
termination
proof (relation "measure length")
  fix c :: char and s r n
  assume "(r, n) = decode_rune (c # s)"
  then have "n = snd (decode_rune (c # s))" by (metis snd_conv)
  then have "1 \<le> n" using decode_rune_width [of "c # s"] by simp
  then show "(drop n (c # s), c # s) \<in> measure length" by simp
qed simp

text \<open>
  \<^verbatim>\<open>strings.ToLower\<close> and \<^verbatim>\<open>strings.ToUpper\<close>, exact on ASCII and on the non-ASCII letters whose image is
  ASCII (U+0130 and U+212A to lower case, U+0131 and U+017F to upper case). Other non-ASCII runes are
  left alone: their images are not ASCII either, so no test for an ASCII substring can tell.
\<close>

definition lower_char :: "char \<Rightarrow> char" where
  "lower_char c = (if 65 \<le> byte c \<and> byte c \<le> 90 then char_of (byte c + 32) else c)"

definition upper_char :: "char \<Rightarrow> char" where
  "upper_char c = (if 97 \<le> byte c \<and> byte c \<le> 122 then char_of (byte c - 32) else c)"

definition lower_rune :: "nat \<times> string \<Rightarrow> string" where
  "lower_rune rb = (case rb of (r, bs) \<Rightarrow>
     if r = 304 then ''i'' else if r = 8490 then ''k'' else map lower_char bs)"

definition upper_rune :: "nat \<times> string \<Rightarrow> string" where
  "upper_rune rb = (case rb of (r, bs) \<Rightarrow>
     if r = 305 then ''I'' else if r = 383 then ''S'' else map upper_char bs)"

definition to_lower :: "string \<Rightarrow> string" where
  "to_lower s = concat (map lower_rune (runes s))"

definition to_upper :: "string \<Rightarrow> string" where
  "to_upper s = concat (map upper_rune (runes s))"

text \<open>\<^verbatim>\<open>strings.EqualFold\<close> with an ASCII string: fold each rune to its lower case (U+017F folds to s).\<close>

definition fold_rune :: "nat \<times> string \<Rightarrow> string" where
  "fold_rune rb = (case rb of (r, bs) \<Rightarrow>
     if r = 8490 then ''k'' else if r = 383 then ''s'' else map lower_char bs)"

definition equal_fold_ascii :: "string \<Rightarrow> string \<Rightarrow> bool" where
  "equal_fold_ascii s t = (concat (map fold_rune (runes s)) = map lower_char t)"

section \<open>Paths\<close>

text \<open>The segments of a path; \<open>clean_segs\<close> drops empty and dot segments and resolves dot-dot.\<close>

fun clean_segs :: "bool \<Rightarrow> string list \<Rightarrow> string list \<Rightarrow> string list" where
  "clean_segs rooted out [] = out"
| "clean_segs rooted out (s # ss) =
     (if s = [] \<or> s = ''.'' then clean_segs rooted out ss
      else if s = ''..'' then
        (if out \<noteq> [] \<and> last out \<noteq> ''..'' then clean_segs rooted (butlast out) ss
         else if rooted then clean_segs rooted out ss
         else clean_segs rooted (out @ [''..'']) ss)
      else clean_segs rooted (out @ [s]) ss)"

definition is_rooted :: "string \<Rightarrow> bool" where
  "is_rooted p = has_prefix p ''/''"

definition segs_of :: "string \<Rightarrow> string list" where
  "segs_of p = clean_segs (is_rooted p) [] (split_on CHR ''/'' p)"

definition path_clean :: "string \<Rightarrow> string" where
  "path_clean p =
     (let ss = segs_of p in
      if is_rooted p then CHR ''/'' # join ''/'' ss
      else if ss = [] then ''.'' else join ''/'' ss)"

definition path_join :: "string list \<Rightarrow> string" where
  "path_join elems =
     (let es = filter (\<lambda>e. e \<noteq> []) elems in
      if es = [] then [] else path_clean (join ''/'' es))"

definition path_base :: "string \<Rightarrow> string" where
  "path_base p =
     (if p = [] then ''.''
      else case filter (\<lambda>s. s \<noteq> []) (split_on CHR ''/'' p) of
        [] \<Rightarrow> ''/''
      | ss \<Rightarrow> last ss)"

fun drop_common :: "string list \<Rightarrow> string list \<Rightarrow> string list \<times> string list" where
  "drop_common (a # as) (b # bs) = (if a = b then drop_common as bs else (a # as, b # bs))"
| "drop_common as bs = (as, bs)"

definition path_rel :: "string \<Rightarrow> string \<Rightarrow> string option" where
  "path_rel base targ =
     (if path_clean base = path_clean targ then Some ''.''
      else if is_rooted (path_clean base) \<noteq> is_rooted (path_clean targ) then None
      else case drop_common (segs_of base) (segs_of targ) of
        (bs, ts) \<Rightarrow>
          if bs \<noteq> [] \<and> hd bs = ''..'' then None
          else Some (join ''/'' (replicate (length bs) ''..'' @ ts)))"

section \<open>Pattern matching\<close>

text \<open>
  \<^verbatim>\<open>filepath.Match\<close>: star, question mark, character classes and backslash escapes; a star and a
  question mark do not match a slash. A malformed pattern is an error whatever the name is, so validity
  is separate. A class is the list of its ranges.
\<close>

datatype pat_item = PStar | PAny | PClass bool "(nat \<times> nat) list" | PRune nat

fun pat_rune :: "string \<Rightarrow> (nat \<times> string) option" where
  "pat_rune [] = None"
| "pat_rune (c # s) =
     (if c = CHR ''-'' \<or> c = CHR '']'' then None
      else if c = CHR 0x5C then
        (if s = [] then None else (case decode_rune s of (r, n) \<Rightarrow> if r = 65533 \<and> n = 1 then None else Some (r, drop n s)))
      else (case decode_rune (c # s) of (r, n) \<Rightarrow> if r = 65533 \<and> n = 1 then None else Some (r, drop n (c # s))))"

text \<open>The ranges up to the closing bracket; \<open>n\<close> counts those already read (at least one is needed). The
  first argument bounds the recursion; the length of the pattern is enough, each step reads a byte.\<close>

fun pat_ranges :: "nat \<Rightarrow> nat \<Rightarrow> string \<Rightarrow> ((nat \<times> nat) list \<times> string) option" where
  "pat_ranges 0 n s = None"
| "pat_ranges (Suc f) n s =
     (if s \<noteq> [] \<and> hd s = CHR '']'' \<and> 0 < n then Some ([], tl s)
      else case pat_rune s of
        None \<Rightarrow> None
      | Some (lo, t) \<Rightarrow>
          if t = [] then None
          else if hd t = CHR ''-'' then
            (case pat_rune (tl t) of
               None \<Rightarrow> None
             | Some (hi, u) \<Rightarrow>
                 if u = [] then None
                 else (case pat_ranges f (Suc n) u of None \<Rightarrow> None | Some (rs, v) \<Rightarrow> Some ((lo, hi) # rs, v)))
          else (case pat_ranges f (Suc n) t of None \<Rightarrow> None | Some (rs, v) \<Rightarrow> Some ((lo, lo) # rs, v)))"

fun parse_items :: "nat \<Rightarrow> string \<Rightarrow> pat_item list option" where
  "parse_items f [] = Some []"
| "parse_items 0 (c # s) = None"
| "parse_items (Suc f) (c # s) =
     (if c = CHR ''*'' then map_option ((#) PStar) (parse_items f s)
      else if c = CHR ''?'' then map_option ((#) PAny) (parse_items f s)
      else if c = CHR ''['' then
        (let neg = (s \<noteq> [] \<and> hd s = CHR ''^''); body = (if neg then tl s else s) in
         case pat_ranges (length body) 0 body of
           None \<Rightarrow> None
         | Some (rs, t) \<Rightarrow> map_option ((#) (PClass neg rs)) (parse_items f t))
      else if c = CHR 0x5C then
        (case s of [] \<Rightarrow> None | d # t \<Rightarrow> map_option ((#) (PRune (byte d))) (parse_items f t))
      else map_option ((#) (PRune (byte c))) (parse_items f s))"

text \<open>The items of a pattern; literal bytes are matched one by one.\<close>

definition parse_pattern :: "string \<Rightarrow> pat_item list option" where
  "parse_pattern p = parse_items (length p) p"

fun match_items :: "nat \<Rightarrow> pat_item list \<Rightarrow> string \<Rightarrow> bool" where
  "match_items f [] s = (s = [])"
| "match_items 0 (i # is) s = False"
| "match_items (Suc f) (PStar # is) s =
     (match_items f is s \<or> (s \<noteq> [] \<and> hd s \<noteq> CHR ''/'' \<and> match_items f (PStar # is) (tl s)))"
| "match_items (Suc f) (PRune r # is) s = (s \<noteq> [] \<and> byte (hd s) = r \<and> match_items f is (tl s))"
| "match_items (Suc f) (PAny # is) s =
     (s \<noteq> [] \<and> hd s \<noteq> CHR ''/'' \<and> match_items f is (drop (snd (decode_rune s)) s))"
| "match_items (Suc f) (PClass neg rs # is) s =
     (s \<noteq> [] \<and> (\<exists>(lo, hi) \<in> set rs. lo \<le> fst (decode_rune s) \<and> fst (decode_rune s) \<le> hi) \<noteq> neg \<and>
      match_items f is (drop (snd (decode_rune s)) s))"

text \<open>\<open>None\<close>: the pattern is malformed. Each step consumes an item or at least a byte of the name.\<close>

definition path_match :: "string \<Rightarrow> string \<Rightarrow> bool option" where
  "path_match p name =
     map_option (\<lambda>items. match_items (length items + length name) items name) (parse_pattern p)"

section \<open>File trees\<close>

text \<open>Entries by clean path. A file that exists may be unreadable (\<open>None\<close>).\<close>

datatype entry = FileEntry "string option" | DirEntry

type_synonym file_tree = "(string \<times> entry) list"

definition file_exists :: "file_tree \<Rightarrow> string \<Rightarrow> bool" where
  "file_exists t p = (map_of t p \<noteq> None)"

definition is_dir :: "file_tree \<Rightarrow> string \<Rightarrow> bool" where
  "is_dir t p = (map_of t p = Some DirEntry)"

text \<open>\<^verbatim>\<open>os.ReadFile\<close>: fails when the file is missing, a directory or unreadable.\<close>

definition read_file :: "file_tree \<Rightarrow> string \<Rightarrow> string option" where
  "read_file t p = (case map_of t p of Some (FileEntry c) \<Rightarrow> c | _ \<Rightarrow> None)"

text \<open>\<^verbatim>\<open>filepath.Glob\<close>: an error for a malformed pattern, else the existing paths that match. The tree
  lists its paths in the order in which the file system reports them.\<close>

definition glob :: "file_tree \<Rightarrow> string \<Rightarrow> string list option" where
  "glob t p =
     (case parse_pattern p of
        None \<Rightarrow> None
      | Some _ \<Rightarrow> Some (filter (\<lambda>q. path_match p q = Some True) (map fst t)))"

text \<open>\<^verbatim>\<open>filepath.WalkDir\<close> below a root, skipping the directories \<open>skip\<close> rejects: the files in lexical
  order of their segments. \<open>skip\<close> is asked of every proper ancestor below the root.\<close>

definition below :: "string \<Rightarrow> string \<Rightarrow> string list option" where
  "below root p =
     (if p = root then Some []
      else case path_rel root p of
        None \<Rightarrow> None
      | Some r \<Rightarrow> if has_prefix r ''..'' then None else Some (split_on CHR ''/'' r))"

definition walk_files :: "(string \<Rightarrow> bool) \<Rightarrow> file_tree \<Rightarrow> string \<Rightarrow> (string \<times> string option) list" where
  "walk_files skip t root =
     map (\<lambda>(p, e). (p, case e of FileEntry c \<Rightarrow> c | DirEntry \<Rightarrow> None))
       (sort_key (\<lambda>(p, e). case below root p of Some segs \<Rightarrow> segs | None \<Rightarrow> [])
         (filter (\<lambda>(p, e). e \<noteq> DirEntry \<and>
            (case below root p of None \<Rightarrow> False | Some segs \<Rightarrow> list_all (\<lambda>s. \<not> skip s) (butlast segs))) t))"

lemma set_walk_files:
  "(p, c) \<in> set (walk_files skip t root) \<longleftrightarrow>
     (p, FileEntry c) \<in> set t \<and> (\<exists>segs. below root p = Some segs \<and> list_all (\<lambda>s. \<not> skip s) (butlast segs))"
proof -
  have "(p, c) \<in> set (walk_files skip t root) \<longleftrightarrow>
      (\<exists>e. (p, e) \<in> set t \<and> e \<noteq> DirEntry \<and> (case e of FileEntry c \<Rightarrow> c | DirEntry \<Rightarrow> None) = c \<and>
        (\<exists>segs. below root p = Some segs \<and> list_all (\<lambda>s. \<not> skip s) (butlast segs)))"
    by (auto simp: walk_files_def image_iff split: option.splits)
  then show ?thesis by (metis entry.case(1) entry.distinct(1) entry.exhaust)
qed

end
