(* ===== verification/Analyzer_Detect.thy ===== *)
theory Analyzer_Detect
  imports Go_Files Go_Http Go_Numbers
begin

text \<open>
  The repository analyzer's first stages: \<^verbatim>\<open>analyzer/internal/facts\<close> (the detection matrix),
  \<^verbatim>\<open>analyzer/internal/boundary\<close> (which directories are services) and
  \<^verbatim>\<open>analyzer/internal/detectors\<close> (framework, runtime, port and database of a service). They read a
  file tree (\<open>Go_Files\<close>). SHA-256 and the JSON decoder are parameters.
\<close>

section \<open>Decoded manifests\<close>

record pkg_manifest =
  pm_Scripts :: "string list"  \<comment> \<open>the keys of \<open>scripts\<close>\<close>
  pm_Main :: string

text \<open>What \<^verbatim>\<open>json.Unmarshal\<close> yields for the three target types, \<open>None\<close> when it fails; the top-level
  keys come in the order in which the map is visited.\<close>

record json_decoder =
  jd_manifest :: "string \<Rightarrow> pkg_manifest option"
  jd_name :: "string \<Rightarrow> string option"
  jd_keys :: "string \<Rightarrow> string list option"

section \<open>facts: the detection matrix\<close>

record FileFact =
  ff_Path :: string
  ff_Kind :: string
  ff_SHA256 :: string
  ff_Lines :: int
  ff_TopKeys :: "string list"

record RawFacts =
  rf_Schema :: string
  rf_Root :: string
  rf_Files :: "FileFact list"

definition exact_kinds :: "(string \<times> string) list" where
  "exact_kinds =
    [(''package.json'', ''package-json''), (''pnpm-workspace.yaml'', ''pnpm-workspace''),
     (''turbo.json'', ''turbo-config''), (''Dockerfile'', ''dockerfile''),
     (''docker-compose.yml'', ''docker-compose''), (''requirements.txt'', ''requirements-txt''),
     (''pyproject.toml'', ''pyproject-toml''), (''go.mod'', ''go-mod''), (''Cargo.toml'', ''cargo-toml''),
     (''.env.example'', ''env-example'')]"

definition prefix_kinds :: "(string \<times> string) list" where
  "prefix_kinds = [(''next.config.'', ''next-config''), (''vite.config.'', ''vite-config''), (''nuxt.config.'', ''nuxt-config'')]"

definition facts_skip_dirs :: "(string \<times> bool) list" where
  "facts_skip_dirs = [(''node_modules'', True), (''.git'', True), (''.next'', True), (''dist'', True), (''.turbo'', True), (''vendor'', True)]"

text \<open>\<open>prefs\<close> is \<open>prefixKinds\<close> in the order of that range statement.\<close>

definition kind_for :: "(string \<times> string) list \<Rightarrow> string \<Rightarrow> string option" where
  "kind_for prefs base =
     (case map_of exact_kinds base of
        Some k \<Rightarrow> Some k
      | None \<Rightarrow> map_option snd (find (\<lambda>(prefix, k). has_prefix base prefix) prefs))"

definition count_lines :: "string \<Rightarrow> int" where
  "count_lines b = int (length (filter (\<lambda>c. c = CHR 0x0A) b))"

definition file_fact :: "json_decoder \<Rightarrow> (string \<Rightarrow> string) \<Rightarrow> string \<Rightarrow> string \<Rightarrow> string \<Rightarrow> FileFact" where
  "file_fact J sha256 path kind content =
     \<lparr>ff_Path = path, ff_Kind = kind, ff_SHA256 = take 12 (hex_encode (sha256 content)),
      ff_Lines = count_lines content,
      ff_TopKeys = (if has_suffix (path_base path) ''.json''
                    then (case jd_keys J content of None \<Rightarrow> [] | Some ks \<Rightarrow> sort ks) else [])\<rparr>"

datatype facts_error = WalkFailed string | ReadFailed string

text \<open>The walk function on one file: nothing for a file of no kind, an error for an unreadable one.\<close>

definition visit_file ::
  "json_decoder \<Rightarrow> (string \<Rightarrow> string) \<Rightarrow> (string \<times> string) list \<Rightarrow> string \<times> string option \<Rightarrow> facts_error + FileFact list" where
  "visit_file J sha256 prefs f =
     (case kind_for prefs (path_base (fst f)) of
        None \<Rightarrow> Inr []
      | Some kind \<Rightarrow>
          (case snd f of
             None \<Rightarrow> Inl (ReadFailed (fst f))
           | Some content \<Rightarrow> Inr [file_fact J sha256 (fst f) kind content]))"

definition build_facts ::
  "json_decoder \<Rightarrow> (string \<Rightarrow> string) \<Rightarrow> (string \<times> string) list \<Rightarrow> file_tree \<Rightarrow> string \<Rightarrow> facts_error + RawFacts" where
  "build_facts J sha256 prefs t rootDir =
     (if \<not> file_exists t rootDir then Inl (WalkFailed rootDir)
      else and_then (collect (visit_file J sha256 prefs) (walk_files (truthy (map_of facts_skip_dirs)) t rootDir)) (\<lambda>fss.
        Inr \<lparr>rf_Schema = ''facts.v1'', rf_Root = rootDir, rf_Files = sort_key ff_Path (concat fss)\<rparr>))"

section \<open>boundary: which directories are services\<close>

record ServiceCandidate =
  sc_Name :: string
  sc_Path :: string

definition lib_dir_names :: "(string \<times> bool) list" where
  "lib_dir_names = [(''packages'', True), (''libraries'', True), (''libs'', True), (''common'', True), (''shared'', True)]"

definition skip_dir_names :: "(string \<times> bool) list" where
  "skip_dir_names = [(''node_modules'', True), (''.git'', True)]"

definition has_entry_signal :: "json_decoder \<Rightarrow> file_tree \<Rightarrow> string \<Rightarrow> bool" where
  "has_entry_signal J t pkgPath =
     (case read_file t pkgPath of
        None \<Rightarrow> False
      | Some content \<Rightarrow>
          (case jd_manifest J content of
             None \<Rightarrow> False
           | Some m \<Rightarrow>
               if trim_space (pm_Main m) \<noteq> [] then True
               else list_ex (\<lambda>s. s \<in> set (pm_Scripts m)) [''dev'', ''start'', ''build'']))"

definition read_pkg_name :: "json_decoder \<Rightarrow> file_tree \<Rightarrow> string \<Rightarrow> string \<Rightarrow> string" where
  "read_pkg_name J t pkgPath fallback =
     (case read_file t pkgPath of
        None \<Rightarrow> fallback
      | Some content \<Rightarrow>
          (case jd_name J content of
             None \<Rightarrow> fallback
           | Some n \<Rightarrow> if n = [] then fallback else n))"

definition has_glob_match :: "file_tree \<Rightarrow> string \<Rightarrow> bool" where
  "has_glob_match t pattern = (case glob t pattern of None \<Rightarrow> False | Some ms \<Rightarrow> ms \<noteq> [])"

definition has_go_sources :: "file_tree \<Rightarrow> string \<Rightarrow> bool" where
  "has_go_sources t dir = has_glob_match t (path_join [dir, ''*.go''])"

definition py_project_has_scripts :: "file_tree \<Rightarrow> string \<Rightarrow> bool" where
  "py_project_has_scripts t dir =
     (case read_file t (path_join [dir, ''pyproject.toml'']) of
        None \<Rightarrow> False
      | Some s \<Rightarrow> contains s ''[project.scripts]'' \<or> contains s ''[tool.poetry.scripts]'')"

text \<open>\<^verbatim>\<open>strings.Trim\<close> with the two quote characters.\<close>

definition quote_char :: "char \<Rightarrow> bool" where
  "quote_char c = (c = CHR 0x22 \<or> c = CHR 0x27)"

definition trim_quotes :: "string \<Rightarrow> string" where
  "trim_quotes s = rev (dropWhile quote_char (rev (dropWhile quote_char s)))"

fun pnpm_lines :: "bool \<Rightarrow> string list \<Rightarrow> string list" where
  "pnpm_lines inList [] = []"
| "pnpm_lines inList (line # lines) =
     (let trimmed = trim_space line in
      if trimmed = [] \<or> has_prefix trimmed ''#'' then pnpm_lines inList lines
      else if \<not> inList then pnpm_lines (has_prefix trimmed ''packages:'') lines
      else if \<not> has_prefix trimmed ''- '' then []
      else
        let item = trim_quotes (trim_space (case cut_prefix trimmed ''-'' of Some r \<Rightarrow> r | None \<Rightarrow> trimmed)) in
        (if item \<noteq> [] then [item] else []) @ pnpm_lines inList lines)"

definition parse_pnpm_globs :: "file_tree \<Rightarrow> string \<Rightarrow> string list" where
  "parse_pnpm_globs t rootDir =
     (case read_file t (path_join [rootDir, ''pnpm-workspace.yaml'']) of
        None \<Rightarrow> []
      | Some data \<Rightarrow> pnpm_lines False (split_on CHR 0x0A data))"

definition candidate_name :: "json_decoder \<Rightarrow> file_tree \<Rightarrow> string \<Rightarrow> string option" where
  "candidate_name J t dir =
     (let pkgJSON = path_join [dir, ''package.json'']; goMod = path_join [dir, ''go.mod''];
          pyProject = path_join [dir, ''pyproject.toml''] in
      if file_exists t pkgJSON \<and> has_entry_signal J t pkgJSON then Some (read_pkg_name J t pkgJSON (path_base dir))
      else if file_exists t goMod \<and> has_go_sources t dir then Some (path_base dir)
      else if file_exists t pyProject \<and> py_project_has_scripts t dir then Some (path_base dir)
      else None)"

text \<open>The services found and the directories seen, threaded through the loops.\<close>

type_synonym boundary_state = "ServiceCandidate list \<times> string set"

definition excluded_segment :: "string \<Rightarrow> bool" where
  "excluded_segment seg = (truthy (map_of lib_dir_names) seg \<or> truthy (map_of skip_dir_names) seg)"

definition consider_dir :: "json_decoder \<Rightarrow> file_tree \<Rightarrow> string \<Rightarrow> string \<Rightarrow> boundary_state \<Rightarrow> boundary_state" where
  "consider_dir J t rootDir dir st =
     (case st of (services, seen) \<Rightarrow>
      let clean = path_clean dir in
      case path_rel rootDir clean of
        None \<Rightarrow> st
      | Some rel \<Rightarrow>
          if rel = ''.'' \<or> clean \<in> seen then st
          else if list_ex excluded_segment (split_on CHR ''/'' rel) then st
          else (case candidate_name J t clean of
             None \<Rightarrow> st
           | Some name \<Rightarrow> (services @ [\<lparr>sc_Name = name, sc_Path = rel\<rparr>], insert clean seen)))"

definition append_root_service :: "json_decoder \<Rightarrow> file_tree \<Rightarrow> string \<Rightarrow> boundary_state \<Rightarrow> boundary_state" where
  "append_root_service J t rootDir st =
     (case st of (services, seen) \<Rightarrow>
      let pkgJSON = path_join [rootDir, ''package.json''] in
      if \<not> file_exists t pkgJSON \<or> \<not> has_entry_signal J t pkgJSON then st
      else if rootDir \<in> seen then st
      else (services @ [\<lparr>sc_Name = read_pkg_name J t pkgJSON (path_base rootDir), sc_Path = ''.''\<rparr>], insert rootDir seen))"

datatype boundary_error = GlobFailed string | ErrZeroServices string

fun scan_globs :: "json_decoder \<Rightarrow> file_tree \<Rightarrow> string \<Rightarrow> string list \<Rightarrow> boundary_state \<Rightarrow> boundary_error + boundary_state" where
  "scan_globs J t rootDir [] st = Inr st"
| "scan_globs J t rootDir (g # gs) st =
     (case glob t (path_join [rootDir, g]) of
        None \<Rightarrow> Inl (GlobFailed g)
      | Some matches \<Rightarrow>
          scan_globs J t rootDir gs
            (foldl (\<lambda>st m. if is_dir t m then consider_dir J t rootDir m st else st) st (sort matches)))"

definition detect_services :: "json_decoder \<Rightarrow> file_tree \<Rightarrow> string \<Rightarrow> boundary_error + ServiceCandidate list" where
  "detect_services J t root0 =
     (let rootDir = path_clean root0; globs = parse_pnpm_globs t rootDir in
      and_then (if globs = [] then Inr (append_root_service J t rootDir ([], {}))
                else scan_globs J t rootDir globs ([], {})) (\<lambda>(services, seen).
        if services = [] then Inl (ErrZeroServices rootDir)
        else Inr (sort_key sc_Path services)))"

section \<open>detectors: framework, runtime, port, database\<close>

record ServiceFacts =
  sf_Dir :: string
  sf_Framework :: string
  sf_Runtime :: string
  sf_Port :: int

record MongoEvidence =
  me_Evidence :: string
  me_Found :: bool

definition read_if_present :: "file_tree \<Rightarrow> string \<Rightarrow> string option" where
  "read_if_present t path = (if \<not> file_exists t path then None else read_file t path)"

definition detect_node_framework :: "file_tree \<Rightarrow> string \<Rightarrow> string \<Rightarrow> string" where
  "detect_node_framework t dir pkgRaw =
     (let lower = to_lower pkgRaw;
          quoted = (\<lambda>w. CHR 0x22 # w @ [CHR 0x22]);
          has_config_prefix = (\<lambda>prefix. has_glob_match t (path_join [dir, prefix @ ''*''])) in
      if contains lower (quoted ''next'') \<or> has_config_prefix ''next.config.'' then ''next''
      else if contains lower (quoted ''nuxt'') \<or> has_config_prefix ''nuxt.config.'' then ''nuxt''
      else if contains lower (quoted ''vue'') then ''vue''
      else if contains lower (quoted ''react'') then ''react''
      else if contains lower (quoted ''vite'') then ''vite''
      else [])"

text \<open>\<^verbatim>\<open>strings.Fields\<close> ignores surrounding space, so trimming the line first changes nothing but is kept.\<close>

fun expose_port :: "string list \<Rightarrow> int" where
  "expose_port [] = 0"
| "expose_port (line # lines) =
     (let fs = split_fields (trim_space line) in
      if 2 \<le> length fs \<and> equal_fold_ascii (fs ! 0) ''EXPOSE''
      then (case atoi (fs ! 1) of None \<Rightarrow> 0 | Some port \<Rightarrow> port)
      else expose_port lines)"

definition port_from_dockerfile :: "file_tree \<Rightarrow> string \<Rightarrow> int" where
  "port_from_dockerfile t dir =
     (case read_if_present t (path_join [dir, ''Dockerfile'']) of
        None \<Rightarrow> 0
      | Some dockerRaw \<Rightarrow> expose_port (split_on CHR 0x0A dockerRaw))"

definition default_ports :: "(string \<times> int) list" where
  "default_ports = [(''next'', 3000), (''fastapi'', 8000), (''go'', 8080)]"

fun first_present :: "file_tree \<Rightarrow> string \<Rightarrow> string list \<Rightarrow> string option" where
  "first_present t dir [] = None"
| "first_present t dir (name # names) =
     (case read_if_present t (path_join [dir, name]) of Some raw \<Rightarrow> Some raw | None \<Rightarrow> first_present t dir names)"

definition detect_service :: "file_tree \<Rightarrow> string \<Rightarrow> ServiceFacts" where
  "detect_service t dir =
     (let f0 = \<lparr>sf_Dir = dir, sf_Framework = [], sf_Runtime = [], sf_Port = 0\<rparr>;
          pkg = read_if_present t (path_join [dir, ''package.json'']);
          hasGoMod = file_exists t (path_join [dir, ''go.mod'']);
          py = first_present t dir [''pyproject.toml'', ''requirements.txt''];
          f1 = (case pkg of
                  Some pkgRaw \<Rightarrow>
                    let fw = detect_node_framework t dir pkgRaw in
                    f0\<lparr>sf_Runtime := ''node'', sf_Framework := fw,
                       sf_Port := (if fw = ''next'' then count_of (map_of default_ports) ''next'' else 0)\<rparr>
                | None \<Rightarrow>
                    if (case py of Some pyRaw \<Rightarrow> contains (to_lower pyRaw) ''fastapi'' | None \<Rightarrow> False)
                    then f0\<lparr>sf_Runtime := ''python'', sf_Framework := ''fastapi'',
                            sf_Port := count_of (map_of default_ports) ''fastapi''\<rparr>
                    else if hasGoMod then f0\<lparr>sf_Runtime := ''go'', sf_Port := 8080\<rparr>
                    else f0);
          f2 = (if sf_Port f1 = 0 then f1\<lparr>sf_Port := count_of (map_of default_ports) (sf_Framework f1)\<rparr> else f1);
          expose = port_from_dockerfile t dir
      in if 0 < expose then f2\<lparr>sf_Port := expose\<rparr> else f2)"

definition has_compose_mongo :: "file_tree \<Rightarrow> string \<Rightarrow> bool" where
  "has_compose_mongo t rootDir =
     (case read_if_present t (path_join [rootDir, ''docker-compose.yml'']) of
        None \<Rightarrow> False | Some composeRaw \<Rightarrow> contains composeRaw ''mongo'')"

definition manifest_skip :: "string \<Rightarrow> bool" where
  "manifest_skip name = (name = ''node_modules'' \<or> name = ''.git'' \<or> name = ''.next'')"

definition collect_manifests :: "file_tree \<Rightarrow> string \<Rightarrow> string list" where
  "collect_manifests t rootDir =
     (if is_dir t rootDir \<and> manifest_skip (path_base rootDir) then []
      else filter (\<lambda>p. path_base p \<in> {''package.json'', ''requirements.txt'', ''pyproject.toml''})
             (map fst (walk_files manifest_skip t rootDir)))"

definition mongo_drivers :: "string list" where
  "mongo_drivers = [''mongoose'', ''mongodb'', ''pymongo'', ''motor'']"

fun any_manifest_has_driver :: "file_tree \<Rightarrow> string list \<Rightarrow> string option" where
  "any_manifest_has_driver t [] = None"
| "any_manifest_has_driver t (m # paths) =
     (case read_file t m of
        None \<Rightarrow> any_manifest_has_driver t paths
      | Some data \<Rightarrow>
          (case find (contains (to_lower data)) mongo_drivers of
             Some dep \<Rightarrow> Some (dep @ '' dependency in '' @ m)
           | None \<Rightarrow> any_manifest_has_driver t paths))"

definition mongo_env_key :: "string \<Rightarrow> bool" where
  "mongo_env_key field =
     (let upper = to_upper field in
      has_prefix upper ''MONGO'' \<and> (contains upper ''URI'' \<or> contains upper ''URL'' \<or> contains upper ''HOST''))"

fun env_mongo_line :: "string list \<Rightarrow> string option" where
  "env_mongo_line [] = None"
| "env_mongo_line (line # lines) =
     (case split_fields (trim_space line) of
        [] \<Rightarrow> env_mongo_line lines
      | field # _ \<Rightarrow> if mongo_env_key field then Some field else env_mongo_line lines)"

definition env_has_mongo_key :: "file_tree \<Rightarrow> string \<Rightarrow> string option" where
  "env_has_mongo_key t rootDir =
     (case read_if_present t (path_join [rootDir, ''.env.example'']) of
        None \<Rightarrow> None | Some envRaw \<Rightarrow> env_mongo_line (split_on CHR 0x0A envRaw))"

definition detect_mongodb :: "file_tree \<Rightarrow> string \<Rightarrow> MongoEvidence" where
  "detect_mongodb t rootDir =
     (if has_compose_mongo t rootDir then \<lparr>me_Evidence = ''docker-compose mongo service'', me_Found = True\<rparr>
      else case any_manifest_has_driver t (collect_manifests t rootDir) of
        Some evidence \<Rightarrow> \<lparr>me_Evidence = evidence, me_Found = True\<rparr>
      | None \<Rightarrow>
          (case env_has_mongo_key t rootDir of
             Some key \<Rightarrow> \<lparr>me_Evidence = key @ '' in .env.example'', me_Found = True\<rparr>
           | None \<Rightarrow> \<lparr>me_Evidence = [], me_Found = False\<rparr>))"

section \<open>What boundary detection returns\<close>

text \<open>The service at a clean directory, as the code words the criteria: inside the root but not the root,
  no library or skipped segment on the way, and an entry signal.\<close>

definition service_at :: "json_decoder \<Rightarrow> file_tree \<Rightarrow> string \<Rightarrow> string \<Rightarrow> ServiceCandidate option" where
  "service_at J t r dir =
     (case path_rel r dir of
        None \<Rightarrow> None
      | Some rel \<Rightarrow>
          if rel = ''.'' \<or> list_ex excluded_segment (split_on CHR ''/'' rel) then None
          else map_option (\<lambda>name. \<lparr>sc_Name = name, sc_Path = rel\<rparr>) (candidate_name J t dir))"

definition workspace_dirs :: "file_tree \<Rightarrow> string \<Rightarrow> string list \<Rightarrow> string set" where
  "workspace_dirs t r globs = {path_clean m | g ms m. g \<in> set globs \<and> glob t (path_join [r, g]) = Some ms \<and> m \<in> set ms \<and> is_dir t m}"

lemma consider_dir_alt:
  "consider_dir J t r dir (services, seen) =
     (case service_at J t r (path_clean dir) of
        None \<Rightarrow> (services, seen)
      | Some s \<Rightarrow> if path_clean dir \<in> seen then (services, seen) else (services @ [s], insert (path_clean dir) seen))"
  by (auto simp: consider_dir_def service_at_def Let_def split: option.split)

text \<open>The state after considering a set of directories: one service per directory that has one, none twice.\<close>

definition gathered :: "json_decoder \<Rightarrow> file_tree \<Rightarrow> string \<Rightarrow> string set \<Rightarrow> boundary_state \<Rightarrow> bool" where
  "gathered J t r D st =
     (\<exists>dirs. distinct dirs \<and> set dirs = snd st \<and> map Some (fst st) = map (service_at J t r) dirs \<and>
       snd st = {d \<in> D. service_at J t r d \<noteq> None})"

lemma gathered_empty: "gathered J t r {} ([], {})"
  by (auto simp: gathered_def intro!: exI [of _ "[]"])

lemma gathered_consider:
  assumes "gathered J t r D st"
  shows "gathered J t r (insert (path_clean m) D) (consider_dir J t r m st)"
proof -
  obtain services seen where st: "st = (services, seen)" by (cases st)
  from assms st obtain dirs where d: "distinct dirs" "set dirs = seen"
    "map Some services = map (service_at J t r) dirs" "seen = {d \<in> D. service_at J t r d \<noteq> None}"
    by (auto simp: gathered_def)
  consider "service_at J t r (path_clean m) = None" | "path_clean m \<in> seen"
    | s where "service_at J t r (path_clean m) = Some s" "path_clean m \<notin> seen" by blast
  then show ?thesis
  proof cases
    case 3
    then show ?thesis using d unfolding st gathered_def
      by (intro exI [of _ "dirs @ [path_clean m]"]) (auto simp: consider_dir_alt)
  qed (use d in \<open>auto simp: st gathered_def consider_dir_alt intro!: exI [of _ dirs] split: option.split\<close>)
qed

lemma gathered_foldl:
  "gathered J t r D st \<Longrightarrow>
     gathered J t r (D \<union> {path_clean m | m. m \<in> set ms \<and> is_dir t m})
       (foldl (\<lambda>st m. if is_dir t m then consider_dir J t r m st else st) st ms)"
proof (induction ms arbitrary: D st)
  case Nil
  then show ?case by simp
next
  case (Cons m ms)
  define st' where "st' = (if is_dir t m then consider_dir J t r m st else st)"
  define D' where "D' = D \<union> (if is_dir t m then {path_clean m} else {})"
  have "gathered J t r D' st'" using gathered_consider [OF Cons.prems] Cons.prems
    by (simp add: st'_def D'_def)
  moreover have "D' \<union> {path_clean m' | m'. m' \<in> set ms \<and> is_dir t m'} =
      D \<union> {path_clean m' | m'. m' \<in> set (m # ms) \<and> is_dir t m'}"
    by (auto simp: D'_def)
  ultimately show ?case using Cons.IH [of D' st'] by (simp add: st'_def)
qed

lemma scan_globs_outcome:
  assumes "gathered J t r D st"
  shows "case scan_globs J t r globs st of
      Inl e \<Rightarrow> (\<exists>g \<in> set globs. e = GlobFailed g \<and> glob t (path_join [r, g]) = None)
    | Inr st' \<Rightarrow> gathered J t r (D \<union> workspace_dirs t r globs) st' \<and> (\<forall>g \<in> set globs. glob t (path_join [r, g]) \<noteq> None)"
  using assms
proof (induction globs arbitrary: D st)
  case Nil
  then show ?case by (simp add: workspace_dirs_def)
next
  case (Cons g globs)
  show ?case
  proof (cases "glob t (path_join [r, g])")
    case None
    then show ?thesis by simp
  next
    case (Some ms)
    have split: "D \<union> workspace_dirs t r (g # globs) =
        D \<union> {path_clean m | m. m \<in> set (sort ms) \<and> is_dir t m} \<union> workspace_dirs t r globs"
      using Some by (auto simp: workspace_dirs_def)
    show ?thesis using Cons.IH [OF gathered_foldl [OF Cons.prems, of "sort ms"]] Some split
      by (simp split: sum.splits) blast
  qed
qed

definition candidate_at_root :: "json_decoder \<Rightarrow> file_tree \<Rightarrow> string \<Rightarrow> string option" where
  "candidate_at_root J t r =
     (let pkgJSON = path_join [r, ''package.json''] in
      if file_exists t pkgJSON \<and> has_entry_signal J t pkgJSON then Some (read_pkg_name J t pkgJSON (path_base r)) else None)"

text \<open>
  C31: with workspace globs, boundary detection returns one service for each directory matched by a glob
  that qualifies (inside the root, no library or skipped segment, an entry signal), no directory twice, sorted by
  path; it fails with the first kind of error only for a malformed glob and with the second exactly when no
  directory qualifies. Without globs the root itself is the only candidate.
\<close>

theorem boundary_exact:
  "case detect_services J t rootDir of
     Inr ss \<Rightarrow> ss \<noteq> [] \<and> sorted (map sc_Path ss) \<and>
       (if parse_pnpm_globs t (path_clean rootDir) = []
        then map sc_Path ss = [''.''] \<and> map (Some \<circ> sc_Name) ss = [candidate_at_root J t (path_clean rootDir)]
        else \<exists>dirs. distinct dirs \<and> mset (map Some ss) = mset (map (service_at J t (path_clean rootDir)) dirs) \<and>
          set dirs = {d \<in> workspace_dirs t (path_clean rootDir) (parse_pnpm_globs t (path_clean rootDir)).
                      service_at J t (path_clean rootDir) d \<noteq> None})
   | Inl (GlobFailed g) \<Rightarrow> g \<in> set (parse_pnpm_globs t (path_clean rootDir)) \<and> glob t (path_join [path_clean rootDir, g]) = None
   | Inl (ErrZeroServices d) \<Rightarrow> d = path_clean rootDir \<and>
       (if parse_pnpm_globs t d = [] then candidate_at_root J t d = None
        else {e \<in> workspace_dirs t d (parse_pnpm_globs t d). service_at J t d e \<noteq> None} = {})"
proof -
  define r where "r = path_clean rootDir"
  define globs where "globs = parse_pnpm_globs t r"
  show ?thesis
  proof (cases "globs = []")
    case True
    then show ?thesis
      by (auto simp: detect_services_def append_root_service_def candidate_at_root_def Let_def
          simp flip: r_def globs_def)
  next
    case False
    show ?thesis
    proof (cases "scan_globs J t r globs ([], {})")
      case (Inl e)
      then show ?thesis using False scan_globs_outcome [OF gathered_empty [of J t r], of globs]
        by (auto simp: detect_services_def Let_def simp flip: r_def globs_def)
    next
      case (Inr st)
      obtain services seen where st: "st = (services, seen)" by (cases st)
      from Inr st scan_globs_outcome [OF gathered_empty [of J t r], of globs]
      have "gathered J t r (workspace_dirs t r globs) (services, seen)" by simp
      then obtain dirs where d: "distinct dirs" "map Some services = map (service_at J t r) dirs"
        "set dirs = {d \<in> workspace_dirs t r globs. service_at J t r d \<noteq> None}"
        by (auto simp: gathered_def)
      have detect: "detect_services J t rootDir =
          (if services = [] then Inl (ErrZeroServices r) else Inr (sort_key sc_Path services))"
        using False Inr st by (simp add: detect_services_def Let_def flip: r_def globs_def)
      show ?thesis
      proof (cases "services = []")
        case True
        with d have "dirs = []" by simp
        then show ?thesis unfolding detect using True False d(3) by (simp flip: r_def globs_def)
      next
        case nonempty: False
        have "mset (map Some (sort_key sc_Path services)) = mset (map (service_at J t r) dirs)"
          by (simp flip: d(2))
        moreover have "sort_key sc_Path services \<noteq> []" using nonempty by (metis length_0_conv length_sort)
        ultimately show ?thesis unfolding detect using nonempty False d
          by (auto simp flip: r_def globs_def)
      qed
    qed
  qed
qed

end
