(* ===== verification/Analyzer_Spec.thy ===== *)
theory Analyzer_Spec
  imports Analyzer_Detect Plan_Generator
begin

text \<open>
  The analyzer's last stage and the whole pipeline: \<^verbatim>\<open>analyzer/internal/generator/generator.go\<close> and
  \<^verbatim>\<open>analyzer/pipeline.go\<close>. Three range statements visit Go maps; the order each of them takes is an
  argument, a function from the entries to a permutation of them.
\<close>

section \<open>Rendering the AppSpec\<close>

record GenServiceDef =
  gs_Type :: string
  gs_Runtime :: string
  gs_Path :: string
  gs_Port :: int

text \<open>\<open>ga_Database\<close> is the pointer to \<open>DatabaseDef\<close>, whose only field is \<open>MongoDB\<close>.\<close>

record AppSpecV1 =
  ga_Services :: "(string \<times> GenServiceDef) list"
  ga_Routing :: "(string \<times> string) list"
  ga_Database :: "bool option"
  ga_Version :: string

record ConfidenceEntry =
  ce_Field :: string
  ce_Decision :: string
  ce_Evidence :: "string list"

record GenResult =
  gr_Spec :: AppSpecV1
  gr_Confidence :: "ConfidenceEntry list"

datatype gen_error = UnsupportedStack "string list" | NoServicesDetected

type_synonym visit = "(string \<times> GenServiceDef) list \<Rightarrow> (string \<times> GenServiceDef) list"

definition supported_runtimes :: "string list" where
  "supported_runtimes = [''node'', ''python'', ''go'']"

definition frontend_frameworks :: "string list" where
  "frontend_frameworks = [''next'', ''vue'', ''react'', ''vite'', ''nuxt'']"

definition gen_service :: "string \<Rightarrow> ServiceFacts \<Rightarrow> GenServiceDef" where
  "gen_service dir f =
     \<lparr>gs_Type = (if sf_Framework f \<in> set frontend_frameworks then ''frontend'' else ''backend''),
      gs_Runtime = sf_Runtime f, gs_Path = dir, gs_Port = sf_Port f\<rparr>"

text \<open>The first entry of a kind that a range statement meets.\<close>

definition first_of_type :: "string \<Rightarrow> (string \<times> GenServiceDef) list \<Rightarrow> string option" where
  "first_of_type ty entries = map_option fst (find (\<lambda>(name, svc). gs_Type svc = ty) entries)"

definition route_entry :: "string \<Rightarrow> string \<Rightarrow> string \<Rightarrow> ConfidenceEntry" where
  "route_entry field name ty = \<lparr>ce_Field = field, ce_Decision = name, ce_Evidence = [name @ '' is type='' @ ty]\<rparr>"

text \<open>A map assignment on an association list.\<close>

definition put :: "string \<Rightarrow> string \<Rightarrow> (string \<times> string) list \<Rightarrow> (string \<times> string) list" where
  "put k v m = filter (\<lambda>(k', v'). k' \<noteq> k) m @ [(k, v)]"

definition build_routing :: "visit \<Rightarrow> visit \<Rightarrow> AppSpecV1 \<Rightarrow> AppSpecV1 \<times> ConfidenceEntry list" where
  "build_routing v1 v2 spec =
     (let services = ga_Services spec;
          front = first_of_type ''frontend'' (v1 services);
          (routing1, entries1) =
            (case front of
               Some name \<Rightarrow> (put ''/'' name [], [route_entry ''routing./'' name ''frontend''])
             | None \<Rightarrow> ([], []));
          (routing2, entries2) =
            (case first_of_type ''backend'' (v2 services) of
               Some name \<Rightarrow>
                 if map_of routing1 ''/api'' = None
                 then (put ''/api'' name routing1, entries1 @ [route_entry ''/api'' name ''backend''])
                 else (routing1, entries1)
             | None \<Rightarrow> (routing1, entries1));
          routing3 =
            (if length routing2 = length services + 1 \<and> length services = 1
             then foldl (\<lambda>m (name, svc). put ''/'' name m) routing2 services else routing2)
      in (spec\<lparr>ga_Routing := routing3\<rparr>, entries2))"

definition build_database :: "AppSpecV1 \<Rightarrow> MongoEvidence \<Rightarrow> AppSpecV1 \<times> ConfidenceEntry list" where
  "build_database spec mongo =
     ((if me_Found mongo then spec\<lparr>ga_Database := Some True\<rparr> else spec),
      [\<lparr>ce_Field = ''database.mongodb'', ce_Decision = (if me_Found mongo then ''true'' else ''false''),
        ce_Evidence = [me_Evidence mongo]\<rparr>])"

definition generate_spec ::
  "visit \<Rightarrow> visit \<Rightarrow> (string \<times> ServiceFacts) list \<Rightarrow> MongoEvidence \<Rightarrow> gen_error + GenResult" where
  "generate_spec v1 v2 services mongo =
     (let supported = filter (\<lambda>(dir, f). sf_Runtime f \<in> set supported_runtimes) services;
          unsupported = map fst (filter (\<lambda>(dir, f). sf_Runtime f \<notin> set supported_runtimes) services);
          spec = \<lparr>ga_Services = map (\<lambda>(dir, f). (dir, gen_service dir f)) supported,
                  ga_Routing = [], ga_Database = None, ga_Version = ''v1''\<rparr>
      in if unsupported \<noteq> [] then Inl (UnsupportedStack unsupported)
         else if ga_Services spec = [] then Inl NoServicesDetected
         else
           let (spec1, conf1) = build_routing v1 v2 spec;
               (spec2, conf2) = build_database spec1 mongo
           in Inr \<lparr>gr_Spec = spec2, gr_Confidence = conf1 @ conf2\<rparr>)"

section \<open>The pipeline\<close>

datatype analyze_error =
    FactsStage facts_error
  | BoundaryStage boundary_error
  | GeneratorStage gen_error

text \<open>The map of detected facts, in the order of its first range statement (\<open>v0\<close>); a later service at the
  same path replaces an earlier one.\<close>

definition service_facts :: "file_tree \<Rightarrow> string \<Rightarrow> ServiceCandidate list \<Rightarrow> (string \<times> ServiceFacts) list" where
  "service_facts t clean ss =
     foldl (\<lambda>m svc. filter (\<lambda>(k, _). k \<noteq> sc_Path svc) m @
                     [(sc_Path svc, detect_service t (path_join [clean, sc_Path svc]))]) [] ss"

definition analyze_local ::
  "json_decoder \<Rightarrow> (string \<Rightarrow> string) \<Rightarrow> (string \<times> string) list \<Rightarrow>
   ((string \<times> ServiceFacts) list \<Rightarrow> (string \<times> ServiceFacts) list) \<Rightarrow> visit \<Rightarrow> visit \<Rightarrow>
   file_tree \<Rightarrow> string \<Rightarrow> analyze_error + GenResult" where
  "analyze_local J sha256 prefs v0 v1 v2 t repoPath =
     (let clean = path_clean repoPath in
      case build_facts J sha256 prefs t clean of
        Inl e \<Rightarrow> Inl (FactsStage e)
      | Inr _ \<Rightarrow>
          (case detect_services J t clean of
             Inl e \<Rightarrow> Inl (BoundaryStage e)
           | Inr ss \<Rightarrow>
               (case generate_spec v1 v2 (v0 (service_facts t clean ss)) (detect_mongodb t clean) of
                  Inl e \<Rightarrow> Inl (GeneratorStage e)
                | Inr res \<Rightarrow> Inr res)))"

section \<open>What the control plane reads back\<close>

text \<open>The control plane decodes the rendered document with the same field names; the generator writes no
  schedule.\<close>

definition as_spec :: "AppSpecV1 \<Rightarrow> Spec" where
  "as_spec s =
     \<lparr>sp_Services = map (\<lambda>(n, g). (n, \<lparr>sd_Type = gs_Type g, sd_Runtime = gs_Runtime g, sd_Path = gs_Path g,
                                      sd_Schedule = [], sd_Port = gs_Port g\<rparr>)) (ga_Services s),
      sp_Routing = map (\<lambda>(r, n). (r, \<lparr>rt_Service = n\<rparr>)) (ga_Routing s),
      sp_Database = ga_Database s, sp_Version = ga_Version s\<rparr>"

definition permutes :: "('a list \<Rightarrow> 'a list) \<Rightarrow> bool" where
  "permutes v = (\<forall>xs. mset (v xs) = mset xs)"

lemma set_permutes: "permutes v \<Longrightarrow> set (v xs) = set xs"
  by (metis permutes_def set_mset_mset)

lemma first_of_type_Some: "first_of_type ty es = Some n \<Longrightarrow> \<exists>svc. (n, svc) \<in> set es \<and> gs_Type svc = ty"
  by (auto simp: first_of_type_def dest: find_Some_mem)

lemma first_of_type_None: "first_of_type ty es = None \<longleftrightarrow> (\<forall>(n, svc) \<in> set es. gs_Type svc \<noteq> ty)"
  by (auto simp: first_of_type_def find_None_iff_all)

lemma gen_service_type: "gs_Type (gen_service dir f) = ''frontend'' \<or> gs_Type (gen_service dir f) = ''backend''"
  by (simp add: gen_service_def)

lemma gen_service_simps [simp]:
  "gs_Runtime (gen_service dir f) = sf_Runtime f"
  "gs_Path (gen_service dir f) = dir"
  by (simp_all add: gen_service_def)

lemma put_Nil [simp]: "put k v [] = [(k, v)]"
  by (simp add: put_def)

text \<open>The clause that would route a lone service at the root needs two routes and one service, which one
  service cannot have: it never fires.\<close>

lemma build_routing_routes:
  assumes "permutes v1" and "permutes v2" and "distinct (map fst (ga_Services spec))"
  shows "ga_Routing (fst (build_routing v1 v2 spec)) =
     (case first_of_type ''frontend'' (v1 (ga_Services spec)) of Some n \<Rightarrow> [(''/'', n)] | None \<Rightarrow> []) @
     (case first_of_type ''backend'' (v2 (ga_Services spec)) of Some n \<Rightarrow> [(''/api'', n)] | None \<Rightarrow> [])"
proof -
  have no_both: "False" if one: "length (ga_Services spec) = 1"
    and f: "first_of_type ''frontend'' (v1 (ga_Services spec)) = Some a"
    and b: "first_of_type ''backend'' (v2 (ga_Services spec)) = Some c" for a c
  proof -
    obtain e where "ga_Services spec = [e]" using one by (auto simp: length_Suc_conv)
    then show False
      using first_of_type_Some [OF f] first_of_type_Some [OF b] assms(1,2) by (auto simp: set_permutes)
  qed
  show ?thesis
    using no_both by (auto simp: build_routing_def Let_def put_def split: option.split prod.split)
qed

lemma generate_spec_Inr:
  "generate_spec v1 v2 services mongo = Inr res \<longleftrightarrow>
     services \<noteq> [] \<and> (\<forall>(d, f) \<in> set services. sf_Runtime f \<in> set supported_runtimes) \<and>
     (let spec = \<lparr>ga_Services = map (\<lambda>(dir, f). (dir, gen_service dir f)) services,
                  ga_Routing = [], ga_Database = None, ga_Version = ''v1''\<rparr>;
          (spec1, conf1) = build_routing v1 v2 spec; (spec2, conf2) = build_database spec1 mongo
      in res = \<lparr>gr_Spec = spec2, gr_Confidence = conf1 @ conf2\<rparr>)"
proof (cases "\<forall>(d, f) \<in> set services. sf_Runtime f \<in> set supported_runtimes")
  case True
  then have "filter (\<lambda>(dir, f). sf_Runtime f \<in> set supported_runtimes) services = services"
    and "filter (\<lambda>(dir, f). sf_Runtime f \<notin> set supported_runtimes) services = []"
    by (auto simp: filter_id_conv filter_empty_conv)
  with True show ?thesis by (auto simp: generate_spec_def Let_def split: prod.split)
next
  case False
  then have "filter (\<lambda>(dir, f). sf_Runtime f \<notin> set supported_runtimes) services \<noteq> []"
    by (auto simp: filter_empty_conv)
  with False show ?thesis by (auto simp: generate_spec_def Let_def)
qed

lemma distinct_service_facts: "distinct (map fst (service_facts t clean ss))"
proof -
  have "distinct (map fst m) \<Longrightarrow> distinct (map fst
      (foldl (\<lambda>m svc. filter (\<lambda>(k, _). k \<noteq> sc_Path svc) m @
                 [(sc_Path svc, detect_service t (path_join [clean, sc_Path svc]))]) m ss))" for m
  proof (induction ss arbitrary: m)
    case (Cons svc ss)
    have "distinct (map fst (filter (\<lambda>(k, _). k \<noteq> sc_Path svc) m @
                 [(sc_Path svc, detect_service t (path_join [clean, sc_Path svc]))]))"
      using Cons.prems by (auto simp: distinct_map_filter)
    from Cons.IH [OF this] show ?case by simp
  qed simp
  then show ?thesis by (simp add: service_facts_def)
qed

lemma keys_service_facts: "fst ` set (service_facts t clean ss) = sc_Path ` set ss"
proof -
  have "fst ` set (foldl (\<lambda>m svc. filter (\<lambda>(k, _). k \<noteq> sc_Path svc) m @
          [(sc_Path svc, detect_service t (path_join [clean, sc_Path svc]))]) m ss) = fst ` set m \<union> sc_Path ` set ss" for m
    by (induction ss arbitrary: m) (force simp: image_Un)+
  then show ?thesis by (simp add: service_facts_def)
qed

lemma generated_spec_accepted:
  assumes v: "permutes v1" "permutes v2" and d: "distinct (map fst services)"
    and p: "\<forall>(dir, f) \<in> set services. trim_space dir \<noteq> []"
    and res: "generate_spec v1 v2 services mongo = Inr res"
  shows "spec_ok (as_spec (gr_Spec res)) \<and> distinct (map fst (sp_Services (as_spec (gr_Spec res)))) \<and>
    (\<forall>(n, svc) \<in> set (sp_Services (as_spec (gr_Spec res))). is_http_type (sd_Type svc))"
proof -
  define gs where "gs = map (\<lambda>(dir, f). (dir, gen_service dir f)) services"
  define spec where "spec = \<lparr>ga_Services = gs, ga_Routing = [], ga_Database = None, ga_Version = ''v1''\<rparr>"
  from res have ne: "services \<noteq> []" and run: "\<forall>(d, f) \<in> set services. sf_Runtime f \<in> set supported_runtimes"
    and shape: "gr_Spec res = fst (build_database (fst (build_routing v1 v2 spec)) mongo)"
    by (auto simp: generate_spec_Inr Let_def spec_def gs_def split: prod.splits)
  have keys: "map fst gs = map fst services" by (auto simp: gs_def)
  have gs_ne: "gs \<noteq> []" using ne by (simp add: gs_def)
  have routing: "ga_Routing (gr_Spec res) =
      (case first_of_type ''frontend'' (v1 gs) of Some n \<Rightarrow> [(''/'', n)] | None \<Rightarrow> []) @
      (case first_of_type ''backend'' (v2 gs) of Some n \<Rightarrow> [(''/api'', n)] | None \<Rightarrow> [])"
    using build_routing_routes [OF v, of spec] d keys
    by (auto simp: shape build_database_def spec_def)
  have same: "ga_Services (gr_Spec res) = gs" "ga_Version (gr_Spec res) = ''v1''"
    by (auto simp: shape build_database_def build_routing_def spec_def Let_def split: prod.splits)
  have http: "\<forall>(n, g) \<in> set gs. gs_Type g = ''frontend'' \<or> gs_Type g = ''backend''"
    using gen_service_type by (fastforce simp: gs_def)
  have "service_ok \<lparr>sd_Type = gs_Type g, sd_Runtime = gs_Runtime g, sd_Path = gs_Path g, sd_Schedule = [], sd_Port = gs_Port g\<rparr>"
    if "(n, g) \<in> set gs" for n g
  proof -
    have "(n, g) \<in> (\<lambda>(dir, f). (dir, gen_service dir f)) ` set services" using that by (simp add: gs_def)
    then obtain f where f: "(n, f) \<in> set services" "g = gen_service n f" by auto
    have "gs_Type g \<noteq> ''cron''" using gen_service_type [of n f] f(2) by auto
    moreover have "sf_Runtime f \<in> set supported_runtimes" "trim_space n \<noteq> []" using f(1) run p by auto
    moreover have "gs_Type g = ''frontend'' \<or> gs_Type g = ''backend''" using that http by auto
    ultimately show ?thesis using f(2) by (auto simp: service_ok_def supported_runtimes_def)
  qed
  moreover have "\<exists>svc. map_of (sp_Services (as_spec (gr_Spec res))) n = Some svc \<and> is_http_type (sd_Type svc)"
    if "(r, n) \<in> set (ga_Routing (gr_Spec res))" for r n
  proof -
    from that obtain g where "(n, g) \<in> set gs"
      by (auto simp: routing set_permutes [OF v(1)] set_permutes [OF v(2)] dest!: first_of_type_Some [OF sym]
          split: option.splits)
    moreover from this http have "gs_Type g = ''frontend'' \<or> gs_Type g = ''backend''" by blast
    moreover have "distinct (map fst gs)" using d keys by simp
    ultimately show ?thesis using map_of_is_SomeI [of gs n g] unfolding as_spec_def same is_http_type_def
      by (intro exI [of _ "\<lparr>sd_Type = gs_Type g, sd_Runtime = gs_Runtime g, sd_Path = gs_Path g, sd_Schedule = [], sd_Port = gs_Port g\<rparr>"])
         (simp add: map_of_map_values)
  qed
  ultimately have "spec_ok (as_spec (gr_Spec res))"
    using gs_ne by (auto simp: spec_ok_def as_spec_def same)
  moreover have "map fst (sp_Services (as_spec (gr_Spec res))) = map fst services"
    using keys by (simp add: as_spec_def same split_def comp_def)
  ultimately show ?thesis using d http by (auto simp: as_spec_def same is_http_type_def)
qed

text \<open>The services a run hands to the generator, in the order the map is visited.\<close>

lemma visited_services:
  assumes "permutes v0" "detect_services J t clean = Inr ss"
  defines "services \<equiv> v0 (service_facts t clean ss)"
  shows "distinct (map fst services)" "services \<noteq> []" "fst ` set services = sc_Path ` set ss"
proof -
  have set: "set services = set (service_facts t clean ss)"
    by (simp add: services_def set_permutes [OF assms(1)])
  then show keys: "fst ` set services = sc_Path ` set ss" by (simp add: keys_service_facts)
  have "mset services = mset (service_facts t clean ss)" using assms(1) by (simp add: permutes_def services_def)
  then have "mset (map fst services) = mset (map fst (service_facts t clean ss))" by simp
  then show "distinct (map fst services)" using distinct_service_facts mset_eq_imp_distinct_iff by blast
  have "ss \<noteq> []" using assms(2) by (auto simp: detect_services_def Let_def and_then_def split: sum.splits if_splits)
  then show "services \<noteq> []" using keys by auto
qed

lemma generator_sees_services:
  assumes "services \<noteq> []"
  shows "generate_spec v1 v2 services mongo \<noteq> Inl NoServicesDetected"
  using assms by (cases services) (auto simp: generate_spec_def Let_def split: prod.splits if_splits)

lemma generated_database:
  assumes "generate_spec v1 v2 services mongo = Inr res"
  shows "sp_Database (as_spec (gr_Spec res)) = (if me_Found mongo then Some True else None)"
  using assms by (auto simp: generate_spec_Inr as_spec_def build_database_def build_routing_def Let_def split: prod.splits)

text \<open>
  C32: whatever the map orders, a repository the analyzer accepts yields a spec that the control plane
  accepts and can plan: its validator returns no error and the plan generator succeeds, provided no workspace
  directory has a blank name. The error cases are exactly those of the stages.
\<close>

theorem analyzed_spec_plannable:
  assumes "permutes v0" and "permutes v1" and "permutes v2" and "input_complete inp"
    and "\<forall>ss. detect_services J t (path_clean repoPath) = Inr ss \<longrightarrow> (\<forall>s \<in> set ss. trim_space (sc_Path s) \<noteq> [])"
  shows "case analyze_local J sha256 prefs v0 v1 v2 t repoPath of
      Inr res \<Rightarrow> validate_spec (as_spec (gr_Spec res)) = None \<and>
        is_ok (generate_plan (inp\<lparr>pi_Spec := as_spec (gr_Spec res)\<rparr>)) \<and>
        sp_Database (as_spec (gr_Spec res)) = (if me_Found (detect_mongodb t (path_clean repoPath)) then Some True else None)
    | Inl (FactsStage e) \<Rightarrow> build_facts J sha256 prefs t (path_clean repoPath) = Inl e
    | Inl (BoundaryStage e) \<Rightarrow> detect_services J t (path_clean repoPath) = Inl e
    | Inl (GeneratorStage e) \<Rightarrow> e \<noteq> NoServicesDetected"
proof -
  define clean where "clean = path_clean repoPath"
  consider e where "build_facts J sha256 prefs t clean = Inl e"
    | rf e where "build_facts J sha256 prefs t clean = Inr rf" "detect_services J t clean = Inl e"
    | rf ss where "build_facts J sha256 prefs t clean = Inr rf" "detect_services J t clean = Inr ss"
    by (meson obj_sumE)
  then show ?thesis
  proof cases
    case 3
    define services where "services = v0 (service_facts t clean ss)"
    note visited = visited_services [OF assms(1) 3(2), folded services_def]
    have named: "\<forall>(dir, f) \<in> set services. trim_space dir \<noteq> []" using assms(5) 3(2) visited(3) unfolding clean_def by force
    have run: "analyze_local J sha256 prefs v0 v1 v2 t repoPath =
        (case generate_spec v1 v2 services (detect_mongodb t clean) of Inl e \<Rightarrow> Inl (GeneratorStage e) | Inr res \<Rightarrow> Inr res)"
      using 3 by (simp add: analyze_local_def Let_def clean_def services_def)
    show ?thesis
    proof (cases "generate_spec v1 v2 services (detect_mongodb t clean)")
      case (Inl e)
      then show ?thesis using generator_sees_services [OF visited(2), of v1 v2 "detect_mongodb t clean"] unfolding run by auto
    next
      case (Inr res)
      note good = generated_spec_accepted [OF assms(2,3) visited(1) named Inr]
      have "is_ok (generate_plan (inp\<lparr>pi_Spec := as_spec (gr_Spec res)\<rparr>))"
        using good assms(4) by (subst plannable_iff) (auto simp: input_complete_def)
      then show ?thesis using good Inr generated_database [OF Inr] unfolding run by (simp add: validate_spec_ok flip: clean_def)
    qed
  qed (simp_all add: analyze_local_def Let_def clean_def)
qed

definition sample_decoder :: json_decoder where
  "sample_decoder = \<lparr>jd_manifest = (\<lambda>s. Some \<lparr>pm_Scripts = [''dev''], pm_Main = []\<rparr>), jd_name = (\<lambda>s. None), jd_keys = (\<lambda>s. None)\<rparr>"

definition sample_repo :: file_tree where
  "sample_repo = [(''/r'', DirEntry), (''/r/package.json'', FileEntry (Some ''x''))]"

lemma sample_repo_services: "detect_services sample_decoder sample_repo (path_clean ''/r'') = Inr [\<lparr>sc_Name = ''r'', sc_Path = ''.''\<rparr>]"
  by code_simp

lemma sample_repo_runs:
  "is_ok (analyze_local sample_decoder id prefix_kinds id id id sample_repo ''/r'')"
  by code_simp

theorem analyzed_spec_plannable_witness:
  "\<exists>res. analyze_local sample_decoder id prefix_kinds id id id sample_repo ''/r'' = Inr res \<and>
     validate_spec (as_spec (gr_Spec res)) = None"
proof -
  define inp where "inp = \<lparr>pi_Spec = sample_spec, pi_Now = 5, pi_AppID = ''ab-cd'', pi_Slug = ''shop'',
    pi_Env = ''production'', pi_BaseDomain = ''x.io'', pi_TTL = 10\<rparr>"
  have "trim_space ''.'' \<noteq> []" by (simp add: trim_space_plain plain_char_def)
  then have "case analyze_local sample_decoder id prefix_kinds id id id sample_repo ''/r'' of
      Inr res \<Rightarrow> validate_spec (as_spec (gr_Spec res)) = None | Inl e \<Rightarrow> True"
    using analyzed_spec_plannable [of id id id inp sample_decoder sample_repo "''/r''" id prefix_kinds] sample_repo_services
    by (auto simp: permutes_def inp_def input_complete_def split: sum.splits)
  with sample_repo_runs show ?thesis by (auto split: sum.splits)
qed

end
