(* ===== verification/Analyzer_Command.thy ===== *)
theory Analyzer_Command
  imports Analyzer_Detect
begin

text \<open>
  The analyzer command (\<^verbatim>\<open>analyzer/cmd/analyzer/main.go\<close>) with the part of the standard library's flag parser it
  uses: two string flags, a parse error ends the process. The document is kept structured; its layout is the encoder's.
\<close>

section \<open>Flags\<close>

datatype flag_outcome = Parsed "(string \<times> string) list" | HelpAsked | BadFlags

text \<open>\<^verbatim>\<open>FlagSet.Parse\<close> for string flags: one or two dashes, the value after an equals sign or as the next argument, up to the
  first argument that is no flag. \<open>vals\<close> are the values so far.\<close>

definition flag_text :: "string \<Rightarrow> string" where
  "flag_text s = (if s ! 1 = CHR ''-'' then drop 2 s else drop 1 s)"

definition flag_name :: "string \<Rightarrow> string" where
  "flag_name s = takeWhile (\<lambda>c. c \<noteq> CHR ''='') (flag_text s)"

definition not_a_flag :: "string \<Rightarrow> bool" where
  "not_a_flag s \<longleftrightarrow> length s < 2 \<or> hd s \<noteq> CHR ''-'' \<or> s = ''--''"

definition bad_syntax :: "string \<Rightarrow> bool" where
  "bad_syntax s \<longleftrightarrow> flag_text s = [] \<or> hd (flag_text s) = CHR ''-'' \<or> hd (flag_text s) = CHR ''=''"

definition set_flag :: "string \<Rightarrow> string \<Rightarrow> (string \<times> string) list \<Rightarrow> (string \<times> string) list" where
  "set_flag name v vals = map (\<lambda>(k, u). if k = name then (k, v) else (k, u)) vals"

fun parse_flags :: "(string \<times> string) list \<Rightarrow> string list \<Rightarrow> flag_outcome" where
  "parse_flags vals [] = Parsed vals"
| "parse_flags vals (s # args) =
     (if not_a_flag s then Parsed vals
      else if bad_syntax s then BadFlags
      else if flag_name s \<notin> fst ` set vals
        then (if flag_name s = ''help'' \<or> flag_name s = ''h'' then HelpAsked else BadFlags)
      else if flag_name s \<noteq> flag_text s
        then parse_flags (set_flag (flag_name s) (drop (length (flag_name s) + 1) (flag_text s)) vals) args
      else (case args of
          [] \<Rightarrow> BadFlags
        | v # rest \<Rightarrow> parse_flags (set_flag (flag_name s) v vals) rest))"

lemmas flag_defs = flag_text_def flag_name_def not_a_flag_def bad_syntax_def set_flag_def

section \<open>The document\<close>

definition fact_json :: "FileFact \<Rightarrow> json" where
  "fact_json f =
     JObj ([(''path'', JStr (ff_Path f)), (''kind'', JStr (ff_Kind f)), (''sha256'', JStr (ff_SHA256 f)), (''lines'', JInt (ff_Lines f))] @
           (if ff_TopKeys f = [] then [] else [(''top_keys'', JArr (map JStr (ff_TopKeys f)))]))"

definition facts_json :: "RawFacts \<Rightarrow> json" where
  "facts_json rf =
     JObj [(''schema'', JStr (rf_Schema rf)), (''root'', JStr (rf_Root rf)), (''files'', JArr (map fact_json (rf_Files rf)))]"

section \<open>The command\<close>

text \<open>The exit status and what was written to the standard output; \<open>writable\<close> says whether that succeeds.\<close>

definition analyzer_main ::
  "json_decoder \<Rightarrow> (string \<Rightarrow> string) \<Rightarrow> (string \<times> string) list \<Rightarrow> file_tree \<Rightarrow> bool \<Rightarrow> string list \<Rightarrow> int \<times> json option" where
  "analyzer_main J sha256 prefs t writable args =
     (if length args < 2 \<or> args ! 1 \<noteq> ''scan'' then (2, None)
      else case parse_flags [(''path'', ''.''), (''stage'', ''facts'')] (drop 2 args) of
        BadFlags \<Rightarrow> (2, None)
      | HelpAsked \<Rightarrow> (0, None)
      | Parsed vals \<Rightarrow>
          if map_of vals ''stage'' = Some ''facts'' then
            (case build_facts J sha256 prefs t (the (map_of vals ''path'')) of
               Inl e \<Rightarrow> (1, None)
             | Inr out \<Rightarrow> if writable then (0, Some (facts_json out)) else (1, None))
          else (2, None))"

lemma set_flag_keys: "map fst (set_flag n v vals) = map fst vals"
  by (induction vals) (auto simp: set_flag_def)

lemma parse_flags_keys: "parse_flags vals args = Parsed vals' \<Longrightarrow> map fst vals' = map fst vals"
proof (induction vals args rule: parse_flags.induct)
  case (2 vals s args)
  then show ?case by (simp add: set_flag_keys split: if_split_asm list.split_asm)
qed simp

text \<open>A document is printed only with status 0, and is then the detection matrix of the path asked for; the last of several
  settings of a flag counts.\<close>

lemma printed_matrix:
  assumes "analyzer_main J sha256 prefs t writable args = (code, Some doc)"
  shows "code = 0 \<and> writable \<and> (\<exists>vals path rf. parse_flags [(''path'', ''.''), (''stage'', ''facts'')] (drop 2 args) = Parsed vals \<and>
    vals = [(''path'', path), (''stage'', ''facts'')] \<and> build_facts J sha256 prefs t path = Inr rf \<and> doc = facts_json rf)"
proof -
  obtain vals rf where v: "parse_flags [(''path'', ''.''), (''stage'', ''facts'')] (drop 2 args) = Parsed vals" "map_of vals ''stage'' = Some ''facts''"
      "build_facts J sha256 prefs t (the (map_of vals ''path'')) = Inr rf" "code = 0" "writable" "doc = facts_json rf"
    using assms by (auto simp: analyzer_main_def split: if_splits flag_outcome.splits sum.splits)
  have "map fst vals = [''path'', ''stage'']" using parse_flags_keys [OF v(1)] by simp
  then obtain path stage where "vals = [(''path'', path), (''stage'', stage)]" by (auto simp: map_eq_Cons_conv)
  then show ?thesis using v by simp
qed

lemma scan_path:
  assumes "build_facts J sha256 prefs t path = Inr rf"
  shows "analyzer_main J sha256 prefs t True [prog, ''scan'', ''--path'', path] = (0, Some (facts_json rf))"
  using assms by (simp add: analyzer_main_def flag_defs)

end
