(* ===== verification/Verify.thy ===== *)
theory Verify
  imports Deploy_State Go_Strings Go_Numbers
begin

text \<open>
  The deployment verification chain and the failure diagnosis: \<^verbatim>\<open>verifier/internal/verify\<close> (the
  nine-step catalogue, aggregation, completeness) and \<^verbatim>\<open>verifier/internal/diagnose\<close> (known failure
  patterns).
\<close>

section \<open>The step catalogue\<close>

definition StepTimeout :: duration where "StepTimeout = 120 * second"

abbreviation (input) StepDeploymentAvailable :: int where "StepDeploymentAvailable \<equiv> 1"
abbreviation (input) StepServiceReachable :: int where "StepServiceReachable \<equiv> 2"
abbreviation (input) StepDNSResolve :: int where "StepDNSResolve \<equiv> 3"
abbreviation (input) StepTLSHandshake :: int where "StepTLSHandshake \<equiv> 4"
abbreviation (input) StepRootHTTP :: int where "StepRootHTTP \<equiv> 5"
abbreviation (input) StepAPIHealth :: int where "StepAPIHealth \<equiv> 6"
abbreviation (input) StepBrowserLoad :: int where "StepBrowserLoad \<equiv> 7"
abbreviation (input) StepConsoleErrors :: int where "StepConsoleErrors \<equiv> 8"
abbreviation (input) StepFailedRequests :: int where "StepFailedRequests \<equiv> 9"

definition step_names :: "(int \<times> string) list" where
  "step_names =
    [(StepDeploymentAvailable, ''deployment available''),
     (StepServiceReachable, ''service clusterip reachable''),
     (StepDNSResolve, ''dns resolves slug''),
     (StepTLSHandshake, ''tls handshake''),
     (StepRootHTTP, ''get / returns 2xx''),
     (StepAPIHealth, ''get /api/health returns 2xx''),
     (StepBrowserLoad, ''headless browser loads page''),
     (StepConsoleErrors, ''console error count is zero''),
     (StepFailedRequests, ''failed request count is zero'')]"

definition step_order :: "int list" where
  "step_order =
    [StepDeploymentAvailable, StepServiceReachable, StepDNSResolve,
     StepTLSHandshake, StepRootHTTP, StepAPIHealth,
     StepBrowserLoad, StepConsoleErrors, StepFailedRequests]"

definition step_ids :: "int list" where
  "step_ids = [] @ step_order"

text \<open>A missing id reads as the empty label.\<close>

definition step_name :: "int \<Rightarrow> string" where
  "step_name i = (case map_of step_names i of None \<Rightarrow> [] | Some n \<Rightarrow> n)"

definition is_browser_step :: "int \<Rightarrow> bool" where
  "is_browser_step i = (StepBrowserLoad \<le> i \<and> i \<le> StepFailedRequests)"

section \<open>Reports\<close>

abbreviation (input) StatusPass :: string where "StatusPass \<equiv> ''pass''"
abbreviation (input) StatusFail :: string where "StatusFail \<equiv> ''fail''"
abbreviation (input) OutcomeRunning :: string where "OutcomeRunning \<equiv> ''RUNNING''"
abbreviation (input) OutcomeDegraded :: string where "OutcomeDegraded \<equiv> ''DEGRADED''"

record StepResult =
  st_Name :: string
  st_Status :: string
  st_Detail :: string
  st_ID :: int
  st_DurationMS :: int

record VerifyReport =
  vr_GeneratedAt :: time
  vr_AppID :: string
  vr_Steps :: "StepResult list"
  vr_Outcome :: string

fun aggregate_outcome :: "StepResult list \<Rightarrow> string" where
  "aggregate_outcome [] = OutcomeRunning"
| "aggregate_outcome (s # steps) = (if st_Status s = StatusFail then OutcomeDegraded else aggregate_outcome steps)"

definition aggregate :: "string \<Rightarrow> StepResult list \<Rightarrow> time \<Rightarrow> VerifyReport" where
  "aggregate appID steps t =
     \<lparr>vr_GeneratedAt = t, vr_AppID = appID, vr_Steps = steps, vr_Outcome = aggregate_outcome steps\<rparr>"

datatype incomplete =
    WrongCount int int
  | WrongPosition int int
  | WrongName int string

fun check_steps :: "int \<Rightarrow> StepResult list \<Rightarrow> incomplete option" where
  "check_steps i [] = None"
| "check_steps i (s # steps) =
     (if st_ID s \<noteq> i + 1 then Some (WrongPosition (i + 1) (st_ID s))
      else if st_Name s \<noteq> step_name (st_ID s) then Some (WrongName (st_ID s) (st_Name s))
      else check_steps (i + 1) steps)"

definition validate_complete :: "StepResult list \<Rightarrow> incomplete option" where
  "validate_complete steps =
     (if length steps \<noteq> length step_order
      then Some (WrongCount (int (length step_order)) (int (length steps)))
      else check_steps 0 steps)"

section \<open>Diagnosis\<close>

record Bundle =
  bu_GeneratedAt :: time
  bu_VerifyReport :: "VerifyReport option"
  bu_BuildLogTail :: string
  bu_PodEvents :: string
  bu_ContainerLogs :: string
  bu_AppID :: string

record Diagnosis =
  dg_GeneratedAt :: time
  dg_FailedSteps :: "int list"
  dg_AppID :: string
  dg_Classified :: string
  dg_Hint :: string

record patternRule =
  pr_class :: string
  pr_hint :: string
  pr_keywords :: "string list"

definition rules :: "patternRule list" where
  "rules =
    [\<lparr>pr_class = ''MISSING_ENV_DATABASE_URL'',
      pr_hint = ''bind a mongo database so DATABASE_URL can be injected'',
      pr_keywords = [''DATABASE_URL'']\<rparr>,
     \<lparr>pr_class = ''CRASH_LOOP_BACK_OFF'',
      pr_hint = ''inspect container logs for a repeated startup crash'',
      pr_keywords = [''CrashLoopBackOff'']\<rparr>,
     \<lparr>pr_class = ''OOM_KILLED'',
      pr_hint = ''trim memory usage or raise the plan quota'',
      pr_keywords = [''OOMKilled'', ''out of memory'']\<rparr>,
     \<lparr>pr_class = ''IMAGE_PULL_BACK_OFF'',
      pr_hint = ''check the image digest exists in the registry'',
      pr_keywords = [''ImagePullBackOff'', ''ErrImagePull'']\<rparr>,
     \<lparr>pr_class = ''UPSTREAM_502'',
      pr_hint = ''backend is not answering on its declared port'',
      pr_keywords = [''502 Bad Gateway'']\<rparr>]"

definition failed_steps :: "VerifyReport option \<Rightarrow> int list" where
  "failed_steps rep =
     (case rep of None \<Rightarrow> [] | Some r \<Rightarrow> map st_ID (filter (\<lambda>s. st_Status s = StatusFail) (vr_Steps r)))"

fun first_rule :: "string \<Rightarrow> patternRule list \<Rightarrow> patternRule option" where
  "first_rule haystack [] = None"
| "first_rule haystack (r # rs) =
     (if list_ex (contains haystack) (pr_keywords r) then Some r else first_rule haystack rs)"

definition classify :: "Bundle \<Rightarrow> Diagnosis" where
  "classify b =
     (let d = \<lparr>dg_GeneratedAt = bu_GeneratedAt b, dg_FailedSteps = failed_steps (bu_VerifyReport b),
               dg_AppID = bu_AppID b, dg_Classified = ''UNCLASSIFIED'', dg_Hint = []\<rparr>;
          haystack = join [CHR 0x0A] [bu_BuildLogTail b, bu_PodEvents b, bu_ContainerLogs b] in
      case first_rule haystack rules of
        Some r \<Rightarrow> d\<lparr>dg_Classified := pr_class r, dg_Hint := pr_hint r\<rparr>
      | None \<Rightarrow> d)"

section \<open>Completeness and outcome\<close>

lemma check_steps_None:
  "check_steps i steps = None \<longleftrightarrow>
     map (\<lambda>s. (st_ID s, st_Name s)) steps = map (\<lambda>k. (k, step_name k)) (map (\<lambda>k. i + 1 + int k) [0..<length steps])"
proof (induction steps arbitrary: i)
  case Nil
  show ?case by simp
next
  case (Cons s steps)
  have shift: "map (\<lambda>k. i + 1 + int k) [0..<length (s # steps)] = (i + 1) # map (\<lambda>k. (i + 1) + 1 + int k) [0..<length steps]"
    by (simp add: upt_conv_Cons map_Suc_upt [symmetric] comp_def del: upt_Suc)
  show ?case unfolding shift using Cons.IH [of "i + 1"] by auto
qed

lemma step_order_enum: "map (\<lambda>k. 0 + 1 + int k) [0..<length step_order] = step_order"
  by (simp add: step_order_def upt_rec)

lemma step_names_order: "map (\<lambda>k. (k, step_name k)) step_order = step_names"
  by (simp add: step_order_def step_names_def step_name_def)

lemma aggregate_outcome_iff:
  "aggregate_outcome steps = OutcomeRunning \<longleftrightarrow> (\<forall>s \<in> set steps. st_Status s \<noteq> StatusFail)"
  by (induction steps) auto

text \<open>
  C33: a list of results is complete exactly when its ids and names are the nine-step catalogue in order,
  so the browser steps are among them; the aggregated outcome is a state the deployment may enter from
  VERIFYING, and it is DEGRADED exactly when the diagnosis of that report names a failed step.
\<close>

theorem verification_complete_exact:
  "(validate_complete steps = None \<longleftrightarrow> map (\<lambda>s. (st_ID s, st_Name s)) steps = step_names) \<and>
   map fst step_names = step_ids \<and> set (filter is_browser_step step_ids) = {7, 8, 9} \<and>
   can_transition StateVerifying (vr_Outcome (aggregate appID steps t)) \<and>
   (vr_Outcome (aggregate appID steps t) = OutcomeDegraded \<longleftrightarrow>
      dg_FailedSteps (classify (b\<lparr>bu_VerifyReport := Some (aggregate appID steps t)\<rparr>)) \<noteq> [])"
proof -
  have len: "length step_names = length step_order" by (simp add: step_names_def step_order_def)
  have "validate_complete steps = None \<longleftrightarrow> map (\<lambda>s. (st_ID s, st_Name s)) steps = step_names"
  proof (cases "length steps = length step_order")
    case True
    then show ?thesis
      by (simp add: validate_complete_def check_steps_None step_order_enum [simplified] step_names_order)
  next
    case False
    then have "map (\<lambda>s. (st_ID s, st_Name s)) steps \<noteq> step_names"
      using len by (metis length_map)
    with False show ?thesis by (simp add: validate_complete_def)
  qed
  moreover have "map fst step_names = step_ids" by (simp add: step_names_def step_ids_def step_order_def)
  moreover have "set (filter is_browser_step step_ids) = {7, 8, 9}"
    by (auto simp: step_ids_def step_order_def is_browser_step_def)
  moreover have "aggregate_outcome steps \<in> {OutcomeRunning, OutcomeDegraded}" by (induction steps) auto
  moreover have "dg_FailedSteps (classify b') = failed_steps (bu_VerifyReport b')" for b' :: Bundle
    by (simp add: classify_def Let_def split: option.split)
  moreover have "can_transition StateVerifying OutcomeRunning" "can_transition StateVerifying OutcomeDegraded"
    by (simp_all add: can_transition_def allowed_transitions_def)
  ultimately show ?thesis using aggregate_outcome_iff [of steps]
    by (auto simp: aggregate_def failed_steps_def filter_empty_conv)
qed

text \<open>Aggregation alone does not ask for completeness: no step at all counts as running.\<close>

lemma empty_report_running: "vr_Outcome (aggregate appID [] t) = OutcomeRunning \<and> validate_complete [] \<noteq> None"
  by (simp add: aggregate_def validate_complete_def step_order_def)

text \<open>The diagnosis carries only catalogue codes and hints, never log text.\<close>

lemma classify_codes: "(dg_Classified (classify b), dg_Hint (classify b)) \<in> insert (''UNCLASSIFIED'', []) ((\<lambda>r. (pr_class r, pr_hint r)) ` set rules)"
proof -
  have "first_rule h rs = Some r \<Longrightarrow> r \<in> set rs" for h rs r
    by (induction rs) (auto split: if_splits)
  then show ?thesis by (auto simp: classify_def Let_def split: option.split)
qed

end
