(* ===== verification/Kube.thy ===== *)
theory Kube
  imports Go_Strings Go_Http
begin

text \<open>
  The Kubernetes API types and the API client the controllers use (\<^verbatim>\<open>k8s.io/api\<close>,
  \<^verbatim>\<open>controller-runtime\<close>). The structs are records holding the fields the controllers read or write,
  a nil pointer is \<open>None\<close>. The client is a parameter: a record of operations over an abstract cluster
  state, each of which may fail; what the controllers rely on is stated by \<open>client_laws\<close>, relative to a
  view of the stored objects.
\<close>

section \<open>API types\<close>

type_synonym labels = "(string \<times> string) list"

record OwnerReference =
  or_APIVersion :: string
  or_Kind :: string
  or_Name :: string
  or_UID :: string
  or_Controller :: bool
  or_BlockOwnerDeletion :: bool

record ObjectMeta =
  om_Name :: string
  om_Namespace :: string
  om_UID :: string
  om_Labels :: labels
  om_OwnerReferences :: "OwnerReference list"

definition named :: "string \<Rightarrow> string \<Rightarrow> labels \<Rightarrow> ObjectMeta" where
  "named name ns lbls = \<lparr>om_Name = name, om_Namespace = ns, om_UID = [], om_Labels = lbls, om_OwnerReferences = []\<rparr>"

text \<open>Reading a label: the empty string when absent.\<close>

abbreviation label :: "ObjectMeta \<Rightarrow> string \<Rightarrow> string" where
  "label m k \<equiv> lookup_or_empty (om_Labels m) k"

record Toleration =
  to_Key :: string
  to_Operator :: string
  to_Value :: string
  to_Effect :: string

record SecurityContext =
  sx_RunAsNonRoot :: "bool option"
  sx_AllowPrivilegeEscalation :: "bool option"
  sx_ReadOnlyRootFilesystem :: "bool option"
  sx_CapsDrop :: "string list option"
  sx_Seccomp :: "string option"

record VolumeMount =
  vm_Name :: string
  vm_MountPath :: string
  vm_ReadOnly :: bool

datatype volume_source = SecretVolume string int | EmptyDirVolume

record Volume =
  vo_Name :: string
  vo_Source :: volume_source

record Container =
  ct_Name :: string
  ct_Image :: string
  ct_PullPolicy :: string
  ct_Command :: "string list"
  ct_Args :: "string list"
  ct_Env :: "(string \<times> string) list"
  ct_VolumeMounts :: "VolumeMount list"
  ct_Ports :: "int list"
  ct_ReadinessTCP :: "int option"
  ct_LivenessTCP :: "int option"
  ct_Security :: "SecurityContext option"
  ct_Limits :: "(string \<times> string) list"

definition container0 :: "string \<Rightarrow> string \<Rightarrow> Container" where
  "container0 name img =
     \<lparr>ct_Name = name, ct_Image = img, ct_PullPolicy = [], ct_Command = [], ct_Args = [], ct_Env = [],
      ct_VolumeMounts = [], ct_Ports = [], ct_ReadinessTCP = None, ct_LivenessTCP = None, ct_Security = None,
      ct_Limits = []\<rparr>"

record PodSecurity =
  px_RunAsUser :: int
  px_RunAsGroup :: int
  px_Seccomp :: string

record PodSpec =
  pod_RestartPolicy :: string
  pod_AutomountToken :: "bool option"
  pod_NodeSelector :: labels
  pod_Tolerations :: "Toleration list"
  pod_Security :: "PodSecurity option"
  pod_ActiveDeadline :: "int option"
  pod_RuntimeClass :: "string option"
  pod_Volumes :: "Volume list"
  pod_InitContainers :: "Container list"
  pod_Containers :: "Container list"

definition podspec0 :: PodSpec where
  "podspec0 =
     \<lparr>pod_RestartPolicy = [], pod_AutomountToken = None, pod_NodeSelector = [], pod_Tolerations = [],
      pod_Security = None, pod_ActiveDeadline = None, pod_RuntimeClass = None, pod_Volumes = [],
      pod_InitContainers = [], pod_Containers = []\<rparr>"

record Pod =
  pd_Meta :: ObjectMeta
  pd_Spec :: PodSpec

record Deployment =
  dep_Meta :: ObjectMeta
  dep_Replicas :: int
  dep_Selector :: labels
  dep_TemplateLabels :: labels
  dep_Template :: PodSpec

section \<open>The API client\<close>

text \<open>An object is addressed by kind, namespace (empty for cluster-scoped kinds) and name.\<close>

type_synonym obj_key = "string \<times> string \<times> string"

datatype kube_error = KNotFound | KAlreadyExists | KError string

text \<open>\<open>cl_list kind ns sel\<close> lists the objects of a namespace whose labels match the selector;
  \<open>cl_status\<close> writes the status subresource.\<close>

record ('s, 'o) client =
  cl_get :: "obj_key \<Rightarrow> 's \<Rightarrow> (kube_error + 'o) \<times> 's"
  cl_create :: "obj_key \<Rightarrow> 'o \<Rightarrow> 's \<Rightarrow> (kube_error + unit) \<times> 's"
  cl_update :: "obj_key \<Rightarrow> 'o \<Rightarrow> 's \<Rightarrow> (kube_error + unit) \<times> 's"
  cl_status :: "obj_key \<Rightarrow> 'o \<Rightarrow> 's \<Rightarrow> (kube_error + unit) \<times> 's"
  cl_delete :: "obj_key \<Rightarrow> 's \<Rightarrow> (kube_error + unit) \<times> 's"
  cl_list :: "string \<Rightarrow> string \<Rightarrow> labels \<Rightarrow> 's \<Rightarrow> (kube_error + (obj_key \<times> 'o) list) \<times> 's"

text \<open>
  The API server's contract, for a view of what is stored and for an object's full and status part: a
  successful read returns the stored object, a successful write stores what was sent (the status write
  leaves the rest alone), a failed call either did nothing or, when the answer was lost, did its write.
\<close>

definition wrote :: "(kube_error + unit) \<Rightarrow> bool \<Rightarrow> ('k \<rightharpoonup> 'o) \<Rightarrow> ('k \<rightharpoonup> 'o) \<Rightarrow> ('k \<rightharpoonup> 'o) \<Rightarrow> bool" where
  "wrote r possible v0 v1 written =
     (case r of
        Inr _ \<Rightarrow> possible \<and> v1 = written
      | Inl (KError _) \<Rightarrow> v1 = v0 \<or> possible \<and> v1 = written
      | Inl _ \<Rightarrow> v1 = v0)"

definition get_law :: "('s, 'o) client \<Rightarrow> ('s \<Rightarrow> obj_key \<rightharpoonup> 'o) \<Rightarrow> obj_key \<Rightarrow> 's \<Rightarrow> bool" where
  "get_law c view k s =
     (case cl_get c k s of
        (Inr ob, s') \<Rightarrow> view s k = Some ob \<and> view s' = view s
      | (Inl KNotFound, s') \<Rightarrow> view s k = None \<and> view s' = view s
      | (Inl _, s') \<Rightarrow> view s' = view s)"

definition create_law :: "('s, 'o) client \<Rightarrow> ('s \<Rightarrow> obj_key \<rightharpoonup> 'o) \<Rightarrow> obj_key \<Rightarrow> 'o \<Rightarrow> 's \<Rightarrow> bool" where
  "create_law c view k ob s =
     (case cl_create c k ob s of (r, s') \<Rightarrow>
        wrote r (view s k = None) (view s) (view s') ((view s)(k \<mapsto> ob)) \<and>
        (r = Inl KAlreadyExists \<longrightarrow> view s k \<noteq> None))"

definition update_law :: "('s, 'o) client \<Rightarrow> ('s \<Rightarrow> obj_key \<rightharpoonup> 'o) \<Rightarrow> obj_key \<Rightarrow> 'o \<Rightarrow> 's \<Rightarrow> bool" where
  "update_law c view k ob s =
     (case cl_update c k ob s of (r, s') \<Rightarrow>
        wrote r (view s k \<noteq> None) (view s) (view s') ((view s)(k \<mapsto> ob)))"

definition status_law :: "('s, 'o) client \<Rightarrow> ('s \<Rightarrow> obj_key \<rightharpoonup> 'o) \<Rightarrow> ('o \<Rightarrow> 'o \<Rightarrow> 'o) \<Rightarrow> obj_key \<Rightarrow> 'o \<Rightarrow> 's \<Rightarrow> bool" where
  "status_law c view merge k ob s =
     (case cl_status c k ob s of (r, s') \<Rightarrow>
        wrote r (view s k \<noteq> None) (view s) (view s') ((view s)(k := map_option (\<lambda>old. merge old ob) (view s k))))"

definition delete_law :: "('s, 'o) client \<Rightarrow> ('s \<Rightarrow> obj_key \<rightharpoonup> 'o) \<Rightarrow> obj_key \<Rightarrow> 's \<Rightarrow> bool" where
  "delete_law c view k s =
     (case cl_delete c k s of (r, s') \<Rightarrow> wrote r True (view s) (view s') ((view s)(k := None)))"

definition list_law :: "('s, 'o) client \<Rightarrow> ('s \<Rightarrow> obj_key \<rightharpoonup> 'o) \<Rightarrow> ('o \<Rightarrow> labels) \<Rightarrow> string \<Rightarrow> string \<Rightarrow> labels \<Rightarrow> 's \<Rightarrow> bool" where
  "list_law c view labels_of kind ns sel s =
     (case cl_list c kind ns sel s of
        (Inr items, s') \<Rightarrow> view s' = view s \<and> distinct (map fst items) \<and>
           (\<forall>k ob. (k, ob) \<in> set items \<longleftrightarrow>
              view s k = Some ob \<and> fst k = kind \<and> fst (snd k) = ns \<and>
              (\<forall>(l, v) \<in> set sel. map_of (labels_of ob) l = Some v))
      | (Inl _, s') \<Rightarrow> view s' = view s)"

definition client_laws ::
  "('s, 'o) client \<Rightarrow> ('s \<Rightarrow> obj_key \<rightharpoonup> 'o) \<Rightarrow> ('o \<Rightarrow> 'o \<Rightarrow> 'o) \<Rightarrow> ('o \<Rightarrow> labels) \<Rightarrow> bool" where
  "client_laws c view merge labels_of =
     ((\<forall>k s. get_law c view k s) \<and> (\<forall>k ob s. create_law c view k ob s) \<and> (\<forall>k ob s. update_law c view k ob s) \<and>
      (\<forall>k ob s. status_law c view merge k ob s) \<and> (\<forall>k s. delete_law c view k s) \<and>
      (\<forall>kind ns sel s. list_law c view labels_of kind ns sel s))"

lemma client_lawsD:
  assumes "client_laws c view merge lo"
  shows "get_law c view k s" "create_law c view k ob s" "update_law c view k ob s"
    "status_law c view merge k ob s" "delete_law c view k s" "list_law c view lo kind ns sel s"
  using assms unfolding client_laws_def by blast+

text \<open>The laws one operation at a time, in the form proofs use.\<close>

lemma get_view:
  assumes "client_laws c view merge lo" and "cl_get c k s = (r, s')"
  shows "view s' = view s" and "r = Inr ob \<Longrightarrow> view s k = Some ob" and "r = Inl KNotFound \<Longrightarrow> view s k = None"
  using client_lawsD(1) [OF assms(1), of k s] assms(2)
  by (auto simp: get_law_def split: sum.splits kube_error.splits)

lemma create_view:
  assumes "client_laws c view merge lo" and "cl_create c k ob s = (r, s')"
  shows "view s' = view s \<or> view s k = None \<and> view s' = (view s)(k \<mapsto> ob)"
    and "r = Inr () \<Longrightarrow> view s k = None \<and> view s' = (view s)(k \<mapsto> ob)"
    and "r = Inl KAlreadyExists \<Longrightarrow> view s k \<noteq> None \<and> view s' = view s"
  using client_lawsD(2) [OF assms(1), of k ob s] assms(2)
  by (auto simp: create_law_def wrote_def split: sum.splits kube_error.splits)

lemma update_view:
  assumes "client_laws c view merge lo" and "cl_update c k ob s = (r, s')"
  shows "view s' = view s \<or> view s k \<noteq> None \<and> view s' = (view s)(k \<mapsto> ob)"
    and "r = Inr () \<Longrightarrow> view s k \<noteq> None \<and> view s' = (view s)(k \<mapsto> ob)"
  using client_lawsD(3) [OF assms(1), of k ob s] assms(2)
  by (auto simp: update_law_def wrote_def split: sum.splits kube_error.splits)

lemma status_view:
  assumes "client_laws c view merge lo" and "cl_status c k ob s = (r, s')"
  shows "view s' = view s \<or> (\<exists>old. view s k = Some old \<and> view s' = (view s)(k \<mapsto> merge old ob))"
    and "r = Inr () \<Longrightarrow> \<exists>old. view s k = Some old \<and> view s' = (view s)(k \<mapsto> merge old ob)"
  using client_lawsD(4) [OF assms(1), of k ob s] assms(2)
  by (auto simp: status_law_def wrote_def split: sum.splits kube_error.splits)

lemma delete_view:
  assumes "client_laws c view merge lo" and "cl_delete c k s = (r, s')"
  shows "view s' = view s \<or> view s' = (view s)(k := None)"
    and "r = Inr () \<Longrightarrow> view s' = (view s)(k := None)"
  using client_lawsD(5) [OF assms(1), of k s] assms(2)
  by (auto simp: delete_law_def wrote_def split: sum.splits kube_error.splits)

lemma list_view:
  assumes "client_laws c view merge lo" and "cl_list c kind ns sel s = (r, s')"
  shows "view s' = view s"
    and "r = Inr items \<Longrightarrow> distinct (map fst items) \<and>
      (\<forall>k ob. (k, ob) \<in> set items \<longleftrightarrow> view s k = Some ob \<and> fst k = kind \<and> fst (snd k) = ns \<and>
         (\<forall>(l, v) \<in> set sel. map_of (lo ob) l = Some v))"
  using client_lawsD(6) [OF assms(1), of kind ns sel s] assms(2)
  by (auto simp: list_law_def split: sum.splits)

text \<open>A cluster that answers every call: the store is an association list. It meets the laws, which shows
  that they can be met.\<close>

type_synonym 'o store = "(obj_key \<times> 'o) list"

definition store_put :: "obj_key \<Rightarrow> 'o \<Rightarrow> 'o store \<Rightarrow> 'o store" where
  "store_put k ob s = (k, ob) # filter (\<lambda>e. fst e \<noteq> k) s"

definition store_items :: "'o store \<Rightarrow> (obj_key \<times> 'o) list" where
  "store_items s = map (\<lambda>k. (k, the (map_of s k))) (remdups (map fst s))"

definition store_client :: "('o \<Rightarrow> 'o \<Rightarrow> 'o) \<Rightarrow> ('o \<Rightarrow> labels) \<Rightarrow> ('o store, 'o) client" where
  "store_client merge labels_of =
     \<lparr>cl_get = (\<lambda>k s. (case map_of s k of Some ob \<Rightarrow> Inr ob | None \<Rightarrow> Inl KNotFound, s)),
      cl_create = (\<lambda>k ob s. if map_of s k = None then (Inr (), store_put k ob s) else (Inl KAlreadyExists, s)),
      cl_update = (\<lambda>k ob s. if map_of s k = None then (Inl KNotFound, s) else (Inr (), store_put k ob s)),
      cl_status = (\<lambda>k ob s. case map_of s k of None \<Rightarrow> (Inl KNotFound, s) | Some old \<Rightarrow> (Inr (), store_put k (merge old ob) s)),
      cl_delete = (\<lambda>k s. if map_of s k = None then (Inl KNotFound, s) else (Inr (), filter (\<lambda>e. fst e \<noteq> k) s)),
      cl_list = (\<lambda>kind ns sel s.
        (Inr (filter (\<lambda>(k, ob). fst k = kind \<and> fst (snd k) = ns \<and> list_all (\<lambda>(l, v). map_of (labels_of ob) l = Some v) sel) (store_items s)), s))\<rparr>"

lemma map_of_filter_neq: "map_of (filter (\<lambda>e. fst e \<noteq> k) s) = (map_of s)(k := None)"
  by (induction s) (auto simp: fun_eq_iff)

lemma map_of_store_put: "map_of (store_put k ob s) = (map_of s)(k \<mapsto> ob)"
  by (simp add: store_put_def map_of_filter_neq)

lemma distinct_store_items: "distinct (map fst (filter P (store_items s)))"
  by (rule distinct_map_filter) (simp add: store_items_def comp_def)

lemma set_store_items: "(k, ob) \<in> set (store_items s) \<longleftrightarrow> map_of s k = Some ob"
proof -
  have "k \<in> fst ` set s \<longleftrightarrow> map_of s k \<noteq> None" by (simp add: map_of_eq_None_iff)
  then show ?thesis by (auto simp: store_items_def)
qed

lemma store_client_laws: "client_laws (store_client merge lo) map_of merge lo"
  unfolding client_laws_def store_client_def get_law_def create_law_def update_law_def status_law_def delete_law_def list_law_def
  by (auto simp: wrote_def map_of_store_put map_of_filter_neq distinct_store_items set_store_items list_all_iff split: option.split)

end
