(* ===== verification/Controller_Types.thy ===== *)
theory Controller_Types
  imports Kube
begin

text \<open>
  The custom resources of the platform (\<^verbatim>\<open>controllers/internal/*/types.go\<close>), the universe of objects the
  controllers keep in the cluster, and the projections a typed read of the client performs.
\<close>

section \<open>AppEnv\<close>

text \<open>One digest-pinned workload; ports are \<^verbatim>\<open>int32\<close> values that are only compared.\<close>

record ServiceSpec =
  ss_Name :: string
  ss_Image :: string
  ss_Port :: int

record AppEnvSpec =
  aes_AppID :: string
  aes_Env :: string
  aes_AppSpecRef :: string
  aes_DomainRefs :: "string list"
  aes_Services :: "ServiceSpec list"
  aes_QuotaTier :: string
  aes_Isolation :: string

record AppEnvStatus =
  aest_Namespace :: string
  aest_Phase :: string
  aest_Reason :: string
  aest_Message :: string

record AppEnv =
  ae_Meta :: ObjectMeta
  ae_Spec :: AppEnvSpec
  ae_Status :: AppEnvStatus

abbreviation (input) IsolationShared :: string where "IsolationShared \<equiv> ''shared''"
abbreviation (input) IsolationIsolated :: string where "IsolationIsolated \<equiv> ''isolated''"
abbreviation (input) IsolationDedicated :: string where "IsolationDedicated \<equiv> ''dedicated''"

section \<open>Build\<close>

abbreviation (input) PhaseCreated :: string where "PhaseCreated \<equiv> ''CREATED''"
abbreviation (input) PhaseCloning :: string where "PhaseCloning \<equiv> ''CLONING''"
abbreviation (input) PhaseBuilding :: string where "PhaseBuilding \<equiv> ''BUILDING''"
abbreviation (input) PhaseScanning :: string where "PhaseScanning \<equiv> ''SCANNING''"
abbreviation (input) PhaseSigning :: string where "PhaseSigning \<equiv> ''SIGNING''"
abbreviation (input) PhasePushed :: string where "PhasePushed \<equiv> ''PUSHED''"
abbreviation (input) PhaseFailed :: string where "PhaseFailed \<equiv> ''FAILED''"

record GitSource =
  git_URL :: string
  git_SHA :: string
  git_TokenRef :: string

record BuildSpec =
  bs_AppID :: string
  bs_Env :: string
  bs_Git :: GitSource
  bs_AppSpecRef :: string
  bs_Dockerfile :: string

record BuildStatus =
  bst_Phase :: string
  bst_ImageDigest :: string
  bst_SBOMRef :: string
  bst_ScanReportRef :: string
  bst_SignatureRef :: string
  bst_Reason :: string
  bst_Message :: string

record Build =
  bd_Meta :: ObjectMeta
  bd_Spec :: BuildSpec
  bd_Status :: BuildStatus

section \<open>DatabaseBinding\<close>

abbreviation (input) KindMongo :: string where "KindMongo \<equiv> ''mongo''"
abbreviation (input) KindRedis :: string where "KindRedis \<equiv> ''redis''"
abbreviation (input) KindStorage :: string where "KindStorage \<equiv> ''storage''"

record DatabaseBindingSpec =
  dbs_AppID :: string
  dbs_Env :: string
  dbs_Kind :: string

record DatabaseBindingStatus =
  dbst_Phase :: string
  dbst_Reason :: string
  dbst_Message :: string

record DatabaseBinding =
  db_Meta :: ObjectMeta
  db_Spec :: DatabaseBindingSpec
  db_Status :: DatabaseBindingStatus

section \<open>Objects in the cluster\<close>

record Secret =
  sec_Meta :: ObjectMeta
  sec_Type :: string
  sec_Data :: "(string \<times> string) list"

datatype kobj =
    AppEnvObj AppEnv
  | BuildObj Build
  | BindingObj DatabaseBinding
  | NamespaceObj ObjectMeta
  | DeploymentObj Deployment
  | SecretObj Secret

fun obj_labels :: "kobj \<Rightarrow> labels" where
  "obj_labels (AppEnvObj a) = om_Labels (ae_Meta a)"
| "obj_labels (BuildObj b) = om_Labels (bd_Meta b)"
| "obj_labels (BindingObj b) = om_Labels (db_Meta b)"
| "obj_labels (NamespaceObj m) = om_Labels m"
| "obj_labels (DeploymentObj d) = om_Labels (dep_Meta d)"
| "obj_labels (SecretObj s) = om_Labels (sec_Meta s)"

text \<open>The status subresource: the stored object with the status of the one sent.\<close>

fun merge_status :: "kobj \<Rightarrow> kobj \<Rightarrow> kobj" where
  "merge_status (AppEnvObj old) (AppEnvObj new) = AppEnvObj (old\<lparr>ae_Status := ae_Status new\<rparr>)"
| "merge_status (BuildObj old) (BuildObj new) = BuildObj (old\<lparr>bd_Status := bd_Status new\<rparr>)"
| "merge_status (BindingObj old) (BindingObj new) = BindingObj (old\<lparr>db_Status := db_Status new\<rparr>)"
| "merge_status old new = old"

fun as_appenv :: "kobj \<Rightarrow> AppEnv option" where
  "as_appenv (AppEnvObj a) = Some a" | "as_appenv _ = None"

fun as_build :: "kobj \<Rightarrow> Build option" where
  "as_build (BuildObj b) = Some b" | "as_build _ = None"

fun as_binding :: "kobj \<Rightarrow> DatabaseBinding option" where
  "as_binding (BindingObj b) = Some b" | "as_binding _ = None"

fun as_namespace :: "kobj \<Rightarrow> ObjectMeta option" where
  "as_namespace (NamespaceObj m) = Some m" | "as_namespace _ = None"

fun as_deployment :: "kobj \<Rightarrow> Deployment option" where
  "as_deployment (DeploymentObj d) = Some d" | "as_deployment _ = None"

lemma as_simps [simp]:
  "as_appenv ob = Some a \<longleftrightarrow> ob = AppEnvObj a"
  "as_build ob = Some b \<longleftrightarrow> ob = BuildObj b"
  "as_binding ob = Some db \<longleftrightarrow> ob = BindingObj db"
  "as_namespace ob = Some m \<longleftrightarrow> ob = NamespaceObj m"
  "as_deployment ob = Some d \<longleftrightarrow> ob = DeploymentObj d"
  by (cases ob; simp)+

text \<open>A typed read: an object that does not decode into the requested type is an error.\<close>

definition typed_get ::
  "(kobj \<Rightarrow> 'a option) \<Rightarrow> ('s, kobj) client \<Rightarrow> obj_key \<Rightarrow> 's \<Rightarrow> (kube_error + 'a) \<times> 's" where
  "typed_get proj c k s =
     (case cl_get c k s of
        (Inl e, s') \<Rightarrow> (Inl e, s')
      | (Inr ob, s') \<Rightarrow> (case proj ob of Some x \<Rightarrow> (Inr x, s') | None \<Rightarrow> (Inl (KError ''decode''), s')))"

lemma typed_get_view:
  assumes "client_laws c view merge lo" and "typed_get proj c k s = (r, s')"
  shows "view s' = view s" and "r = Inr x \<Longrightarrow> \<exists>ob. view s k = Some ob \<and> proj ob = Some x"
    and "r = Inl KNotFound \<Longrightarrow> view s k = None"
proof -
  obtain r0 s0 where get: "cl_get c k s = (r0, s0)" by (cases "cl_get c k s")
  note laws = get_view [OF assms(1) get]
  have s': "s' = s0" using assms(2) get by (auto simp: typed_get_def split: sum.splits option.splits)
  show "view s' = view s" using laws(1) s' by simp
  show "\<exists>ob. view s k = Some ob \<and> proj ob = Some x" if "r = Inr x"
    using assms(2) get laws(2) that by (auto simp: typed_get_def split: sum.splits option.splits)
  show "view s k = None" if "r = Inl KNotFound"
    using assms(2) get laws(3) that by (auto simp: typed_get_def split: sum.splits option.splits)
qed

type_synonym cluster = "kobj store"

abbreviation cluster_client :: "(cluster, kobj) client" where
  "cluster_client \<equiv> store_client merge_status obj_labels"

end
