(* ===== verification/Appenv.thy ===== *)
theory Appenv
  imports Controller_Types Go_Numbers
begin

text \<open>
  The AppEnv controller: \<^verbatim>\<open>controllers/internal/appenv\<close>. Isolation levels, sandbox classes and node
  pools (\<^verbatim>\<open>isolation.go\<close>, \<^verbatim>\<open>sandbox.go\<close>, \<^verbatim>\<open>scheduling.go\<close>), the hardened pod spec and the rendered
  Deployment (\<^verbatim>\<open>deployment.go\<close>), the tenant namespace (\<^verbatim>\<open>namespace.go\<close>), the reconcile pass
  (\<^verbatim>\<open>reconciler.go\<close>) and drift detection (\<^verbatim>\<open>drift.go\<close>). The API client is a parameter (\<open>Kube\<close>), and
  so is the text of error messages written to a status.
\<close>

section \<open>Namespaces and labels\<close>

abbreviation (input) LabelManagedBy :: string where "LabelManagedBy \<equiv> ''tenara.io/managed-by''"
abbreviation (input) LabelManagedVal :: string where "LabelManagedVal \<equiv> ''tenara''"
abbreviation (input) LabelAppID :: string where "LabelAppID \<equiv> ''tenara.io/app-id''"
abbreviation (input) LabelEnv :: string where "LabelEnv \<equiv> ''tenara.io/env''"
abbreviation (input) PSSRestricted :: string where "PSSRestricted \<equiv> ''restricted''"

definition namespace_name :: "string \<Rightarrow> string \<Rightarrow> string" where
  "namespace_name appID env = ''app-'' @ appID @ ''-'' @ env"

definition desired_namespace :: "string \<Rightarrow> string \<Rightarrow> ObjectMeta" where
  "desired_namespace appID env =
     named (namespace_name appID env) []
       [(LabelManagedBy, LabelManagedVal), (LabelAppID, appID), (LabelEnv, env),
        (''pod-security.kubernetes.io/enforce'', PSSRestricted),
        (''pod-security.kubernetes.io/audit'', PSSRestricted),
        (''pod-security.kubernetes.io/warn'', PSSRestricted)]"

datatype appenv_error =
    NotManaged string
  | EmptyImage
  | LatestTag string
  | NotDigestPinned string
  | ForbiddenPool string
  | InvalidIsolation string
  | Kube kube_error

definition ensure_platform_owned :: "ObjectMeta \<Rightarrow> appenv_error option" where
  "ensure_platform_owned ns = (if label ns LabelManagedBy \<noteq> LabelManagedVal then Some (NotManaged (om_Name ns)) else None)"

section \<open>Isolation, sandboxes, node pools\<close>

definition validate_isolation :: "string \<Rightarrow> appenv_error option" where
  "validate_isolation lvl =
     (if lvl = IsolationShared \<or> lvl = IsolationIsolated \<or> lvl = IsolationDedicated then None
      else Some (InvalidIsolation lvl))"

definition sandbox_class_name :: "string \<Rightarrow> string" where
  "sandbox_class_name lvl = (if lvl = IsolationIsolated then ''gvisor'' else [])"

definition apply_sandbox_class :: "PodSpec \<Rightarrow> string \<Rightarrow> PodSpec" where
  "apply_sandbox_class spec lvl =
     (if sandbox_class_name lvl \<noteq> [] then spec\<lparr>pod_RuntimeClass := Some (sandbox_class_name lvl)\<rparr> else spec)"

text \<open>The class chosen and whether the request had to degrade.\<close>

definition resolve_sandbox :: "(string \<rightharpoonup> bool) \<Rightarrow> string \<Rightarrow> string \<times> bool" where
  "resolve_sandbox available lvl =
     (if lvl \<noteq> IsolationIsolated then ([], False)
      else case find (truthy available) [''gvisor'', ''kata-qemu''] of
        Some cls \<Rightarrow> (cls, False)
      | None \<Rightarrow> ([], True))"

abbreviation (input) RoleNodeLabel :: string where "RoleNodeLabel \<equiv> ''tenara.io/role''"
abbreviation (input) TenantRoleValue :: string where "TenantRoleValue \<equiv> ''tenant''"
abbreviation (input) DedicatedRoleValue :: string where "DedicatedRoleValue \<equiv> ''dedicated''"

definition label_put :: "string \<Rightarrow> string \<Rightarrow> labels \<Rightarrow> labels" where
  "label_put k v m = filter (\<lambda>(k', v'). k' \<noteq> k) m @ [(k, v)]"

text \<open>A nil selector is created first, which for an association list is no step.\<close>

definition apply_tenant_scheduling :: "PodSpec \<Rightarrow> PodSpec" where
  "apply_tenant_scheduling spec =
     spec\<lparr>pod_NodeSelector := label_put RoleNodeLabel TenantRoleValue (pod_NodeSelector spec),
          pod_Tolerations := pod_Tolerations spec @
            [\<lparr>to_Key = RoleNodeLabel, to_Operator = ''Equal'', to_Value = TenantRoleValue, to_Effect = ''NoSchedule''\<rparr>]\<rparr>"

definition apply_dedicated_scheduling :: "PodSpec \<Rightarrow> PodSpec" where
  "apply_dedicated_scheduling spec =
     spec\<lparr>pod_NodeSelector := label_put RoleNodeLabel DedicatedRoleValue (pod_NodeSelector spec),
          pod_Tolerations := pod_Tolerations spec @
            [\<lparr>to_Key = RoleNodeLabel, to_Operator = ''Equal'', to_Value = DedicatedRoleValue, to_Effect = ''NoSchedule''\<rparr>]\<rparr>"

definition managed_pools :: "(string \<times> bool) list" where
  "managed_pools = [(TenantRoleValue, True), (DedicatedRoleValue, True)]"

definition ensure_no_cross_pool_toleration :: "PodSpec \<Rightarrow> appenv_error option" where
  "ensure_no_cross_pool_toleration spec =
     map_option (\<lambda>tol. ForbiddenPool (to_Value tol))
       (find (\<lambda>tol. to_Key tol = RoleNodeLabel \<and> \<not> truthy (map_of managed_pools) (to_Value tol)) (pod_Tolerations spec))"

section \<open>Deployments\<close>

record ServiceInput =
  si_Name :: string
  si_Image :: string
  si_Isolation :: string
  si_Schedule :: string
  si_Port :: int
  si_Replicas :: int

definition require_digest_image :: "string \<Rightarrow> appenv_error option" where
  "require_digest_image img =
     (if img = [] then Some EmptyImage
      else if contains img '':latest'' \<or> contains img ''@latest'' then Some (LatestTag img)
      else if \<not> contains img ''@sha256:'' then Some (NotDigestPinned img)
      else None)"

definition hardened_context :: SecurityContext where
  "hardened_context =
     \<lparr>sx_RunAsNonRoot = Some True, sx_AllowPrivilegeEscalation = Some False, sx_ReadOnlyRootFilesystem = Some True,
      sx_CapsDrop = Some [''ALL''], sx_Seccomp = Some ''RuntimeDefault''\<rparr>"

definition restricted_pod_spec :: "ServiceInput \<Rightarrow> bool \<Rightarrow> PodSpec" where
  "restricted_pod_spec s withProbes =
     (let ct = (container0 (si_Name s) (si_Image s))\<lparr>ct_Security := Some hardened_context\<rparr>;
          ct' = (if withProbes
                 then ct\<lparr>ct_Ports := [si_Port s], ct_ReadinessTCP := Some (si_Port s), ct_LivenessTCP := Some (si_Port s)\<rparr>
                 else ct);
          spec = podspec0\<lparr>pod_AutomountToken := Some False, pod_Containers := [ct']\<rparr>;
          sched = (if si_Isolation s = IsolationDedicated then apply_dedicated_scheduling spec else apply_tenant_scheduling spec)
      in apply_sandbox_class sched (si_Isolation s))"

definition render_deployment :: "string \<Rightarrow> string \<Rightarrow> string \<Rightarrow> ServiceInput \<Rightarrow> appenv_error + Deployment" where
  "render_deployment appID env namespace s =
     (case require_digest_image (si_Image s) of
        Some e \<Rightarrow> Inl e
      | None \<Rightarrow>
          (let replicas = (if si_Replicas s < 1 then 1 else si_Replicas s);
               lbls = [(LabelManagedBy, LabelManagedVal), (LabelAppID, appID), (LabelEnv, env), (''app'', si_Name s)];
               podSpec = restricted_pod_spec s (0 < si_Port s) in
           case ensure_no_cross_pool_toleration podSpec of
             Some e \<Rightarrow> Inl e
           | None \<Rightarrow> Inr \<lparr>dep_Meta = named (si_Name s) namespace lbls, dep_Replicas = replicas,
                          dep_Selector = [(''app'', si_Name s)], dep_TemplateLabels = lbls, dep_Template = podSpec\<rparr>))"

definition render_deployments :: "string \<Rightarrow> string \<Rightarrow> string \<Rightarrow> ServiceInput list \<Rightarrow> appenv_error + Deployment list" where
  "render_deployments appID env namespace svcs = collect (render_deployment appID env namespace) svcs"

section \<open>The reconcile pass\<close>

abbreviation (input) ns_key :: "string \<Rightarrow> obj_key" where "ns_key n \<equiv> (''Namespace'', [], n)"
abbreviation (input) ae_key :: "string \<times> string \<Rightarrow> obj_key" where "ae_key req \<equiv> (''AppEnv'', fst req, snd req)"
abbreviation (input) dep_key :: "string \<Rightarrow> string \<Rightarrow> obj_key" where "dep_key ns n \<equiv> (''Deployment'', ns, n)"

text \<open>One rendered Deployment: create it, or set replicas and template of the one there.\<close>

definition apply_deployment :: "('s, kobj) client \<Rightarrow> Deployment \<Rightarrow> 's \<Rightarrow> (kube_error + unit) \<times> 's" where
  "apply_deployment c dep s =
     (let k = dep_key (om_Namespace (dep_Meta dep)) (om_Name (dep_Meta dep)) in
      case typed_get as_deployment c k s of
        (Inl KNotFound, s1) \<Rightarrow>
          (case cl_create c k (DeploymentObj dep) s1 of
             (Inl KAlreadyExists, s2) \<Rightarrow> (Inr (), s2)
           | (r, s2) \<Rightarrow> (r, s2))
      | (Inl e, s1) \<Rightarrow> (Inl e, s1)
      | (Inr cur, s1) \<Rightarrow>
          cl_update c k (DeploymentObj (cur\<lparr>dep_Replicas := dep_Replicas dep, dep_TemplateLabels := dep_TemplateLabels dep,
                                           dep_Template := dep_Template dep\<rparr>)) s1)"

fun apply_deployments :: "('s, kobj) client \<Rightarrow> Deployment list \<Rightarrow> 's \<Rightarrow> (kube_error + unit) \<times> 's" where
  "apply_deployments c [] s = (Inr (), s)"
| "apply_deployments c (dep # deps) s =
     (case apply_deployment c dep s of
        (Inl e, s1) \<Rightarrow> (Inl e, s1)
      | (Inr _, s1) \<Rightarrow> apply_deployments c deps s1)"

definition service_input :: "AppEnv \<Rightarrow> ServiceSpec \<Rightarrow> ServiceInput" where
  "service_input ae svc =
     \<lparr>si_Name = ss_Name svc, si_Image = ss_Image svc, si_Isolation = aes_Isolation (ae_Spec ae),
      si_Schedule = [], si_Port = ss_Port svc, si_Replicas = 0\<rparr>"

definition render_services :: "('s, kobj) client \<Rightarrow> AppEnv \<Rightarrow> 's \<Rightarrow> (appenv_error + unit) \<times> 's" where
  "render_services c ae s =
     (if aes_Services (ae_Spec ae) = [] \<or> aest_Namespace (ae_Status ae) = [] then (Inr (), s)
      else case render_deployments (aes_AppID (ae_Spec ae)) (aes_Env (ae_Spec ae)) (aest_Namespace (ae_Status ae))
                  (map (service_input ae) (aes_Services (ae_Spec ae))) of
        Inl e \<Rightarrow> (Inl e, s)
      | Inr deps \<Rightarrow>
          (case apply_deployments c deps s of
             (Inl e, s1) \<Rightarrow> (Inl (Kube e), s1)
           | (Inr _, s1) \<Rightarrow> (Inr (), s1)))"

text \<open>The AppEnv comes back with the status it was given in memory.\<close>

definition ensure_namespace ::
  "('s, kobj) client \<Rightarrow> string \<times> string \<Rightarrow> AppEnv \<Rightarrow> 's \<Rightarrow> (appenv_error + AppEnv) \<times> 's" where
  "ensure_namespace c req ae s =
     (let name = namespace_name (aes_AppID (ae_Spec ae)) (aes_Env (ae_Spec ae));
          finish = (\<lambda>s1.
            if aest_Namespace (ae_Status ae) \<noteq> name
            then (let ae' = ae\<lparr>ae_Status := (ae_Status ae)\<lparr>aest_Namespace := name, aest_Phase := ''READY''\<rparr>\<rparr> in
                  case cl_status c (ae_key req) (AppEnvObj ae') s1 of
                    (Inl e, s2) \<Rightarrow> (Inl (Kube e), s2)
                  | (Inr _, s2) \<Rightarrow> (Inr ae', s2))
            else (Inr ae, s1)) in
      case typed_get as_namespace c (ns_key name) s of
        (Inl KNotFound, s1) \<Rightarrow>
          (let desired = (desired_namespace (aes_AppID (ae_Spec ae)) (aes_Env (ae_Spec ae)))
                 \<lparr>om_OwnerReferences := [\<lparr>or_APIVersion = ''tenara.io/v1'', or_Kind = ''AppEnv'', or_Name = om_Name (ae_Meta ae),
                                          or_UID = om_UID (ae_Meta ae), or_Controller = True, or_BlockOwnerDeletion = False\<rparr>]\<rparr> in
           case cl_create c (ns_key name) (NamespaceObj desired) s1 of
             (Inl e, s2) \<Rightarrow> (Inl (Kube e), s2)
           | (Inr _, s2) \<Rightarrow> finish s2)
      | (Inl e, s1) \<Rightarrow> (Inl (Kube e), s1)
      | (Inr ns, s1) \<Rightarrow>
          (case ensure_platform_owned ns of Some e \<Rightarrow> (Inl e, s1) | None \<Rightarrow> finish s1))"

definition reconcile_appenv ::
  "(appenv_error \<Rightarrow> string) \<Rightarrow> ('s, kobj) client \<Rightarrow> string \<times> string \<Rightarrow> 's \<Rightarrow> (appenv_error + unit) \<times> 's" where
  "reconcile_appenv msg c req s =
     (case typed_get as_appenv c (ae_key req) s of
        (Inl KNotFound, s1) \<Rightarrow> (Inr (), s1)
      | (Inl e, s1) \<Rightarrow> (Inl (Kube e), s1)
      | (Inr ae, s1) \<Rightarrow>
          (case validate_isolation (aes_Isolation (ae_Spec ae)) of
             Some e \<Rightarrow>
               (case cl_status c (ae_key req) (AppEnvObj (ae\<lparr>ae_Status := (ae_Status ae)\<lparr>aest_Phase := ''INVALID'',
                       aest_Reason := ''invalid-isolation'', aest_Message := msg e\<rparr>\<rparr>)) s1 of
                  (Inl e, s2) \<Rightarrow> (Inl (Kube e), s2)
                | (Inr _, s2) \<Rightarrow> (Inr (), s2))
           | None \<Rightarrow>
               (case ensure_namespace c req ae s1 of
                  (Inl e, s2) \<Rightarrow> (Inl e, s2)
                | (Inr ae', s2) \<Rightarrow> render_services c ae' s2)))"

section \<open>Drift\<close>

record DriftAction =
  da_Name :: string
  da_Kind :: string
  da_Field :: string
  da_Desired :: string

record DriftReport =
  dr_AuditedAt :: time
  dr_Actions :: "DriftAction list"
  dr_AppID :: string
  dr_Namespace :: string
  dr_ActorType :: string

definition owned_by_us :: "labels \<Rightarrow> bool" where
  "owned_by_us lbls = (lookup_or_empty lbls LabelManagedBy = LabelManagedVal)"

definition detect_replica_drift :: "int \<Rightarrow> int \<Rightarrow> bool \<times> int" where
  "detect_replica_drift desired live = (if live \<noteq> desired then (True, desired) else (False, desired))"

definition eq_bool :: "bool option \<Rightarrow> bool option \<Rightarrow> bool" where
  "eq_bool a b =
     (if (a = None) \<noteq> (b = None) then False
      else case (a, b) of (Some x, Some y) \<Rightarrow> x = y | _ \<Rightarrow> True)"

fun same_entries :: "string list \<Rightarrow> string list \<Rightarrow> bool" where
  "same_entries (d # ds) (l # ls) = (if d \<noteq> l then False else same_entries ds ls)"
| "same_entries _ _ = True"

definition caps_drop_equal :: "string list option \<Rightarrow> string list option \<Rightarrow> bool" where
  "caps_drop_equal d l =
     (case (d, l) of
        (Some ds, Some ls) \<Rightarrow> if length ds \<noteq> length ls then False else same_entries ds ls
      | _ \<Rightarrow> d = None \<and> l = None)"

definition seccomp_equal :: "string option \<Rightarrow> string option \<Rightarrow> bool" where
  "seccomp_equal d l = (case (d, l) of (Some a, Some b) \<Rightarrow> a = b | _ \<Rightarrow> d = None \<and> l = None)"

definition security_drift :: "SecurityContext option \<Rightarrow> SecurityContext option \<Rightarrow> string list" where
  "security_drift desired live =
     (case (desired, live) of
        (Some d, Some l) \<Rightarrow>
          map fst (filter (\<lambda>(field, same). \<not> same)
            [(''runAsNonRoot'', eq_bool (sx_RunAsNonRoot d) (sx_RunAsNonRoot l)),
             (''allowPrivilegeEscalation'', eq_bool (sx_AllowPrivilegeEscalation d) (sx_AllowPrivilegeEscalation l)),
             (''readOnlyRootFilesystem'', eq_bool (sx_ReadOnlyRootFilesystem d) (sx_ReadOnlyRootFilesystem l)),
             (''capabilities.drop'', caps_drop_equal (sx_CapsDrop d) (sx_CapsDrop l)),
             (''seccompProfile'', seccomp_equal (sx_Seccomp d) (sx_Seccomp l))])
      | _ \<Rightarrow> [''securityContext''])"

definition missing_net_pols :: "string list \<Rightarrow> (string \<rightharpoonup> bool) \<Rightarrow> string list" where
  "missing_net_pols expected liveNames = filter (\<lambda>name. \<not> truthy liveNames name) expected"

definition report_drift :: "string \<Rightarrow> string \<Rightarrow> DriftAction list \<Rightarrow> time \<Rightarrow> DriftReport" where
  "report_drift appID namespace actions t =
     \<lparr>dr_AuditedAt = t, dr_Actions = actions, dr_AppID = appID, dr_Namespace = namespace, dr_ActorType = ''controller''\<rparr>"

section \<open>What a rendered workload is\<close>

text \<open>The pod hardening and placement the platform promises for an isolation level.\<close>

definition hardened :: "string \<Rightarrow> PodSpec \<Rightarrow> bool" where
  "hardened lvl spec =
     (pod_AutomountToken spec = Some False \<and>
      (\<forall>ct \<in> set (pod_Containers spec). ct_Security ct = Some hardened_context \<and> require_digest_image (ct_Image ct) = None) \<and>
      map_of (pod_NodeSelector spec) RoleNodeLabel =
        Some (if lvl = IsolationDedicated then DedicatedRoleValue else TenantRoleValue) \<and>
      ensure_no_cross_pool_toleration spec = None \<and>
      pod_RuntimeClass spec = (if lvl = IsolationIsolated then Some ''gvisor'' else None))"

lemma restricted_pod_no_cross: "ensure_no_cross_pool_toleration (restricted_pod_spec s probes) = None"
  by (simp add: ensure_no_cross_pool_toleration_def restricted_pod_spec_def Let_def apply_sandbox_class_def
      apply_dedicated_scheduling_def apply_tenant_scheduling_def podspec0_def managed_pools_def truthy_def)

lemma restricted_pod_hardened:
  "require_digest_image (si_Image s) = None \<Longrightarrow> hardened (si_Isolation s) (restricted_pod_spec s probes)"
  unfolding hardened_def restricted_pod_no_cross
  by (simp add: restricted_pod_spec_def Let_def apply_sandbox_class_def sandbox_class_name_def
      apply_dedicated_scheduling_def apply_tenant_scheduling_def podspec0_def container0_def label_put_def)

lemma render_deployment_Inr:
  "render_deployment appID env ns s = Inr dep \<longleftrightarrow>
     require_digest_image (si_Image s) = None \<and>
     dep = \<lparr>dep_Meta = named (si_Name s) ns [(LabelManagedBy, LabelManagedVal), (LabelAppID, appID), (LabelEnv, env), (''app'', si_Name s)],
            dep_Replicas = (if si_Replicas s < 1 then 1 else si_Replicas s),
            dep_Selector = [(''app'', si_Name s)],
            dep_TemplateLabels = [(LabelManagedBy, LabelManagedVal), (LabelAppID, appID), (LabelEnv, env), (''app'', si_Name s)],
            dep_Template = restricted_pod_spec s (0 < si_Port s)\<rparr>"
  by (auto simp: render_deployment_def Let_def restricted_pod_no_cross split: option.split)

definition same_workload :: "Deployment \<Rightarrow> Deployment \<Rightarrow> bool" where
  "same_workload d dep =
     (dep_Replicas d = dep_Replicas dep \<and> dep_TemplateLabels d = dep_TemplateLabels dep \<and> dep_Template d = dep_Template dep)"

section \<open>One pass over the cluster\<close>

abbreviation (input) key_of :: "Deployment \<Rightarrow> obj_key" where
  "key_of dep \<equiv> dep_key (om_Namespace (dep_Meta dep)) (om_Name (dep_Meta dep))"

lemma apply_deployment_view:
  assumes laws: "client_laws c view merge_status lo" and run: "apply_deployment c dep s = (r, s')"
  shows "view s' = view s \<or> (\<exists>d. same_workload d dep \<and> view s' = (view s)(key_of dep \<mapsto> DeploymentObj d))"
    and "r = Inr () \<Longrightarrow> \<exists>d. same_workload d dep \<and> view s' (key_of dep) = Some (DeploymentObj d)"
    and "view s (key_of dep) = Some (DeploymentObj d0) \<Longrightarrow> same_workload d0 dep \<Longrightarrow> view s' = view s"
proof -
  obtain g s1 where get: "typed_get as_deployment c (key_of dep) s = (g, s1)"
    by (cases "typed_get as_deployment c (key_of dep) s")
  note g = typed_get_view [OF laws get]
  let ?P = "(view s' = view s \<or> (\<exists>d. same_workload d dep \<and> view s' = (view s)(key_of dep \<mapsto> DeploymentObj d))) \<and>
    (r = Inr () \<longrightarrow> (\<exists>d. same_workload d dep \<and> view s' (key_of dep) = Some (DeploymentObj d))) \<and>
    (\<forall>d0. view s (key_of dep) = Some (DeploymentObj d0) \<and> same_workload d0 dep \<longrightarrow> view s' = view s)"
  have ?P
  proof (cases g)
    case (Inr cur)
    define new where "new = cur\<lparr>dep_Replicas := dep_Replicas dep, dep_TemplateLabels := dep_TemplateLabels dep, dep_Template := dep_Template dep\<rparr>"
    have upd: "cl_update c (key_of dep) (DeploymentObj new) s1 = (r, s')"
      using run get Inr by (simp add: apply_deployment_def Let_def new_def)
    have cur: "view s (key_of dep) = Some (DeploymentObj cur)" using g(2) Inr by auto
    have same: "same_workload new dep" by (simp add: new_def same_workload_def)
    have idle: "new = d0" if "cur = d0" "same_workload d0 dep" for d0
      using that by (simp add: new_def same_workload_def)
    show ?thesis using update_view [OF laws upd] g(1) cur same idle by auto
  next
    case (Inl e)
    show ?thesis
    proof (cases "e = KNotFound")
      case True
      obtain cr s2 where cr: "cl_create c (key_of dep) (DeploymentObj dep) s1 = (cr, s2)"
        by (cases "cl_create c (key_of dep) (DeploymentObj dep) s1")
      have gone: "view s (key_of dep) = None" using g(3) Inl True by simp
      have "same_workload dep dep" by (simp add: same_workload_def)
      moreover have "s' = s2" "r = cr" if "cr \<noteq> Inl KAlreadyExists"
        using run get Inl True cr that by (auto simp: apply_deployment_def Let_def split: sum.splits kube_error.splits)
      moreover have "cr \<noteq> Inl KAlreadyExists" using create_view(3) [OF laws cr] gone g(1) by auto
      ultimately show ?thesis using create_view [OF laws cr] g(1) gone by auto
    next
      case False
      then have "s' = s1" "r = Inl e"
        using run get Inl by (auto simp: apply_deployment_def Let_def split: kube_error.splits)
      then show ?thesis using g(1) by simp
    qed
  qed
  then show "view s' = view s \<or> (\<exists>d. same_workload d dep \<and> view s' = (view s)(key_of dep \<mapsto> DeploymentObj d))"
    and "r = Inr () \<Longrightarrow> \<exists>d. same_workload d dep \<and> view s' (key_of dep) = Some (DeploymentObj d)"
    and "view s (key_of dep) = Some (DeploymentObj d0) \<Longrightarrow> same_workload d0 dep \<Longrightarrow> view s' = view s"
    by blast+
qed

lemma apply_deployments_writes:
  assumes "client_laws c view merge_status lo" and "apply_deployments c deps s = (r, s')" and "view s' k \<noteq> view s k"
  shows "\<exists>dep \<in> set deps. k = key_of dep \<and> (\<exists>d. same_workload d dep \<and> view s' k = Some (DeploymentObj d))"
  using assms(2,3)
proof (induction deps arbitrary: s)
  case Nil
  then show ?case by simp
next
  case (Cons dep deps)
  obtain r1 s1 where one: "apply_deployment c dep s = (r1, s1)" by (cases "apply_deployment c dep s")
  note v = apply_deployment_view(1) [OF assms(1) one]
  show ?case
  proof (cases r1)
    case (Inl e)
    then have "s' = s1" using Cons.prems(1) one by simp
    then show ?thesis using v Cons.prems(2) by (auto split: if_splits)
  next
    case (Inr u)
    then have rest: "apply_deployments c deps s1 = (r, s')" using Cons.prems(1) one by simp
    show ?thesis
    proof (cases "view s' k = view s1 k")
      case True
      then show ?thesis using v Cons.prems(2) by (auto split: if_splits)
    next
      case False
      then show ?thesis using Cons.IH [OF rest] by auto
    qed
  qed
qed

lemma apply_deployments_done:
  assumes "client_laws c view merge_status lo" and "apply_deployments c deps s = (Inr (), s')" and "distinct (map key_of deps)"
  shows "\<forall>dep \<in> set deps. \<exists>d. same_workload d dep \<and> view s' (key_of dep) = Some (DeploymentObj d)"
  using assms(2,3)
proof (induction deps arbitrary: s)
  case Nil
  then show ?case by simp
next
  case (Cons dep deps)
  obtain r1 s1 where one: "apply_deployment c dep s = (r1, s1)" by (cases "apply_deployment c dep s")
  with Cons.prems(1) have r1: "r1 = Inr ()" and rest: "apply_deployments c deps s1 = (Inr (), s')"
    by (auto split: sum.splits)
  obtain d where d: "same_workload d dep" "view s1 (key_of dep) = Some (DeploymentObj d)"
    using apply_deployment_view(2) [OF assms(1) one r1] by blast
  have "view s' (key_of dep) = view s1 (key_of dep)"
    using apply_deployments_writes [OF assms(1) rest, of "key_of dep"] Cons.prems(2) by force
  then show ?case using d Cons.IH [OF rest] Cons.prems(2) by auto
qed

lemma apply_deployments_idle:
  assumes "client_laws c view merge_status lo" and "apply_deployments c deps s = (r, s')"
    and "\<forall>dep \<in> set deps. \<exists>d. same_workload d dep \<and> view s (key_of dep) = Some (DeploymentObj d)"
  shows "view s' = view s"
  using assms(2,3)
proof (induction deps arbitrary: s)
  case Nil
  then show ?case by simp
next
  case (Cons dep deps)
  obtain r1 s1 where one: "apply_deployment c dep s = (r1, s1)" by (cases "apply_deployment c dep s")
  obtain d where "same_workload d dep" "view s (key_of dep) = Some (DeploymentObj d)" using Cons.prems(2) by auto
  then have same: "view s1 = view s" using apply_deployment_view(3) [OF assms(1) one] by blast
  show ?case
  proof (cases r1)
    case (Inl e)
    then show ?thesis using Cons.prems(1) one same by simp
  next
    case (Inr u)
    then have "apply_deployments c deps s1 = (r, s')" using Cons.prems(1) one by simp
    from Cons.IH [OF this] show ?thesis using same Cons.prems(2) by auto
  qed
qed

abbreviation (input) tenant_ns :: "AppEnv \<Rightarrow> string" where
  "tenant_ns ae \<equiv> namespace_name (aes_AppID (ae_Spec ae)) (aes_Env (ae_Spec ae))"

definition managed_ns :: "(obj_key \<rightharpoonup> kobj) \<Rightarrow> string \<Rightarrow> bool" where
  "managed_ns v name = (case v (ns_key name) of Some (NamespaceObj m) \<Rightarrow> owned_by_us (om_Labels m) | _ \<Rightarrow> False)"

lemma desired_namespace_owned: "owned_by_us (om_Labels (desired_namespace appID env))"
  by (simp add: owned_by_us_def desired_namespace_def named_def lookup_or_empty_def)

lemma platform_owned_iff: "ensure_platform_owned m = None \<longleftrightarrow> owned_by_us (om_Labels m)"
  by (simp add: ensure_platform_owned_def owned_by_us_def)

text \<open>The status write that ends \<open>ensure_namespace\<close>.\<close>

definition mark_ready :: "('s, kobj) client \<Rightarrow> string \<times> string \<Rightarrow> AppEnv \<Rightarrow> 's \<Rightarrow> (appenv_error + AppEnv) \<times> 's" where
  "mark_ready c req ae s1 =
     (if aest_Namespace (ae_Status ae) \<noteq> tenant_ns ae
      then (let ae' = ae\<lparr>ae_Status := (ae_Status ae)\<lparr>aest_Namespace := tenant_ns ae, aest_Phase := ''READY''\<rparr>\<rparr> in
            case cl_status c (ae_key req) (AppEnvObj ae') s1 of
              (Inl e, s2) \<Rightarrow> (Inl (Kube e), s2)
            | (Inr _, s2) \<Rightarrow> (Inr ae', s2))
      else (Inr ae, s1))"

lemma mark_ready_view:
  assumes laws: "client_laws c view merge_status lo" and run: "mark_ready c req ae s = (r, s')"
    and here: "view s (ae_key req) = Some (AppEnvObj ae)"
  shows "\<exists>st. view s' = view s \<or> view s' = (view s)(ae_key req \<mapsto> AppEnvObj (ae\<lparr>ae_Status := st\<rparr>))"
    and "r = Inr ae' \<Longrightarrow> ae_Spec ae' = ae_Spec ae \<and> aest_Namespace (ae_Status ae') = tenant_ns ae \<and>
       view s' (ae_key req) = Some (AppEnvObj ae')"
    and "aest_Namespace (ae_Status ae) = tenant_ns ae \<Longrightarrow> view s' = view s \<and> r = Inr ae"
proof -
  define st where "st = (ae_Status ae)\<lparr>aest_Namespace := tenant_ns ae, aest_Phase := ''READY''\<rparr>"
  obtain q s2 where q: "cl_status c (ae_key req) (AppEnvObj (ae\<lparr>ae_Status := st\<rparr>)) s = (q, s2)"
    by (cases "cl_status c (ae_key req) (AppEnvObj (ae\<lparr>ae_Status := st\<rparr>)) s")
  have eq: "mark_ready c req ae s =
      (if aest_Namespace (ae_Status ae) \<noteq> tenant_ns ae
       then (case q of Inl e \<Rightarrow> (Inl (Kube e), s2) | Inr _ \<Rightarrow> (Inr (ae\<lparr>ae_Status := st\<rparr>), s2)) else (Inr ae, s))"
    using q unfolding mark_ready_def Let_def st_def by (cases q) simp_all
  have v: "view s2 = view s \<or> view s2 = (view s)(ae_key req \<mapsto> AppEnvObj (ae\<lparr>ae_Status := st\<rparr>))"
    using status_view(1) [OF laws q] here by auto
  have ok: "view s2 = (view s)(ae_key req \<mapsto> AppEnvObj (ae\<lparr>ae_Status := st\<rparr>))" if "q = Inr ()"
    using status_view(2) [OF laws q that] here by auto
  have s': "s' = s \<or> s' = s2" using run eq by (auto split: if_splits sum.splits)
  show "\<exists>st. view s' = view s \<or> view s' = (view s)(ae_key req \<mapsto> AppEnvObj (ae\<lparr>ae_Status := st\<rparr>))"
    using s' v by (intro exI [of _ st]) (elim disjE; simp)
  show "aest_Namespace (ae_Status ae) = tenant_ns ae \<Longrightarrow> view s' = view s \<and> r = Inr ae"
    using run eq by simp
  show "ae_Spec ae' = ae_Spec ae \<and> aest_Namespace (ae_Status ae') = tenant_ns ae \<and>
       view s' (ae_key req) = Some (AppEnvObj ae')" if "r = Inr ae'"
  proof (cases "aest_Namespace (ae_Status ae) = tenant_ns ae")
    case True
    then show ?thesis using run eq that here by simp
  next
    case False
    then have "q = Inr ()" "ae' = ae\<lparr>ae_Status := st\<rparr>" "s' = s2" using run eq that by (auto split: sum.splits)
    then show ?thesis using ok by (simp add: st_def)
  qed
qed

lemma mark_ready_confined:
  assumes laws: "client_laws c view merge_status lo" and run: "mark_ready c req ae s = (r, s')"
    and here: "view s (ae_key req) = Some (AppEnvObj ae)" and man: "managed_ns (view s) (tenant_ns ae)"
  shows "view s' k \<noteq> view s k \<Longrightarrow> k = ae_key req \<and> (\<exists>st. view s' k = Some (AppEnvObj (ae\<lparr>ae_Status := st\<rparr>)))"
    and "managed_ns (view s') (tenant_ns ae)"
proof -
  from mark_ready_view(1) [where view = view, OF laws run here]
  obtain st where v: "view s' = view s \<or> view s' = (view s)(ae_key req \<mapsto> AppEnvObj (ae\<lparr>ae_Status := st\<rparr>))" ..
  then have "view s' (ns_key (tenant_ns ae)) = view s (ns_key (tenant_ns ae))" by (elim disjE) simp_all
  then show "managed_ns (view s') (tenant_ns ae)" using man by (simp add: managed_ns_def)
  show "k = ae_key req \<and> (\<exists>st. view s' k = Some (AppEnvObj (ae\<lparr>ae_Status := st\<rparr>)))" if "view s' k \<noteq> view s k"
    using v
  proof
    assume "view s' = view s"
    with that show ?thesis by simp
  next
    assume upd: "view s' = (view s)(ae_key req \<mapsto> AppEnvObj (ae\<lparr>ae_Status := st\<rparr>))"
    with that have "k = ae_key req" by (simp split: if_splits)
    with upd show ?thesis by auto
  qed
qed

lemma ensure_namespace_cases:
  "ensure_namespace c req ae s =
     (case typed_get as_namespace c (ns_key (tenant_ns ae)) s of
        (Inl KNotFound, s1) \<Rightarrow>
          (case cl_create c (ns_key (tenant_ns ae)) (NamespaceObj ((desired_namespace (aes_AppID (ae_Spec ae)) (aes_Env (ae_Spec ae)))
                 \<lparr>om_OwnerReferences := [\<lparr>or_APIVersion = ''tenara.io/v1'', or_Kind = ''AppEnv'', or_Name = om_Name (ae_Meta ae),
                                          or_UID = om_UID (ae_Meta ae), or_Controller = True, or_BlockOwnerDeletion = False\<rparr>]\<rparr>)) s1 of
             (Inl e, s2) \<Rightarrow> (Inl (Kube e), s2)
           | (Inr _, s2) \<Rightarrow> mark_ready c req ae s2)
      | (Inl e, s1) \<Rightarrow> (Inl (Kube e), s1)
      | (Inr ns, s1) \<Rightarrow> (case ensure_platform_owned ns of Some e \<Rightarrow> (Inl e, s1) | None \<Rightarrow> mark_ready c req ae s1))"
  unfolding ensure_namespace_def mark_ready_def Let_def by (rule refl)

text \<open>What ensuring the namespace leaves behind: changes only to the status and to an absent namespace, which is then the
  platform's; success records the namespace; and nothing to do changes nothing.\<close>

definition namespace_ensured ::
  "(obj_key \<Rightarrow> kobj option) \<Rightarrow> string \<times> string \<Rightarrow> AppEnv \<Rightarrow> (appenv_error + AppEnv) \<Rightarrow> (obj_key \<Rightarrow> kobj option) \<Rightarrow> bool" where
  "namespace_ensured v req ae r v' \<longleftrightarrow>
    (\<forall>k. v' k \<noteq> v k \<longrightarrow>
      k = ae_key req \<and> (\<exists>st. v' k = Some (AppEnvObj (ae\<lparr>ae_Status := st\<rparr>))) \<or>
      k = ns_key (tenant_ns ae) \<and> v k = None \<and> managed_ns v' (tenant_ns ae)) \<and>
    (\<forall>ae'. r = Inr ae' \<longrightarrow> ae_Spec ae' = ae_Spec ae \<and> aest_Namespace (ae_Status ae') = tenant_ns ae \<and>
       v' (ae_key req) = Some (AppEnvObj ae') \<and> managed_ns v' (tenant_ns ae)) \<and>
    (managed_ns v (tenant_ns ae) \<and> aest_Namespace (ae_Status ae) = tenant_ns ae \<longrightarrow>
       v' = v \<and> (\<forall>ae'. r = Inr ae' \<longrightarrow> ae' = ae))"

lemma ensured_failed: "namespace_ensured v req ae (Inl e) v"
  by (simp add: namespace_ensured_def)

lemma ensured_ready:
  assumes laws: "client_laws c view merge_status lo" and m: "mark_ready c req ae s1 = (r, s')"
    and here: "view s1 (ae_key req) = Some (AppEnvObj ae)" and man: "managed_ns (view s1) (tenant_ns ae)"
    and near: "\<And>k. view s1 k \<noteq> v k \<Longrightarrow> k = ns_key (tenant_ns ae) \<and> v k = None"
  shows "namespace_ensured v req ae r (view s')"
proof -
  note mr = mark_ready_confined [where view = view, OF laws m here man]
  note mv = mark_ready_view [where view = view, OF laws m here]
  have "k = ae_key req \<and> (\<exists>st. view s' k = Some (AppEnvObj (ae\<lparr>ae_Status := st\<rparr>))) \<or>
      k = ns_key (tenant_ns ae) \<and> v k = None \<and> managed_ns (view s') (tenant_ns ae)" if ch: "view s' k \<noteq> v k" for k
  proof (cases "view s' k = view s1 k")
    case True
    then have "view s1 k \<noteq> v k" using ch by simp
    note gone = near [OF this]
    show ?thesis by (intro disjI2 conjI gone [THEN conjunct1] gone [THEN conjunct2] mr(2))
  next
    case False
    then show ?thesis by (intro disjI1) (rule mr(1))
  qed
  moreover have "ae_Spec ae' = ae_Spec ae \<and> aest_Namespace (ae_Status ae') = tenant_ns ae \<and>
      view s' (ae_key req) = Some (AppEnvObj ae') \<and> managed_ns (view s') (tenant_ns ae)" if "r = Inr ae'" for ae'
    using mv(2) [OF that] mr(2) by simp
  moreover have "view s' = v \<and> (\<forall>ae'. r = Inr ae' \<longrightarrow> ae' = ae)"
    if idle: "managed_ns v (tenant_ns ae) \<and> aest_Namespace (ae_Status ae) = tenant_ns ae"
  proof -
    have "v (ns_key (tenant_ns ae)) \<noteq> None" using idle by (auto simp: managed_ns_def split: option.splits)
    then have "view s1 k = v k" for k using near [of k] by (cases "view s1 k = v k") auto
    then have "view s1 = v" by (rule ext)
    then show ?thesis using mv(3) idle by simp
  qed
  ultimately show ?thesis unfolding namespace_ensured_def by blast
qed

lemma ensure_namespace_view:
  assumes laws: "client_laws c view merge_status lo" and run: "ensure_namespace c req ae s = (r, s')"
    and here: "view s (ae_key req) = Some (AppEnvObj ae)"
  shows "namespace_ensured (view s) req ae r (view s')"
proof -
  obtain g s1 where get: "typed_get as_namespace c (ns_key (tenant_ns ae)) s = (g, s1)"
    by (cases "typed_get as_namespace c (ns_key (tenant_ns ae)) s")
  note g = typed_get_view [OF laws get]
  consider ns where "g = Inr ns" "ensure_platform_owned ns = None" | ns e where "g = Inr ns" "ensure_platform_owned ns = Some e"
    | "g = Inl KNotFound" | e where "g = Inl e" "e \<noteq> KNotFound"
    by (metis not_Some_eq old.sum.exhaust)
  then show ?thesis
  proof cases
    case 1
    then have m: "mark_ready c req ae s1 = (r, s')" using run get by (simp add: ensure_namespace_cases)
    show ?thesis
    proof (rule ensured_ready [where view = view, OF laws m])
      show "managed_ns (view s1) (tenant_ns ae)" using g(1,2) 1 by (auto simp: managed_ns_def platform_owned_iff)
    qed (use here in \<open>simp_all add: g(1)\<close>)
  next
    case 2
    then have "s' = s1" "r = Inl e" using run get by (simp_all add: ensure_namespace_cases)
    then show ?thesis by (simp add: g(1) ensured_failed)
  next
    case 4
    then have "s' = s1" "r = Inl (Kube e)" using run get by (auto simp: ensure_namespace_cases split: kube_error.splits)
    then show ?thesis by (simp add: g(1) ensured_failed)
  next
    case 3
    have gone: "view s (ns_key (tenant_ns ae)) = None" using g(3) 3 by simp
    define want where "want = (desired_namespace (aes_AppID (ae_Spec ae)) (aes_Env (ae_Spec ae)))
               \<lparr>om_OwnerReferences := [\<lparr>or_APIVersion = ''tenara.io/v1'', or_Kind = ''AppEnv'', or_Name = om_Name (ae_Meta ae),
                                        or_UID = om_UID (ae_Meta ae), or_Controller = True, or_BlockOwnerDeletion = False\<rparr>]\<rparr>"
    have own: "managed_ns ((view s)(ns_key (tenant_ns ae) \<mapsto> NamespaceObj want)) (tenant_ns ae)"
      using desired_namespace_owned by (simp add: want_def managed_ns_def)
    obtain cr s2 where cr: "cl_create c (ns_key (tenant_ns ae)) (NamespaceObj want) s1 = (cr, s2)"
      by (cases "cl_create c (ns_key (tenant_ns ae)) (NamespaceObj want) s1")
    show ?thesis
    proof (cases cr)
      case (Inl e')
      then have "s' = s2" "r = Inl (Kube e')" using run get 3 cr by (simp_all add: ensure_namespace_cases want_def)
      moreover have "view s2 = view s \<or> view s2 = (view s)(ns_key (tenant_ns ae) \<mapsto> NamespaceObj want)"
        using create_view(1) [OF laws cr] g(1) by auto
      ultimately show ?thesis using gone own by (elim disjE) (simp_all add: ensured_failed namespace_ensured_def managed_ns_def)
    next
      case (Inr u)
      then have m: "mark_ready c req ae s2 = (r, s')" using run get 3 cr by (simp add: ensure_namespace_cases want_def)
      have "view s2 = (view s)(ns_key (tenant_ns ae) \<mapsto> NamespaceObj want)"
        using create_view(2) [OF laws cr] Inr g(1) by simp
      then show ?thesis using own here gone
        by (intro ensured_ready [where view = view, OF laws m]) (simp_all split: if_splits)
    qed
  qed
qed

lemma ensure_namespace_confined:
  assumes "client_laws c view merge_status lo" "ensure_namespace c req ae s = (r, s')" "view s (ae_key req) = Some (AppEnvObj ae)"
    and "view s' k \<noteq> view s k"
  shows "k = ae_key req \<and> (\<exists>st. view s' k = Some (AppEnvObj (ae\<lparr>ae_Status := st\<rparr>))) \<or>
      k = ns_key (tenant_ns ae) \<and> view s k = None \<and> managed_ns (view s') (tenant_ns ae)"
  using ensure_namespace_view [where view = view, OF assms(1-3)] assms(4) unfolding namespace_ensured_def by blast

lemma ensure_namespace_done:
  assumes "client_laws c view merge_status lo" "ensure_namespace c req ae s = (r, s')" "view s (ae_key req) = Some (AppEnvObj ae)"
    and "r = Inr ae'"
  shows "ae_Spec ae' = ae_Spec ae \<and> aest_Namespace (ae_Status ae') = tenant_ns ae \<and>
       view s' (ae_key req) = Some (AppEnvObj ae') \<and> managed_ns (view s') (tenant_ns ae)"
  using ensure_namespace_view [where view = view, OF assms(1-3)] assms(4) unfolding namespace_ensured_def by blast

lemma ensure_namespace_idle:
  assumes "client_laws c view merge_status lo" "ensure_namespace c req ae s = (r, s')" "view s (ae_key req) = Some (AppEnvObj ae)"
    and "managed_ns (view s) (tenant_ns ae) \<and> aest_Namespace (ae_Status ae) = tenant_ns ae"
  shows "view s' = view s \<and> (\<forall>ae'. r = Inr ae' \<longrightarrow> ae' = ae)"
  using ensure_namespace_view [where view = view, OF assms(1-3)] assms(4) unfolding namespace_ensured_def by blast

text \<open>The Deployments a valid AppEnv asks for.\<close>

definition wanted :: "AppEnv \<Rightarrow> Deployment list \<Rightarrow> bool" where
  "wanted ae deps =
     (render_deployments (aes_AppID (ae_Spec ae)) (aes_Env (ae_Spec ae)) (tenant_ns ae)
        (map (service_input ae) (aes_Services (ae_Spec ae))) = Inr deps)"

lemma wanted_deps:
  assumes "wanted ae deps"
  shows "map key_of deps = map (\<lambda>svc. dep_key (tenant_ns ae) (ss_Name svc)) (aes_Services (ae_Spec ae))"
    and "dep \<in> set deps \<Longrightarrow> hardened (aes_Isolation (ae_Spec ae)) (dep_Template dep) \<and> dep_Replicas dep = 1"
proof -
  have all: "list_all2 (\<lambda>svc dep. render_deployment (aes_AppID (ae_Spec ae)) (aes_Env (ae_Spec ae)) (tenant_ns ae) (service_input ae svc) = Inr dep)
      (aes_Services (ae_Spec ae)) deps"
    using assms by (simp add: wanted_def render_deployments_def collect_Inr_iff list.rel_map)
  have each: "key_of dep = dep_key (tenant_ns ae) (ss_Name svc) \<and> hardened (aes_Isolation (ae_Spec ae)) (dep_Template dep) \<and> dep_Replicas dep = 1"
    if "render_deployment (aes_AppID (ae_Spec ae)) (aes_Env (ae_Spec ae)) (tenant_ns ae) (service_input ae svc) = Inr dep" for svc dep
    using that restricted_pod_hardened [of "service_input ae svc"]
    by (auto simp: render_deployment_Inr named_def service_input_def)
  show "map key_of deps = map (\<lambda>svc. dep_key (tenant_ns ae) (ss_Name svc)) (aes_Services (ae_Spec ae))"
    using all by (induction rule: list_all2_induct) (auto dest: each)
  show "hardened (aes_Isolation (ae_Spec ae)) (dep_Template dep) \<and> dep_Replicas dep = 1" if mem: "dep \<in> set deps"
  proof -
    obtain i where i: "i < length deps" "deps ! i = dep" using mem by (auto simp: in_set_conv_nth)
    from list_all2_nthD2 [OF all i(1)] each i(2) show ?thesis by simp
  qed
qed

lemma render_services_eq:
  assumes "aest_Namespace (ae_Status ae) = tenant_ns ae"
  shows "render_services c ae s =
    (if aes_Services (ae_Spec ae) = [] then (Inr (), s)
     else case render_deployments (aes_AppID (ae_Spec ae)) (aes_Env (ae_Spec ae)) (tenant_ns ae)
                 (map (service_input ae) (aes_Services (ae_Spec ae))) of
       Inl e \<Rightarrow> (Inl e, s)
     | Inr deps \<Rightarrow> (case apply_deployments c deps s of (Inl e, s1) \<Rightarrow> (Inl (Kube e), s1) | (Inr _, s1) \<Rightarrow> (Inr (), s1)))"
  using assms by (simp add: render_services_def namespace_name_def)

lemma wanted_spec: "ae_Spec ae' = ae_Spec ae \<Longrightarrow> wanted ae' deps \<longleftrightarrow> wanted ae deps"
  by (simp add: wanted_def service_input_def comp_def cong: map_cong)

text \<open>A cluster in which an AppEnv is fully realised.\<close>

definition converged :: "(obj_key \<rightharpoonup> kobj) \<Rightarrow> string \<times> string \<Rightarrow> AppEnv \<Rightarrow> bool" where
  "converged v req ae =
     (v (ae_key req) = Some (AppEnvObj ae) \<and> aest_Namespace (ae_Status ae) = tenant_ns ae \<and>
      managed_ns v (tenant_ns ae) \<and>
      (\<exists>deps. wanted ae deps \<and> (\<forall>dep \<in> set deps. \<exists>d. same_workload d dep \<and> v (key_of dep) = Some (DeploymentObj d))))"

lemma render_services_view:
  assumes laws: "client_laws c view merge_status lo" and run: "render_services c ae s = (r, s')"
    and ns: "aest_Namespace (ae_Status ae) = tenant_ns ae"
  shows "view s' k \<noteq> view s k \<Longrightarrow> \<exists>svc \<in> set (aes_Services (ae_Spec ae)). k = dep_key (tenant_ns ae) (ss_Name svc) \<and>
      (\<exists>d. view s' k = Some (DeploymentObj d) \<and> hardened (aes_Isolation (ae_Spec ae)) (dep_Template d))"
    and "r = Inr () \<Longrightarrow> distinct (map ss_Name (aes_Services (ae_Spec ae))) \<Longrightarrow>
      \<exists>deps. wanted ae deps \<and> (\<forall>dep \<in> set deps. \<exists>d. same_workload d dep \<and> view s' (key_of dep) = Some (DeploymentObj d))"
    and "converged (view s) req ae \<Longrightarrow> view s' = view s"
proof -
  consider (none) "aes_Services (ae_Spec ae) = []" "r = Inr ()" "s' = s"
    | (bad) e where "\<And>deps. \<not> wanted ae deps" "r = Inl e" "s' = s"
    | (some) deps q where "wanted ae deps" "apply_deployments c deps s = (q, s')" "r = Inr () \<longrightarrow> q = Inr ()"
    using run unfolding render_services_eq [OF ns] wanted_def
    by (auto split: if_splits sum.splits prod.splits)
  note cs = this
  show "\<exists>svc \<in> set (aes_Services (ae_Spec ae)). k = dep_key (tenant_ns ae) (ss_Name svc) \<and>
      (\<exists>d. view s' k = Some (DeploymentObj d) \<and> hardened (aes_Isolation (ae_Spec ae)) (dep_Template d))"
    if ch: "view s' k \<noteq> view s k"
    using cs
  proof cases
    case some
    from apply_deployments_writes [OF laws some(2) ch] obtain dep d where
      d: "dep \<in> set deps" "k = key_of dep" "same_workload d dep" "view s' k = Some (DeploymentObj d)" by blast
    have "key_of dep \<in> set (map key_of deps)" using d(1) by simp
    then obtain svc where "svc \<in> set (aes_Services (ae_Spec ae))" "k = dep_key (tenant_ns ae) (ss_Name svc)"
      unfolding wanted_deps(1) [OF some(1)] d(2) by auto
    then show ?thesis using d(3,4) wanted_deps(2) [OF some(1) d(1)] by (auto simp: same_workload_def)
  qed (use ch in simp_all)
  show "\<exists>deps. wanted ae deps \<and> (\<forall>dep \<in> set deps. \<exists>d. same_workload d dep \<and> view s' (key_of dep) = Some (DeploymentObj d))"
    if ok: "r = Inr ()" and dist: "distinct (map ss_Name (aes_Services (ae_Spec ae)))"
    using cs
  proof cases
    case none
    then have "wanted ae []" by (simp add: wanted_def render_deployments_def)
    then show ?thesis by (intro exI [of _ "[]"]) simp
  next
    case bad
    then show ?thesis using ok by simp
  next
    case some
    have "distinct (map key_of deps)"
      unfolding wanted_deps(1) [OF some(1)] using dist by (simp add: distinct_map inj_on_def)
    then show ?thesis using apply_deployments_done [OF laws] some ok by blast
  qed
  show "view s' = view s" if conv: "converged (view s) req ae"
    using cs
  proof cases
    case some
    obtain deps' where "wanted ae deps'"
      and all: "\<forall>dep \<in> set deps'. \<exists>d. same_workload d dep \<and> view s (key_of dep) = Some (DeploymentObj d)"
      using conv unfolding converged_def by blast
    then have "deps' = deps" using some(1) by (simp add: wanted_def)
    with all show ?thesis using apply_deployments_idle [OF laws some(2)] by simp
  qed simp_all
qed

lemma reconcile_split:
  assumes laws: "client_laws c view merge_status lo" and run: "reconcile_appenv msg c req s = (r, s')"
    and here: "view s (ae_key req) = Some (AppEnvObj ae)"
  obtains (read) "view s' = view s" and "r \<noteq> Inr ()"
    | (invalid) "validate_isolation (aes_Isolation (ae_Spec ae)) \<noteq> None"
        "\<exists>st. view s' = view s \<or> view s' = (view s)(ae_key req \<mapsto> AppEnvObj (ae\<lparr>ae_Status := st\<rparr>))"
    | (namespace) s1 e where "view s1 = view s" "ensure_namespace c req ae s1 = (Inl e, s')" "r = Inl e"
    | (services) s1 s2 ae' where "validate_isolation (aes_Isolation (ae_Spec ae)) = None" "view s1 = view s"
        "ensure_namespace c req ae s1 = (Inr ae', s2)" "render_services c ae' s2 = (r, s')"
proof -
  obtain g s1 where get: "typed_get as_appenv c (ae_key req) s = (g, s1)" by (cases "typed_get as_appenv c (ae_key req) s")
  note g = typed_get_view [OF laws get]
  consider a where "g = Inr a" | "g = Inl KNotFound" | e where "g = Inl e" "e \<noteq> KNotFound"
    by (metis old.sum.exhaust)
  then show thesis
  proof cases
    case 1
    then have a: "g = Inr ae" using g(2) here by auto
    have here1: "view s1 (ae_key req) = Some (AppEnvObj ae)" using here g(1) by simp
    show thesis
    proof (cases "validate_isolation (aes_Isolation (ae_Spec ae))")
      case None
      obtain n s2 where n: "ensure_namespace c req ae s1 = (n, s2)" by (cases "ensure_namespace c req ae s1")
      show thesis
      proof (cases n)
        case (Inl e)
        then show thesis using run get a None n g(1) namespace by (simp add: reconcile_appenv_def)
      next
        case (Inr ae')
        then show thesis using run get a None n g(1) services by (simp add: reconcile_appenv_def)
      qed
    next
      case (Some e)
      define st where "st = (ae_Status ae)\<lparr>aest_Phase := ''INVALID'', aest_Reason := ''invalid-isolation'', aest_Message := msg e\<rparr>"
      obtain q s2 where q: "cl_status c (ae_key req) (AppEnvObj (ae\<lparr>ae_Status := st\<rparr>)) s1 = (q, s2)"
        by (cases "cl_status c (ae_key req) (AppEnvObj (ae\<lparr>ae_Status := st\<rparr>)) s1")
      have "s' = s2" using run get a Some q by (auto simp: reconcile_appenv_def st_def split: sum.splits)
      moreover have "view s2 = view s \<or> view s2 = (view s)(ae_key req \<mapsto> AppEnvObj (ae\<lparr>ae_Status := st\<rparr>))"
        using status_view(1) [OF laws q] here1 g(1) by auto
      ultimately show thesis using invalid Some by auto
    qed
  next
    case 2
    then show thesis using g(3) here by simp
  next
    case 3
    then have "r = Inl (Kube e)" "s' = s1" using run get by (auto simp: reconcile_appenv_def split: kube_error.splits)
    then show thesis using read g(1) by simp
  qed
qed

text \<open>
  C25: whatever fails or loses its answer, a pass over an AppEnv changes nothing in the cluster but the
  AppEnv's own status, the tenant namespace when it does not exist (created with the ownership label), and the
  Deployments of its declared services inside a namespace the platform owns, whose pods are then hardened,
  digest-pinned and placed in the pool of their isolation level. A namespace of somebody else is never touched.
\<close>

theorem appenv_writes_confined:
  assumes laws: "client_laws c view merge_status obj_labels"
    and here: "view s (ae_key req) = Some (AppEnvObj ae)"
    and run: "reconcile_appenv msg c req s = (r, s')"
    and ch: "view s' k \<noteq> view s k"
  shows "k = ae_key req \<and> (\<exists>st. view s' k = Some (AppEnvObj (ae\<lparr>ae_Status := st\<rparr>))) \<or>
    k = ns_key (tenant_ns ae) \<and> view s k = None \<and> managed_ns (view s') (tenant_ns ae) \<or>
    managed_ns (view s') (tenant_ns ae) \<and> (\<exists>svc \<in> set (aes_Services (ae_Spec ae)). k = dep_key (tenant_ns ae) (ss_Name svc) \<and>
      (\<exists>d. view s' k = Some (DeploymentObj d) \<and> hardened (aes_Isolation (ae_Spec ae)) (dep_Template d)))"
proof (rule reconcile_split [where view = view, OF laws run here])
  assume "view s' = view s"
  then show ?thesis using ch by simp
next
  assume "\<exists>st. view s' = view s \<or> view s' = (view s)(ae_key req \<mapsto> AppEnvObj (ae\<lparr>ae_Status := st\<rparr>))"
  then obtain st where "view s' = (view s)(ae_key req \<mapsto> AppEnvObj (ae\<lparr>ae_Status := st\<rparr>))" using ch by auto
  then show ?thesis using ch by (auto split: if_splits)
next
  fix s1 e assume a: "view s1 = view s" "ensure_namespace c req ae s1 = (Inl e, s')"
  then have here1: "view s1 (ae_key req) = Some (AppEnvObj ae)" using here by simp
  from ch a(1) have "view s' k \<noteq> view s1 k" by simp
  from ensure_namespace_confined [where view = view, OF laws a(2) here1 this] a(1) show ?thesis
    by (elim disjE conjE) simp_all
next
  fix s1 s2 ae' assume a: "view s1 = view s" "ensure_namespace c req ae s1 = (Inr ae', s2)" "render_services c ae' s2 = (r, s')"
  then have here1: "view s1 (ae_key req) = Some (AppEnvObj ae)" using here by simp
  have spec: "ae_Spec ae' = ae_Spec ae" "aest_Namespace (ae_Status ae') = tenant_ns ae'" "managed_ns (view s2) (tenant_ns ae)"
    using ensure_namespace_done [where view = view, OF laws a(2) here1 refl] by simp_all
  note svc = render_services_view(1) [where view = view, OF laws a(3) spec(2)]
  have "view s' (ns_key (tenant_ns ae)) = view s2 (ns_key (tenant_ns ae))" using svc by fastforce
  then have man: "managed_ns (view s') (tenant_ns ae)" using spec(3) by (simp add: managed_ns_def)
  show ?thesis
  proof (cases "view s' k = view s2 k")
    case True
    then have "view s2 k \<noteq> view s1 k" using ch a(1) by simp
    from ensure_namespace_confined [where view = view, OF laws a(2) here1 this] True man a(1) show ?thesis
      by (elim disjE conjE) simp_all
  next
    case False
    from svc [OF this] spec(1) man show ?thesis by auto
  qed
qed

text \<open>
  C26: a pass that returns without error on a valid AppEnv leaves the cluster converged: status and managed
  namespace set, and for every declared service the rendered hardened Deployment with one replica. Every further
  pass, whatever it returns, then leaves the stored objects as they are. Failed passes return their error, so the
  queue retries them.
\<close>

theorem appenv_converges:
  assumes laws: "client_laws c view merge_status obj_labels"
    and here: "view s (ae_key req) = Some (AppEnvObj ae)"
    and valid: "validate_isolation (aes_Isolation (ae_Spec ae)) = None"
    and names: "distinct (map ss_Name (aes_Services (ae_Spec ae)))"
    and run: "reconcile_appenv msg c req s = (Inr (), s')"
    and again: "reconcile_appenv msg c req s' = (r2, s2)"
  shows "\<exists>ae'. ae_Spec ae' = ae_Spec ae \<and> converged (view s') req ae' \<and> view s2 = view s'"
proof -
  have conv: "\<exists>ae'. ae_Spec ae' = ae_Spec ae \<and> converged (view s') req ae'"
  proof (rule reconcile_split [where view = view, OF laws run here])
    fix s1 s2 ae'
    assume a: "view s1 = view s" "ensure_namespace c req ae s1 = (Inr ae', s2)" "render_services c ae' s2 = (Inr (), s')"
    have here1: "view s1 (ae_key req) = Some (AppEnvObj ae)" using here a(1) by simp
    have n: "ae_Spec ae' = ae_Spec ae" "aest_Namespace (ae_Status ae') = tenant_ns ae'" "managed_ns (view s2) (tenant_ns ae)"
      "view s2 (ae_key req) = Some (AppEnvObj ae')"
      using ensure_namespace_done [where view = view, OF laws a(2) here1 refl] by simp_all
    note svc = render_services_view [where view = view, OF laws a(3) n(2)]
    have keep: "view s' (ae_key req) = view s2 (ae_key req)" "view s' (ns_key (tenant_ns ae)) = view s2 (ns_key (tenant_ns ae))"
      using svc(1) by fastforce+
    have "managed_ns (view s') (tenant_ns ae')" using n(1,3) keep(2) by (simp add: managed_ns_def)
    moreover have "distinct (map ss_Name (aes_Services (ae_Spec ae')))" using names n(1) by simp
    ultimately have "converged (view s') req ae'"
      using svc(2) n(2,4) keep(1) unfolding converged_def by simp
    then show ?thesis using n(1) by blast
  next
    assume "validate_isolation (aes_Isolation (ae_Spec ae)) \<noteq> None"
    then show ?thesis using valid by simp
  qed simp_all
  then obtain ae' where ae': "ae_Spec ae' = ae_Spec ae" "converged (view s') req ae'" by blast
  then have here': "view s' (ae_key req) = Some (AppEnvObj ae')" and st: "aest_Namespace (ae_Status ae') = tenant_ns ae'"
    and man: "managed_ns (view s') (tenant_ns ae')" by (simp_all add: converged_def)
  have "view s2 = view s'"
  proof (rule reconcile_split [where view = view, OF laws again here'])
    fix s1 e assume a: "view s1 = view s'" "ensure_namespace c req ae' s1 = (Inl e, s2)"
    then have here1: "view s1 (ae_key req) = Some (AppEnvObj ae')" and "managed_ns (view s1) (tenant_ns ae')" using here' man by simp_all
    then show ?thesis using ensure_namespace_idle [where view = view, OF laws a(2) here1] a(1) st by simp
  next
    fix s1 s3 ae'' assume a: "view s1 = view s'" "ensure_namespace c req ae' s1 = (Inr ae'', s3)" "render_services c ae'' s3 = (r2, s2)"
    then have here1: "view s1 (ae_key req) = Some (AppEnvObj ae')" and "managed_ns (view s1) (tenant_ns ae')" using here' man by simp_all
    then have i: "view s3 = view s'" "ae'' = ae'" using ensure_namespace_idle [where view = view, OF laws a(2) here1] a(1) st by simp_all
    then have "converged (view s3) req ae''" using ae'(2) by simp
    then show ?thesis using render_services_view(3) [where view = view, OF laws a(3)] i st by simp
  next
    assume "validate_isolation (aes_Isolation (ae_Spec ae')) \<noteq> None"
    then show ?thesis using valid ae'(1) by simp
  qed
  with ae' show ?thesis by blast
qed

definition sample_env :: AppEnv where
  "sample_env =
     \<lparr>ae_Meta = named ''shop'' ''tenara'' [],
      ae_Spec = \<lparr>aes_AppID = ''a1'', aes_Env = ''prod'', aes_AppSpecRef = [], aes_DomainRefs = [],
                 aes_Services = [\<lparr>ss_Name = ''web'', ss_Image = ''r/web@sha256:0'', ss_Port = 80\<rparr>,
                                 \<lparr>ss_Name = ''jobs'', ss_Image = ''r/jobs@sha256:1'', ss_Port = 0\<rparr>],
                 aes_QuotaTier = ''free'', aes_Isolation = ''isolated''\<rparr>,
      ae_Status = \<lparr>aest_Namespace = [], aest_Phase = [], aest_Reason = [], aest_Message = []\<rparr>\<rparr>"

definition sample_cluster :: cluster where
  "sample_cluster = [((''AppEnv'', ''tenara'', ''shop''), AppEnvObj sample_env)]"

definition sample_pass :: "cluster \<Rightarrow> (appenv_error + unit) \<times> cluster" where
  "sample_pass s = reconcile_appenv (\<lambda>e. []) cluster_client (''tenara'', ''shop'') s"

lemma sample_pass_ok: "fst (sample_pass sample_cluster) = Inr ()"
  by code_simp

lemma sample_pass_deploys:
  "case map_of (snd (sample_pass sample_cluster)) (dep_key ''app-a1-prod'' ''web'') of
     Some (DeploymentObj d) \<Rightarrow> pod_RuntimeClass (dep_Template d) = Some ''gvisor'' | _ \<Rightarrow> False"
  by code_simp

lemma sample_env_simps:
  "validate_isolation (aes_Isolation (ae_Spec sample_env)) = None"
  "distinct (map ss_Name (aes_Services (ae_Spec sample_env)))"
  "map_of sample_cluster (''AppEnv'', ''tenara'', ''shop'') = Some (AppEnvObj sample_env)"
  by (simp_all add: sample_env_def sample_cluster_def validate_isolation_def)

theorem appenv_writes_confined_witness:
  "\<exists>d. map_of (snd (sample_pass sample_cluster)) (dep_key ''app-a1-prod'' ''web'') = Some (DeploymentObj d) \<and>
     hardened ''isolated'' (dep_Template d)"
proof -
  obtain r s' where p: "reconcile_appenv (\<lambda>e. []) cluster_client (''tenara'', ''shop'') sample_cluster = (r, s')"
    by (cases "reconcile_appenv (\<lambda>e. []) cluster_client (''tenara'', ''shop'') sample_cluster")
  have new: "map_of s' (dep_key ''app-a1-prod'' ''web'') \<noteq> map_of sample_cluster (dep_key ''app-a1-prod'' ''web'')"
    using sample_pass_deploys p by (auto simp: sample_pass_def sample_cluster_def split: option.splits)
  have here: "map_of sample_cluster (ae_key (''tenara'', ''shop'')) = Some (AppEnvObj sample_env)"
    using sample_env_simps(3) by simp
  have iso: "aes_Isolation (ae_Spec sample_env) = ''isolated''" by (simp add: sample_env_def)
  from appenv_writes_confined [where view = map_of, OF store_client_laws here p new] p iso show ?thesis
    by (auto simp: sample_pass_def)
qed

theorem appenv_converges_witness:
  "\<exists>ae'. converged (map_of (snd (sample_pass sample_cluster))) (''tenara'', ''shop'') ae' \<and>
     map_of (snd (sample_pass (snd (sample_pass sample_cluster)))) = map_of (snd (sample_pass sample_cluster))"
proof -
  obtain s' where p: "reconcile_appenv (\<lambda>e. []) cluster_client (''tenara'', ''shop'') sample_cluster = (Inr (), s')"
    using sample_pass_ok by (cases "sample_pass sample_cluster") (auto simp: sample_pass_def)
  obtain r2 s2 where q: "reconcile_appenv (\<lambda>e. []) cluster_client (''tenara'', ''shop'') s' = (r2, s2)"
    by (cases "reconcile_appenv (\<lambda>e. []) cluster_client (''tenara'', ''shop'') s'")
  have here: "map_of sample_cluster (ae_key (''tenara'', ''shop'')) = Some (AppEnvObj sample_env)"
    using sample_env_simps(3) by simp
  from appenv_converges [where view = map_of, OF store_client_laws here sample_env_simps(1,2) p q] p q show ?thesis
    by (auto simp: sample_pass_def)
qed

end
