(* ===== verification/Tenant_Manifests.thy ===== *)
theory Tenant_Manifests
  imports Appenv
begin

text \<open>
  The other manifests of a tenant: network policies (\<^verbatim>\<open>appenv/netpol.go\<close>), service account, quota and
  limits (\<^verbatim>\<open>tenant_defaults.go\<close>), the HTTP route (\<^verbatim>\<open>httproute.go\<close>), cron jobs and autoscalers
  (\<^verbatim>\<open>workload_kinds.go\<close>), certificates (\<^verbatim>\<open>domaincert/renderer.go\<close>), and the custom resources the
  control plane hands over (\<^verbatim>\<open>control-plane/internal/provision\<close>). Unstructured objects are JSON values.
  Quantities are in thousandths of a unit (cpu) or bytes (memory); the typed-to-unstructured converter is
  a parameter.
\<close>

section \<open>Network policies\<close>

abbreviation (input) nsMetadataLabelKey :: string where "nsMetadataLabelKey \<equiv> ''kubernetes.io/metadata.name''"
abbreviation (input) GatewayNamespace :: string where "GatewayNamespace \<equiv> ''envoy-gateway-system''"
abbreviation (input) MongoNamespace :: string where "MongoNamespace \<equiv> ''tenara-data''"
abbreviation (input) frontendRole :: string where "frontendRole \<equiv> ''frontend''"
abbreviation (input) backendRole :: string where "backendRole \<equiv> ''backend''"

text \<open>A peer has an optional namespace selector and an optional pod selector; a port an optional protocol.\<close>

record Peer =
  pe_NamespaceSelector :: "labels option"
  pe_PodSelector :: "labels option"

record PolicyRule =
  pl_Peers :: "Peer list"
  pl_Ports :: "(string option \<times> int) list"

record NetworkPolicy =
  np_Meta :: ObjectMeta
  np_PodSelector :: labels
  np_Types :: "string list"
  np_Ingress :: "PolicyRule list"
  np_Egress :: "PolicyRule list"

definition base_policy :: "string \<Rightarrow> string \<Rightarrow> string list \<Rightarrow> NetworkPolicy" where
  "base_policy name namespace types =
     \<lparr>np_Meta = named name namespace [(LabelManagedBy, LabelManagedVal)], np_PodSelector = [], np_Types = types,
      np_Ingress = [], np_Egress = []\<rparr>"

definition deny_all_ingress :: "string \<Rightarrow> NetworkPolicy" where
  "deny_all_ingress namespace = base_policy ''deny-all-ingress'' namespace [''Ingress'']"

definition default_egress :: "string \<Rightarrow> PolicyRule list \<Rightarrow> NetworkPolicy" where
  "default_egress namespace whitelist =
     (base_policy ''deny-all-egress'' namespace [''Egress''])
       \<lparr>np_Egress :=
          [\<lparr>pl_Peers = [\<lparr>pe_NamespaceSelector = Some [(nsMetadataLabelKey, ''kube-system'')],
                         pe_PodSelector = Some [(''k8s-app'', ''kube-dns'')]\<rparr>],
            pl_Ports = [(Some ''UDP'', 53), (Some ''TCP'', 53)]\<rparr>] @ whitelist\<rparr>"

definition allow_gateway_ingress :: "string \<Rightarrow> int \<Rightarrow> NetworkPolicy" where
  "allow_gateway_ingress namespace frontendPort =
     (base_policy ''allow-gateway'' namespace [''Ingress''])
       \<lparr>np_PodSelector := [(''app'', frontendRole)],
        np_Ingress := [\<lparr>pl_Peers = [\<lparr>pe_NamespaceSelector = Some [(nsMetadataLabelKey, GatewayNamespace)], pe_PodSelector = None\<rparr>],
                        pl_Ports = [(None, frontendPort)]\<rparr>]\<rparr>"

definition allow_frontend_to_backend :: "string \<Rightarrow> NetworkPolicy" where
  "allow_frontend_to_backend namespace =
     (base_policy ''allow-internal'' namespace [''Ingress''])
       \<lparr>np_PodSelector := [(''app'', backendRole)],
        np_Ingress := [\<lparr>pl_Peers = [\<lparr>pe_NamespaceSelector = None, pe_PodSelector = Some [(''app'', frontendRole)]\<rparr>],
                        pl_Ports = [(None, 8000)]\<rparr>]\<rparr>"

definition allow_backend_to_mongo :: "string \<Rightarrow> string \<Rightarrow> NetworkPolicy" where
  "allow_backend_to_mongo namespace appID =
     (base_policy ''allow-mongo'' namespace [''Egress''])
       \<lparr>np_PodSelector := [(''app'', backendRole)],
        np_Egress := [\<lparr>pl_Peers = [\<lparr>pe_NamespaceSelector = Some [(nsMetadataLabelKey, MongoNamespace)],
                                     pe_PodSelector = Some [(LabelAppID, appID)]\<rparr>],
                       pl_Ports = [(None, 27017)]\<rparr>]\<rparr>"

section \<open>Service account, quota, limits\<close>

record ServiceAccount =
  sa_Meta :: ObjectMeta
  sa_AutomountToken :: "bool option"

definition tenant_service_account :: "string \<Rightarrow> ServiceAccount" where
  "tenant_service_account namespace =
     \<lparr>sa_Meta = named ''tenant'' namespace [(LabelManagedBy, LabelManagedVal)], sa_AutomountToken = Some False\<rparr>"

text \<open>Quantities: \<^verbatim>\<open>250m\<close> cpu is a quarter of a core, \<^verbatim>\<open>Mi\<close> is $2^{20}$ bytes.\<close>

definition mebi :: "int \<Rightarrow> int" where "mebi n = n * 2 ^ 20"

abbreviation (input) freeCPUPerService :: int where "freeCPUPerService \<equiv> 250"
abbreviation (input) freeMemPerService :: int where "freeMemPerService \<equiv> mebi 512"

record ResourceQuota =
  rq_Meta :: ObjectMeta
  rq_Pods :: int
  rq_LimitsCPU :: int
  rq_LimitsMemory :: int

fun add_shares :: "nat \<Rightarrow> int \<times> int \<Rightarrow> int \<times> int" where
  "add_shares 0 q = q"
| "add_shares (Suc n) (cpu, mem) = add_shares n (cpu + freeCPUPerService, mem + freeMemPerService)"

definition free_resource_quota :: "string \<Rightarrow> int \<Rightarrow> ResourceQuota" where
  "free_resource_quota namespace serviceCount0 =
     (let serviceCount = (if serviceCount0 < 1 then 1 else serviceCount0);
          (cpu, mem) = add_shares (nat (serviceCount - 1)) (freeCPUPerService, freeMemPerService)
      in \<lparr>rq_Meta = named ''tenant-free'' namespace [(LabelManagedBy, LabelManagedVal)],
          rq_Pods = 3, rq_LimitsCPU = cpu, rq_LimitsMemory = mem\<rparr>)"

record LimitRange =
  lr_Meta :: ObjectMeta
  lr_Default :: "int \<times> int"
  lr_DefaultRequest :: "int \<times> int"
  lr_Max :: "int \<times> int"

definition default_limit_range :: "string \<Rightarrow> LimitRange" where
  "default_limit_range namespace =
     (let lst = (250, mebi 256) in
      \<lparr>lr_Meta = named ''tenant-defaults'' namespace [(LabelManagedBy, LabelManagedVal)],
       lr_Default = lst, lr_DefaultRequest = lst, lr_Max = lst\<rparr>)"

section \<open>The HTTP route\<close>

record RoutingInput =
  ri_Slug :: string
  ri_BaseDomain :: string
  ri_CertSecret :: string
  ri_FrontendPort :: int
  ri_BackendPort :: int
  ri_StripAPIPrefix :: bool

record Unstructured =
  un_APIVersion :: string
  un_Kind :: string
  un_Meta :: ObjectMeta
  un_Annotations :: labels
  un_Spec :: json

definition hostname_for :: "string \<Rightarrow> string \<Rightarrow> string" where
  "hostname_for slug baseDomain = slug @ ''.'' @ baseDomain"

definition parent_ref_map :: json where
  "parent_ref_map = JObj [(''name'', JStr ''tenara''), (''namespace'', JStr GatewayNamespace)]"

definition backend_ref_map :: "string \<Rightarrow> int \<Rightarrow> json" where
  "backend_ref_map svc port = JObj [(''name'', JStr svc), (''port'', JInt port)]"

definition path_prefix_match :: "string \<Rightarrow> json" where
  "path_prefix_match value = JObj [(''path'', JObj [(''type'', JStr ''PathPrefix''), (''value'', JStr value)])]"

definition render_http_route :: "string \<Rightarrow> RoutingInput \<Rightarrow> Unstructured" where
  "render_http_route namespace inp =
     (let apiRule = [(''matches'', JArr [path_prefix_match ''/api'']),
                     (''backendRefs'', JArr [backend_ref_map backendRole (ri_BackendPort inp)])] @
                    (if ri_StripAPIPrefix inp
                     then [(''filters'', JArr [JObj [(''type'', JStr ''URLRewrite''),
                             (''urlRewrite'', JObj [(''path'', JObj [(''type'', JStr ''ReplacePrefixMatch''),
                                                                  (''replacePrefixMatch'', JStr ''/'')])])]])]
                     else []);
          rootRule = [(''matches'', JArr [path_prefix_match ''/'']),
                      (''backendRefs'', JArr [backend_ref_map frontendRole (ri_FrontendPort inp)])]
      in \<lparr>un_APIVersion = ''gateway.networking.k8s.io/v1'', un_Kind = ''HTTPRoute'',
          un_Meta = named ''tenant'' namespace [(LabelManagedBy, LabelManagedVal)],
          un_Annotations = [(''tenara.io/tls-cert'', ri_CertSecret inp)],
          un_Spec = JObj [(''parentRefs'', JArr [parent_ref_map]),
                          (''hostnames'', JArr [JStr (hostname_for (ri_Slug inp) (ri_BaseDomain inp))]),
                          (''rules'', JArr [JObj apiRule, JObj rootRule])]\<rparr>)"

datatype hostname_error = NotVerified string | NoObjectSpec string | NoHostnames string

fun set_field :: "string \<Rightarrow> json \<Rightarrow> (string \<times> json) list \<Rightarrow> (string \<times> json) list" where
  "set_field k v [] = [(k, v)]"
| "set_field k v ((k', v') # kvs) = (if k' = k then (k, v) # kvs else (k', v') # set_field k v kvs)"

definition append_verified_hostname :: "Unstructured \<Rightarrow> string \<Rightarrow> bool \<Rightarrow> hostname_error + Unstructured" where
  "append_verified_hostname route host verified =
     (if \<not> verified then Inl (NotVerified host)
      else case un_Spec route of
        JObj spec \<Rightarrow>
          (case map_of spec ''hostnames'' of
             Some (JArr hostnames) \<Rightarrow>
               if JStr host \<in> set hostnames then Inr route
               else Inr (route\<lparr>un_Spec := JObj (set_field ''hostnames'' (JArr (hostnames @ [JStr host])) spec)\<rparr>)
           | _ \<Rightarrow> Inl (NoHostnames (om_Name (un_Meta route))))
      | _ \<Rightarrow> Inl (NoObjectSpec (om_Name (un_Meta route))))"

section \<open>Cron jobs and autoscalers\<close>

datatype workload_error = Image appenv_error | NeedsSchedule | Conversion string

definition render_cron_job ::
  "(PodSpec \<Rightarrow> string + json) \<Rightarrow> string \<Rightarrow> string \<Rightarrow> string \<Rightarrow> ServiceInput \<Rightarrow> workload_error + json" where
  "render_cron_job conv appID env namespace s =
     (case require_digest_image (si_Image s) of
        Some e \<Rightarrow> Inl (Image e)
      | None \<Rightarrow>
          if si_Schedule s = [] then Inl NeedsSchedule
          else (case conv (restricted_pod_spec s False) of
             Inl e \<Rightarrow> Inl (Conversion e)
           | Inr psMap \<Rightarrow> Inr (JObj
               [(''apiVersion'', JStr ''batch/v1''), (''kind'', JStr ''CronJob''),
                (''metadata'', JObj [(''name'', JStr (si_Name s)), (''namespace'', JStr namespace),
                   (''labels'', JObj [(LabelManagedBy, JStr LabelManagedVal), (LabelAppID, JStr appID),
                                   (LabelEnv, JStr env), (''app'', JStr (si_Name s))])]),
                (''spec'', JObj [(''schedule'', JStr (si_Schedule s)), (''concurrencyPolicy'', JStr ''Forbid''),
                   (''successfulJobsHistoryLimit'', JInt 1), (''failedJobsHistoryLimit'', JInt 3),
                   (''jobTemplate'', JObj [(''spec'', JObj [(''template'', JObj [(''spec'', psMap)])])])])])))"

definition render_hpa :: "string \<Rightarrow> ServiceInput \<Rightarrow> int \<Rightarrow> json" where
  "render_hpa namespace s quotaMaxReplicas =
     (let minReplicas = (if si_Replicas s < 1 then 1 else si_Replicas s);
          maxReplicas = (if quotaMaxReplicas < minReplicas then minReplicas else quotaMaxReplicas)
      in JObj
        [(''apiVersion'', JStr ''autoscaling/v2''), (''kind'', JStr ''HorizontalPodAutoscaler''),
         (''metadata'', JObj [(''name'', JStr (''hpa-'' @ si_Name s)), (''namespace'', JStr namespace),
            (''labels'', JObj [(LabelManagedBy, JStr LabelManagedVal), (''app'', JStr (si_Name s))])]),
         (''spec'', JObj
           [(''scaleTargetRef'', JObj [(''apiVersion'', JStr ''apps/v1''), (''kind'', JStr ''Deployment''), (''name'', JStr (si_Name s))]),
            (''minReplicas'', JInt minReplicas), (''maxReplicas'', JInt maxReplicas),
            (''metrics'', JArr [JObj [(''type'', JStr ''Resource''),
               (''resource'', JObj [(''name'', JStr ''cpu''),
                  (''target'', JObj [(''type'', JStr ''Utilization''), (''averageUtilization'', JInt 70)])])]])])])"

section \<open>Certificates\<close>

definition render_certificate :: "string \<Rightarrow> string \<Rightarrow> string \<Rightarrow> json" where
  "render_certificate domainID hostname namespace =
     JObj [(''apiVersion'', JStr ''cert-manager.io/v1''), (''kind'', JStr ''Certificate''),
       (''metadata'', JObj [(''name'', JStr (''cert-'' @ domainID)), (''namespace'', JStr namespace),
          (''labels'', JObj [(''tenara.io/domain-id'', JStr domainID)])]),
       (''spec'', JObj [(''secretName'', JStr (''tls-'' @ domainID)), (''dnsNames'', JArr [JStr hostname]),
          (''issuerRef'', JObj [(''name'', JStr ''tenara-acme''), (''kind'', JStr ''ClusterIssuer'')])])]"

definition render_cluster_issuer :: "string \<Rightarrow> string \<Rightarrow> json" where
  "render_cluster_issuer acmeServer acmeEmail =
     JObj [(''apiVersion'', JStr ''cert-manager.io/v1''), (''kind'', JStr ''ClusterIssuer''),
       (''metadata'', JObj [(''name'', JStr ''tenara-acme'')]),
       (''spec'', JObj [(''acme'', JObj
          [(''server'', JStr acmeServer), (''email'', JStr acmeEmail),
           (''privateKeySecretRef'', JObj [(''name'', JStr ''tenara-acme-account-key'')]),
           (''solvers'', JArr [JObj [(''http01'', JObj [(''ingress'', JObj [])])]])])])]"

section \<open>Handover from the control plane\<close>

record ProvisionService =
  pv_Name :: string
  pv_Image :: string
  pv_Port :: int

record AppEnvInput =
  ai_AppID :: string
  ai_Env :: string
  ai_Name :: string
  ai_QuotaTier :: string
  ai_Isolation :: string
  ai_Services :: "ProvisionService list"

definition services_to_raw :: "ProvisionService list \<Rightarrow> json list option" where
  "services_to_raw svcs =
     (if svcs = [] then None
      else Some (map (\<lambda>svc. JObj ([(''name'', JStr (pv_Name svc)), (''image'', JStr (pv_Image svc))] @
                            (if 0 < pv_Port svc then [(''port'', JInt (pv_Port svc))] else []))) svcs))"

definition build_app_env :: "AppEnvInput \<Rightarrow> json" where
  "build_app_env inp =
     (let spec = [(''appId'', JStr (ai_AppID inp)), (''env'', JStr (ai_Env inp)),
                  (''quotaTier'', JStr (ai_QuotaTier inp)), (''isolation'', JStr (ai_Isolation inp))] @
                 (case services_to_raw (ai_Services inp) of None \<Rightarrow> [] | Some svcs \<Rightarrow> [(''services'', JArr svcs)])
      in JObj [(''apiVersion'', JStr ''tenara.io/v1''), (''kind'', JStr ''AppEnv''),
           (''metadata'', JObj [(''name'', JStr (ai_Name inp)),
              (''labels'', JObj [(''tenara.io/app-id'', JStr (ai_AppID inp)), (''tenara.io/env'', JStr (ai_Env inp))])]),
           (''spec'', JObj spec)])"

record BuildInput =
  bi_AppID :: string
  bi_Env :: string
  bi_Name :: string
  bi_GitURL :: string
  bi_GitSHA :: string
  bi_Dockerfile :: string

definition build_build :: "BuildInput \<Rightarrow> json" where
  "build_build inp =
     (let git = [(''url'', JStr (bi_GitURL inp))] @ (if bi_GitSHA inp \<noteq> [] then [(''sha'', JStr (bi_GitSHA inp))] else []);
          spec = [(''app'', JStr (bi_AppID inp)), (''env'', JStr (bi_Env inp)), (''git'', JObj git)] @
                 (if bi_Dockerfile inp \<noteq> [] then [(''dockerfile'', JStr (bi_Dockerfile inp))] else [])
      in JObj [(''apiVersion'', JStr ''tenara.io/v1''), (''kind'', JStr ''Build''),
           (''metadata'', JObj [(''name'', JStr (bi_Name inp)),
              (''labels'', JObj [(''tenara.io/app-id'', JStr (bi_AppID inp)), (''tenara.io/env'', JStr (bi_Env inp))])]),
           (''spec'', JObj spec)])"

section \<open>Which traffic the policies admit\<close>

text \<open>Kubernetes' documented reading of network policies. A pod is a namespace and its labels; \<open>nsl\<close> gives the
  labels of a namespace. A policy applies to the pods of its own namespace that its selector matches; a pod no
  policy of a direction applies to is open in that direction.\<close>

record Endpoint =
  ep_NS :: string
  ep_Labels :: labels

definition selects :: "labels \<Rightarrow> labels \<Rightarrow> bool" where
  "selects sel lbls = list_all (\<lambda>(k, v). map_of lbls k = Some v) sel"

definition peer_matches :: "(string \<Rightarrow> labels) \<Rightarrow> string \<Rightarrow> Peer \<Rightarrow> Endpoint \<Rightarrow> bool" where
  "peer_matches nsl own pe e =
     ((case pe_NamespaceSelector pe of Some sel \<Rightarrow> selects sel (nsl (ep_NS e)) | None \<Rightarrow> ep_NS e = own) \<and>
      (case pe_PodSelector pe of Some sel \<Rightarrow> selects sel (ep_Labels e) | None \<Rightarrow> True))"

definition rule_admits :: "(string \<Rightarrow> labels) \<Rightarrow> string \<Rightarrow> PolicyRule \<Rightarrow> Endpoint \<Rightarrow> string \<Rightarrow> int \<Rightarrow> bool" where
  "rule_admits nsl own r other proto port =
     ((pl_Peers r = [] \<or> list_ex (\<lambda>pe. peer_matches nsl own pe other) (pl_Peers r)) \<and>
      (pl_Ports r = [] \<or> list_ex (\<lambda>(pr, n). n = port \<and> (case pr of None \<Rightarrow> ''TCP'' | Some q \<Rightarrow> q) = proto) (pl_Ports r)))"

definition direction_admits ::
  "(string \<Rightarrow> labels) \<Rightarrow> NetworkPolicy list \<Rightarrow> string \<Rightarrow> (NetworkPolicy \<Rightarrow> PolicyRule list) \<Rightarrow>
   Endpoint \<Rightarrow> Endpoint \<Rightarrow> string \<Rightarrow> int \<Rightarrow> bool" where
  "direction_admits nsl policies dir rules_of pod other proto port =
     (let applied = filter (\<lambda>p. om_Namespace (np_Meta p) = ep_NS pod \<and> dir \<in> set (np_Types p) \<and>
                                selects (np_PodSelector p) (ep_Labels pod)) policies
      in applied = [] \<or> list_ex (\<lambda>p. list_ex (\<lambda>r. rule_admits nsl (om_Namespace (np_Meta p)) r other proto port) (rules_of p)) applied)"

definition ingress_admits where
  "ingress_admits nsl policies src dst proto port = direction_admits nsl policies ''Ingress'' np_Ingress dst src proto port"

definition egress_admits where
  "egress_admits nsl policies src dst proto port = direction_admits nsl policies ''Egress'' np_Egress src dst proto port"

definition policy_chain :: "string \<Rightarrow> string \<Rightarrow> int \<Rightarrow> NetworkPolicy list" where
  "policy_chain ns appID frontendPort =
     [deny_all_ingress ns, default_egress ns [], allow_gateway_ingress ns frontendPort, allow_frontend_to_backend ns,
      allow_backend_to_mongo ns appID]"

lemma selects_Nil [simp]: "selects [] lbls"
  by (simp add: selects_def)

lemma selects_one [simp]: "selects [(k, v)] lbls \<longleftrightarrow> map_of lbls k = Some v"
  by (simp add: selects_def)

lemmas policy_simps = deny_all_ingress_def default_egress_def allow_gateway_ingress_def allow_frontend_to_backend_def
  allow_backend_to_mongo_def base_policy_def named_def

text \<open>
  C27: with the tenant's five policies in place, a pod of the tenant namespace accepts exactly gateway traffic
  to the frontend port and same-namespace frontend traffic to backend port 8000, and sends exactly DNS and, from
  the backend, MongoDB traffic to the application's own database pods. The two directions do not meet: the
  backend admits its frontend, but the egress default never lets that frontend send.
\<close>

theorem tenant_traffic_exact:
  assumes nsl: "\<And>n. map_of (nsl n) nsMetadataLabelKey = Some n"
    and dst: "ep_NS dst = ns" and src: "ep_NS src = ns"
  shows "(ingress_admits nsl (policy_chain ns appID fport) other dst proto port \<longleftrightarrow>
      (map_of (ep_Labels dst) ''app'' = Some frontendRole \<and> ep_NS other = GatewayNamespace \<and> proto = ''TCP'' \<and> port = fport) \<or>
      (map_of (ep_Labels dst) ''app'' = Some backendRole \<and> ep_NS other = ns \<and>
       map_of (ep_Labels other) ''app'' = Some frontendRole \<and> proto = ''TCP'' \<and> port = 8000)) \<and>
    (egress_admits nsl (policy_chain ns appID fport) src other proto port \<longleftrightarrow>
      (ep_NS other = ''kube-system'' \<and> map_of (ep_Labels other) ''k8s-app'' = Some ''kube-dns'' \<and> proto \<in> {''UDP'', ''TCP''} \<and> port = 53) \<or>
      (map_of (ep_Labels src) ''app'' = Some backendRole \<and> ep_NS other = MongoNamespace \<and>
       map_of (ep_Labels other) LabelAppID = Some appID \<and> proto = ''TCP'' \<and> port = 27017))"
proof
  have dirs: "''Ingress'' \<noteq> ''Egress''" by simp
  show "ingress_admits nsl (policy_chain ns appID fport) other dst proto port \<longleftrightarrow>
      (map_of (ep_Labels dst) ''app'' = Some frontendRole \<and> ep_NS other = GatewayNamespace \<and> proto = ''TCP'' \<and> port = fport) \<or>
      (map_of (ep_Labels dst) ''app'' = Some backendRole \<and> ep_NS other = ns \<and>
       map_of (ep_Labels other) ''app'' = Some frontendRole \<and> proto = ''TCP'' \<and> port = 8000)"
    using dst by (auto simp: ingress_admits_def direction_admits_def policy_chain_def policy_simps rule_admits_def
        peer_matches_def nsl Let_def)
  show "egress_admits nsl (policy_chain ns appID fport) src other proto port \<longleftrightarrow>
      (ep_NS other = ''kube-system'' \<and> map_of (ep_Labels other) ''k8s-app'' = Some ''kube-dns'' \<and> proto \<in> {''UDP'', ''TCP''} \<and> port = 53) \<or>
      (map_of (ep_Labels src) ''app'' = Some backendRole \<and> ep_NS other = MongoNamespace \<and>
       map_of (ep_Labels other) LabelAppID = Some appID \<and> proto = ''TCP'' \<and> port = 27017)"
    using src by (auto simp: egress_admits_def direction_admits_def policy_chain_def policy_simps rule_admits_def
        peer_matches_def nsl Let_def)
qed

definition sample_labels :: "string \<Rightarrow> labels" where
  "sample_labels n = [(nsMetadataLabelKey, n)]"

theorem tenant_traffic_exact_witness:
  "ingress_admits sample_labels (policy_chain ''t'' ''a1'' 80) \<lparr>ep_NS = ''t'', ep_Labels = [(''app'', frontendRole)]\<rparr>
     \<lparr>ep_NS = ''t'', ep_Labels = [(''app'', backendRole)]\<rparr> ''TCP'' 8000 \<and>
   \<not> egress_admits sample_labels (policy_chain ''t'' ''a1'' 80) \<lparr>ep_NS = ''t'', ep_Labels = [(''app'', frontendRole)]\<rparr>
     \<lparr>ep_NS = ''t'', ep_Labels = [(''app'', backendRole)]\<rparr> ''TCP'' 8000"
proof -
  have nsl: "map_of (sample_labels n) nsMetadataLabelKey = Some n" for n by (simp add: sample_labels_def)
  show ?thesis
    using tenant_traffic_exact [where nsl = sample_labels and ns = "''t''" and appID = "''a1''" and fport = 80 and proto = "''TCP''"
        and port = 8000 and src = "\<lparr>ep_NS = ''t'', ep_Labels = [(''app'', frontendRole)]\<rparr>"
        and dst = "\<lparr>ep_NS = ''t'', ep_Labels = [(''app'', backendRole)]\<rparr>"
        and other = "\<lparr>ep_NS = ''t'', ep_Labels = [(''app'', frontendRole)]\<rparr>", OF nsl]
      tenant_traffic_exact [where nsl = sample_labels and ns = "''t''" and appID = "''a1''" and fport = 80 and proto = "''TCP''"
        and port = 8000 and src = "\<lparr>ep_NS = ''t'', ep_Labels = [(''app'', frontendRole)]\<rparr>"
        and dst = "\<lparr>ep_NS = ''t'', ep_Labels = [(''app'', backendRole)]\<rparr>"
        and other = "\<lparr>ep_NS = ''t'', ep_Labels = [(''app'', backendRole)]\<rparr>", OF nsl]
    by simp
qed

section \<open>The handover read back\<close>

text \<open>How the controller's client decodes the spec: by the field names of the struct tags, an absent field is
  the zero value, a value of another type or a port outside 32 bits is an error.\<close>

definition str_field :: "(string \<times> json) list \<Rightarrow> string \<Rightarrow> string option" where
  "str_field kvs k = (case map_of kvs k of None \<Rightarrow> Some [] | Some (JStr v) \<Rightarrow> Some v | Some _ \<Rightarrow> None)"

definition int32_field :: "(string \<times> json) list \<Rightarrow> string \<Rightarrow> int option" where
  "int32_field kvs k =
     (case map_of kvs k of
        None \<Rightarrow> Some 0
      | Some (JInt n) \<Rightarrow> if - (2 ^ 31) \<le> n \<and> n < 2 ^ 31 then Some n else None
      | Some _ \<Rightarrow> None)"

fun decode_service :: "json \<Rightarrow> ServiceSpec option" where
  "decode_service (JObj kvs) =
     (case (str_field kvs ''name'', str_field kvs ''image'', int32_field kvs ''port'') of
        (Some n, Some i, Some p) \<Rightarrow> Some \<lparr>ss_Name = n, ss_Image = i, ss_Port = p\<rparr>
      | _ \<Rightarrow> None)"
| "decode_service _ = None"

fun decode_all :: "json list \<Rightarrow> ServiceSpec list option" where
  "decode_all [] = Some []"
| "decode_all (j # js) =
     (case (decode_service j, decode_all js) of (Some s, Some ss) \<Rightarrow> Some (s # ss) | _ \<Rightarrow> None)"

definition decode_app_env :: "json \<Rightarrow> AppEnvSpec option" where
  "decode_app_env doc =
     (case doc of
        JObj doc_fields \<Rightarrow>
          (case map_of doc_fields ''spec'' of
             Some (JObj kvs) \<Rightarrow>
               (case (str_field kvs ''appId'', str_field kvs ''env'', str_field kvs ''quotaTier'', str_field kvs ''isolation'',
                      case map_of kvs ''services'' of None \<Rightarrow> Some [] | Some (JArr js) \<Rightarrow> decode_all js | Some _ \<Rightarrow> None) of
                  (Some a, Some e, Some q, Some i, Some ss) \<Rightarrow>
                    Some \<lparr>aes_AppID = a, aes_Env = e, aes_AppSpecRef = [], aes_DomainRefs = [], aes_Services = ss,
                          aes_QuotaTier = q, aes_Isolation = i\<rparr>
                | _ \<Rightarrow> None)
           | _ \<Rightarrow> None)
      | _ \<Rightarrow> None)"

definition handed_over :: "AppEnvInput \<Rightarrow> AppEnvSpec" where
  "handed_over inp =
     \<lparr>aes_AppID = ai_AppID inp, aes_Env = ai_Env inp, aes_AppSpecRef = [], aes_DomainRefs = [],
      aes_Services = map (\<lambda>s. \<lparr>ss_Name = pv_Name s, ss_Image = pv_Image s, ss_Port = max 0 (pv_Port s)\<rparr>) (ai_Services inp),
      aes_QuotaTier = ai_QuotaTier inp, aes_Isolation = ai_Isolation inp\<rparr>"

lemma decode_all_map:
  assumes "\<And>s. s \<in> set svcs \<Longrightarrow> decode_service (f s) = Some (g s)"
  shows "decode_all (map f svcs) = Some (map g svcs)"
  using assms by (induction svcs) auto

lemma json_map_of_simps: "str_field ((k, JStr v) # kvs) k = Some v" "int32_field [] k = Some 0"
  by (simp_all add: str_field_def int32_field_def)

text \<open>The decoder on what the renderer wrote.\<close>

lemma decoded_app_env:
  assumes "\<forall>s \<in> set (ai_Services inp). pv_Port s < 2 ^ 31"
  shows "decode_app_env (build_app_env inp) = Some (handed_over inp)"
proof -
  have svc: "decode_service (JObj ([(''name'', JStr (pv_Name s)), (''image'', JStr (pv_Image s))] @
        (if 0 < pv_Port s then [(''port'', JInt (pv_Port s))] else []))) =
      Some \<lparr>ss_Name = pv_Name s, ss_Image = pv_Image s, ss_Port = max 0 (pv_Port s)\<rparr>" if "s \<in> set (ai_Services inp)" for s
    using assms that by (auto simp: str_field_def int32_field_def)
  note all = decode_all_map [of "ai_Services inp", OF svc, simplified append_Cons append_Nil]
  show ?thesis
    by (simp add: decode_app_env_def build_app_env_def services_to_raw_def Let_def str_field_def handed_over_def all)
qed

text \<open>
  C28: the AppEnv manifest the control plane renders decodes, by the controller's struct tags, to the same
  application, environment, tier, isolation and services in the same order; an absent port reads as zero, which is
  what a port that is not positive was.
\<close>

theorem app_env_handover_roundtrip:
  assumes "\<forall>s \<in> set (ai_Services inp). pv_Port s < 2 ^ 31"
  shows "decode_app_env (build_app_env inp) = Some (handed_over inp)"
  using assms by (rule decoded_app_env)

theorem app_env_handover_roundtrip_witness:
  "decode_app_env (build_app_env \<lparr>ai_AppID = ''a1'', ai_Env = ''prod'', ai_Name = ''shop'', ai_QuotaTier = ''pro'', ai_Isolation = ''shared'',
      ai_Services = [\<lparr>pv_Name = ''web'', pv_Image = ''i'', pv_Port = 80\<rparr>, \<lparr>pv_Name = ''job'', pv_Image = ''j'', pv_Port = 0\<rparr>]\<rparr>) =
   Some \<lparr>aes_AppID = ''a1'', aes_Env = ''prod'', aes_AppSpecRef = [], aes_DomainRefs = [],
      aes_Services = [\<lparr>ss_Name = ''web'', ss_Image = ''i'', ss_Port = 80\<rparr>, \<lparr>ss_Name = ''job'', ss_Image = ''j'', ss_Port = 0\<rparr>],
      aes_QuotaTier = ''pro'', aes_Isolation = ''shared''\<rparr>"
  using app_env_handover_roundtrip [of "\<lparr>ai_AppID = ''a1'', ai_Env = ''prod'', ai_Name = ''shop'', ai_QuotaTier = ''pro'', ai_Isolation = ''shared'',
      ai_Services = [\<lparr>pv_Name = ''web'', pv_Image = ''i'', pv_Port = 80\<rparr>, \<lparr>pv_Name = ''job'', pv_Image = ''j'', pv_Port = 0\<rparr>]\<rparr>"]
  by (simp add: handed_over_def)

section \<open>Quotas and hostnames\<close>

lemma add_shares_eq: "add_shares n (cpu, mem) = (cpu + int n * 250, mem + int n * mebi 512)"
  by (induction n arbitrary: cpu mem) (auto simp: algebra_simps)

text \<open>The quota grows linearly with the service count while pods stay capped at three; one container's limit is
  within the share of one service.\<close>

lemma free_quota_linear:
  "rq_LimitsCPU (free_resource_quota ns n) = 250 * max 1 n"
  "rq_LimitsMemory (free_resource_quota ns n) = mebi 512 * max 1 n"
  "rq_Pods (free_resource_quota ns n) = 3"
  "fst (lr_Max (default_limit_range ns)) \<le> freeCPUPerService" "snd (lr_Max (default_limit_range ns)) \<le> freeMemPerService"
  by (auto simp: free_resource_quota_def add_shares_eq Let_def default_limit_range_def mebi_def max_def algebra_simps)

lemma set_field_lookup: "map_of (set_field k v kvs) k' = (if k' = k then Some v else map_of kvs k')"
  by (induction kvs) auto

text \<open>A verified hostname is added once; an unverified one never.\<close>

lemma append_hostname_twice:
  assumes "append_verified_hostname r host v = Inr r'"
  shows "v \<and> append_verified_hostname r' host v = Inr r'"
  using assms
  by (auto simp: append_verified_hostname_def set_field_lookup split: if_splits json.splits option.splits)

end
