(* ===== verification/Build_Controller.thy ===== *)
theory Build_Controller
  imports Tenant_Manifests
begin

text \<open>
  The Build controller: \<^verbatim>\<open>controllers/internal/build\<close>. The builder pod and its clone stage
  (\<^verbatim>\<open>pod_template.go\<close>, \<^verbatim>\<open>git_clone.go\<close>), image references and supply-chain gates (\<^verbatim>\<open>image.go\<close>,
  \<^verbatim>\<open>sbom.go\<close>, \<^verbatim>\<open>trivy.go\<close>, \<^verbatim>\<open>cosign.go\<close>), and the reconcile pass with the digest backfill into the
  AppEnvs of the same application (\<^verbatim>\<open>reconciler.go\<close>).
\<close>

section \<open>The builder pod\<close>

abbreviation (input) workspaceVolume :: string where "workspaceVolume \<equiv> ''workspace''"
abbreviation (input) workspaceSrcPath :: string where "workspaceSrcPath \<equiv> ''/workspace/src''"
abbreviation (input) tokenMountPath :: string where "tokenMountPath \<equiv> ''/var/run/tenara-git''"

definition builder_pod :: "string \<Rightarrow> string \<Rightarrow> labels \<Rightarrow> Pod" where
  "builder_pod name namespace lbls =
     \<lparr>pd_Meta = named name namespace lbls,
      pd_Spec = podspec0
        \<lparr>pod_RestartPolicy := ''Never'',
         pod_AutomountToken := Some False,
         pod_NodeSelector := [(''tenara.io/role'', ''build'')],
         pod_Tolerations := [\<lparr>to_Key = ''tenara.io/role'', to_Operator = ''Equal'', to_Value = ''build'', to_Effect = ''NoSchedule''\<rparr>],
         pod_Security := Some \<lparr>px_RunAsUser = 1000, px_RunAsGroup = 1000, px_Seccomp = ''Unconfined''\<rparr>,
         pod_ActiveDeadline := Some 600,
         pod_Containers := [(container0 ''buildkitd'' ''moby/buildkit:master-rootless'')
           \<lparr>ct_PullPolicy := ''IfNotPresent'',
            ct_Args := [''--oci-worker-no-process-sandbox''],
            ct_VolumeMounts := [\<lparr>vm_Name = ''buildkit-state'', vm_MountPath = ''/home/user/.local/share/buildkit'', vm_ReadOnly = False\<rparr>],
            ct_Limits := [(''cpu'', ''2''), (''memory'', ''4Gi''), (''ephemeral-storage'', ''8Gi'')]\<rparr>]\<rparr>\<rparr>"

definition ephemeral_token_secret_name :: "string \<Rightarrow> string" where
  "ephemeral_token_secret_name buildName = buildName @ ''-git-token''"

definition ephemeral_token_secret :: "Build \<Rightarrow> string \<Rightarrow> Secret" where
  "ephemeral_token_secret b token =
     \<lparr>sec_Meta = (named (ephemeral_token_secret_name (om_Name (bd_Meta b))) (om_Namespace (bd_Meta b))
          [(''tenara.io/build'', om_Name (bd_Meta b)), (''tenara.io/ephemeral'', ''true'')])
          \<lparr>om_OwnerReferences := [\<lparr>or_APIVersion = ''tenara.io/v1'', or_Kind = ''Build'', or_Name = om_Name (bd_Meta b),
              or_UID = om_UID (bd_Meta b), or_Controller = True, or_BlockOwnerDeletion = True\<rparr>]\<rparr>,
      sec_Type = ''Opaque'', sec_Data = [(''token'', token)]\<rparr>"

text \<open>A double quote and a backslash, which HOL string literals cannot hold.\<close>

abbreviation (input) dq :: string where "dq \<equiv> [CHR 0x22]"
abbreviation (input) bsl :: string where "bsl \<equiv> [CHR 0x5C]"
abbreviation (input) sq :: string where "sq \<equiv> [CHR 0x27]"

definition credential_helper_snippet :: string where
  "credential_helper_snippet =
     ''!f() { printf '' @ dq @ ''username=x-access-token'' @ bsl @ ''npassword=%s'' @ bsl @ ''n'' @ dq @ '' '' @ dq @ ''$(cat '' @
     tokenMountPath @ ''/token'' @ '')'' @ dq @ ''; }; f''"

definition clone_script :: string where
  "clone_script =
     ''set -ec; mkdir -p '' @ workspaceSrcPath @ ''; '' @
     ''git init -q '' @ workspaceSrcPath @ ''; '' @
     ''git -C '' @ workspaceSrcPath @ '' remote add origin '' @ dq @ ''$GIT_URL'' @ dq @ ''; '' @
     ''git -C '' @ workspaceSrcPath @ '' -c credential.helper='' @ sq @ credential_helper_snippet @ sq @
     '' fetch --depth 1 origin '' @ dq @ ''$GIT_SHA'' @ dq @ ''; '' @
     ''git -C '' @ workspaceSrcPath @ '' checkout -q --detach FETCH_HEAD''"

definition clone_init_container :: "Build \<Rightarrow> Container" where
  "clone_init_container b =
     (container0 ''git-clone'' ''alpine/git:v2.49.1'')
       \<lparr>ct_PullPolicy := ''IfNotPresent'',
        ct_Command := [''sh'', ''-ec'', clone_script],
        ct_Env := [(''GIT_URL'', git_URL (bs_Git (bd_Spec b))), (''GIT_SHA'', git_SHA (bs_Git (bd_Spec b)))],
        ct_VolumeMounts :=
          [\<lparr>vm_Name = ephemeral_token_secret_name (om_Name (bd_Meta b)), vm_MountPath = tokenMountPath, vm_ReadOnly = True\<rparr>,
           \<lparr>vm_Name = workspaceVolume, vm_MountPath = ''/workspace'', vm_ReadOnly = False\<rparr>]\<rparr>"

text \<open>The secret is mounted with mode 0400.\<close>

definition append_clone_stage :: "Pod \<Rightarrow> Build \<Rightarrow> Pod" where
  "append_clone_stage pod b =
     (let tokenVolName = ephemeral_token_secret_name (om_Name (bd_Meta b)); spec = pd_Spec pod in
      pod\<lparr>pd_Spec := spec
        \<lparr>pod_Volumes := pod_Volumes spec @
           [\<lparr>vo_Name = tokenVolName, vo_Source = SecretVolume tokenVolName 256\<rparr>,
            \<lparr>vo_Name = workspaceVolume, vo_Source = EmptyDirVolume\<rparr>],
         pod_InitContainers := pod_InitContainers spec @ [clone_init_container b],
         pod_Containers := map (\<lambda>ct. if ct_Name ct = ''buildkitd''
             then ct\<lparr>ct_VolumeMounts := ct_VolumeMounts ct @ [\<lparr>vm_Name = workspaceVolume, vm_MountPath = ''/workspace'', vm_ReadOnly = False\<rparr>]\<rparr>
             else ct) (pod_Containers spec)\<rparr>\<rparr>)"

section \<open>Image references\<close>

definition sha_short :: "string \<Rightarrow> string" where
  "sha_short sha = (if length sha < 7 then [] else take 7 sha)"

definition image_tag :: "string \<Rightarrow> string \<Rightarrow> string" where
  "image_tag appID sha =
     (let short = sha_short sha in
      if appID = [] \<or> short = [] then []
      else ''registry.tenara.local:5000'' @ ''/'' @ ''tenara/apps'' @ ''/'' @ appID @ '':'' @ short)"

definition buildctl_args :: "string \<Rightarrow> string list" where
  "buildctl_args tag =
     [''--addr'', ''unix:///run/buildkit/buildkitd.sock'', ''build'', ''--frontend'', ''dockerfile.v0'',
      ''--local'', ''context='' @ workspaceSrcPath, ''--local'', ''dockerfile='' @ workspaceSrcPath,
      ''--output'', ''type=image,name='' @ tag @ '',push=true'']"

definition digest_from_registry_header :: "labels \<Rightarrow> string" where
  "digest_from_registry_header h =
     (let d = trim_space (lookup_or_empty h ''Docker-Content-Digest'') in
      if \<not> has_prefix d ''sha256:'' then [] else d)"

definition scan_ref :: "string \<Rightarrow> string \<Rightarrow> string" where
  "scan_ref tag digest = (if tag = [] \<or> digest = [] then [] else tag @ ''@'' @ digest)"

section \<open>Supply-chain gates\<close>

definition mark_failed :: "string \<Rightarrow> string \<Rightarrow> Build \<Rightarrow> Build" where
  "mark_failed reason message b =
     b\<lparr>bd_Status := (bd_Status b)\<lparr>bst_Phase := PhaseFailed, bst_Reason := reason, bst_Message := message\<rparr>\<rparr>"

definition sbom_object_key :: "string \<Rightarrow> string" where
  "sbom_object_key buildID = ''artifacts/'' @ buildID @ ''/'' @ ''sbom.json''"

definition syft_scan_args :: "string \<Rightarrow> string list" where
  "syft_scan_args scanRef = [''scan'', scanRef, ''-o'', ''spdx-json=/out/sbom.json'']"

definition set_sbom_ref :: "string \<Rightarrow> Build \<Rightarrow> Build" where
  "set_sbom_ref ref b = b\<lparr>bd_Status := (bd_Status b)\<lparr>bst_SBOMRef := ref\<rparr>\<rparr>"

datatype gate_error =
    SbomMissing
  | ScanFailed
  | EmptyReference
  | NotPinned string
  | CannotFinalize string "string list"

definition require_sbom_ref :: "Build \<Rightarrow> gate_error option \<times> Build" where
  "require_sbom_ref b =
     (if bst_SBOMRef (bd_Status b) = []
      then (Some SbomMissing, mark_failed ''sbom-missing'' ''no SBOM artifact recorded; success forbidden'' b)
      else (None, b))"

definition scan_report_object_key :: "string \<Rightarrow> string" where
  "scan_report_object_key buildID = ''artifacts/'' @ buildID @ ''/'' @ ''report.json''"

definition trivy_scan_args :: "string \<Rightarrow> string list" where
  "trivy_scan_args scanRef =
     [''image'', ''--severity'', ''CRITICAL'', ''--exit-code'', ''1'', ''--output'', ''/out/report.json'', scanRef]"

definition evaluate_scan_gate :: "int \<Rightarrow> Build \<Rightarrow> gate_error option \<times> Build" where
  "evaluate_scan_gate criticalCount b =
     (if 0 < criticalCount
      then (Some ScanFailed,
            mark_failed ''scan-failed'' (itoa criticalCount @ '' CRITICAL vulnerabilities; sign/push blocked'') b)
      else (None, b))"

definition require_digest_ref :: "string \<Rightarrow> gate_error option" where
  "require_digest_ref ref =
     (if ref = [] then Some EmptyReference
      else if \<not> contains ref ''@sha256:'' then Some (NotPinned ref)
      else None)"

definition sign_args :: "string \<Rightarrow> string \<Rightarrow> gate_error + string list" where
  "sign_args keyRef digestRef =
     (case require_digest_ref digestRef of
        Some e \<Rightarrow> Inl e
      | None \<Rightarrow> Inr [''sign'', ''--key'', keyRef, ''--tlog-upload=false'', digestRef])"

definition verify_args :: "string \<Rightarrow> string \<Rightarrow> gate_error + string list" where
  "verify_args keyRef digestRef =
     (case require_digest_ref digestRef of
        Some e \<Rightarrow> Inl e
      | None \<Rightarrow> Inr [''verify'', ''--key'', keyRef, ''--allow-insecure-registry'', digestRef])"

definition set_signature_ref :: "string \<Rightarrow> Build \<Rightarrow> Build" where
  "set_signature_ref ref b = b\<lparr>bd_Status := (bd_Status b)\<lparr>bst_SignatureRef := ref\<rparr>\<rparr>"

definition finalize_build :: "Build \<Rightarrow> gate_error option \<times> Build" where
  "finalize_build b =
     (let st = bd_Status b;
          missing = (if bst_ImageDigest st = [] then [''digest''] else []) @
                    (if bst_SBOMRef st = [] then [''sbom''] else []) @
                    (if bst_ScanReportRef st = [] then [''scan''] else []) @
                    (if bst_SignatureRef st = [] then [''signature''] else [])
      in if missing \<noteq> [] then (Some (CannotFinalize (om_Name (bd_Meta b)) missing), b)
         else (None, b\<lparr>bd_Status := st\<lparr>bst_Phase := PhasePushed\<rparr>\<rparr>))"

section \<open>The reconcile pass\<close>

abbreviation (input) build_key :: "string \<times> string \<Rightarrow> obj_key" where "build_key req \<equiv> (''Build'', fst req, snd req)"

datatype build_error = BuildKube kube_error

text \<open>A missing secret is tolerated, a failed deletion only logged.\<close>

definition delete_ephemeral_token_secret :: "('s, kobj) client \<Rightarrow> string \<Rightarrow> string \<Rightarrow> 's \<Rightarrow> 's" where
  "delete_ephemeral_token_secret c namespace buildName s =
     (let k = (''Secret'', namespace, ephemeral_token_secret_name buildName) in
      case cl_get c k s of
        (Inl _, s1) \<Rightarrow> s1
      | (Inr _, s1) \<Rightarrow> snd (cl_delete c k s1))"

text \<open>The services of one AppEnv with the digest written into every image, and whether one differed.\<close>

definition backfill_env :: "string \<Rightarrow> AppEnv \<Rightarrow> AppEnv \<times> bool" where
  "backfill_env digest ae =
     (ae\<lparr>ae_Spec := (ae_Spec ae)\<lparr>aes_Services := map (\<lambda>svc. if ss_Image svc \<noteq> digest then svc\<lparr>ss_Image := digest\<rparr> else svc)
                                          (aes_Services (ae_Spec ae))\<rparr>\<rparr>,
      list_ex (\<lambda>svc. ss_Image svc \<noteq> digest) (aes_Services (ae_Spec ae)))"

fun backfill_all :: "('s, kobj) client \<Rightarrow> string \<Rightarrow> (obj_key \<times> kobj) list \<Rightarrow> 's \<Rightarrow> (build_error + unit) \<times> 's" where
  "backfill_all c digest [] s = (Inr (), s)"
| "backfill_all c digest ((k, ob) # items) s =
     (case as_appenv ob of
        None \<Rightarrow> (Inl (BuildKube (KError ''decode'')), s)
      | Some ae \<Rightarrow>
          (case backfill_env digest ae of
             (ae', changed) \<Rightarrow>
               if \<not> changed then backfill_all c digest items s
               else (case cl_update c k (AppEnvObj ae') s of
                 (Inl e, s1) \<Rightarrow> (Inl (BuildKube e), s1)
               | (Inr _, s1) \<Rightarrow> backfill_all c digest items s1)))"

definition maybe_backfill_digest :: "('s, kobj) client \<Rightarrow> Build \<Rightarrow> 's \<Rightarrow> (build_error + unit) \<times> 's" where
  "maybe_backfill_digest c b s =
     (let appID = label (bd_Meta b) ''tenara.io/app-id'' in
      if bst_Phase (bd_Status b) \<noteq> PhasePushed \<or> bst_ImageDigest (bd_Status b) = [] \<or> appID = [] then (Inr (), s)
      else case cl_list c ''AppEnv'' (om_Namespace (bd_Meta b)) [(''tenara.io/app-id'', appID)] s of
        (Inl e, s1) \<Rightarrow> (Inl (BuildKube e), s1)
      | (Inr items, s1) \<Rightarrow> backfill_all c (bst_ImageDigest (bd_Status b)) items s1)"

text \<open>The result is the delay after which the pass is repeated, 0 for none.\<close>

definition reconcile_phase ::
  "('s, kobj) client \<Rightarrow> string \<times> string \<Rightarrow> Build \<Rightarrow> 's \<Rightarrow> (build_error + duration) \<times> 's" where
  "reconcile_phase c req b s =
     (let phase = bst_Phase (bd_Status b);
          drop_token = (\<lambda>s. delete_ephemeral_token_secret c (om_Namespace (bd_Meta b)) (om_Name (bd_Meta b)) s) in
      if phase = [] then
        (case cl_status c (build_key req) (BuildObj (b\<lparr>bd_Status := (bd_Status b)\<lparr>bst_Phase := PhaseCreated\<rparr>\<rparr>)) s of
           (Inl e, s1) \<Rightarrow> (Inl (BuildKube e), s1)
         | (Inr _, s1) \<Rightarrow> (Inr (5 * second), s1))
      else if phase \<in> {PhaseCreated, PhaseCloning, PhaseBuilding, PhaseScanning, PhaseSigning} then
        (Inr (30 * 1000000000),
         if phase \<noteq> PhaseCreated \<and> phase \<noteq> PhaseCloning then drop_token s else s)
      else if phase \<in> {PhasePushed, PhaseFailed} then (Inr 0, drop_token s)
      else (Inr 0, s))"

definition reconcile_build :: "('s, kobj) client \<Rightarrow> string \<times> string \<Rightarrow> 's \<Rightarrow> (build_error + duration) \<times> 's" where
  "reconcile_build c req s =
     (case typed_get as_build c (build_key req) s of
        (Inl KNotFound, s1) \<Rightarrow> (Inr 0, s1)
      | (Inl e, s1) \<Rightarrow> (Inl (BuildKube e), s1)
      | (Inr b, s1) \<Rightarrow>
          (case maybe_backfill_digest c b s1 of
             (Inl e, s2) \<Rightarrow> (Inl e, s2)
           | (Inr _, s2) \<Rightarrow> reconcile_phase c req b s2))"

section \<open>Supply chain\<close>

definition artifacts_complete :: "Build \<Rightarrow> bool" where
  "artifacts_complete b =
     (bst_ImageDigest (bd_Status b) \<noteq> [] \<and> bst_SBOMRef (bd_Status b) \<noteq> [] \<and>
      bst_ScanReportRef (bd_Status b) \<noteq> [] \<and> bst_SignatureRef (bd_Status b) \<noteq> [])"

lemma digest_pinned_ref:
  assumes "digest_from_registry_header h \<noteq> []" and "tag \<noteq> []"
  shows "contains (scan_ref tag (digest_from_registry_header h)) ''@sha256:''"
proof -
  obtain rest where "digest_from_registry_header h = ''sha256:'' @ rest"
    using assms(1) by (auto simp: digest_from_registry_header_def Let_def has_prefix_iff split: if_splits)
  then have "scan_ref tag (digest_from_registry_header h) = tag @ ''@sha256:'' @ rest"
    using assms(2) by (simp add: scan_ref_def)
  then show ?thesis by (auto simp: contains_iff)
qed


text \<open>Finalising does not look at the phase: a build the scan gate failed is pushed once its references are there.\<close>

lemma failed_build_finalized:
  assumes "artifacts_complete b"
  shows "bst_Phase (bd_Status (snd (finalize_build (snd (evaluate_scan_gate 3 b))))) = PhasePushed"
  using assms by (simp add: finalize_build_def evaluate_scan_gate_def mark_failed_def artifacts_complete_def Let_def)

text \<open>The builder container mounts a volume that neither the template nor the clone stage declares.\<close>

lemma builder_volume_undeclared:
  "''buildkit-state'' \<in> (vm_Name ` set (concat (map ct_VolumeMounts (pod_Containers (pd_Spec (append_clone_stage (builder_pod n ns ls) b)))))) -
     vo_Name ` set (pod_Volumes (pd_Spec (append_clone_stage (builder_pod n ns ls) b)))"
proof -
  have "ephemeral_token_secret_name x \<noteq> ''buildkit-state''" for x
  proof
    assume "ephemeral_token_secret_name x = ''buildkit-state''"
    then have "last (ephemeral_token_secret_name x) = CHR ''e''" by simp
    then show False by (simp add: ephemeral_token_secret_name_def)
  qed
  then show ?thesis
    by (auto simp: append_clone_stage_def builder_pod_def container0_def podspec0_def Let_def)
       (metis ephemeral_token_secret_name_def)+
qed

section \<open>The digest backfill\<close>

lemma backfill_all_view:
  assumes "client_laws c view merge_status lo" and "backfill_all c digest items s = (Inr (), s')"
    and "distinct (map fst items)" and "\<forall>e \<in> set items. view s (fst e) = Some (snd e)"
  shows "(\<forall>e \<in> set items. \<exists>ae. snd e = AppEnvObj ae \<and> view s' (fst e) = Some (AppEnvObj (fst (backfill_env digest ae)))) \<and>
    (\<forall>k. k \<notin> fst ` set items \<longrightarrow> view s' k = view s k)"
  using assms(2-4)
proof (induction items arbitrary: s)
  case Nil
  then show ?case by simp
next
  case (Cons it items)
  obtain k ob where it: "it = (k, ob)" by (cases it)
  obtain ae where ob: "ob = AppEnvObj ae" using Cons.prems(1) it by (cases ob) auto
  obtain ae' changed where bf: "backfill_env digest ae = (ae', changed)" by (cases "backfill_env digest ae")
  have fresh: "k \<notin> fst ` set items" using Cons.prems(2) it by auto
  obtain s1 where v1: "view s1 = (view s)(k \<mapsto> AppEnvObj ae')" and rest: "backfill_all c digest items s1 = (Inr (), s')"
  proof (cases changed)
    case True
    obtain r s1 where u: "cl_update c k (AppEnvObj ae') s = (r, s1)" by (cases "cl_update c k (AppEnvObj ae') s")
    then have "r = Inr ()" "backfill_all c digest items s1 = (Inr (), s')"
      using Cons.prems(1) it ob bf True by (auto split: sum.splits)
    then show thesis using update_view(2) [OF assms(1) u] by (auto intro: that)
  next
    case False
    then have "map (\<lambda>svc. if ss_Image svc \<noteq> digest then svc\<lparr>ss_Image := digest\<rparr> else svc) (aes_Services (ae_Spec ae)) = aes_Services (ae_Spec ae)"
      using bf by (auto simp: backfill_env_def list_ex_iff intro: map_idI)
    then have "ae' = ae" using bf by (auto simp: backfill_env_def)
    moreover have "view s k = Some (AppEnvObj ae)" using Cons.prems(3) it ob by simp
    ultimately have "view s = (view s)(k \<mapsto> AppEnvObj ae')" by (simp add: fun_upd_idem)
    moreover have "backfill_all c digest items s = (Inr (), s')" using Cons.prems(1) it ob bf False by simp
    ultimately show thesis by (rule that)
  qed
  have here: "\<forall>e \<in> set items. view s1 (fst e) = Some (snd e)"
  proof
    fix e assume e: "e \<in> set items"
    then have "fst e \<noteq> k" using fresh by force
    then show "view s1 (fst e) = Some (snd e)" using e Cons.prems(3) v1 by simp
  qed
  have "distinct (map fst items)" using Cons.prems(2) it by simp
  note ih = Cons.IH [OF rest this here]
  have ih1: "\<forall>e \<in> set items. \<exists>ae. snd e = AppEnvObj ae \<and> view s' (fst e) = Some (AppEnvObj (fst (backfill_env digest ae)))"
    and ih2: "\<forall>k. k \<notin> fst ` set items \<longrightarrow> view s' k = view s1 k" using ih by blast+
  have k: "view s' k = Some (AppEnvObj ae')" using ih2 [THEN spec, THEN mp, OF fresh] v1 by simp
  have "view s' j = view s j" if "j \<notin> fst ` set (it # items)" for j
    using ih2 [THEN spec, THEN mp, of j] that v1 it by simp
  moreover have "\<exists>ae. snd e = AppEnvObj ae \<and> view s' (fst e) = Some (AppEnvObj (fst (backfill_env digest ae)))"
    if e: "e \<in> set (it # items)" for e
  proof (cases "e = it")
    case True
    then show ?thesis using it ob bf k by simp
  next
    case False
    then show ?thesis using e ih1 by simp
  qed
  ultimately show ?case by blast
qed

text \<open>An AppEnv with an image that is not pinned by repository and digest cannot be rendered.\<close>

lemma unpinned_not_reconciled:
  assumes laws: "client_laws c view merge_status obj_labels" and here: "view s (ae_key req) = Some (AppEnvObj ae)"
    and svc: "svc \<in> set (aes_Services (ae_Spec ae))" and bad: "require_digest_image (ss_Image svc) \<noteq> None"
    and valid: "validate_isolation (aes_Isolation (ae_Spec ae)) = None"
    and run: "reconcile_appenv msg c req s = (r, s')"
  shows "r \<noteq> Inr ()"
proof (rule reconcile_split [where view = view, OF laws run here])
  fix s1 s2 ae'
  assume a: "view s1 = view s" "ensure_namespace c req ae s1 = (Inr ae', s2)" "render_services c ae' s2 = (r, s')"
  have here1: "view s1 (ae_key req) = Some (AppEnvObj ae)" using here a(1) by simp
  have n: "ae_Spec ae' = ae_Spec ae" "aest_Namespace (ae_Status ae') = tenant_ns ae'"
    using ensure_namespace_done [where view = view, OF laws a(2) here1 refl] by simp_all
  have "\<not> is_ok (render_deployment (aes_AppID (ae_Spec ae')) (aes_Env (ae_Spec ae')) (tenant_ns ae') (service_input ae' svc))"
    using bad by (auto simp: is_ok_iff render_deployment_Inr service_input_def)
  then have "\<not> is_ok (render_deployments (aes_AppID (ae_Spec ae')) (aes_Env (ae_Spec ae')) (tenant_ns ae')
      (map (service_input ae') (aes_Services (ae_Spec ae'))))"
    using svc n(1) by (auto simp: render_deployments_def collect_ok_iff)
  then show ?thesis using a(3) svc n(1) unfolding render_services_eq [OF n(2)] by (auto split: sum.splits if_splits)
next
  assume "validate_isolation (aes_Isolation (ae_Spec ae)) \<noteq> None"
  then show ?thesis using valid by simp
qed simp_all

text \<open>
  C30: once a labelled build is PUSHED with the digest read from the registry, a successful pass writes that
  bare digest as the image of every service of every AppEnv of the application; the AppEnv controller refuses such
  an image, so from then on no pass over those AppEnvs succeeds.
\<close>

theorem backfill_blocks_rollout:
  assumes laws: "client_laws c view merge_status obj_labels"
    and digest: "bst_ImageDigest (bd_Status b) = digest_from_registry_header h" "CHR 0x40 \<notin> set (digest_from_registry_header h)"
      "digest_from_registry_header h \<noteq> []"
    and pushed: "bst_Phase (bd_Status b) = PhasePushed" "label (bd_Meta b) ''tenara.io/app-id'' \<noteq> []"
    and here: "view s (''AppEnv'', om_Namespace (bd_Meta b), name) = Some (AppEnvObj ae)"
      "map_of (om_Labels (ae_Meta ae)) ''tenara.io/app-id'' = Some (label (bd_Meta b) ''tenara.io/app-id'')"
      "aes_Services (ae_Spec ae) \<noteq> []" "validate_isolation (aes_Isolation (ae_Spec ae)) = None"
    and run: "maybe_backfill_digest c b s = (Inr (), s')"
    and again: "reconcile_appenv msg c (om_Namespace (bd_Meta b), name) s' = (r, s'')"
  shows "r \<noteq> Inr ()"
proof -
  define d where "d = digest_from_registry_header h"
  let ?k = "(''AppEnv'', om_Namespace (bd_Meta b), name)"
  obtain r1 s1 where lst: "cl_list c ''AppEnv'' (om_Namespace (bd_Meta b)) [(''tenara.io/app-id'', label (bd_Meta b) ''tenara.io/app-id'')] s = (r1, s1)"
    by (cases "cl_list c ''AppEnv'' (om_Namespace (bd_Meta b)) [(''tenara.io/app-id'', label (bd_Meta b) ''tenara.io/app-id'')] s")
  obtain items where items: "r1 = Inr items" and bf: "backfill_all c d items s1 = (Inr (), s')"
    using run digest pushed lst by (auto simp: maybe_backfill_digest_def Let_def d_def split: sum.splits)
  note l = list_view [OF laws lst] and l2 = list_view(2) [OF laws lst items, THEN conjunct2, THEN spec, THEN spec]
  have dist: "distinct (map fst items)" using list_view(2) [OF laws lst items] by simp
  have mem: "(?k, AppEnvObj ae) \<in> set items"
    using l2 [of ?k "AppEnvObj ae"] here(1,2) by simp
  have "view s1 (fst e) = Some (snd e)" if "e \<in> set items" for e
    using l2 [of "fst e" "snd e"] that l(1) by simp
  then have "view s' ?k = Some (AppEnvObj (fst (backfill_env d ae)))"
    using backfill_all_view [OF laws bf dist, THEN conjunct1] mem by force
  moreover define ae' where "ae' = fst (backfill_env d ae)"
  ultimately have here': "view s' (ae_key (om_Namespace (bd_Meta b), name)) = Some (AppEnvObj ae')" by simp
  obtain svc where "svc \<in> set (aes_Services (ae_Spec ae))" using here(3) by (cases "aes_Services (ae_Spec ae)") auto
  then have svc: "(if ss_Image svc \<noteq> d then svc\<lparr>ss_Image := d\<rparr> else svc) \<in> set (aes_Services (ae_Spec ae'))"
    by (auto simp: ae'_def backfill_env_def)
  have "\<not> contains d ''@sha256:''" using digest(2) by (auto simp: contains_iff d_def)
  then have bad: "require_digest_image (ss_Image (if ss_Image svc \<noteq> d then svc\<lparr>ss_Image := d\<rparr> else svc)) \<noteq> None"
    by (simp add: require_digest_image_def)
  have valid: "validate_isolation (aes_Isolation (ae_Spec ae')) = None"
    using here(4) by (simp add: ae'_def backfill_env_def)
  show ?thesis by (rule unpinned_not_reconciled [OF laws here' svc bad valid again])
qed

definition sample_build :: Build where
  "sample_build =
     \<lparr>bd_Meta = named ''shop-b1'' ''tenara'' [(''tenara.io/app-id'', ''a1'')],
      bd_Spec = \<lparr>bs_AppID = ''a1'', bs_Env = ''prod'', bs_Git = \<lparr>git_URL = ''u'', git_SHA = ''s'', git_TokenRef = []\<rparr>,
                 bs_AppSpecRef = [], bs_Dockerfile = []\<rparr>,
      bd_Status = \<lparr>bst_Phase = PhasePushed, bst_ImageDigest = ''sha256:ab'', bst_SBOMRef = ''x'', bst_ScanReportRef = ''y'',
                   bst_SignatureRef = ''z'', bst_Reason = [], bst_Message = []\<rparr>\<rparr>"

definition sample_build_cluster :: cluster where
  "sample_build_cluster = [((''AppEnv'', ''tenara'', ''shop''),
     AppEnvObj (sample_env\<lparr>ae_Meta := named ''shop'' ''tenara'' [(''tenara.io/app-id'', ''a1'')]\<rparr>))]"

lemma sample_backfill_ok: "fst (maybe_backfill_digest cluster_client sample_build sample_build_cluster) = Inr ()"
  by code_simp

lemma sample_digest: "digest_from_registry_header [(''Docker-Content-Digest'', ''sha256:ab'')] = ''sha256:ab''"
  by code_simp

theorem backfill_blocks_rollout_witness:
  "fst (reconcile_appenv (\<lambda>e. []) cluster_client (''tenara'', ''shop'')
     (snd (maybe_backfill_digest cluster_client sample_build sample_build_cluster))) \<noteq> Inr ()"
proof -
  obtain s' where p: "maybe_backfill_digest cluster_client sample_build sample_build_cluster = (Inr (), s')"
    using sample_backfill_ok by (cases "maybe_backfill_digest cluster_client sample_build sample_build_cluster") auto
  obtain r s'' where q: "reconcile_appenv (\<lambda>e. []) cluster_client (om_Namespace (bd_Meta sample_build), ''shop'') s' = (r, s'')"
    by (cases "reconcile_appenv (\<lambda>e. []) cluster_client (om_Namespace (bd_Meta sample_build), ''shop'') s'")
  have ns: "om_Namespace (bd_Meta sample_build) = ''tenara''" by (simp add: sample_build_def named_def)
  have "r \<noteq> Inr ()"
  proof (rule backfill_blocks_rollout [where view = map_of and h = "[(''Docker-Content-Digest'', ''sha256:ab'')]"
        and ae = "sample_env\<lparr>ae_Meta := named ''shop'' ''tenara'' [(''tenara.io/app-id'', ''a1'')]\<rparr>", OF store_client_laws _ _ _ _ _ _ _ _ _ p q])
  qed (simp_all add: sample_digest ns, simp_all add: sample_build_def sample_build_cluster_def sample_env_def named_def
        lookup_or_empty_def validate_isolation_def)
  then show ?thesis using p q ns by simp
qed

end
