(* ===== verification/Sealing.thy ===== *)
theory Sealing
  imports Appenv
begin

text \<open>
  Sealed secrets: the controller-side sealer and secret provider (\<^verbatim>\<open>providers/secret/local\<close>) and the
  control plane's key management stub (\<^verbatim>\<open>control-plane/internal/kms/kms.go\<close>). AES-256-GCM is a parameter
  with its documented contract: opening with a key and a nonce succeeds exactly on what sealing with them
  produced. Random bytes are an argument, \<open>None\<close> when the source fails.
\<close>

section \<open>Authenticated encryption\<close>

record aead =
  ad_seal :: "string \<Rightarrow> string \<Rightarrow> string \<Rightarrow> string"
  ad_open :: "string \<Rightarrow> string \<Rightarrow> string \<Rightarrow> string option"

definition aead_laws :: "aead \<Rightarrow> bool" where
  "aead_laws A =
     (\<forall>k n p c. length k = 32 \<and> length n = 12 \<longrightarrow> (ad_open A k n c = Some p \<longleftrightarrow> c = ad_seal A k n p))"

lemma aead_open_iff:
  "aead_laws A \<Longrightarrow> length k = 32 \<Longrightarrow> length n = 12 \<Longrightarrow> ad_open A k n c = Some p \<longleftrightarrow> c = ad_seal A k n p"
  by (simp add: aead_laws_def)

lemma aead_open_seal:
  "aead_laws A \<Longrightarrow> length k = 32 \<Longrightarrow> length n = 12 \<Longrightarrow> ad_open A k n (ad_seal A k n p) = Some p"
  by (simp add: aead_open_iff)

text \<open>The contract can be met: the key and the nonce as a tag.\<close>

definition tag_aead :: aead where
  "tag_aead = \<lparr>ad_seal = (\<lambda>k n p. k @ n @ p), ad_open = (\<lambda>k n c. cut_prefix c (k @ n))\<rparr>"

lemma tag_aead_laws: "aead_laws tag_aead"
  by (auto simp: aead_laws_def tag_aead_def cut_prefix_def has_prefix_iff split: if_splits)

section \<open>Hexadecimal\<close>

definition hex_val :: "char \<Rightarrow> nat option" where
  "hex_val c =
     (let b = (of_char c :: nat) in
      if 48 \<le> b \<and> b \<le> 57 then Some (b - 48)
      else if 97 \<le> b \<and> b \<le> 102 then Some (b - 87)
      else if 65 \<le> b \<and> b \<le> 70 then Some (b - 55)
      else None)"

fun hex_decode :: "string \<Rightarrow> string option" where
  "hex_decode [] = Some []"
| "hex_decode [c] = None"
| "hex_decode (a # b # s) =
     (case (hex_val a, hex_val b, hex_decode s) of
        (Some x, Some y, Some t) \<Rightarrow> Some (char_of (16 * x + y) # t)
      | _ \<Rightarrow> None)"

lemma hex_digit_val: "n < 16 \<Longrightarrow> hex_val (hex_digit n) = Some n"
proof -
  have "\<forall>n \<in> set [0..<16]. hex_val (hex_digit n) = Some n" by code_simp
  then show "n < 16 \<Longrightarrow> hex_val (hex_digit n) = Some n" by simp
qed

lemma hex_decode_encode: "hex_decode (hex_encode bs) = Some bs"
proof (induction bs)
  case Nil
  show ?case by (simp add: hex_encode_def)
next
  case (Cons c bs)
  have lt: "(of_char c :: nat) < 256" by (metis mod_less_divisor of_char_mod_256 zero_less_numeral)
  have split: "16 * (of_char c div 16) + of_char c mod 16 = (of_char c :: nat)" by simp
  have hi: "hex_val (hex_digit (of_char c div 16)) = Some (of_char c div 16)" using lt by (intro hex_digit_val less_mult_imp_div_less) simp
  have lo: "hex_val (hex_digit (of_char c mod 16)) = Some (of_char c mod 16)" by (intro hex_digit_val) simp
  have "hex_encode (c # bs) = hex_digit (of_char c div 16) # hex_digit (of_char c mod 16) # hex_encode bs"
    by (simp add: hex_encode_def)
  then show ?case using Cons.IH split by (simp add: hi lo)
qed

section \<open>The sealer\<close>

datatype seal_error =
    WrongKeySize int
  | NoCipher
  | NonceFailed
  | TooShort int
  | BadVersion char
  | ErrSealMismatch

definition sealVersionV1 :: char where "sealVersionV1 = CHR 0x01"
abbreviation (input) gcmNonceSize :: nat where "gcmNonceSize \<equiv> 12"
abbreviation (input) aes256KeySize :: nat where "aes256KeySize \<equiv> 32"

definition new_sealer :: "string \<Rightarrow> seal_error + string" where
  "new_sealer masterKey =
     (if length masterKey \<noteq> aes256KeySize then Inl (WrongKeySize (int (length masterKey))) else Inr masterKey)"

text \<open>\<^verbatim>\<open>aes.NewCipher\<close> accepts the three AES key sizes.\<close>

definition cipher_ok :: "string \<Rightarrow> bool" where
  "cipher_ok key = (length key \<in> {16, 24, 32})"

definition seal_encrypt :: "aead \<Rightarrow> string \<Rightarrow> string option \<Rightarrow> string \<Rightarrow> seal_error + string" where
  "seal_encrypt A key random plaintext =
     (if \<not> cipher_ok key then Inl NoCipher
      else case random of
        None \<Rightarrow> Inl NonceFailed
      | Some nonce \<Rightarrow> Inr ([sealVersionV1] @ nonce @ ad_seal A key nonce plaintext))"

definition seal_decrypt :: "aead \<Rightarrow> string \<Rightarrow> string \<Rightarrow> seal_error + string" where
  "seal_decrypt A key sealed =
     (let hdr = 1 + gcmNonceSize in
      if length sealed < hdr then Inl (TooShort (int (length sealed)))
      else if sealed ! 0 \<noteq> sealVersionV1 then Inl (BadVersion (sealed ! 0))
      else if \<not> cipher_ok key then Inl NoCipher
      else case ad_open A key (take gcmNonceSize (drop 1 sealed)) (drop hdr sealed) of
        None \<Rightarrow> Inl ErrSealMismatch
      | Some plain \<Rightarrow> Inr plain)"

section \<open>The key management stub\<close>

datatype kms_error = ErrBadMasterKey | KmsNonceFailed | KmsTooShort | KmsOpen

definition new_stub :: "string \<Rightarrow> kms_error + string" where
  "new_stub masterKeyHex =
     (case hex_decode masterKeyHex of
        None \<Rightarrow> Inl ErrBadMasterKey
      | Some raw \<Rightarrow> if length raw \<noteq> 32 then Inl ErrBadMasterKey else Inr raw)"

definition kms_encrypt :: "aead \<Rightarrow> string \<Rightarrow> string option \<Rightarrow> string \<Rightarrow> kms_error + string" where
  "kms_encrypt A key random plaintext =
     (case random of None \<Rightarrow> Inl KmsNonceFailed | Some nonce \<Rightarrow> Inr (nonce @ ad_seal A key nonce plaintext))"

definition kms_decrypt :: "aead \<Rightarrow> string \<Rightarrow> string \<Rightarrow> kms_error + string" where
  "kms_decrypt A key sealed =
     (if length sealed < gcmNonceSize then Inl KmsTooShort
      else case ad_open A key (take gcmNonceSize sealed) (drop gcmNonceSize sealed) of
        None \<Rightarrow> Inl KmsOpen
      | Some plain \<Rightarrow> Inr plain)"

text \<open>
  C34: with a valid master key both sealing formats round-trip and authenticate: a payload opens to a text
  exactly when sealing that text with some nonce produced it, and everything else is refused.
\<close>

theorem sealing_exact:
  assumes A: "aead_laws A" and key: "new_sealer k = Inr key" and stub: "new_stub h = Inr key'"
  shows "(seal_decrypt A key sealed = Inr p \<longleftrightarrow> (\<exists>n. length n = 12 \<and> seal_encrypt A key (Some n) p = Inr sealed)) \<and>
    (kms_decrypt A key' sealed = Inr p \<longleftrightarrow> (\<exists>n. length n = 12 \<and> kms_encrypt A key' (Some n) p = Inr sealed))"
proof
  have k: "length key = 32" "length key' = 32"
    using key stub by (auto simp: new_sealer_def new_stub_def split: if_splits option.splits)
  note open_iff = aead_open_iff [OF A]
  show "seal_decrypt A key sealed = Inr p \<longleftrightarrow> (\<exists>n. length n = 12 \<and> seal_encrypt A key (Some n) p = Inr sealed)"
  proof
    assume dec: "seal_decrypt A key sealed = Inr p"
    then obtain v rest where s: "sealed = v # rest" "12 \<le> length rest" "v = sealVersionV1"
      by (cases sealed) (auto simp: seal_decrypt_def Let_def split: if_splits)
    with dec k have "ad_open A key (take 12 rest) (drop 12 rest) = Some p"
      by (auto simp: seal_decrypt_def Let_def cipher_ok_def split: option.splits)
    then have "drop 12 rest = ad_seal A key (take 12 rest) p" using open_iff k s by simp
    then have "take 12 rest @ drop 12 rest = take 12 rest @ ad_seal A key (take 12 rest) p" by (rule arg_cong)
    then have rest: "take 12 rest @ ad_seal A key (take 12 rest) p = rest" unfolding append_take_drop_id by (rule sym)
    have "seal_encrypt A key (Some (take 12 rest)) p = Inr sealed"
      using s(1,3) k by (simp add: seal_encrypt_def cipher_ok_def rest)
    then show "\<exists>n. length n = 12 \<and> seal_encrypt A key (Some n) p = Inr sealed"
      using s by (intro exI [of _ "take 12 rest"]) simp
  next
    assume "\<exists>n. length n = 12 \<and> seal_encrypt A key (Some n) p = Inr sealed"
    then obtain n where "length n = 12" "sealed = sealVersionV1 # n @ ad_seal A key n p"
      by (auto simp: seal_encrypt_def split: if_splits)
    then show "seal_decrypt A key sealed = Inr p"
      using k aead_open_seal [OF A] by (simp add: seal_decrypt_def Let_def cipher_ok_def)
  qed
  show "kms_decrypt A key' sealed = Inr p \<longleftrightarrow> (\<exists>n. length n = 12 \<and> kms_encrypt A key' (Some n) p = Inr sealed)"
  proof
    assume dec: "kms_decrypt A key' sealed = Inr p"
    then have len: "12 \<le> length sealed" by (simp add: kms_decrypt_def split: if_splits)
    with dec have "ad_open A key' (take 12 sealed) (drop 12 sealed) = Some p"
      by (auto simp: kms_decrypt_def split: option.splits)
    then have "drop 12 sealed = ad_seal A key' (take 12 sealed) p" using open_iff k len by simp
    then have "take 12 sealed @ drop 12 sealed = take 12 sealed @ ad_seal A key' (take 12 sealed) p" by (rule arg_cong)
    then have "sealed = take 12 sealed @ ad_seal A key' (take 12 sealed) p" unfolding append_take_drop_id .
    then have "kms_encrypt A key' (Some (take 12 sealed)) p = Inr sealed" unfolding kms_encrypt_def option.case by (rule arg_cong [OF sym])
    then show "\<exists>n. length n = 12 \<and> kms_encrypt A key' (Some n) p = Inr sealed"
      using len by (intro exI [of _ "take 12 sealed"]) simp
  next
    assume "\<exists>n. length n = 12 \<and> kms_encrypt A key' (Some n) p = Inr sealed"
    then obtain n where "length n = 12" "sealed = n @ ad_seal A key' n p" by (auto simp: kms_encrypt_def)
    then show "kms_decrypt A key' sealed = Inr p" using k aead_open_seal [OF A] by (simp add: kms_decrypt_def)
  qed
qed

definition sample_key :: string where
  "sample_key = replicate 32 CHR ''k''"

lemma sample_key_ok: "new_sealer sample_key = Inr sample_key" "new_stub (hex_encode sample_key) = Inr sample_key"
  by (simp_all add: new_sealer_def new_stub_def hex_decode_encode sample_key_def)

theorem sealing_exact_witness:
  "\<exists>sealed. seal_encrypt tag_aead sample_key (Some (replicate 12 CHR ''n'')) ''pw'' = Inr sealed \<and>
     seal_decrypt tag_aead sample_key sealed = Inr ''pw''"
proof -
  obtain sealed where e: "seal_encrypt tag_aead sample_key (Some (replicate 12 CHR ''n'')) ''pw'' = Inr sealed"
    by (simp add: seal_encrypt_def cipher_ok_def sample_key_def)
  moreover have "\<exists>n. length n = 12 \<and> seal_encrypt tag_aead sample_key (Some n) ''pw'' = Inr sealed"
    using e by (intro exI [of _ "replicate 12 CHR ''n''"]) simp
  ultimately show ?thesis
    using sealing_exact [OF tag_aead_laws sample_key_ok, of sealed "''pw''"] by blast
qed

section \<open>The secret provider\<close>

text \<open>A secret provider that could not be built answers every call with the reason (\<open>Broken\<close>).\<close>

datatype key_error = KeyRequired | KeyNotHex | KeySize seal_error | NoCluster

datatype provider_error =
    Broken key_error
  | InvalidAppID string
  | RandomFailed
  | Unavailable string
  | NotConfigured
  | NoDigest string string
  | NotADigest string
  | Seal seal_error
  | SecretWrite kube_error
  | StageFailed
  | CleanupFailed
  | RequestFailed string
  | Unsupported string string

definition secret_name :: "string \<Rightarrow> string" where
  "secret_name appID = ''app-'' @ appID @ ''-secrets''"

text \<open>\<open>getenv\<close> reads the process environment, the empty string when unset.\<close>

definition load_master_key :: "(string \<Rightarrow> string) \<Rightarrow> key_error + string" where
  "load_master_key getenv =
     (if getenv ''TENARA_MASTER_KEY'' = [] then Inl KeyRequired
      else case hex_decode (getenv ''TENARA_MASTER_KEY'') of
        None \<Rightarrow> Inl KeyNotHex
      | Some raw \<Rightarrow> Inr raw)"

definition new_secret_provider :: "(string \<Rightarrow> string) \<Rightarrow> key_error + string" where
  "new_secret_provider getenv =
     and_then (load_master_key getenv) (\<lambda>raw. case new_sealer raw of Inl e \<Rightarrow> Inl (KeySize e) | Inr k \<Rightarrow> Inr k)"

definition decrypt_entry :: "aead \<Rightarrow> string \<Rightarrow> string \<times> string \<Rightarrow> provider_error + string \<times> string" where
  "decrypt_entry A key e =
     (case seal_decrypt A key (snd e) of Inl err \<Rightarrow> Inl (Seal err) | Inr plain \<Rightarrow> Inr (fst e, plain))"

abbreviation (input) secret_key_of :: "string \<Rightarrow> string \<Rightarrow> obj_key" where
  "secret_key_of namespace appID \<equiv> (''Secret'', namespace, secret_name appID)"

text \<open>The entries come in the order in which the range statement visits the map.\<close>

definition inject_to_namespace ::
  "aead \<Rightarrow> string \<Rightarrow> ('s, kobj) client \<Rightarrow> string \<Rightarrow> string \<Rightarrow> (string \<times> string) list \<Rightarrow> 's \<Rightarrow> (provider_error + unit) \<times> 's" where
  "inject_to_namespace A key c appID namespace secrets s =
     (case collect (decrypt_entry A key) secrets of
        Inl e \<Rightarrow> (Inl e, s)
      | Inr data \<Rightarrow>
          (let secret = SecretObj \<lparr>sec_Meta = named (secret_name appID) namespace
                            [(''tenara.io/managed-by'', ''tenara''), (''tenara.io/app-id'', appID)],
                          sec_Type = ''Opaque'', sec_Data = data\<rparr> in
           case cl_create c (secret_key_of namespace appID) secret s of
             (Inr _, s1) \<Rightarrow> (Inr (), s1)
           | (Inl KAlreadyExists, s1) \<Rightarrow>
               (case cl_update c (secret_key_of namespace appID) secret s1 of
                  (Inr _, s2) \<Rightarrow> (Inr (), s2)
                | (Inl e, s2) \<Rightarrow> (Inl (SecretWrite e), s2))
           | (Inl e, s1) \<Rightarrow> (Inl (SecretWrite e), s1)))"

text \<open>Rotation: each entry is opened with the current key and sealed again with the new one; \<open>nonces\<close> are the
  random bytes drawn, one per entry.\<close>

fun re_encrypt :: "aead \<Rightarrow> string \<Rightarrow> string \<Rightarrow> (string \<times> string) list \<Rightarrow> string option list \<Rightarrow> seal_error + (string \<times> string) list" where
  "re_encrypt A key newKey [] nonces = Inr []"
| "re_encrypt A key newKey ((k, sealed) # entries) nonces =
     (case seal_decrypt A key sealed of
        Inl e \<Rightarrow> Inl e
      | Inr plain \<Rightarrow>
          (case seal_encrypt A newKey (case nonces of [] \<Rightarrow> None | r # _ \<Rightarrow> r) plain of
             Inl e \<Rightarrow> Inl e
           | Inr sealed' \<Rightarrow> and_then (re_encrypt A key newKey entries (drop 1 nonces)) (\<lambda>out. Inr ((k, sealed') # out))))"

text \<open>
  Rotation loses nothing: whatever nonces are drawn, the rotated entries carry the same names in the same
  order, and the new key opens each to the text the old key opened it to.
\<close>

lemma rotation_preserves_plaintexts:
  assumes A: "aead_laws A" and key: "length newKey = 32" and nonces: "\<And>n. Some n \<in> set nonces \<Longrightarrow> length n = 12"
    and run: "re_encrypt A key newKey entries nonces = Inr out"
  shows "map (decrypt_entry A newKey) out = map (decrypt_entry A key) entries"
  using nonces run
proof (induction entries arbitrary: nonces out)
  case Nil
  then show ?case by simp
next
  case (Cons e entries)
  obtain k sealed where e: "e = (k, sealed)" by (cases e)
  obtain plain where plain: "seal_decrypt A key sealed = Inr plain" using Cons.prems(2) e by (simp split: sum.splits)
  then obtain n rest where nonces: "nonces = Some n # rest"
    using Cons.prems(2) e by (cases nonces; cases "hd nonces") (auto simp: seal_encrypt_def split: sum.splits if_splits)
  obtain sealed' where sealed': "seal_encrypt A newKey (Some n) plain = Inr sealed'"
    using Cons.prems(2) e plain nonces by (simp split: sum.splits)
  obtain out' where rec: "re_encrypt A key newKey entries rest = Inr out'" and out: "out = (k, sealed') # out'"
    using Cons.prems(2) e plain nonces sealed' by (cases "re_encrypt A key newKey entries rest") auto
  have "seal_decrypt A newKey sealed' = Inr plain"
    using sealed' Cons.prems(1) [of n] nonces key aead_open_seal [OF A key]
    by (auto simp: seal_encrypt_def seal_decrypt_def Let_def split: if_splits)
  then have "decrypt_entry A newKey (k, sealed') = decrypt_entry A key e" using plain e by (simp add: decrypt_entry_def)
  then show ?case using Cons.IH [of rest, OF _ rec] Cons.prems(1) nonces out by simp
qed

end
