(* ===== verification/Providers.thy ===== *)
theory Providers
  imports Sealing
begin

text \<open>
  The data-plane providers: the constructor registry (\<^verbatim>\<open>providers/types/registry.go\<close>), the local MongoDB,
  cache and storage providers.
  The commands and requests they issue run in an outside world: a runner (or transport) argument over an
  abstract state. Random passwords come from a source argument; URL escaping and the printf quoting of
  strings are parameters.
\<close>

section \<open>The registry of constructors\<close>

record 'p provider_registry =
  rg_factories :: "string \<rightharpoonup> 'p"
  rg_kind :: string

definition new_registry :: "string \<Rightarrow> 'p provider_registry" where
  "new_registry kind = \<lparr>rg_factories = Map.empty, rg_kind = kind\<rparr>"

definition register_provider :: "string \<Rightarrow> 'p \<Rightarrow> 'p provider_registry \<Rightarrow> 'p provider_registry" where
  "register_provider name ctor r = r\<lparr>rg_factories := (rg_factories r)(name \<mapsto> ctor)\<rparr>"

definition new_provider :: "'p provider_registry \<Rightarrow> string \<Rightarrow> provider_error + 'p" where
  "new_provider r name =
     (case rg_factories r name of None \<Rightarrow> Inl (Unsupported (rg_kind r) name) | Some ctor \<Rightarrow> Inr ctor)"

text \<open>A name is served exactly by its latest registration.\<close>

lemma registry_lookup:
  "new_provider (fold (\<lambda>(n, p). register_provider n p) regs (new_registry kind)) name =
     (case map_of (rev regs) name of Some p \<Rightarrow> Inr p | None \<Rightarrow> Inl (Unsupported kind name))"
proof -
  have "rg_kind (fold (\<lambda>(n, p). register_provider n p) regs r) = rg_kind r \<and>
      rg_factories (fold (\<lambda>(n, p). register_provider n p) regs r) name =
        (case map_of (rev regs) name of Some p \<Rightarrow> Some p | None \<Rightarrow> rg_factories r name)" for r :: "'a provider_registry"
    by (induction regs arbitrary: r) (auto simp: register_provider_def split: option.splits)
  then show ?thesis by (simp add: new_provider_def new_registry_def split: option.split)
qed

section \<open>Credentials\<close>

record Credential =
  cr_Username :: string
  cr_Password :: string
  cr_URI :: string

text \<open>The outside world: \<open>wd_run\<close> executes a command line, \<open>wd_random\<close> draws a password.\<close>

record 's world =
  wd_run :: "string list \<Rightarrow> 's \<Rightarrow> (string + string) \<times> 's"
  wd_random :: "'s \<Rightarrow> (string + string) \<times> 's"
  wd_quote :: "string \<Rightarrow> string"
  wd_escape_user :: "string \<Rightarrow> string"
  wd_escape_host :: "string \<Rightarrow> string"

text \<open>The pattern \<^verbatim>\<open>^[a-z0-9]{3,40}$\<close>.\<close>

definition app_id_char :: "char \<Rightarrow> bool" where
  "app_id_char c = (let b = (of_char c :: nat) in 97 \<le> b \<and> b \<le> 122 \<or> 48 \<le> b \<and> b \<le> 57)"

definition valid_app_id :: "string \<Rightarrow> bool" where
  "valid_app_id s = (3 \<le> length s \<and> length s \<le> 40 \<and> list_all app_id_char s)"

definition random_hex32 :: "string option \<Rightarrow> string option" where
  "random_hex32 buf = map_option hex_encode buf"

section \<open>MongoDB\<close>

record MongoConfig =
  mc_Host :: string
  mc_AdminUser :: string
  mc_AdminPassword :: string

definition db_name :: "string \<Rightarrow> provider_error + string" where
  "db_name appID = (if \<not> valid_app_id appID then Inl (InvalidAppID appID) else Inr (''app_'' @ appID))"

definition admin_args :: "MongoConfig \<Rightarrow> string \<Rightarrow> string list \<Rightarrow> string list" where
  "admin_args cfg authDB extra =
     [''--quiet'', ''--host'', mc_Host cfg, ''-u'', mc_AdminUser cfg, ''-p'', mc_AdminPassword cfg,
      ''--authenticationDatabase'', authDB] @ extra"

definition mongo_credential :: "'s world \<Rightarrow> string \<Rightarrow> string \<Rightarrow> string \<Rightarrow> Credential" where
  "mongo_credential w host name pw =
     \<lparr>cr_Username = name, cr_Password = pw,
      cr_URI = ''mongodb://'' @ wd_escape_user w name @ '':'' @ wd_escape_user w pw @ ''@'' @ wd_escape_host w host @ ''/'' @ name @
               ''?authSource='' @ name\<rparr>"

definition create_app_database :: "'s world \<Rightarrow> MongoConfig \<Rightarrow> string \<Rightarrow> 's \<Rightarrow> (provider_error + Credential) \<times> 's" where
  "create_app_database w cfg appID s =
     (case db_name appID of
        Inl e \<Rightarrow> (Inl e, s)
      | Inr name \<Rightarrow>
          (case wd_random w s of
             (Inl _, s1) \<Rightarrow> (Inl RandomFailed, s1)
           | (Inr pw, s1) \<Rightarrow>
               (let js = ''db.createUser({user:'' @ wd_quote w name @ '',pwd:'' @ wd_quote w pw @ '',roles:[{role:'' @
                         wd_quote w ''readWrite'' @ '',db:'' @ wd_quote w name @ ''}],mechanisms:['' @
                         wd_quote w ''SCRAM-SHA-256'' @ '']})'' in
                case wd_run w (admin_args cfg ''admin'' [''--eval'', js]) s1 of
                  (Inl _, s2) \<Rightarrow> (Inl (Unavailable (''create user '' @ name)), s2)
                | (Inr _, s2) \<Rightarrow> (Inr (mongo_credential w (mc_Host cfg) name pw), s2))))"

definition delete_app_database :: "'s world \<Rightarrow> MongoConfig \<Rightarrow> string \<Rightarrow> 's \<Rightarrow> (provider_error + unit) \<times> 's" where
  "delete_app_database w cfg appID s =
     (case db_name appID of
        Inl e \<Rightarrow> (Inl e, s)
      | Inr name \<Rightarrow>
          (let js = ''db.getSiblingDB('' @ wd_quote w name @ '').runCommand({dropUser:'' @ wd_quote w name @ ''}); db.getSiblingDB('' @
                    wd_quote w name @ '').runCommand({dropDatabase:1})'' in
           case wd_run w (admin_args cfg ''admin'' [''--eval'', js]) s of
             (Inl _, s1) \<Rightarrow> (Inl (Unavailable (''drop '' @ name)), s1)
           | (Inr _, s1) \<Rightarrow> (Inr (), s1)))"

definition mongo_healthz :: "'s world \<Rightarrow> MongoConfig \<Rightarrow> 's \<Rightarrow> (provider_error + unit) \<times> 's" where
  "mongo_healthz w cfg s =
     (case wd_run w (admin_args cfg ''admin'' [''--eval'', ''db.runCommand({ping:1})'']) s of
        (Inl _, s1) \<Rightarrow> (Inl (Unavailable ''ping''), s1)
      | (Inr _, s1) \<Rightarrow> (Inr (), s1))"

section \<open>Cache\<close>

record CacheConfig =
  cc_Host :: string
  cc_Port :: string
  cc_AdminPassword :: string

text \<open>The command line the redis runner executes.\<close>

definition redis_args :: "CacheConfig \<Rightarrow> string list \<Rightarrow> string list" where
  "redis_args cfg args =
     [''-h'', cc_Host cfg, ''-p'', cc_Port cfg] @
     (if cc_AdminPassword cfg \<noteq> [] then [''-a'', cc_AdminPassword cfg, ''--no-auth-warning''] else []) @ args"

definition cache_user_name :: "string \<Rightarrow> provider_error + string" where
  "cache_user_name appID = (if \<not> valid_app_id appID then Inl (InvalidAppID appID) else Inr (''cache_'' @ appID))"

definition acl_tokens :: "string \<Rightarrow> string \<Rightarrow> string \<Rightarrow> string list" where
  "acl_tokens name ident pw =
     [''ACL'', ''SETUSER'', name, ''reset'', ''on'', ''>'' @ pw, ''~cache_'' @ ident @ '':*'',
      ''+@read'', ''+@write'', ''+@connection'', ''-@admin'', ''-@dangerous'']"

text \<open>\<^verbatim>\<open>net.JoinHostPort\<close>.\<close>

definition join_host_port :: "string \<Rightarrow> string \<Rightarrow> string" where
  "join_host_port host port =
     (if CHR '':'' \<in> set host then ''['' @ host @ '']:'' @ port else host @ '':'' @ port)"

definition create_app_cache :: "'s world \<Rightarrow> CacheConfig \<Rightarrow> string \<Rightarrow> 's \<Rightarrow> (provider_error + Credential) \<times> 's" where
  "create_app_cache w cfg appID s =
     (case cache_user_name appID of
        Inl e \<Rightarrow> (Inl e, s)
      | Inr name \<Rightarrow>
          (case wd_random w s of
             (Inl _, s1) \<Rightarrow> (Inl RandomFailed, s1)
           | (Inr pw, s1) \<Rightarrow>
               (case wd_run w (redis_args cfg (acl_tokens name appID pw)) s1 of
                  (Inl _, s2) \<Rightarrow> (Inl (Unavailable (''create acl user '' @ name)), s2)
                | (Inr _, s2) \<Rightarrow>
                    (Inr \<lparr>cr_Username = name, cr_Password = pw,
                          cr_URI = ''redis://'' @ wd_escape_user w name @ '':'' @ wd_escape_user w pw @ ''@'' @
                                   wd_escape_host w (join_host_port (cc_Host cfg) (cc_Port cfg))\<rparr>, s2))))"

definition delete_app_cache :: "'s world \<Rightarrow> CacheConfig \<Rightarrow> string \<Rightarrow> 's \<Rightarrow> (provider_error + unit) \<times> 's" where
  "delete_app_cache w cfg appID s =
     (case cache_user_name appID of
        Inl e \<Rightarrow> (Inl e, s)
      | Inr name \<Rightarrow>
          (case wd_run w (redis_args cfg [''ACL'', ''DELUSER'', name]) s of
             (Inl _, s1) \<Rightarrow> (Inl (Unavailable (''del acl user '' @ name)), s1)
           | (Inr _, s1) \<Rightarrow> (Inr (), s1)))"

definition cache_healthz :: "'s world \<Rightarrow> CacheConfig \<Rightarrow> 's \<Rightarrow> (provider_error + unit) \<times> 's" where
  "cache_healthz w cfg s =
     (case wd_run w (redis_args cfg [''PING'']) s of
        (Inl _, s1) \<Rightarrow> (Inl (Unavailable ''ping''), s1)
      | (Inr _, s1) \<Rightarrow> (Inr (), s1))"

section \<open>Storage\<close>

abbreviation (input) bucketName :: string where "bucketName \<equiv> ''tenara-tenant''"

text \<open>The temporary policy file: create, write, close, remove; each may fail. \<open>fs_remove\<close> answers whether the file
  was removed, \<open>None\<close> when it was not there.\<close>

record 's tempfs =
  fs_create :: "'s \<Rightarrow> (string + string) \<times> 's"
  fs_write :: "string \<Rightarrow> string \<Rightarrow> 's \<Rightarrow> bool \<times> 's"
  fs_close :: "string \<Rightarrow> 's \<Rightarrow> bool \<times> 's"
  fs_remove :: "string \<Rightarrow> 's \<Rightarrow> bool option \<times> 's"

definition remove_if_exists :: "'s tempfs \<Rightarrow> string \<Rightarrow> 's \<Rightarrow> bool \<times> 's" where
  "remove_if_exists f path s = (case fs_remove f path s of (r, s1) \<Rightarrow> (r \<noteq> Some False, s1))"

definition write_temp_policy :: "'s tempfs \<Rightarrow> string \<Rightarrow> 's \<Rightarrow> (provider_error + string) \<times> 's" where
  "write_temp_policy f content s =
     (case fs_create f s of
        (Inl _, s1) \<Rightarrow> (Inl StageFailed, s1)
      | (Inr path, s1) \<Rightarrow>
          (case fs_write f path content s1 of (wOk, s2) \<Rightarrow>
           case fs_close f path s2 of (cOk, s3) \<Rightarrow>
             if \<not> wOk \<or> \<not> cOk then (Inl StageFailed, snd (remove_if_exists f path s3)) else (Inr path, s3)))"

text \<open>The policy document: line breaks and indentation as in the template.\<close>

definition policy_lines :: "string \<Rightarrow> string list" where
  "policy_lines ident =
     (let q = (\<lambda>w. CHR 0x22 # w @ [CHR 0x22]); user = ''app_'' @ ident in
      [''{'',
       ''  '' @ q ''Version'' @ '': '' @ q ''2012-10-17'' @ '','',
       ''  '' @ q ''Statement'' @ '': ['',
       ''    {'',
       ''      '' @ q ''Effect'' @ '': '' @ q ''Allow'' @ '','',
       ''      '' @ q ''Action'' @ '': ['' @ q ''s3:GetObject'' @ '', '' @ q ''s3:PutObject'' @ '', '' @ q ''s3:DeleteObject'' @ ''],'',
       ''      '' @ q ''Resource'' @ '': ['' @ q (''arn:aws:s3:::'' @ bucketName @ ''/'' @ user @ ''/*'') @ '']'',
       ''    },'',
       ''    {'',
       ''      '' @ q ''Effect'' @ '': '' @ q ''Allow'' @ '','',
       ''      '' @ q ''Action'' @ '': ['' @ q ''s3:ListBucket'' @ ''],'',
       ''      '' @ q ''Resource'' @ '': ['' @ q (''arn:aws:s3:::'' @ bucketName) @ ''],'',
       ''      '' @ q ''Condition'' @ '': {'' @ q ''StringLike'' @ '': {'' @ q ''s3:prefix'' @ '': '' @ q (user @ ''/*'') @ ''}}'',
       ''    }'',
       ''  ]'',
       ''}''])"

definition build_policy_json :: "string \<Rightarrow> string" where
  "build_policy_json ident = join [CHR 0x0A] (policy_lines ident)"

definition storage_user_name :: "string \<Rightarrow> provider_error + string" where
  "storage_user_name appID = (if \<not> valid_app_id appID then Inl (InvalidAppID appID) else Inr (''app_'' @ appID))"

fun run_all :: "'s world \<Rightarrow> string list list \<Rightarrow> 's \<Rightarrow> bool \<times> 's" where
  "run_all w [] s = (True, s)"
| "run_all w (args # rest) s =
     (case wd_run w args s of (Inl _, s1) \<Rightarrow> (False, s1) | (Inr _, s1) \<Rightarrow> run_all w rest s1)"

definition provision_steps :: "'s world \<Rightarrow> string \<Rightarrow> string \<Rightarrow> string \<Rightarrow> string \<Rightarrow> 's \<Rightarrow> bool \<times> 's" where
  "provision_steps w als name pw policyFile s =
     run_all w [[''admin'', ''user'', ''add'', als, name, pw],
                [''admin'', ''policy'', ''add'', als, name, policyFile],
                [''admin'', ''policy'', ''attach'', als, name, ''--user'', name]] s"

definition create_app_storage ::
  "'s world \<Rightarrow> 's tempfs \<Rightarrow> string \<Rightarrow> string \<Rightarrow> 's \<Rightarrow> (provider_error + Credential) \<times> 's" where
  "create_app_storage w f als appID s =
     (case storage_user_name appID of
        Inl e \<Rightarrow> (Inl e, s)
      | Inr name \<Rightarrow>
          (case wd_random w s of
             (Inl _, s1) \<Rightarrow> (Inl RandomFailed, s1)
           | (Inr pw, s1) \<Rightarrow>
               (case write_temp_policy f (build_policy_json appID) s1 of
                  (Inl e, s2) \<Rightarrow> (Inl e, s2)
                | (Inr policyFile, s2) \<Rightarrow>
                    (case provision_steps w als name pw policyFile s2 of (provOk, s3) \<Rightarrow>
                     case remove_if_exists f policyFile s3 of (cleanOk, s4) \<Rightarrow>
                       if \<not> provOk then (Inl (Unavailable (''provision storage '' @ name)), s4)
                       else if \<not> cleanOk then (Inl CleanupFailed, s4)
                       else (Inr \<lparr>cr_Username = name, cr_Password = pw,
                                  cr_URI = ''s3://'' @ bucketName @ ''/'' @ name\<rparr>, s4)))))"

definition delete_app_storage :: "'s world \<Rightarrow> string \<Rightarrow> string \<Rightarrow> 's \<Rightarrow> (provider_error + unit) \<times> 's" where
  "delete_app_storage w als appID s =
     (case storage_user_name appID of
        Inl e \<Rightarrow> (Inl e, s)
      | Inr name \<Rightarrow>
          (case run_all w [[''admin'', ''policy'', ''detach'', als, name, ''--user'', name],
                           [''admin'', ''user'', ''remove'', als, name]] s of
             (ok, s1) \<Rightarrow> (if ok then Inr () else Inl (Unavailable (''remove storage identity '' @ name)), s1)))"

definition ensure_bucket :: "'s world \<Rightarrow> string \<Rightarrow> 's \<Rightarrow> (provider_error + unit) \<times> 's" where
  "ensure_bucket w als s =
     (case wd_run w [''mb'', als @ ''/'' @ bucketName] s of
        (Inl _, s1) \<Rightarrow> (Inl (Unavailable ''ensure bucket''), s1)
      | (Inr _, s1) \<Rightarrow> (Inr (), s1))"

definition storage_healthz :: "'s world \<Rightarrow> string \<Rightarrow> 's \<Rightarrow> (provider_error + unit) \<times> 's" where
  "storage_healthz w als s =
     (case wd_run w [''ls'', als] s of
        (Inl _, s1) \<Rightarrow> (Inl (Unavailable ''ls alias''), s1)
      | (Inr _, s1) \<Rightarrow> (Inr (), s1))"

end
