(* ===== verification/Image_Registry.thy ===== *)
theory Image_Registry
  imports Providers Build_Controller
begin

text \<open>
  The image registry providers: the compose registry (\<^verbatim>\<open>providers/registry/local\<close>) and the Baidu CCR
  adapter (\<^verbatim>\<open>providers/registry/baidu-ccr\<close>), with the contract they share: callers only ever get
  digests, never tags. HTTP requests and the signature runner act on an abstract outside state.
\<close>

section \<open>The contract\<close>

text \<open>A resolver returns only \<^verbatim>\<open>sha256\<close> digests, and a signature is only ever confirmed for one.\<close>

locale digest_registry =
  fixes resolve :: "string \<Rightarrow> string \<Rightarrow> 's \<Rightarrow> (provider_error + string) \<times> 's"
    and signed :: "string \<Rightarrow> string \<Rightarrow> 's \<Rightarrow> (provider_error + bool) \<times> 's"
  assumes resolve_digest: "resolve repo ref s = (Inr d, s') \<Longrightarrow> has_prefix d ''sha256:''"
    and signed_digest: "signed repo d s = (Inr b, s') \<Longrightarrow> has_prefix d ''sha256:''"
begin

text \<open>The caller of both: resolve a reference, then ask for its signature.\<close>

definition resolve_signed :: "string \<Rightarrow> string \<Rightarrow> 's \<Rightarrow> (provider_error + string \<times> bool) \<times> 's" where
  "resolve_signed repo ref s =
     (case resolve repo ref s of
        (Inl e, s1) \<Rightarrow> (Inl e, s1)
      | (Inr d, s1) \<Rightarrow> (case signed repo d s1 of (Inl e, s2) \<Rightarrow> (Inl e, s2) | (Inr b, s2) \<Rightarrow> (Inr (d, b), s2)))"

text \<open>What a resolver returns pins the image: appended to a repository it is a digest reference.\<close>

lemma resolved_pins:
  assumes "resolve repo ref s = (Inr d, s')"
  shows "contains (repo @ ''@'' @ d) ''@sha256:''"
proof -
  obtain rest where "d = ''sha256:'' @ rest" using resolve_digest [OF assms] by (auto simp: has_prefix_iff)
  then have "repo @ ''@'' @ d = repo @ ''@sha256:'' @ rest" by simp
  then show ?thesis unfolding contains_iff by blast
qed

lemma resolve_signed_pins:
  assumes "resolve_signed repo ref s = (Inr (d, b), s')"
  shows "contains (repo @ ''@'' @ d) ''@sha256:''"
  using assms resolved_pins by (auto simp: resolve_signed_def split: sum.splits prod.splits)

end

section \<open>The compose registry\<close>

text \<open>The pattern \<^verbatim>\<open>^sha256:[a-f0-9]{64}$\<close>.\<close>

definition hex_lower :: "char \<Rightarrow> bool" where
  "hex_lower c = (let b = (of_char c :: nat) in 97 \<le> b \<and> b \<le> 102 \<or> 48 \<le> b \<and> b \<le> 57)"

definition canonical_digest :: "string \<Rightarrow> bool" where
  "canonical_digest d = (has_prefix d ''sha256:'' \<and> length d = 71 \<and> list_all hex_lower (drop 7 d))"

record 's transport =
  tr_send :: "string \<Rightarrow> string \<Rightarrow> 's \<Rightarrow> (string + int \<times> labels) \<times> 's"
  tr_cosign :: "string list \<Rightarrow> 's \<Rightarrow> (string + string) \<times> 's"

record RegistryConfig =
  rc_Endpoint :: string
  rc_CosignKeyRef :: string

definition manifest_url :: "string \<Rightarrow> string \<Rightarrow> string \<Rightarrow> string" where
  "manifest_url endpoint repo ref = trim_suffix endpoint ''/'' @ ''/v2/'' @ repo @ ''/manifests/'' @ ref"

text \<open>One request; the transport reports a failed exchange or a failed read of the body as \<open>Inl\<close>.\<close>

definition registry_do :: "'s transport \<Rightarrow> string \<Rightarrow> string \<Rightarrow> 's \<Rightarrow> (provider_error + int \<times> labels) \<times> 's" where
  "registry_do t meth target s =
     (case tr_send t meth target s of
        (Inl e, s1) \<Rightarrow> (Inl (Unavailable e), s1)
      | (Inr resp, s1) \<Rightarrow> (Inr resp, s1))"

definition resolve_digest :: "'s transport \<Rightarrow> RegistryConfig \<Rightarrow> string \<Rightarrow> string \<Rightarrow> 's \<Rightarrow> (provider_error + string) \<times> 's" where
  "resolve_digest t cfg repo tagOrSHA s =
     (case registry_do t ''GET'' (manifest_url (rc_Endpoint cfg) repo tagOrSHA) s of
        (Inl e, s1) \<Rightarrow> (Inl e, s1)
      | (Inr (status, hdrs), s1) \<Rightarrow>
          if status \<noteq> 200 then (Inl (Unavailable (''resolve '' @ repo @ ''/'' @ tagOrSHA)), s1)
          else (let digest = trim_space (lookup_or_empty hdrs ''Docker-Content-Digest'') in
                if \<not> canonical_digest digest then (Inl (NoDigest repo tagOrSHA), s1) else (Inr digest, s1)))"

definition check_signature :: "'s transport \<Rightarrow> RegistryConfig \<Rightarrow> string \<Rightarrow> string \<Rightarrow> 's \<Rightarrow> (provider_error + bool) \<times> 's" where
  "check_signature t cfg repo digest s =
     (if \<not> canonical_digest digest then (Inl (NotADigest digest), s)
      else case tr_cosign t [''verify'', ''--key'', rc_CosignKeyRef cfg, ''--allow-insecure-registry'',
                  trim_suffix (rc_Endpoint cfg) ''/'' @ ''/'' @ repo @ ''@'' @ digest] s of
        (Inl _, s1) \<Rightarrow> (Inr False, s1)
      | (Inr _, s1) \<Rightarrow> (Inr True, s1))"

definition delete_image :: "'s transport \<Rightarrow> RegistryConfig \<Rightarrow> string \<Rightarrow> string \<Rightarrow> 's \<Rightarrow> (provider_error + unit) \<times> 's" where
  "delete_image t cfg repo digest s =
     (if \<not> canonical_digest digest then (Inl (NotADigest digest), s)
      else case registry_do t ''DELETE'' (manifest_url (rc_Endpoint cfg) repo digest) s of
        (Inl e, s1) \<Rightarrow> (Inl e, s1)
      | (Inr (status, _), s1) \<Rightarrow>
          if status \<noteq> 202 then (Inl (Unavailable (''delete '' @ repo @ ''@'' @ digest)), s1) else (Inr (), s1))"

definition registry_healthz :: "'s transport \<Rightarrow> RegistryConfig \<Rightarrow> 's \<Rightarrow> (provider_error + unit) \<times> 's" where
  "registry_healthz t cfg s =
     (case registry_do t ''GET'' (trim_suffix (rc_Endpoint cfg) ''/'' @ ''/v2/'') s of
        (Inl e, s1) \<Rightarrow> (Inl e, s1)
      | (Inr (status, _), s1) \<Rightarrow> if status \<noteq> 200 then (Inl (Unavailable ''healthz''), s1) else (Inr (), s1))"

interpretation compose: digest_registry "resolve_digest t cfg" "check_signature t cfg" for t :: "'s transport" and cfg
  by unfold_locales
     (auto simp: resolve_digest_def check_signature_def canonical_digest_def Let_def split: sum.splits prod.splits if_splits)

section \<open>Baidu CCR\<close>

text \<open>The injected transport performs one signed call and returns status and body. \<open>decode_digest\<close> and
  \<open>decode_signatures\<close> are the JSON decoder for the two response types, \<open>None\<close> when it fails.\<close>

record 's ccr_api =
  ccr_do :: "string \<Rightarrow> string \<Rightarrow> 's \<Rightarrow> (string + int \<times> string) \<times> 's"
  ccr_digest :: "string \<Rightarrow> string option"
  ccr_signatures :: "string \<Rightarrow> string list option"

definition ccr_call :: "'s ccr_api \<Rightarrow> string \<Rightarrow> string \<Rightarrow> 's \<Rightarrow> (provider_error + string) \<times> 's" where
  "ccr_call a meth path s =
     (case ccr_do a meth path s of
        (Inl e, s1) \<Rightarrow> (Inl (Unavailable (meth @ '' '' @ path)), s1)
      | (Inr (status, respBody), s1) \<Rightarrow>
          if 400 \<le> status then (Inl (RequestFailed (meth @ '' '' @ path)), s1) else (Inr respBody, s1))"

definition ccr_resolve_digest :: "'s ccr_api \<Rightarrow> string \<Rightarrow> string \<Rightarrow> 's \<Rightarrow> (provider_error + string) \<times> 's" where
  "ccr_resolve_digest a repo tagOrSHA s =
     (case ccr_call a ''GET'' (''/repositories/'' @ repo @ ''/tags/'' @ tagOrSHA) s of
        (Inl e, s1) \<Rightarrow> (Inl e, s1)
      | (Inr content, s1) \<Rightarrow>
          (case ccr_digest a content of
             None \<Rightarrow> (Inl (NoDigest repo tagOrSHA), s1)
           | Some d \<Rightarrow>
               if d = [] \<or> \<not> has_prefix d ''sha256:'' then (Inl (NoDigest repo tagOrSHA), s1) else (Inr d, s1)))"

definition ccr_check_signature :: "'s ccr_api \<Rightarrow> string \<Rightarrow> string \<Rightarrow> 's \<Rightarrow> (provider_error + bool) \<times> 's" where
  "ccr_check_signature a repo digest s =
     (if \<not> has_prefix digest ''sha256:'' then (Inl (NotADigest digest), s)
      else case ccr_call a ''GET'' (''/repositories/'' @ repo @ ''/signatures'') s of
        (Inl e, s1) \<Rightarrow> (Inl e, s1)
      | (Inr content, s1) \<Rightarrow>
          (case ccr_signatures a content of
             None \<Rightarrow> (Inl (RequestFailed ''decode signatures''), s1)
           | Some sigs \<Rightarrow> (Inr (list_ex (\<lambda>d. d = digest) sigs), s1)))"

definition ccr_delete_image :: "'s ccr_api \<Rightarrow> string \<Rightarrow> string \<Rightarrow> 's \<Rightarrow> (provider_error + unit) \<times> 's" where
  "ccr_delete_image a repo digest s =
     (case ccr_call a ''DELETE'' (''/repositories/'' @ repo @ ''/manifests/'' @ digest) s of
        (Inl e, s1) \<Rightarrow> (Inl e, s1)
      | (Inr _, s1) \<Rightarrow> (Inr (), s1))"

definition ccr_healthz :: "'s ccr_api \<Rightarrow> 's \<Rightarrow> (provider_error + unit) \<times> 's" where
  "ccr_healthz a s =
     (case ccr_call a ''GET'' ''/healthz'' s of
        (Inl _, s1) \<Rightarrow> (Inl (Unavailable ''healthz''), s1)
      | (Inr _, s1) \<Rightarrow> (Inr (), s1))"

interpretation ccr: digest_registry "ccr_resolve_digest a" "ccr_check_signature a" for a :: "'s ccr_api"
  by unfold_locales
     (auto simp: ccr_resolve_digest_def ccr_check_signature_def Let_def split: sum.splits prod.splits if_splits option.splits)

text \<open>
  C35: whatever the outside world answers, both registry providers hand out digests only: a resolved
  reference appended to its repository always passes the pinning check that signing and deploying make, and a
  signature is confirmed only for a digest the registry's own answer supports.
\<close>

theorem references_never_escape:
  "(case resolve_digest t cfg repo ref s of
      (Inr d, _) \<Rightarrow> require_digest_ref (repo @ ''@'' @ d) = None | _ \<Rightarrow> True) \<and>
   (case ccr_resolve_digest a repo ref s of
      (Inr d, _) \<Rightarrow> require_digest_ref (repo @ ''@'' @ d) = None | _ \<Rightarrow> True) \<and>
   (case check_signature t cfg repo d s of (Inr _, _) \<Rightarrow> canonical_digest d | (Inl e, s') \<Rightarrow> e = NotADigest d \<and> s' = s) \<and>
   (case ccr_check_signature a repo d s of
      (Inr b, _) \<Rightarrow> has_prefix d ''sha256:'' | _ \<Rightarrow> True)"
proof (intro conjI)
  have pinned: "require_digest_ref (repo @ ''@'' @ d) = None" if "contains (repo @ ''@'' @ d) ''@sha256:''" for d
    using that by (simp add: require_digest_ref_def)
  show "case resolve_digest t cfg repo ref s of (Inr d, _) \<Rightarrow> require_digest_ref (repo @ ''@'' @ d) = None | _ \<Rightarrow> True"
    by (auto intro!: pinned elim: compose.resolved_pins split: prod.split sum.split simp del: append_Cons)
  show "case ccr_resolve_digest a repo ref s of (Inr d, _) \<Rightarrow> require_digest_ref (repo @ ''@'' @ d) = None | _ \<Rightarrow> True"
    by (auto intro!: pinned elim: ccr.resolved_pins split: prod.split sum.split simp del: append_Cons)
  show "case check_signature t cfg repo d s of (Inr _, _) \<Rightarrow> canonical_digest d | (Inl e, s') \<Rightarrow> e = NotADigest d \<and> s' = s"
    by (auto simp: check_signature_def split: prod.split sum.split)
  show "case ccr_check_signature a repo d s of (Inr b, _) \<Rightarrow> has_prefix d ''sha256:'' | _ \<Rightarrow> True"
    by (auto elim: ccr.signed_digest split: prod.split sum.split)
qed

text \<open>The CCR adapter deletes by whatever reference it is given.\<close>

lemma ccr_deletes_tags:
  "ccr_delete_image a repo ''latest'' s =
     (case ccr_call a ''DELETE'' (''/repositories/'' @ repo @ ''/manifests/latest'') s of
        (Inl e, s1) \<Rightarrow> (Inl e, s1) | (Inr _, s1) \<Rightarrow> (Inr (), s1))"
  by (simp add: ccr_delete_image_def)

end
