(* ===== verification/Database_Controller.thy ===== *)
theory Database_Controller
  imports Providers Plan_Generator
begin

text \<open>
  The DatabaseBinding controller: \<^verbatim>\<open>controllers/internal/database\<close>. A binding is provisioned by asking
  the provider of its kind for a credential, sealing it, and injecting it into the tenant namespace; the
  reconcile pass records the outcome in the status. The providers are arguments (\<open>deps\<close>), an interface that
  is not wired is \<open>None\<close>, a nil credential is \<open>None\<close>.
\<close>

section \<open>Provisioning one binding\<close>

record 's deps =
  dp_Databases :: "(string \<Rightarrow> 's \<Rightarrow> (provider_error + Credential option) \<times> 's) option"
  dp_Caches :: "(string \<Rightarrow> 's \<Rightarrow> (provider_error + Credential option) \<times> 's) option"
  dp_Storages :: "(string \<Rightarrow> 's \<Rightarrow> (provider_error + Credential option) \<times> 's) option"
  dp_Encrypt :: "string \<Rightarrow> 's \<Rightarrow> (provider_error + string) \<times> 's"
  dp_Inject :: "string \<Rightarrow> string \<Rightarrow> (string \<times> string) list \<Rightarrow> 's \<Rightarrow> (provider_error + unit) \<times> 's"

datatype binding_error =
    UnknownKind string
  | NotWired string
  | ProvisionFailed provider_error
  | EmptyCredential string
  | SealFailed provider_error
  | InjectFailed provider_error
  | StatusFailed kube_error

definition secret_key :: "string \<Rightarrow> binding_error + string" where
  "secret_key kind =
     (if kind = KindMongo then Inr ''MONGODB_URI''
      else if kind = KindRedis then Inr ''REDIS_URI''
      else if kind = KindStorage then Inr ''S3_TARGET''
      else Inl (UnknownKind kind))"

record Provisioned =
  po_Namespace :: string
  po_SecretName :: string
  po_SecretKey :: string

definition provider_for :: "'s deps \<Rightarrow> string \<Rightarrow> (string \<Rightarrow> 's \<Rightarrow> (provider_error + Credential option) \<times> 's) option" where
  "provider_for deps kind =
     (if kind = KindMongo then dp_Databases deps
      else if kind = KindRedis then dp_Caches deps
      else if kind = KindStorage then dp_Storages deps
      else None)"

definition provision_binding :: "'s deps \<Rightarrow> DatabaseBindingSpec \<Rightarrow> 's \<Rightarrow> (binding_error + Provisioned) \<times> 's" where
  "provision_binding deps spec s =
     (case secret_key (dbs_Kind spec) of
        Inl e \<Rightarrow> (Inl e, s)
      | Inr key \<Rightarrow>
          (case provider_for deps (dbs_Kind spec) of
             None \<Rightarrow> (Inl (NotWired (dbs_Kind spec)), s)
           | Some create \<Rightarrow>
               (case create (dbs_AppID spec) s of
                  (Inl e, s1) \<Rightarrow> (Inl (ProvisionFailed e), s1)
                | (Inr None, s1) \<Rightarrow> (Inl (EmptyCredential (dbs_Kind spec)), s1)
                | (Inr (Some cred), s1) \<Rightarrow>
                    if cr_URI cred = [] then (Inl (EmptyCredential (dbs_Kind spec)), s1)
                    else (case dp_Encrypt deps (cr_URI cred) s1 of
                      (Inl e, s2) \<Rightarrow> (Inl (SealFailed e), s2)
                    | (Inr sealed, s2) \<Rightarrow>
                        (let ns = namespace_name (dbs_AppID spec) (dbs_Env spec) in
                         case dp_Inject deps (dbs_AppID spec) ns [(key, sealed)] s2 of
                           (Inl e, s3) \<Rightarrow> (Inl (InjectFailed e), s3)
                         | (Inr _, s3) \<Rightarrow>
                             (Inr \<lparr>po_Namespace = ns, po_SecretName = secret_name (dbs_AppID spec), po_SecretKey = key\<rparr>, s3))))))"

section \<open>The reconcile pass\<close>

abbreviation (input) phasePending :: string where "phasePending \<equiv> ''PENDING''"
abbreviation (input) phaseReady :: string where "phaseReady \<equiv> ''READY''"
abbreviation (input) binding_key :: "string \<times> string \<Rightarrow> obj_key" where "binding_key req \<equiv> (''DatabaseBinding'', fst req, snd req)"

text \<open>\<open>msg\<close> is the text of an error.\<close>

definition reconcile_binding ::
  "(binding_error \<Rightarrow> string) \<Rightarrow> ('s, kobj) client \<Rightarrow> 's deps \<Rightarrow> string \<times> string \<Rightarrow> 's \<Rightarrow> (binding_error + unit) \<times> 's" where
  "reconcile_binding msg c deps req s =
     (case typed_get as_binding c (binding_key req) s of
        (Inl KNotFound, s1) \<Rightarrow> (Inr (), s1)
      | (Inl e, s1) \<Rightarrow> (Inl (StatusFailed e), s1)
      | (Inr b0, s1) \<Rightarrow>
          if dbst_Phase (db_Status b0) = phaseReady then (Inr (), s1)
          else
            (let b = b0\<lparr>db_Status := (db_Status b0)\<lparr>dbst_Phase := phasePending\<rparr>\<rparr> in
             case (if dbst_Phase (db_Status b0) \<noteq> phasePending then cl_status c (binding_key req) (BindingObj b) s1
                   else (Inr (), s1)) of
               (Inl e, s2) \<Rightarrow> (Inl (StatusFailed e), s2)
             | (Inr _, s2) \<Rightarrow>
                 (case provision_binding deps (db_Spec b) s2 of
                    (Inl pErr, s3) \<Rightarrow>
                      (case cl_status c (binding_key req) (BindingObj (b\<lparr>db_Status :=
                              \<lparr>dbst_Phase = phasePending, dbst_Reason = ''provision-failed'', dbst_Message = msg pErr\<rparr>\<rparr>)) s3 of
                         (Inl e, s4) \<Rightarrow> (Inl (StatusFailed e), s4)
                       | (Inr _, s4) \<Rightarrow> (Inl pErr, s4))
                  | (Inr out, s3) \<Rightarrow>
                      (case cl_status c (binding_key req) (BindingObj (b\<lparr>db_Status :=
                              \<lparr>dbst_Phase = phaseReady, dbst_Reason = [],
                               dbst_Message = po_Namespace out @ ''/'' @ po_SecretName out @ ''/'' @ po_SecretKey out\<rparr>\<rparr>)) s3 of
                         (Inl e, s4) \<Rightarrow> (Inl (StatusFailed e), s4)
                       | (Inr _, s4) \<Rightarrow> (Inr (), s4)))))"

section \<open>The chain with the local secret provider\<close>

text \<open>The dependencies wired to the local secret provider: sealing draws a nonce from the state.\<close>

definition local_secrets ::
  "aead \<Rightarrow> string \<Rightarrow> ('s, kobj) client \<Rightarrow> ('s \<Rightarrow> string option \<times> 's) \<Rightarrow> 's deps \<Rightarrow> 's deps" where
  "local_secrets A key c nonce deps =
     deps\<lparr>dp_Encrypt := (\<lambda>plain s. case nonce s of (r, s1) \<Rightarrow>
             ((case seal_encrypt A key r plain of Inl e \<Rightarrow> Inl (Seal e) | Inr x \<Rightarrow> Inr x), s1)),
          dp_Inject := inject_to_namespace A key c\<rparr>"

lemma inject_view:
  assumes laws: "client_laws c view merge_status obj_labels"
    and run: "inject_to_namespace A key c appID ns entries s = (Inr (), s')"
  shows "\<exists>data sec. collect (decrypt_entry A key) entries = Inr data \<and> sec_Data sec = data \<and>
    label (sec_Meta sec) ''tenara.io/app-id'' = appID \<and>
    view s' = (view s)((''Secret'', ns, secret_name appID) \<mapsto> SecretObj sec)"
proof -
  obtain data where data: "collect (decrypt_entry A key) entries = Inr data"
    using run by (auto simp: inject_to_namespace_def split: sum.splits)
  let ?k = "(''Secret'', ns, secret_name appID)"
  define sec where "sec = \<lparr>sec_Meta = named (secret_name appID) ns
      [(''tenara.io/managed-by'', ''tenara''), (''tenara.io/app-id'', appID)], sec_Type = ''Opaque'', sec_Data = data\<rparr>"
  obtain r s1 where cr: "cl_create c ?k (SecretObj sec) s = (r, s1)" by (cases "cl_create c ?k (SecretObj sec) s")
  have "view s' = (view s)(?k \<mapsto> SecretObj sec)"
  proof (cases r)
    case (Inr u)
    then show ?thesis using run data cr create_view(2) [OF laws cr] by (simp add: inject_to_namespace_def Let_def sec_def)
  next
    case (Inl e)
    have e: "e = KAlreadyExists"
      using run data cr Inl by (cases e) (simp_all add: inject_to_namespace_def Let_def sec_def)
    obtain r2 s2 where up: "cl_update c ?k (SecretObj sec) s1 = (r2, s2)" by (cases "cl_update c ?k (SecretObj sec) s1")
    have "r2 = Inr ()" "s' = s2"
      using run data cr Inl e up by (auto simp: inject_to_namespace_def Let_def sec_def split: sum.splits)
    then show ?thesis using update_view(2) [OF laws up] create_view(3) [OF laws cr] Inl e by simp
  qed
  moreover have "sec_Data sec = data" "label (sec_Meta sec) ''tenara.io/app-id'' = appID"
    by (simp_all add: sec_def named_def lookup_or_empty_def)
  ultimately show ?thesis using data by blast
qed

lemma seal_opens:
  assumes "aead_laws A" and "length key = 32" and "seal_encrypt A key (Some n) p = Inr sealed" and "length n = 12"
  shows "seal_decrypt A key sealed = Inr p"
  using assms aead_open_seal [OF assms(1,2,4)] by (auto simp: seal_encrypt_def seal_decrypt_def Let_def split: if_splits)

lemma local_secrets_simps [simp]:
  "provider_for (local_secrets A key c nonce deps) kind = provider_for deps kind"
  "dp_Inject (local_secrets A key c nonce deps) = inject_to_namespace A key c"
  by (simp_all add: provider_for_def local_secrets_def)

lemma local_encrypt:
  "nonce s = (r, s1) \<Longrightarrow> dp_Encrypt (local_secrets A key c nonce deps) plain s =
     ((case seal_encrypt A key r plain of Inl e \<Rightarrow> Inl (Seal e) | Inr x \<Rightarrow> Inr x), s1)"
  by (simp add: local_secrets_def)

text \<open>A successful provisioning went through every stage.\<close>

lemma provision_stages:
  assumes "provision_binding deps spec s = (Inr out, s')"
  obtains create cred s1 sealed s2 where
    "secret_key (dbs_Kind spec) = Inr (po_SecretKey out)"
    "provider_for deps (dbs_Kind spec) = Some create"
    "create (dbs_AppID spec) s = (Inr (Some cred), s1)" "cr_URI cred \<noteq> []"
    "dp_Encrypt deps (cr_URI cred) s1 = (Inr sealed, s2)"
    "dp_Inject deps (dbs_AppID spec) (namespace_name (dbs_AppID spec) (dbs_Env spec)) [(po_SecretKey out, sealed)] s2 = (Inr (), s')"
    "po_Namespace out = namespace_name (dbs_AppID spec) (dbs_Env spec)"
    "po_SecretName out = secret_name (dbs_AppID spec)"
  using assms
  by (auto simp: provision_binding_def Let_def split: sum.splits option.splits prod.splits if_splits)

text \<open>A provisioned binding: what the secret then holds.\<close>

lemma provision_binding_view:
  assumes laws: "client_laws c view merge_status obj_labels" and A: "aead_laws A" and key: "length key = 32"
    and nonce: "\<And>s r s1. nonce s = (r, s1) \<Longrightarrow> view s1 = view s \<and> (\<forall>n. r = Some n \<longrightarrow> length n = 12)"
    and run: "provision_binding (local_secrets A key c nonce deps) spec s = (Inr out, s')"
  shows "\<exists>create cred s1 sec. provider_for deps (dbs_Kind spec) = Some create \<and> create (dbs_AppID spec) s = (Inr (Some cred), s1) \<and>
    secret_key (dbs_Kind spec) = Inr (po_SecretKey out) \<and> cr_URI cred \<noteq> [] \<and>
    sec_Data sec = [(po_SecretKey out, cr_URI cred)] \<and>
    po_Namespace out = namespace_name (dbs_AppID spec) (dbs_Env spec) \<and> po_SecretName out = secret_name (dbs_AppID spec) \<and>
    view s' = (view s1)((''Secret'', po_Namespace out, po_SecretName out) \<mapsto> SecretObj sec)"
proof -
  let ?deps = "local_secrets A key c nonce deps"
  obtain create cred s1 sealed s2
    where a: "secret_key (dbs_Kind spec) = Inr (po_SecretKey out)" "provider_for deps (dbs_Kind spec) = Some create"
      "create (dbs_AppID spec) s = (Inr (Some cred), s1)" "cr_URI cred \<noteq> []"
    and enc: "dp_Encrypt ?deps (cr_URI cred) s1 = (Inr sealed, s2)"
    and inj: "inject_to_namespace A key c (dbs_AppID spec) (namespace_name (dbs_AppID spec) (dbs_Env spec)) [(po_SecretKey out, sealed)] s2 = (Inr (), s')"
    and o: "po_Namespace out = namespace_name (dbs_AppID spec) (dbs_Env spec)" "po_SecretName out = secret_name (dbs_AppID spec)"
    using provision_stages [OF run] unfolding local_secrets_simps by blast
  obtain r s1' where n: "nonce s1 = (r, s1')" by (cases "nonce s1")
  have sealed: "seal_encrypt A key r (cr_URI cred) = Inr sealed" "s1' = s2"
    using enc by (simp_all add: local_encrypt [where nonce = nonce and s = s1, OF n] split: sum.splits)
  then obtain nn where nn: "r = Some nn" by (auto simp: seal_encrypt_def split: if_splits option.splits)
  have v: "view s2 = view s1" "length nn = 12" using nonce [OF n] nn sealed(2) by auto
  have "seal_decrypt A key sealed = Inr (cr_URI cred)" using seal_opens [OF A key _ v(2)] sealed(1) nn by simp
  then have "collect (decrypt_entry A key) [(po_SecretKey out, sealed)] = Inr [(po_SecretKey out, cr_URI cred)]"
    by (simp add: decrypt_entry_def)
  with inject_view [OF laws inj] v(1) obtain sec where
    "sec_Data sec = [(po_SecretKey out, cr_URI cred)]"
    "view s' = (view s1)((''Secret'', namespace_name (dbs_AppID spec) (dbs_Env spec), secret_name (dbs_AppID spec)) \<mapsto> SecretObj sec)"
    by auto
  then show ?thesis using a by (intro exI [of _ create] exI [of _ cred] exI [of _ s1] exI [of _ sec]) (simp add: o)
qed

section \<open>A successful pass\<close>

abbreviation (input) secret_at :: "DatabaseBindingSpec \<Rightarrow> obj_key" where
  "secret_at spec \<equiv> (''Secret'', namespace_name (dbs_AppID spec) (dbs_Env spec), secret_name (dbs_AppID spec))"

text \<open>The stages of a pass that succeeds on a binding that is not ready.\<close>

lemma reconcile_binding_stages:
  assumes laws: "client_laws c view merge_status obj_labels"
    and here: "view s (binding_key req) = Some (BindingObj b)" and waiting: "dbst_Phase (db_Status b) \<noteq> phaseReady"
    and run: "reconcile_binding msg c deps req s = (Inr (), s')"
  obtains s2 out s3 st st' where
    "view s2 = (view s)(binding_key req \<mapsto> BindingObj (b\<lparr>db_Status := st\<rparr>))"
    "provision_binding deps (db_Spec b) s2 = (Inr out, s3)"
    "cl_status c (binding_key req) (BindingObj (b\<lparr>db_Status := st'\<rparr>)) s3 = (Inr (), s')"
    "st' = \<lparr>dbst_Phase = phaseReady, dbst_Reason = [], dbst_Message = po_Namespace out @ ''/'' @ po_SecretName out @ ''/'' @ po_SecretKey out\<rparr>"
proof -
  let ?k = "binding_key req"
  obtain r s1 where get: "typed_get as_binding c ?k s = (r, s1)" by (cases "typed_get as_binding c ?k s")
  have "r = Inr b"
  proof (cases r)
    case (Inl e)
    then show ?thesis using run get here typed_get_view(3) [OF laws get]
      by (cases e) (simp_all add: reconcile_binding_def)
  next
    case (Inr b0)
    then show ?thesis using typed_get_view(2) [OF laws get, of b0] here by auto
  qed
  note get = get [unfolded this]
  have v1: "view s1 = view s" by (rule typed_get_view(1) [OF laws get])
  let ?b = "b\<lparr>db_Status := (db_Status b)\<lparr>dbst_Phase := phasePending\<rparr>\<rparr>"
  let ?pend = "if dbst_Phase (db_Status b) \<noteq> phasePending then cl_status c ?k (BindingObj ?b) s1 else (Inr (), s1)"
  obtain r2 s2 where pend: "?pend = (r2, s2)" by (cases ?pend)
  have r2: "r2 = Inr ()" using run get waiting pend by (cases r2) (simp_all add: reconcile_binding_def Let_def)
  have "\<exists>st. view s2 = (view s)(?k \<mapsto> BindingObj (b\<lparr>db_Status := st\<rparr>))"
  proof (cases "dbst_Phase (db_Status b) = phasePending")
    case True
    then have "view s2 = (view s)(?k \<mapsto> BindingObj (b\<lparr>db_Status := db_Status b\<rparr>))" using pend v1 here by (simp add: fun_upd_idem)
    then show ?thesis by (rule exI)
  next
    case False
    then have "cl_status c ?k (BindingObj ?b) s1 = (Inr (), s2)" using pend r2 by simp
    from status_view(2) [OF laws this] here v1
    have "view s2 = (view s)(?k \<mapsto> BindingObj (b\<lparr>db_Status := db_Status ?b\<rparr>))" by simp
    then show ?thesis by (rule exI)
  qed
  then obtain st where st: "view s2 = (view s)(?k \<mapsto> BindingObj (b\<lparr>db_Status := st\<rparr>))" ..
  obtain q s3 where prov: "provision_binding deps (db_Spec b) s2 = (q, s3)" by (cases "provision_binding deps (db_Spec b) s2")
  have rest: "(case q of
      Inl pErr \<Rightarrow> (case cl_status c ?k (BindingObj (?b\<lparr>db_Status :=
            \<lparr>dbst_Phase = phasePending, dbst_Reason = ''provision-failed'', dbst_Message = msg pErr\<rparr>\<rparr>)) s3 of
          (Inl e, s4) \<Rightarrow> (Inl (StatusFailed e), s4) | (Inr _, s4) \<Rightarrow> (Inl pErr, s4))
    | Inr out \<Rightarrow> (case cl_status c ?k (BindingObj (?b\<lparr>db_Status := \<lparr>dbst_Phase = phaseReady, dbst_Reason = [],
            dbst_Message = po_Namespace out @ ''/'' @ po_SecretName out @ ''/'' @ po_SecretKey out\<rparr>\<rparr>)) s3 of
          (Inl e, s4) \<Rightarrow> (Inl (StatusFailed e), s4) | (Inr _, s4) \<Rightarrow> (Inr (), s4))) = (Inr (), s')"
    using run get waiting pend r2 prov by (simp add: reconcile_binding_def Let_def split: sum.split_asm)
  then obtain out where out: "q = Inr out" by (cases q) (auto split: prod.splits sum.splits)
  have "cl_status c ?k (BindingObj (b\<lparr>db_Status := \<lparr>dbst_Phase = phaseReady, dbst_Reason = [],
      dbst_Message = po_Namespace out @ ''/'' @ po_SecretName out @ ''/'' @ po_SecretKey out\<rparr>\<rparr>)) s3 = (Inr (), s')"
    using rest out by (auto split: prod.splits sum.splits)
  then show thesis using that [OF st] prov out by simp
qed

text \<open>
  C36: a pass over a binding that is not ready succeeds only when the provider of its kind handed out a
  credential with an address; afterwards the binding is READY with its specification untouched, the secret of
  the application in its namespace holds that address, opened, under the key of the kind and under no other
  key (so what another binding of the application had put there is gone), and nothing else in the cluster has
  changed.
\<close>

theorem binding_ready_secret:
  assumes laws: "client_laws c view merge_status obj_labels" and A: "aead_laws A" and key: "length key = 32"
    and nonce: "\<And>s r s1. nonce s = (r, s1) \<Longrightarrow> view s1 = view s \<and> (\<forall>n. r = Some n \<longrightarrow> length n = 12)"
    and outside: "\<And>create appID s r s1. provider_for deps (dbs_Kind (db_Spec b)) = Some create \<Longrightarrow>
      create appID s = (r, s1) \<Longrightarrow> view s1 = view s"
    and here: "view s (binding_key req) = Some (BindingObj b)" and waiting: "dbst_Phase (db_Status b) \<noteq> phaseReady"
    and run: "reconcile_binding msg c (local_secrets A key c nonce deps) req s = (Inr (), s')"
  shows "\<exists>create cred s2 s1 k sec status.
    provider_for deps (dbs_Kind (db_Spec b)) = Some create \<and>
    create (dbs_AppID (db_Spec b)) s2 = (Inr (Some cred), s1) \<and> cr_URI cred \<noteq> [] \<and>
    secret_key (dbs_Kind (db_Spec b)) = Inr k \<and> sec_Data sec = [(k, cr_URI cred)] \<and> dbst_Phase status = phaseReady \<and>
    view s' = (view s)(secret_at (db_Spec b) \<mapsto> SecretObj sec, binding_key req \<mapsto> BindingObj (b\<lparr>db_Status := status\<rparr>))"
proof -
  let ?deps = "local_secrets A key c nonce deps" and ?k = "binding_key req" and ?spec = "db_Spec b"
  obtain s2 out s3 st st' where v2: "view s2 = (view s)(?k \<mapsto> BindingObj (b\<lparr>db_Status := st\<rparr>))"
    and prov: "provision_binding ?deps ?spec s2 = (Inr out, s3)"
    and fin: "cl_status c ?k (BindingObj (b\<lparr>db_Status := st'\<rparr>)) s3 = (Inr (), s')"
    and st': "st' = \<lparr>dbst_Phase = phaseReady, dbst_Reason = [], dbst_Message = po_Namespace out @ ''/'' @ po_SecretName out @ ''/'' @ po_SecretKey out\<rparr>"
    by (rule reconcile_binding_stages [OF laws here waiting run]) blast
  from provision_binding_view [OF laws A key nonce prov]
  obtain create cred s1 sec where p: "provider_for deps (dbs_Kind ?spec) = Some create" "create (dbs_AppID ?spec) s2 = (Inr (Some cred), s1)"
      "secret_key (dbs_Kind ?spec) = Inr (po_SecretKey out)" "cr_URI cred \<noteq> []" "sec_Data sec = [(po_SecretKey out, cr_URI cred)]"
    and o: "po_Namespace out = namespace_name (dbs_AppID ?spec) (dbs_Env ?spec)" "po_SecretName out = secret_name (dbs_AppID ?spec)"
    and v3: "view s3 = (view s1)((''Secret'', po_Namespace out, po_SecretName out) \<mapsto> SecretObj sec)"
    by blast
  have v3': "view s3 = (view s2)(secret_at ?spec \<mapsto> SecretObj sec)" using v3 outside [OF p(1,2)] o by simp
  have "view s3 ?k = Some (BindingObj (b\<lparr>db_Status := st\<rparr>))" using v3' v2 by simp
  with status_view(2) [OF laws fin]
  have "view s' = (view s3)(?k \<mapsto> BindingObj (b\<lparr>db_Status := st'\<rparr>))" by simp
  then have "view s' = (view s)(secret_at ?spec \<mapsto> SecretObj sec, ?k \<mapsto> BindingObj (b\<lparr>db_Status := st'\<rparr>))"
    using v3' v2 by (simp add: fun_upd_twist)
  then show ?thesis using p st' by (intro exI [of _ create] exI [of _ cred] exI [of _ s2] exI [of _ s1] exI [of _ "po_SecretKey out"]
        exI [of _ sec] exI [of _ st']) simp
qed

text \<open>A cluster in which the MongoDB binding of an application waits beside the cache binding's secret.\<close>

definition sample_binding :: DatabaseBinding where
  "sample_binding = \<lparr>db_Meta = named ''shop-db'' ''tenara'' [], db_Spec = \<lparr>dbs_AppID = ''shop'', dbs_Env = ''prod'', dbs_Kind = ''mongo''\<rparr>,
     db_Status = \<lparr>dbst_Phase = [], dbst_Reason = [], dbst_Message = []\<rparr>\<rparr>"

definition sample_binding_cluster :: cluster where
  "sample_binding_cluster = [((''DatabaseBinding'', ''tenara'', ''shop-db''), BindingObj sample_binding),
     (secret_at (db_Spec sample_binding), SecretObj \<lparr>sec_Meta = named ''app-shop-secrets'' ''n'' [], sec_Type = ''Opaque'',
        sec_Data = [(''REDIS_URI'', ''redis://h'')]\<rparr>)]"

definition sample_deps :: "cluster deps" where
  "sample_deps = \<lparr>dp_Databases = Some (\<lambda>a s. (Inr (Some \<lparr>cr_Username = a, cr_Password = ''pw'', cr_URI = ''mongodb://h''\<rparr>), s)),
     dp_Caches = None, dp_Storages = None, dp_Encrypt = (\<lambda>p s. (Inr p, s)), dp_Inject = (\<lambda>a n e s. (Inr (), s))\<rparr>"

abbreviation (input) sample_nonce :: "cluster \<Rightarrow> string option \<times> cluster" where
  "sample_nonce \<equiv> (\<lambda>s. (Some (replicate 12 CHR ''n''), s))"

lemma sample_pass_ready:
  "fst (reconcile_binding (\<lambda>e. []) cluster_client (local_secrets tag_aead sample_key cluster_client sample_nonce sample_deps)
     (''tenara'', ''shop-db'') sample_binding_cluster) = Inr ()"
  by code_simp

theorem binding_ready_secret_witness:
  "\<exists>s' sec. reconcile_binding (\<lambda>e. []) cluster_client (local_secrets tag_aead sample_key cluster_client sample_nonce sample_deps)
      (''tenara'', ''shop-db'') sample_binding_cluster = (Inr (), s') \<and>
     map_of s' (secret_at (db_Spec sample_binding)) = Some (SecretObj sec) \<and> map fst (sec_Data sec) = [''MONGODB_URI'']"
proof -
  let ?run = "reconcile_binding (\<lambda>e. []) cluster_client (local_secrets tag_aead sample_key cluster_client sample_nonce sample_deps)
      (''tenara'', ''shop-db'') sample_binding_cluster"
  obtain s' where r: "?run = (Inr (), s')" using sample_pass_ready by (cases ?run) auto
  have kind: "dbs_Kind (db_Spec sample_binding) = ''mongo''" by (simp add: sample_binding_def)
  have here: "map_of sample_binding_cluster (binding_key (''tenara'', ''shop-db'')) = Some (BindingObj sample_binding)"
    by (simp add: sample_binding_cluster_def)
  have "\<exists>create cred s2 s1 k sec status.
    provider_for sample_deps (dbs_Kind (db_Spec sample_binding)) = Some create \<and>
    create (dbs_AppID (db_Spec sample_binding)) s2 = (Inr (Some cred), s1) \<and> cr_URI cred \<noteq> [] \<and>
    secret_key (dbs_Kind (db_Spec sample_binding)) = Inr k \<and> sec_Data sec = [(k, cr_URI cred)] \<and> dbst_Phase status = phaseReady \<and>
    map_of s' = (map_of sample_binding_cluster)(secret_at (db_Spec sample_binding) \<mapsto> SecretObj sec,
      binding_key (''tenara'', ''shop-db'') \<mapsto> BindingObj (sample_binding\<lparr>db_Status := status\<rparr>))"
  proof (rule binding_ready_secret [where view = map_of and nonce = sample_nonce, OF store_client_laws tag_aead_laws _ _ _ here _ r])
    show "length sample_key = 32" by (simp add: sample_key_def)
  next
    fix create appID s q s1
    assume "provider_for sample_deps (dbs_Kind (db_Spec sample_binding)) = Some create" "create appID s = (q, s1)"
    then show "map_of s1 = map_of s" by (auto simp: kind provider_for_def sample_deps_def)
  qed (simp_all add: sample_binding_def)
  then obtain k sec and cred :: Credential and status where k: "secret_key (dbs_Kind (db_Spec sample_binding)) = Inr k" and d: "sec_Data sec = [(k, cr_URI cred)]"
    and v: "map_of s' = (map_of sample_binding_cluster)(secret_at (db_Spec sample_binding) \<mapsto> SecretObj sec,
      binding_key (''tenara'', ''shop-db'') \<mapsto> BindingObj (sample_binding\<lparr>db_Status := status\<rparr>))"
    by (elim exE conjE) blast
  have "map_of s' (secret_at (db_Spec sample_binding)) = Some (SecretObj sec)" unfolding v by simp
  then show ?thesis using r kind k d by (intro exI [of _ s'] exI [of _ sec]) (simp add: secret_key_def)
qed

section \<open>The application ids the control plane issues\<close>

text \<open>Application ids are UUIDs: the local providers refuse every one of them, so a binding of a platform
  application is never provisioned by a local provider.\<close>

lemma local_providers_refuse_uuid:
  assumes "CHR ''-'' \<in> set appID"
  shows "create_app_database w mcfg appID s = (Inl (InvalidAppID appID), s)"
    and "create_app_cache w ccfg appID s = (Inl (InvalidAppID appID), s)"
    and "create_app_storage w f als appID s = (Inl (InvalidAppID appID), s)"
proof -
  have "\<not> valid_app_id appID"
  proof
    assume "valid_app_id appID"
    then have "app_id_char CHR ''-''" using assms by (simp add: valid_app_id_def list_all_iff)
    then show False by (simp add: app_id_char_def)
  qed
  then show "create_app_database w mcfg appID s = (Inl (InvalidAppID appID), s)"
    "create_app_cache w ccfg appID s = (Inl (InvalidAppID appID), s)"
    "create_app_storage w f als appID s = (Inl (InvalidAppID appID), s)"
    by (simp_all add: create_app_database_def db_name_def create_app_cache_def cache_user_name_def
        create_app_storage_def storage_user_name_def)
qed

end
