(* ===== verification/Database.thy ===== *)
theory Database
  imports Go_Http Go_Numbers "HOL-Library.State_Monad"
begin

text \<open>
  The PostgreSQL schema of the control plane (\<^verbatim>\<open>control-plane/internal/store/migrations\<close>) and what the stores
  rely on: one statement is atomic, fails with an error or not at all, and a failure leaves the tables as they
  were unless the answer was lost; a transaction is undone unless its commit took effect. Everything outside
  the program is an oracle indexed by a counter of the events so far, so that two events may answer
  differently. Operations are in the state monad; an operation of Go returning \<open>(T, error)\<close> yields a sum.
\<close>

section \<open>Rows\<close>

record UserRow =
  us_id :: string
  us_email :: string
  us_hash :: string
  us_verified :: bool
  us_github :: "string option"
  us_login :: "string option"

record OrgRow =
  og_id :: string
  og_name :: string
  og_slug :: string
  og_tier :: string

record MembershipRow =
  mb_user :: string
  mb_org :: string
  mb_role :: string

record ApplicationRow =
  ap_id :: string
  ap_org :: string
  ap_name :: string
  ap_slug :: string
  ap_created_by :: "string option"
  ap_deleted :: "time option"
  ap_created :: time
  ap_spec :: "string option"

record ServiceTableRow =
  sv_id :: string
  sv_app :: string
  sv_name :: string
  sv_type :: string
  sv_runtime :: string
  sv_port :: "int option"

record EnvironmentRow =
  en_id :: string
  en_app :: string
  en_name :: string
  en_namespace :: "string option"

record DeploymentRow =
  dp_id :: string
  dp_app :: string
  dp_env :: string
  dp_state :: string
  dp_plan :: "string option"
  dp_snapshot :: "string option"

record RevisionTableRow =
  rv_deployment :: string
  rv_number :: int
  rv_git_sha :: "string option"
  rv_build :: "string option"
  rv_digest :: string
  rv_config :: int
  rv_secret :: int
  rv_spec_version :: string
  rv_created :: time

record DomainTableRow =
  dm_id :: string
  dm_app :: string
  dm_hostname :: string
  dm_verified :: bool
  dm_challenge :: "string option"
  dm_cname :: "string option"
  dm_default :: bool
  dm_created :: time

record DatabaseTableRow =
  da_id :: string
  da_app :: string
  da_type :: string
  da_isolation :: string
  da_state :: string
  da_name :: "string option"

record BindingTableRow =
  bi_id :: string
  bi_database :: string
  bi_app :: string
  bi_ref :: "string option"
  bi_state :: string

record SecretRow =
  se_id :: string
  se_app :: string
  se_name :: string
  se_ciphertext :: string

record SecretRevisionRow =
  sr_secret :: string
  sr_version :: int
  sr_ciphertext :: string

record TokenRow =
  tk_hash :: string
  tk_user :: string
  tk_expires :: time
  tk_consumed :: "time option"

record SignupRow =
  sl_ip :: string
  sl_start :: time
  sl_count :: int

record OAuthStateRow =
  os_state :: string
  os_user :: string
  os_created :: time

record ApiTokenTableRow =
  at_id :: string
  at_org :: string
  at_user :: string
  at_name :: string
  at_hash :: string
  at_prefix :: string
  at_last_used :: "time option"
  at_revoked :: "time option"
  at_created :: time

record AuditTableRow =
  au_actor_type :: string
  au_actor_id :: "string option"
  au_agent :: "string option"
  au_workspace :: "string option"
  au_action :: string
  au_source_ip :: "string option"
  au_request_id :: "string option"
  au_result :: string
  au_occurred :: time

record SecurityEventRow =
  ev_kind :: string
  ev_source_ip :: "string option"
  ev_detail :: string

record IdempotencyRow =
  ik_key :: string
  ik_org :: string
  ik_hash :: string
  ik_status :: "int option"
  ik_body :: "string option"
  ik_expires :: time

section \<open>The database\<close>

record tables =
  tb_users :: "UserRow list"
  tb_orgs :: "OrgRow list"
  tb_members :: "MembershipRow list"
  tb_apps :: "ApplicationRow list"
  tb_services :: "ServiceTableRow list"
  tb_envs :: "EnvironmentRow list"
  tb_deployments :: "DeploymentRow list"
  tb_revisions :: "RevisionTableRow list"
  tb_domains :: "DomainTableRow list"
  tb_databases :: "DatabaseTableRow list"
  tb_bindings :: "BindingTableRow list"
  tb_secrets :: "SecretRow list"
  tb_secret_revs :: "SecretRevisionRow list"
  tb_verifications :: "TokenRow list"
  tb_resets :: "TokenRow list"
  tb_signups :: "SignupRow list"
  tb_oauth :: "OAuthStateRow list"
  tb_api_tokens :: "ApiTokenTableRow list"
  tb_audit :: "AuditTableRow list"
  tb_events :: "SecurityEventRow list"
  tb_idem :: "IdempotencyRow list"

definition empty_tables :: tables where
  "empty_tables =
     \<lparr>tb_users = [], tb_orgs = [], tb_members = [], tb_apps = [], tb_services = [], tb_envs = [],
      tb_deployments = [], tb_revisions = [], tb_domains = [], tb_databases = [], tb_bindings = [],
      tb_secrets = [], tb_secret_revs = [], tb_verifications = [], tb_resets = [], tb_signups = [],
      tb_oauth = [], tb_api_tokens = [], tb_audit = [], tb_events = [], tb_idem = []\<rparr>"

text \<open>What the program changes: the tables, the mails it sent, the manifests it handed to the cluster; and the
  number of events so far.\<close>

record platform =
  pf_tables :: tables
  pf_tick :: nat
  pf_mails :: "(string \<times> string) list"
  pf_applied :: "json list"

type_synonym 'a op = "(platform, 'a) state"

section \<open>The outside\<close>

datatype sql_error = NoRows | UniqueViolation | CheckViolation | ForeignKeyViolation | BadText | ConnectionLost

text \<open>A statement may fail at the connection before it ran, or after, its answer lost.\<close>

datatype db_fault = Refused | AnswerLost

record outside =
  db_fault :: "nat \<Rightarrow> db_fault option"
  db_now :: "nat \<Rightarrow> time"
  db_uuid :: "nat \<Rightarrow> nat \<Rightarrow> string"
  db_cast :: "string \<Rightarrow> string option"
  db_inet :: "string \<Rightarrow> string option"
  db_fold :: "string \<Rightarrow> string"
  db_time :: "time \<Rightarrow> string"
  db_jsonb :: "string \<Rightarrow> string option"
  go_now :: "nat \<Rightarrow> time"
  go_uuid_ok :: "string \<Rightarrow> bool"
  go_addr :: "string \<Rightarrow> string option"
  go_lower :: "string \<Rightarrow> string"
  go_random :: "nat \<Rightarrow> nat \<Rightarrow> string option"
  go_mail :: "string \<Rightarrow> string option"
  smtp_ok :: "nat \<Rightarrow> bool"
  dns_txt :: "nat \<Rightarrow> string \<Rightarrow> string list option"
  sha256 :: "string \<Rightarrow> string"
  argon2id :: "string \<Rightarrow> string \<Rightarrow> int \<times> int \<times> int \<times> int \<Rightarrow> string"
  jwt_sign :: "string \<Rightarrow> string \<times> int \<times> int \<Rightarrow> string option"
  jwt_parse :: "string \<Rightarrow> time \<Rightarrow> string \<Rightarrow> string option"
  js_strings :: "string list \<Rightarrow> string \<Rightarrow> (string \<Rightarrow> string) option"
  js_int :: "string \<Rightarrow> string \<Rightarrow> int option"
  js_instant :: "string \<Rightarrow> string \<Rightarrow> time option"
  js_bytes :: "body \<Rightarrow> string"

text \<open>
  \<open>db_cast\<close> reads a text as a uuid in canonical form, \<open>db_inet\<close> as an address; \<open>db_fold\<close> is the folding under
  which \<^verbatim>\<open>citext\<close> values compare, \<open>db_time\<close> the text of a time stamp, \<open>db_jsonb\<close> the text a document has once it is
  stored as \<^verbatim>\<open>jsonb\<close>. \<open>go_uuid_ok\<close> is \<^verbatim>\<open>uuid.Parse\<close>, \<open>go_addr\<close> is \<^verbatim>\<open>netip.ParseAddr\<close>, \<open>go_lower\<close>
  is \<^verbatim>\<open>strings.ToLower\<close> (which depends on the Unicode tables), \<open>go_mail\<close> is \<^verbatim>\<open>mail.ParseAddress\<close>, giving the address.
  \<open>js_strings\<close> decodes a body into a struct with the named string fields, an absent field reading as the
  empty string; \<open>js_int\<close> and \<open>js_instant\<close> decode one number or time stamp of a body, absent reading as zero; \<open>jwt_sign\<close> signs the claims user, issued and expiry (in seconds) with a secret, \<open>jwt_parse\<close> yields the
  user of a token whose signature and expiry are right, \<open>js_bytes\<close> are the bytes a response body is written as.
\<close>

section \<open>Sequencing\<close>

abbreviation ret :: "'a \<Rightarrow> ('s, 'a) state" where "ret \<equiv> State_Monad.return"

text \<open>\<^verbatim>\<open>x, err := m(); if err != nil { return h(err) }; f(x)\<close>.\<close>

definition attempt :: "('s, 'e + 'a) state \<Rightarrow> ('e \<Rightarrow> 'b) \<Rightarrow> ('a \<Rightarrow> ('s, 'b) state) \<Rightarrow> ('s, 'b) state" where
  "attempt m h f = do { r \<leftarrow> m; (case r of Inl e \<Rightarrow> ret (h e) | Inr x \<Rightarrow> f x) }"

lemma run_attempt:
  "run_state (attempt m h f) s =
     (case run_state m s of (Inl e, s') \<Rightarrow> (h e, s') | (Inr x, s') \<Rightarrow> run_state (f x) s')"
  by (simp add: attempt_def split: prod.split sum.split)

text \<open>One event of the outside world.\<close>

definition event :: "nat op" where
  "event = do { p \<leftarrow> State_Monad.get; State_Monad.set (p\<lparr>pf_tick := Suc (pf_tick p)\<rparr>); ret (pf_tick p) }"

lemma run_event [simp]: "run_state event p = (pf_tick p, p\<lparr>pf_tick := Suc (pf_tick p)\<rparr>)"
  by (simp add: event_def)

definition draw :: "outside \<Rightarrow> nat \<Rightarrow> (unit + string) op" where
  "draw w len = do { n \<leftarrow> event; ret (case go_random w n len of None \<Rightarrow> Inl () | Some bytes \<Rightarrow> Inr bytes) }"

definition time_now :: "outside \<Rightarrow> time op" where
  "time_now w = do { n \<leftarrow> event; ret (go_now w n) }"

section \<open>Statements and transactions\<close>

type_synonym 'a stmt = "nat \<Rightarrow> tables \<Rightarrow> sql_error + 'a \<times> tables"

definition exec :: "outside \<Rightarrow> 'a stmt \<Rightarrow> (sql_error + 'a) op" where
  "exec w st = State (\<lambda>p.
     (let n = pf_tick p; p' = p\<lparr>pf_tick := Suc n\<rparr> in
      case db_fault w n of
        Some Refused \<Rightarrow> (Inl ConnectionLost, p')
      | Some AnswerLost \<Rightarrow>
          (Inl ConnectionLost, case st n (pf_tables p) of Inl _ \<Rightarrow> p' | Inr (_, t) \<Rightarrow> p'\<lparr>pf_tables := t\<rparr>)
      | None \<Rightarrow> (case st n (pf_tables p) of Inl e \<Rightarrow> (Inl e, p') | Inr (x, t) \<Rightarrow> (Inr x, p'\<lparr>pf_tables := t\<rparr>))))"

text \<open>\<open>work\<close> gets the instant the transaction began; when it fails, or the commit was refused, the tables are
  those before it.\<close>

definition transact :: "outside \<Rightarrow> (sql_error \<Rightarrow> 'e) \<Rightarrow> (time \<Rightarrow> ('e + 'a) op) \<Rightarrow> ('e + 'a) op" where
  "transact w wrap work = State (\<lambda>p.
     (let n = pf_tick p; p0 = p\<lparr>pf_tick := Suc n\<rparr> in
      if db_fault w n \<noteq> None then (Inl (wrap ConnectionLost), p0)
      else case run_state (work (db_now w n)) p0 of
        (Inl e, p1) \<Rightarrow> (Inl e, p1\<lparr>pf_tables := pf_tables p\<rparr>)
      | (Inr x, p1) \<Rightarrow>
          (let m = pf_tick p1; p2 = p1\<lparr>pf_tick := Suc m\<rparr> in
           case db_fault w m of
             None \<Rightarrow> (Inr x, p2)
           | Some Refused \<Rightarrow> (Inl (wrap ConnectionLost), p2\<lparr>pf_tables := pf_tables p\<rparr>)
           | Some AnswerLost \<Rightarrow> (Inl (wrap ConnectionLost), p2))))"

text \<open>A query that only reads, \<open>WHERE column = $n\<close> on a uuid column, a single row.\<close>

definition reading :: "(tables \<Rightarrow> sql_error + 'a) \<Rightarrow> 'a stmt" where
  "reading q n t = (case q t of Inl e \<Rightarrow> Inl e | Inr x \<Rightarrow> Inr (x, t))"

definition uuid_arg :: "outside \<Rightarrow> string \<Rightarrow> (string \<Rightarrow> 'a stmt) \<Rightarrow> 'a stmt" where
  "uuid_arg w s st n t = (case db_cast w s of None \<Rightarrow> Inl BadText | Some u \<Rightarrow> st u n t)"

definition one_row :: "('r \<Rightarrow> bool) \<Rightarrow> 'r list \<Rightarrow> sql_error + 'r" where
  "one_row P rows = (case find P rows of None \<Rightarrow> Inl NoRows | Some r \<Rightarrow> Inr r)"

text \<open>\<^verbatim>\<open>NULLIF(s, '')\<close>, \<^verbatim>\<open>COALESCE(x, '')\<close> and the cast of a nullable argument.\<close>

definition nullif_empty :: "string \<Rightarrow> string option" where
  "nullif_empty s = (if s = [] then None else Some s)"

definition coalesce :: "string option \<Rightarrow> string" where
  "coalesce x = (case x of None \<Rightarrow> [] | Some s \<Rightarrow> s)"

definition nullable_cast :: "(string \<Rightarrow> string option) \<Rightarrow> string \<Rightarrow> (sql_error + string option)" where
  "nullable_cast cast s = (if s = [] then Inr None else case cast s of None \<Rightarrow> Inl BadText | Some u \<Rightarrow> Inr (Some u))"

section \<open>Reasoning about operations\<close>

text \<open>A triple: from states in \<open>P\<close> the operation yields results and states in \<open>Q\<close>.\<close>

definition spec :: "('s \<Rightarrow> bool) \<Rightarrow> ('s, 'a) state \<Rightarrow> ('a \<Rightarrow> 's \<Rightarrow> bool) \<Rightarrow> bool" where
  "spec P m Q = (\<forall>s. P s \<longrightarrow> (case run_state m s of (x, s') \<Rightarrow> Q x s'))"

lemma specI: "(\<And>s x s'. P s \<Longrightarrow> run_state m s = (x, s') \<Longrightarrow> Q x s') \<Longrightarrow> spec P m Q"
  by (simp add: spec_def split: prod.split)

lemma specD: "spec P m Q \<Longrightarrow> P s \<Longrightarrow> run_state m s = (x, s') \<Longrightarrow> Q x s'"
  by (auto simp: spec_def)

lemma spec_ret: "(\<And>s. P s \<Longrightarrow> Q x s) \<Longrightarrow> spec P (ret x) Q"
  by (simp add: spec_def)

lemma spec_bind: "spec P m R \<Longrightarrow> (\<And>x. spec (R x) (f x) Q) \<Longrightarrow> spec P (do { x \<leftarrow> m; f x }) Q"
  by (fastforce simp: spec_def split: prod.splits)

lemma spec_attempt:
  assumes "spec P m R" and "\<And>e s. R (Inl e) s \<Longrightarrow> Q (h e) s" and "\<And>x. spec (R (Inr x)) (f x) Q"
  shows "spec P (attempt m h f) Q"
  using assms unfolding spec_def run_attempt
  by (fastforce split: prod.splits sum.splits)

lemma spec_conseq: "spec P m Q \<Longrightarrow> (\<And>s. P' s \<Longrightarrow> P s) \<Longrightarrow> (\<And>x s. Q x s \<Longrightarrow> Q' x s) \<Longrightarrow> spec P' m Q'"
  by (fastforce simp: spec_def split: prod.splits)

lemma spec_False [simp]: "spec (\<lambda>s. False) m Q"
  by (simp add: spec_def)

lemma spec_pure: "(C \<Longrightarrow> spec P m Q) \<Longrightarrow> spec (\<lambda>s. C \<and> P s) m Q"
  by (auto simp: spec_def)

lemma spec_conj: "spec P m Q \<Longrightarrow> spec P m Q' \<Longrightarrow> spec P m (\<lambda>x s. Q x s \<and> Q' x s)"
  by (fastforce simp: spec_def split: prod.splits)

lemma spec_exec:
  assumes "\<And>n t. I t \<Longrightarrow> (case st n t of Inl e \<Rightarrow> Q (Inl e) t | Inr (x, t') \<Rightarrow> Q (Inr x) t' \<and> Q (Inl ConnectionLost) t')"
    and "\<And>t. I t \<Longrightarrow> Q (Inl ConnectionLost) t"
  shows "spec (\<lambda>p. I (pf_tables p)) (exec w st) (\<lambda>x p. Q x (pf_tables p))"
proof (rule specI)
  fix p x p'
  assume p: "I (pf_tables p)" and run: "run_state (exec w st) p = (x, p')"
  show "Q x (pf_tables p')"
    using assms(1) [OF p, of "pf_tick p"] assms(2) [OF p] run
    by (auto simp: exec_def Let_def split: option.splits db_fault.splits sum.splits prod.splits)
qed

lemma spec_event: "spec (\<lambda>p. I (pf_tables p)) event (\<lambda>n p. I (pf_tables p))"
  by (simp add: spec_def)

lemma spec_draw: "spec (\<lambda>p. I (pf_tables p)) (draw w len) (\<lambda>n p. I (pf_tables p))"
  by (simp add: spec_def draw_def split: option.split)

lemma spec_time_now: "spec (\<lambda>p. I (pf_tables p)) (time_now w) (\<lambda>n p. I (pf_tables p))"
  by (simp add: spec_def time_now_def)

lemma spec_transact:
  assumes work: "\<And>now. spec (\<lambda>p. I (pf_tables p)) (work now) (\<lambda>x p. Q x (pf_tables p))"
    and fail: "\<And>e t. I t \<Longrightarrow> Q (Inl e) t" and lost: "\<And>x t. Q (Inr x) t \<Longrightarrow> Q (Inl (wrap ConnectionLost)) t"
  shows "spec (\<lambda>p. I (pf_tables p)) (transact w wrap work) (\<lambda>x p. Q x (pf_tables p))"
proof (rule specI)
  fix p x p'
  assume p: "I (pf_tables p)" and run: "run_state (transact w wrap work) p = (x, p')"
  show "Q x (pf_tables p')"
  proof (cases "db_fault w (pf_tick p)")
    case (Some f)
    then show ?thesis using run p fail by (auto simp: transact_def Let_def)
  next
    case None
    obtain r p1 where w: "run_state (work (db_now w (pf_tick p))) (p\<lparr>pf_tick := Suc (pf_tick p)\<rparr>) = (r, p1)"
      by (cases "run_state (work (db_now w (pf_tick p))) (p\<lparr>pf_tick := Suc (pf_tick p)\<rparr>)")
    have q: "Q r (pf_tables p1)" using specD [OF work _ w] p by simp
    show ?thesis
      using run None w q p fail lost
      by (cases r) (auto simp: transact_def Let_def split: option.splits db_fault.splits)
  qed
qed

text \<open>An invariant of the tables, kept by an operation and by a statement; the rules are applied by \<open>intro\<close>.\<close>

named_theorems keeps_intro \<open>introduction rules for operations that keep an invariant of the tables\<close>

definition keeps :: "(tables \<Rightarrow> bool) \<Rightarrow> 'a op \<Rightarrow> bool" where
  "keeps I m = (\<forall>p. I (pf_tables p) \<longrightarrow> I (pf_tables (snd (run_state m p))))"

definition stmt_keeps :: "(tables \<Rightarrow> bool) \<Rightarrow> 'a stmt \<Rightarrow> bool" where
  "stmt_keeps I st = (\<forall>n t x t'. I t \<longrightarrow> st n t = Inr (x, t') \<longrightarrow> I t')"

lemma keepsD: "keeps I m \<Longrightarrow> I (pf_tables p) \<Longrightarrow> run_state m p = (x, p') \<Longrightarrow> I (pf_tables p')"
  unfolding keeps_def by (metis snd_conv)

lemma keeps_ret [keeps_intro]: "keeps I (ret x)"
  by (simp add: keeps_def)

lemma keeps_bind [keeps_intro]: "keeps I m \<Longrightarrow> (\<And>x. keeps I (f x)) \<Longrightarrow> keeps I (do { x \<leftarrow> m; f x })"
  by (auto simp: keeps_def split: prod.split)

lemma keeps_attempt [keeps_intro]: "keeps I m \<Longrightarrow> (\<And>x. keeps I (f x)) \<Longrightarrow> keeps I (attempt m h f)"
  unfolding attempt_def by (intro keeps_bind) (auto split: sum.split intro: keeps_ret)

lemma keeps_exec [keeps_intro]: "stmt_keeps I st \<Longrightarrow> keeps I (exec w st)"
  by (auto simp: keeps_def stmt_keeps_def exec_def Let_def split: option.split db_fault.split sum.split)

lemma keeps_event [keeps_intro]: "keeps I event"
  by (simp add: keeps_def)

lemma keeps_draw [keeps_intro]: "keeps I (draw w len)"
  by (simp add: keeps_def draw_def)

lemma keeps_time_now [keeps_intro]: "keeps I (time_now w)"
  by (simp add: keeps_def time_now_def)

lemma keeps_if [keeps_intro]: "(c \<Longrightarrow> keeps I a) \<Longrightarrow> (\<not> c \<Longrightarrow> keeps I b) \<Longrightarrow> keeps I (if c then a else b)"
  by simp

lemma keeps_sum [keeps_intro]:
  "(\<And>e. r = Inl e \<Longrightarrow> keeps I (f e)) \<Longrightarrow> (\<And>x. r = Inr x \<Longrightarrow> keeps I (g x)) \<Longrightarrow> keeps I (case r of Inl e \<Rightarrow> f e | Inr x \<Rightarrow> g x)"
  by (cases r) auto

lemma keeps_option [keeps_intro]:
  "(r = None \<Longrightarrow> keeps I f) \<Longrightarrow> (\<And>x. r = Some x \<Longrightarrow> keeps I (g x)) \<Longrightarrow> keeps I (case r of None \<Rightarrow> f | Some x \<Rightarrow> g x)"
  by (cases r) auto

lemma keeps_prod [keeps_intro]: "(\<And>a b. r = (a, b) \<Longrightarrow> keeps I (f a b)) \<Longrightarrow> keeps I (case r of (a, b) \<Rightarrow> f a b)"
  by (cases r) auto

lemma keepsI: "(\<And>p. I (pf_tables p) \<Longrightarrow> I (pf_tables (snd (run_state m p)))) \<Longrightarrow> keeps I m"
  by (simp add: keeps_def)

lemma keeps_transact [keeps_intro]:
  assumes work: "\<And>now. keeps I (work now)"
  shows "keeps I (transact w wrap work)"
proof (rule keepsI)
  fix p :: platform assume p: "I (pf_tables p)"
  obtain r p1 where run: "run_state (work (db_now w (pf_tick p))) (p\<lparr>pf_tick := Suc (pf_tick p)\<rparr>) = (r, p1)"
    by (cases "run_state (work (db_now w (pf_tick p))) (p\<lparr>pf_tick := Suc (pf_tick p)\<rparr>)")
  have "I (pf_tables p1)" using keepsD [OF work _ run] p by simp
  then show "I (pf_tables (snd (run_state (transact w wrap work) p)))"
    using p run by (auto simp: transact_def Let_def split: sum.split option.split db_fault.split)
qed

lemma stmt_keepsI: "(\<And>n t x t'. I t \<Longrightarrow> st n t = Inr (x, t') \<Longrightarrow> I t') \<Longrightarrow> stmt_keeps I st"
  by (simp add: stmt_keeps_def)

lemma stmt_keeps_reading [keeps_intro]: "stmt_keeps I (reading q)"
  by (auto simp: stmt_keeps_def reading_def split: sum.splits)

lemma stmt_keeps_uuid_arg [keeps_intro]: "(\<And>u. stmt_keeps I (st u)) \<Longrightarrow> stmt_keeps I (uuid_arg w s st)"
  by (auto simp: stmt_keeps_def uuid_arg_def split: option.splits)

text \<open>An operation that always fails; a transaction around it changes nothing.\<close>

definition fails :: "('s, 'e + 'a) state \<Rightarrow> bool" where
  "fails m = (\<forall>s. \<exists>e. fst (run_state m s) = Inl e)"

lemma failsE:
  assumes "fails m"
  obtains e s' where "run_state m s = (Inl e, s')"
proof -
  obtain e where "fst (run_state m s) = Inl e" using assms unfolding fails_def by blast
  then show thesis using that by (cases "run_state m s") simp
qed

lemma fails_attempt:
  assumes "\<And>x. fails (f x)"
  shows "fails (attempt m (\<lambda>e. Inl (h e)) f)"
  unfolding fails_def
proof
  fix s
  obtain r s1 where r: "run_state m s = (r, s1)" by (cases "run_state m s")
  show "\<exists>e. fst (run_state (attempt m (\<lambda>e. Inl (h e)) f) s) = Inl e"
  proof (cases r)
    case (Inr x)
    obtain e s' where "run_state (f x) s1 = (Inl e, s')" by (rule failsE [OF assms])
    then show ?thesis using r Inr by (simp add: run_attempt)
  qed (simp add: run_attempt r)
qed

lemma fails_first: "fails m \<Longrightarrow> fails (attempt m (\<lambda>e. Inl (h e)) f)"
  unfolding fails_def by (auto simp: run_attempt split: prod.split sum.split) (metis Inl_Inr_False fst_conv)

lemma fails_exec:
  assumes "\<And>n t. \<exists>e. st n t = Inl e"
  shows "fails (exec w st)"
proof -
  have "\<exists>e. fst (run_state (exec w st) p) = Inl e" for p
    using assms [of "pf_tick p" "pf_tables p"] by (auto simp: exec_def Let_def split: option.split db_fault.split)
  then show ?thesis by (simp add: fails_def)
qed

lemma transact_fails:
  assumes "\<And>now. fails (work now)" and "run_state (transact w wrap work) p = (res, p')"
  shows "(\<exists>e. res = Inl e) \<and> pf_tables p' = pf_tables p"
proof -
  obtain e s' where "run_state (work (db_now w (pf_tick p))) (p\<lparr>pf_tick := Suc (pf_tick p)\<rparr>) = (Inl e, s')"
    by (rule failsE [OF assms(1)])
  then show ?thesis using assms(2) by (auto simp: transact_def Let_def split: if_splits)
qed

text \<open>An undisturbed statement.\<close>

lemma run_exec:
  "db_fault w (pf_tick p) = None \<Longrightarrow> run_state (exec w st) p =
     (case st (pf_tick p) (pf_tables p) of
        Inl e \<Rightarrow> (Inl e, p\<lparr>pf_tick := Suc (pf_tick p)\<rparr>)
      | Inr (x, t) \<Rightarrow> (Inr x, p\<lparr>pf_tick := Suc (pf_tick p), pf_tables := t\<rparr>))"
  by (simp add: exec_def Let_def split: sum.split prod.split)

text \<open>A statement that leaves the tables alone; its result is an error or what the query yields.\<close>

lemma exec_idle:
  assumes "\<And>x t'. st (pf_tick p) (pf_tables p) = Inr (x, t') \<Longrightarrow> t' = pf_tables p" and "run_state (exec w st) p = (r, p')"
  shows "pf_tables p' = pf_tables p" and "r = Inr x \<Longrightarrow> \<exists>t'. st (pf_tick p) (pf_tables p) = Inr (x, t')"
    and "r = Inl e \<Longrightarrow> e = ConnectionLost \<or> st (pf_tick p) (pf_tables p) = Inl e"
  using assms by (auto simp: exec_def Let_def split: option.splits db_fault.splits sum.splits prod.splits)

lemma exec_reading:
  assumes "run_state (exec w (reading q)) p = (r, p')"
  shows "pf_tables p' = pf_tables p" and "r = Inr x \<Longrightarrow> q (pf_tables p) = Inr x"
    and "r = Inl e \<Longrightarrow> e = ConnectionLost \<or> q (pf_tables p) = Inl e"
  using assms by (auto simp: exec_def Let_def reading_def split: option.splits db_fault.splits sum.splits prod.splits)

lemma exec_reading_calm:
  "\<forall>n. db_fault w n = None \<Longrightarrow> run_state (exec w (reading q)) p = (r, p') \<Longrightarrow> r = q (pf_tables p)"
  by (auto simp: run_exec reading_def split: sum.splits)

lemma uuid_arg_Some [simp]: "db_cast w s = Some u \<Longrightarrow> uuid_arg w s st = st u"
  by (intro ext) (simp add: uuid_arg_def)

lemma uuid_arg_None [simp]: "db_cast w s = None \<Longrightarrow> uuid_arg w s st = (\<lambda>n t. Inl BadText)"
  by (intro ext) (simp add: uuid_arg_def)

lemma run_transact_calm:
  "\<forall>n. db_fault w n = None \<Longrightarrow> run_state (transact w wrap work) p =
     (case run_state (work (db_now w (pf_tick p))) (p\<lparr>pf_tick := Suc (pf_tick p)\<rparr>) of
        (Inl e, p1) \<Rightarrow> (Inl e, p1\<lparr>pf_tables := pf_tables p\<rparr>)
      | (Inr x, p1) \<Rightarrow> (Inr x, p1\<lparr>pf_tick := Suc (pf_tick p1)\<rparr>))"
  by (simp add: transact_def Let_def split: sum.split prod.split)

lemma one_row_Inr: "one_row P rows = Inr r \<Longrightarrow> r \<in> set rows \<and> P r"
  by (auto simp: one_row_def split: option.splits dest: find_Some_mem)

lemma one_row_Inl: "one_row P rows = Inl e \<longleftrightarrow> e = NoRows \<and> (\<forall>r \<in> set rows. \<not> P r)"
  by (auto simp: one_row_def find_None_iff split: option.splits dest: find_Some_mem)

section \<open>A calm outside\<close>

text \<open>An outside in which nothing fails, for concrete runs: bodies hold their fields separated by a bar.\<close>

definition calm :: outside where
  "calm =
     \<lparr>db_fault = (\<lambda>n. None), db_now = (\<lambda>n. int n * second), db_uuid = (\<lambda>n k. ''0000000'' @ show_nat k @ ''-'' @ show_nat n),
      db_cast = Some, db_inet = Some, db_fold = (\<lambda>s. s), db_time = itoa, db_jsonb = Some, go_now = (\<lambda>n. int n * second), go_uuid_ok = (\<lambda>s. True),
      go_addr = Some, go_lower = (\<lambda>s. s), go_random = (\<lambda>n len. Some (replicate len CHR ''r'')), go_mail = Some,
      smtp_ok = (\<lambda>n. True), dns_txt = (\<lambda>n h. Some []), sha256 = (\<lambda>s. s),
      argon2id = (\<lambda>p s c. take 32 (p @ s @ replicate 32 CHR ''-'')),
      jwt_sign = (\<lambda>secret c. Some (secret @ fst c)), jwt_parse = (\<lambda>secret t raw. cut_prefix raw secret),
      js_strings = (\<lambda>fields content. Some (\<lambda>f. coalesce (map_of (zip fields (split_on CHR ''|'' content)) f))),
      js_int = (\<lambda>field content. Some 0), js_instant = (\<lambda>field content. Some (1000 * second)), js_bytes = (\<lambda>b. ''{}'')\<rparr>"

definition fresh_platform :: platform where
  "fresh_platform = \<lparr>pf_tables = empty_tables, pf_tick = 0, pf_mails = [], pf_applied = []\<rparr>"

end
