(* ===== verification/Credentials.thy ===== *)
theory Credentials
  imports Database
begin

text \<open>
  Passwords and tokens: \<^verbatim>\<open>auth/password.go\<close>, \<^verbatim>\<open>auth/tokens.go\<close> and the token generator of
  \<^verbatim>\<open>auth/apitoken.go\<close>, with the parts of \<^verbatim>\<open>encoding/base64\<close> and \<^verbatim>\<open>fmt.Sscanf\<close> they use. Argon2id, SHA-256 and the
  JWT library are parameters.
\<close>

section \<open>Base64 without padding\<close>

definition b64_std :: string where
  "b64_std = ''ABCDEFGHIJKLMNOPQRSTUVWXYZabcdefghijklmnopqrstuvwxyz0123456789+/''"

definition b64_url :: string where
  "b64_url = ''ABCDEFGHIJKLMNOPQRSTUVWXYZabcdefghijklmnopqrstuvwxyz0123456789-_''"

fun b64_encode :: "string \<Rightarrow> string \<Rightarrow> string" where
  "b64_encode al [] = []"
| "b64_encode al [a] = (let n = (of_char a :: nat) in [al ! (n div 4), al ! (n mod 4 * 16)])"
| "b64_encode al [a, b] =
     (let n = (of_char a :: nat); m = (of_char b :: nat) in
      [al ! (n div 4), al ! (n mod 4 * 16 + m div 16), al ! (m mod 16 * 4)])"
| "b64_encode al (a # b # c # s) =
     (let n = (of_char a :: nat); m = (of_char b :: nat); k = (of_char c :: nat) in
      [al ! (n div 4), al ! (n mod 4 * 16 + m div 16), al ! (m mod 16 * 4 + k div 64), al ! (k mod 64)] @ b64_encode al s)"

fun position :: "'a \<Rightarrow> 'a list \<Rightarrow> nat option" where
  "position x [] = None"
| "position x (y # ys) = (if x = y then Some 0 else map_option Suc (position x ys))"

fun b64_groups :: "string \<Rightarrow> string \<Rightarrow> string option" where
  "b64_groups al [] = Some []"
| "b64_groups al [p] = None"
| "b64_groups al [p, q] =
     (case (position p al, position q al) of
        (Some i, Some j) \<Rightarrow> Some [char_of (i * 4 + j div 16)] | _ \<Rightarrow> None)"
| "b64_groups al [p, q, r] =
     (case (position p al, position q al, position r al) of
        (Some i, Some j, Some k) \<Rightarrow> Some [char_of (i * 4 + j div 16), char_of (j mod 16 * 16 + k div 4)] | _ \<Rightarrow> None)"
| "b64_groups al (p # q # r # u # s) =
     (case (position p al, position q al, position r al, position u al, b64_groups al s) of
        (Some i, Some j, Some k, Some l, Some rest) \<Rightarrow>
          Some (char_of (i * 4 + j div 16) # char_of (j mod 16 * 16 + k div 4) # char_of (k mod 4 * 64 + l) # rest)
      | _ \<Rightarrow> None)"

text \<open>The decoder skips line breaks.\<close>

definition b64_decode :: "string \<Rightarrow> string \<Rightarrow> string option" where
  "b64_decode al s = b64_groups al (filter (\<lambda>c. c \<noteq> CHR 0x0A \<and> c \<noteq> CHR 0x0D) s)"

lemma position_nth: "distinct xs \<Longrightarrow> i < length xs \<Longrightarrow> position (xs ! i) xs = Some i"
proof (induction xs arbitrary: i)
  case Nil
  then show ?case by simp
next
  case (Cons x xs)
  then show ?case by (cases i) (auto simp: nth_Cons)
qed

lemma b64_std_facts:
  "distinct b64_std" "length b64_std = 64" "CHR 0x0A \<notin> set b64_std" "CHR 0x0D \<notin> set b64_std" "CHR ''$'' \<notin> set b64_std"
  by (simp_all add: b64_std_def)

lemma position_std [simp]: "i < 64 \<Longrightarrow> position (b64_std ! i) b64_std = Some i"
  using b64_std_facts(1,2) by (auto intro: position_nth)

lemma nth_std [simp]: "i < 64 \<Longrightarrow> b64_std ! i \<in> set b64_std"
  using b64_std_facts(2) by auto

lemma byte_less [simp]: "(of_char c :: nat) < 256"
  by (metis mod_less_divisor of_char_mod_256 zero_less_numeral)

lemma packed:
  fixes a b c :: nat
  assumes "b < c"
  shows "(a * c + b) div c = a" "(a * c + b) mod c = b"
  using assms by auto

lemma b64_indices:
  fixes n m k :: nat
  assumes "n < 256" "m < 256" "k < 256"
  shows "n div 4 < 64" "n mod 4 * 16 + m div 16 < 64" "m mod 16 * 4 + k div 64 < 64" "n mod 4 * 16 < 64" "m mod 16 * 4 < 64"
    "k mod 64 < 64"
proof -
  have d: "n div 4 < 64" "m div 16 < 16" "k div 64 < 4" using assms by (simp_all add: less_mult_imp_div_less)
  have r: "n mod 4 < 4" "m mod 16 < 16" by simp_all
  show "n div 4 < 64" "n mod 4 * 16 + m div 16 < 64" "m mod 16 * 4 + k div 64 < 64" "n mod 4 * 16 < 64" "m mod 16 * 4 < 64"
    "k mod 64 < 64"
    using d r by linarith+
qed

lemma b64_index: "(n :: nat) < 256 \<Longrightarrow> n div 4 < 64" "n mod 4 * 16 < (64 :: nat)" "n mod 16 * 4 < (64 :: nat)" "n mod 64 < (64 :: nat)"
  "n < 256 \<Longrightarrow> m < 256 \<Longrightarrow> n mod 4 * 16 + m div 16 < 64" "n < 256 \<Longrightarrow> m < 256 \<Longrightarrow> n mod 16 * 4 + m div 64 < 64"
  using b64_indices(1) [of n 0 0] b64_indices(4) [of 0 0 0] b64_indices(2) [of n m 0] b64_indices(3) [of 0 n m] by auto

lemma b64_bytes:
  fixes n m k :: nat
  assumes "m < 256" "k < 256"
  shows "n div 4 * 4 + (n mod 4 * 16 + m div 16) div 16 = n"
    "(n mod 4 * 16 + m div 16) mod 16 * 16 + (m mod 16 * 4 + k div 64) div 4 = m"
    "(m mod 16 * 4 + k div 64) mod 4 * 64 + k mod 64 = k"
    "n div 4 * 4 + n mod 4 * 16 div 16 = n" "(n mod 4 * 16 + m div 16) mod 16 * 16 + m mod 16 * 4 div 4 = m"
proof -
  have d: "m div 16 < 16" "k div 64 < 4" using assms by (simp_all add: less_mult_imp_div_less)
  note p = packed [OF d(1), of "n mod 4"] packed [OF d(2), of "m mod 16"]
  show "n div 4 * 4 + (n mod 4 * 16 + m div 16) div 16 = n" unfolding p by (rule div_mult_mod_eq)
  show "(n mod 4 * 16 + m div 16) mod 16 * 16 + (m mod 16 * 4 + k div 64) div 4 = m" unfolding p by (rule div_mult_mod_eq)
  show "(m mod 16 * 4 + k div 64) mod 4 * 64 + k mod 64 = k" unfolding p by (rule div_mult_mod_eq)
  have q: "n mod 4 * 16 div 16 = n mod 4" "m mod 16 * 4 div 4 = m mod 16" by simp_all
  show "n div 4 * 4 + n mod 4 * 16 div 16 = n" unfolding q by (rule div_mult_mod_eq)
  show "(n mod 4 * 16 + m div 16) mod 16 * 16 + m mod 16 * 4 div 4 = m" unfolding p q by (rule div_mult_mod_eq)
qed

lemma b64_short:
  fixes n m :: nat
  shows "n div 4 * 4 + n mod 4 * 16 div 16 = n" "m < 256 \<Longrightarrow> n div 4 * 4 + (n mod 4 * 16 + m div 16) div 16 = n"
    "m < 256 \<Longrightarrow> (n mod 4 * 16 + m div 16) mod 16 * 16 + m mod 16 * 4 div 4 = m"
  using b64_bytes(4) [of 0 0 n] b64_bytes(1,5) [of m 0 n] by auto

lemma b64_groups_encode: "b64_groups b64_std (b64_encode b64_std s) = Some s"
proof (induction b64_std s rule: b64_encode.induct)
  case (2 a)
  show ?case unfolding b64_encode.simps Let_def b64_groups.simps
    by (simp only: position_std b64_index byte_less b64_bytes b64_short option.case prod.case of_char_of char_of_char)
next
  case (3 a b)
  show ?case unfolding b64_encode.simps Let_def b64_groups.simps
    by (simp only: position_std b64_index byte_less b64_bytes b64_short option.case prod.case of_char_of char_of_char)
next
  case (4 a b c s)
  show ?case unfolding b64_encode.simps Let_def append_Cons append_Nil b64_groups.simps
    by (simp only: 4 position_std b64_index byte_less b64_bytes b64_short option.case prod.case of_char_of char_of_char)
qed simp

lemma b64_encode_set: "set (b64_encode b64_std s) \<subseteq> set b64_std"
proof (induction b64_std s rule: b64_encode.induct)
  case (2 a)
  show ?case unfolding b64_encode.simps Let_def by (simp only: set_simps insert_subset nth_std b64_index byte_less empty_subsetI simp_thms)
next
  case (3 a b)
  show ?case unfolding b64_encode.simps Let_def by (simp only: set_simps insert_subset nth_std b64_index byte_less empty_subsetI simp_thms)
next
  case (4 a b c s)
  show ?case unfolding b64_encode.simps Let_def append_Cons append_Nil
    by (simp only: set_simps insert_subset nth_std b64_index byte_less 4 simp_thms)
qed simp

lemma b64_decode_encode: "b64_decode b64_std (b64_encode b64_std s) = Some s"
proof -
  have "filter (\<lambda>c. c \<noteq> CHR 0x0A \<and> c \<noteq> CHR 0x0D) (b64_encode b64_std s) = b64_encode b64_std s"
    using b64_encode_set [of s] b64_std_facts(3,4) by (intro filter_True) auto
  then show ?thesis by (simp add: b64_decode_def b64_groups_encode)
qed

section \<open>Scanning unsigned numbers\<close>

text \<open>\<^verbatim>\<open>%d\<close> into an unsigned integer of \<open>bits\<close> bits: blanks are skipped, a line break is an error, at least one
  digit is needed and the value has to fit. The rest of the input is returned.\<close>

function skip_blanks :: "string \<Rightarrow> string option" where
  "skip_blanks s =
     (if s \<noteq> [] \<and> hd s = CHR 0x0A then None
      else if take 2 s = [CHR 0x0D, CHR 0x0A] then None
      else if s = [] \<or> space_len space_encodings s = 0 then Some s
      else skip_blanks (drop (space_len space_encodings s) s))"
  by auto
termination by (relation "measure length") auto

declare skip_blanks.simps [simp del]

definition scan_uint :: "nat \<Rightarrow> string \<Rightarrow> (int \<times> string) option" where
  "scan_uint bits s =
     (case skip_blanks s of
        None \<Rightarrow> None
      | Some t \<Rightarrow>
          (let ds = takeWhile is_digit t in
           if ds = [] \<or> 2 ^ 64 \<le> digits_val ds \<or> 2 ^ bits \<le> digits_val ds then None
           else Some (int (digits_val ds), drop (length ds) t)))"

text \<open>A literal of the format has to be there.\<close>

definition scan_lit :: "string \<Rightarrow> string \<Rightarrow> string option" where
  "scan_lit lit s = cut_prefix s lit"

section \<open>Passwords\<close>

abbreviation (input) argonTime :: int where "argonTime \<equiv> 1"
abbreviation (input) argonMemory :: int where "argonMemory \<equiv> 65536"
abbreviation (input) argonThreads :: int where "argonThreads \<equiv> 2"
abbreviation (input) argonKeyLen :: int where "argonKeyLen \<equiv> 32"
abbreviation (input) argonSaltLen :: nat where "argonSaltLen \<equiv> 16"
abbreviation (input) argonVersion :: int where "argonVersion \<equiv> 19"

datatype password_error =
    NoEntropy
  | UnsupportedHash
  | BadVersionField
  | BadParams
  | BadSalt
  | BadKey
  | ArgonPanic

definition phc :: "string \<Rightarrow> string \<Rightarrow> string" where
  "phc salt key =
     ''$argon2id$v='' @ itoa argonVersion @ ''$m='' @ itoa argonMemory @ '',t='' @ itoa argonTime @ '',p='' @ itoa argonThreads @
     ''$'' @ b64_encode b64_std salt @ ''$'' @ b64_encode b64_std key"

definition hash_password :: "outside \<Rightarrow> string \<Rightarrow> (password_error + string) op" where
  "hash_password w password = do {
     r \<leftarrow> draw w argonSaltLen;
     ret (case r of
       Inl _ \<Rightarrow> Inl NoEntropy
     | Inr salt \<Rightarrow> Inr (phc salt (argon2id w password salt (argonTime, argonMemory, argonThreads, argonKeyLen))))
   }"

definition scan_version :: "string \<Rightarrow> int option" where
  "scan_version s = (case scan_lit ''v='' s of None \<Rightarrow> None | Some t \<Rightarrow> map_option fst (scan_uint 32 t))"

definition scan_params :: "string \<Rightarrow> (int \<times> int \<times> int) option" where
  "scan_params s =
     (case scan_lit ''m='' s of None \<Rightarrow> None | Some s1 \<Rightarrow>
      case scan_uint 32 s1 of None \<Rightarrow> None | Some (mem, s2) \<Rightarrow>
      case scan_lit '',t='' s2 of None \<Rightarrow> None | Some s3 \<Rightarrow>
      case scan_uint 32 s3 of None \<Rightarrow> None | Some (time, s4) \<Rightarrow>
      case scan_lit '',p='' s4 of None \<Rightarrow> None | Some s5 \<Rightarrow>
      case scan_uint 8 s5 of None \<Rightarrow> None | Some (threads, _) \<Rightarrow> Some (mem, time, threads))"

text \<open>The library panics on less than one pass or one thread. The length of the wanted key is read modulo \<open>2^32\<close>.\<close>

definition verify_password :: "outside \<Rightarrow> string \<Rightarrow> string \<Rightarrow> password_error + bool" where
  "verify_password w password encoded =
     (case split_on CHR ''$'' encoded of
        [_, alg, ver, params, saltText, keyText] \<Rightarrow>
          if alg \<noteq> ''argon2id'' then Inl UnsupportedHash
          else case scan_version ver of None \<Rightarrow> Inl BadVersionField | Some _ \<Rightarrow>
          (case scan_params params of None \<Rightarrow> Inl BadParams | Some (mem, time, threads) \<Rightarrow>
          (case b64_decode b64_std saltText of None \<Rightarrow> Inl BadSalt | Some salt \<Rightarrow>
          (case b64_decode b64_std keyText of None \<Rightarrow> Inl BadKey | Some want \<Rightarrow>
             if time < 1 \<or> threads < 1 then Inl ArgonPanic
             else Inr (argon2id w password salt (time, mem, threads, int (length want) mod 2 ^ 32) = want))))
      | _ \<Rightarrow> Inl UnsupportedHash)"

datatype policy_error = PasswordTooShort | PasswordTooPlain

definition is_letter :: "char \<Rightarrow> bool" where
  "is_letter c = (let b = (of_char c :: nat) in 97 \<le> b \<and> b \<le> 122 \<or> 65 \<le> b \<and> b \<le> 90)"

definition validate_password :: "string \<Rightarrow> policy_error option" where
  "validate_password password =
     (if length password < 8 then Some PasswordTooShort
      else if \<not> list_ex is_letter password \<or> \<not> list_ex is_digit password then Some PasswordTooPlain
      else None)"

definition random_token :: "outside \<Rightarrow> (unit + string) op" where
  "random_token w = do { r \<leftarrow> draw w 32; ret (case r of Inl e \<Rightarrow> Inl e | Inr raw \<Rightarrow> Inr (b64_encode b64_url raw)) }"

section \<open>Tokens\<close>

abbreviation (input) accessTTL :: duration where "accessTTL \<equiv> 15 * minute"
abbreviation (input) refreshTTL :: duration where "refreshTTL \<equiv> 7 * 24 * hour"

text \<open>A numeric date counts whole seconds.\<close>

definition numeric_date :: "time \<Rightarrow> int" where
  "numeric_date t = t div second"

definition new_token :: "outside \<Rightarrow> string \<Rightarrow> string \<Rightarrow> duration \<Rightarrow> string option op" where
  "new_token w secret userID ttl = do {
     t1 \<leftarrow> time_now w;
     t2 \<leftarrow> time_now w;
     ret (jwt_sign w secret (userID, numeric_date t2, numeric_date (t1 + ttl)))
   }"

definition new_access :: "outside \<Rightarrow> string \<Rightarrow> string \<Rightarrow> string option op" where
  "new_access w secret userID = new_token w secret userID accessTTL"

definition new_refresh :: "outside \<Rightarrow> string \<Rightarrow> string \<Rightarrow> string option op" where
  "new_refresh w secret userID = new_token w secret userID refreshTTL"

definition parse_token :: "outside \<Rightarrow> string \<Rightarrow> string \<Rightarrow> string option op" where
  "parse_token w secret raw = do {
     t \<leftarrow> time_now w;
     ret (case jwt_parse w secret t raw of None \<Rightarrow> None | Some uid \<Rightarrow> if uid = [] then None else Some uid)
   }"

definition random_secret :: "outside \<Rightarrow> (unit + string) op" where
  "random_secret w = do { r \<leftarrow> draw w 32; ret (case r of Inl e \<Rightarrow> Inl e | Inr raw \<Rightarrow> Inr (hex_encode raw)) }"

abbreviation (input) apiTokenPrefix :: string where "apiTokenPrefix \<equiv> ''tenara_''"

definition hash_token :: "outside \<Rightarrow> string \<Rightarrow> string" where
  "hash_token w t = hex_encode (sha256 w t)"

text \<open>Plaintext, display prefix and hash.\<close>

definition generate_api_token :: "outside \<Rightarrow> (unit + string \<times> string \<times> string) op" where
  "generate_api_token w = do {
     r \<leftarrow> draw w 24;
     ret (case r of
       Inl e \<Rightarrow> Inl e
     | Inr raw \<Rightarrow>
         (let secret = b64_encode b64_url raw; plaintext = apiTokenPrefix @ secret in
          Inr (plaintext, apiTokenPrefix @ take 6 secret, hash_token w plaintext)))
   }"

section \<open>A stored hash accepts its own password\<close>

lemma digits_not_blank: "is_digit c \<Longrightarrow> skip_blanks (c # s) = Some (c # s)"
proof -
  assume d: "is_digit c"
  have "space_len space_encodings (c # s) = 0" by (rule plain_not_space [OF digit_plain [OF d]])
  moreover have "c \<noteq> CHR 0x0A" "c \<noteq> CHR 0x0D" using d by (auto simp: is_digit_def digit_val_def)
  ultimately show ?thesis by (subst skip_blanks.simps) simp
qed

lemma scan_uint_shown:
  assumes "n < 2 ^ bits" and "bits \<le> 64" and "t = [] \<or> \<not> is_digit (hd t)"
  shows "scan_uint bits (show_nat n @ t) = Some (int n, t)"
proof -
  have ds: "list_all is_digit (show_nat n)" "show_nat n \<noteq> []" "digits_val (show_nat n) = n"
    using show_nat_digits by auto
  then obtain c r where cr: "show_nat n = c # r" "is_digit c" by (cases "show_nat n") auto
  have skip: "skip_blanks (show_nat n @ t) = Some (show_nat n @ t)" using digits_not_blank [OF cr(2), of "r @ t"] cr(1) by simp
  have "takeWhile is_digit t = []" using assms(3) by (cases t) auto
  then have tw: "takeWhile is_digit (show_nat n @ t) = show_nat n"
    using ds(1) by (simp add: takeWhile_append2 list_all_iff)
  have "n < 2 ^ 64" using less_le_trans [OF assms(1) power_increasing [OF assms(2), of 2]] by simp
  then show ?thesis using ds assms(1) by (simp add: scan_uint_def skip tw Let_def)
qed

text \<open>
  C37: a hash the platform stores verifies exactly the passwords that Argon2id maps to the same key: in
  particular its own password, whatever salt was drawn.
\<close>

theorem password_roundtrip:
  assumes "\<And>p s. length (argon2id w p s (argonTime, argonMemory, argonThreads, argonKeyLen)) = 32"
    and run: "run_state (hash_password w p) st = (Inr encoded, st')"
  shows "\<exists>salt. go_random w (pf_tick st) 16 = Some salt \<and>
    verify_password w q encoded =
      Inr (argon2id w q salt (argonTime, argonMemory, argonThreads, argonKeyLen) =
           argon2id w p salt (argonTime, argonMemory, argonThreads, argonKeyLen))"
proof -
  obtain salt where salt: "go_random w (pf_tick st) 16 = Some salt"
    and enc: "encoded = phc salt (argon2id w p salt (argonTime, argonMemory, argonThreads, argonKeyLen))"
    using run by (auto simp: hash_password_def draw_def split: option.splits)
  let ?key = "argon2id w p salt (argonTime, argonMemory, argonThreads, argonKeyLen)"
  define ver where "ver = ''v='' @ itoa argonVersion"
  define par where "par = ''m='' @ itoa argonMemory @ '',t='' @ itoa argonTime @ '',p='' @ itoa argonThreads"
  have nums: "itoa argonVersion = show_nat 19" "itoa argonMemory = show_nat 65536" "itoa argonTime = show_nat 1" "itoa argonThreads = show_nat 2"
    by (simp_all add: itoa_def)
  have nd: "CHR ''$'' \<notin> set (show_nat n)" for n
    using show_nat_digits [of n] by (auto simp: list_all_iff is_digit_def)
  have ns: "CHR ''$'' \<notin> set (b64_encode b64_std x)" for x using b64_encode_set [of x] b64_std_facts(5) by blast
  have form: "phc salt ?key = join ''$'' [[], ''argon2id'', ver, par, b64_encode b64_std salt, b64_encode b64_std ?key]"
    by (simp add: phc_def ver_def par_def)
  have parts: "split_on CHR ''$'' encoded = [[], ''argon2id'', ver, par, b64_encode b64_std salt, b64_encode b64_std ?key]"
    unfolding enc form by (rule split_on_join) (simp_all add: ver_def par_def nums nd ns)
  have v: "scan_version ver = Some 19"
    using scan_uint_shown [of 19 32 "[]"] by (simp add: ver_def scan_version_def scan_lit_def cut_prefix_def has_prefix_def nums)
  have p: "scan_params par = Some (65536, 1, 2)"
    using scan_uint_shown [of 65536 32 "'',t='' @ show_nat 1 @ '',p='' @ show_nat 2"]
      scan_uint_shown [of 1 32 "'',p='' @ show_nat 2"] scan_uint_shown [of 2 8 "[]"]
    by (simp add: par_def scan_params_def scan_lit_def cut_prefix_def has_prefix_def nums is_digit_def)
  have "verify_password w q encoded =
      Inr (argon2id w q salt (argonTime, argonMemory, argonThreads, argonKeyLen) = ?key)"
    by (simp add: verify_password_def parts v p b64_decode_encode assms(1))
  then show ?thesis using salt by (intro exI [of _ salt]) simp
qed

theorem password_roundtrip_witness:
  "\<exists>encoded st. run_state (hash_password calm ''secret99'') fresh_platform = (Inr encoded, st) \<and>
     verify_password calm ''secret99'' encoded = Inr True \<and> verify_password calm ''secret98'' encoded = Inr False"
proof -
  obtain encoded st where r: "run_state (hash_password calm ''secret99'') fresh_platform = (Inr encoded, st)"
    by (simp add: hash_password_def draw_def calm_def)
  have len: "length (argon2id calm p s (argonTime, argonMemory, argonThreads, argonKeyLen)) = 32" for p s by (simp add: calm_def)
  have salt: "go_random calm (pf_tick fresh_platform) 16 = Some (replicate 16 CHR ''r'')" by (simp add: calm_def)
  have "verify_password calm q encoded = Inr (argon2id calm q (replicate 16 CHR ''r'') (argonTime, argonMemory, argonThreads, argonKeyLen) =
      argon2id calm ''secret99'' (replicate 16 CHR ''r'') (argonTime, argonMemory, argonThreads, argonKeyLen))" for q
    using password_roundtrip [OF len r, of q] salt by simp
  then show ?thesis using r by (intro exI [of _ encoded] exI [of _ st]) (simp add: calm_def)
qed

end
