(* ===== verification/Auth_Store.thy ===== *)
theory Auth_Store
  imports Credentials Rbac
begin

text \<open>
  The account store: \<^verbatim>\<open>auth/store.go\<close>, the store parts of \<^verbatim>\<open>auth/members.go\<close>, \<^verbatim>\<open>auth/apitoken.go\<close> and
  \<^verbatim>\<open>auth/audit.go\<close>. Each statement is a definition of its own, named after the function that issues it.
\<close>

section \<open>Accounts\<close>

datatype auth_error =
    ErrEmailTaken
  | ErrInvalidCredentials
  | ErrRateLimited
  | ErrBadToken
  | ErrUserNotFound
  | ErrTokenNotFound
  | Storage sql_error
  | Entropy
  | Hashing password_error

text \<open>\<^verbatim>\<open>email\<close> is \<^verbatim>\<open>citext\<close>: values compare under folding.\<close>

definition same_text :: "outside \<Rightarrow> string \<Rightarrow> string \<Rightarrow> bool" where
  "same_text w a b = (db_fold w a = db_fold w b)"

definition new_user :: "outside \<Rightarrow> nat \<Rightarrow> string \<Rightarrow> string \<Rightarrow> UserRow" where
  "new_user w n email hash =
     \<lparr>us_id = db_uuid w n 0, us_email = email, us_hash = hash, us_verified = False, us_github = None, us_login = None\<rparr>"

text \<open>\<^verbatim>\<open>INSERT INTO users\<close>: unique in the id and in the folded address.\<close>

definition insert_user :: "outside \<Rightarrow> string \<Rightarrow> string \<Rightarrow> UserRow stmt" where
  "insert_user w email hash n t =
     (let u = new_user w n email hash in
      if list_ex (\<lambda>r. us_id r = us_id u \<or> same_text w (us_email r) email) (tb_users t) then Inl UniqueViolation
      else Inr (u, t\<lparr>tb_users := tb_users t @ [u]\<rparr>))"

definition insert_user_unless_taken :: "outside \<Rightarrow> string \<Rightarrow> string \<Rightarrow> UserRow stmt" where
  "insert_user_unless_taken w email hash n t =
     (if list_ex (\<lambda>r. same_text w (us_email r) email) (tb_users t) then Inl NoRows else insert_user w email hash n t)"

definition create_unverified :: "outside \<Rightarrow> string \<Rightarrow> string \<Rightarrow> (auth_error + UserRow) op" where
  "create_unverified w email hash =
     attempt (exec w (insert_user_unless_taken w email hash))
       (\<lambda>e. Inl (if e = NoRows then ErrEmailTaken else Storage e)) (\<lambda>u. ret (Inr u))"

definition get_by_email :: "outside \<Rightarrow> string \<Rightarrow> (auth_error + UserRow) op" where
  "get_by_email w email =
     attempt (exec w (reading (\<lambda>t. one_row (\<lambda>r. same_text w (us_email r) email) (tb_users t))))
       (\<lambda>e. Inl (if e = NoRows then ErrInvalidCredentials else Storage e)) (\<lambda>u. ret (Inr u))"

section \<open>One-time tokens\<close>

definition user_exists :: "tables \<Rightarrow> string \<Rightarrow> bool" where
  "user_exists t u = list_ex (\<lambda>r. us_id r = u) (tb_users t)"

definition insert_token :: "(tables \<Rightarrow> TokenRow list) \<Rightarrow> (TokenRow list \<Rightarrow> tables \<Rightarrow> tables) \<Rightarrow> TokenRow \<Rightarrow> tables \<Rightarrow> sql_error + unit \<times> tables" where
  "insert_token get put row t =
     (if list_ex (\<lambda>r. tk_hash r = tk_hash row) (get t) then Inl UniqueViolation
      else if \<not> user_exists t (tk_user row) then Inl ForeignKeyViolation
      else Inr ((), put (get t @ [row]) t))"

definition new_one_time :: "string \<Rightarrow> string \<Rightarrow> time \<Rightarrow> TokenRow" where
  "new_one_time hash user expires = \<lparr>tk_hash = hash, tk_user = user, tk_expires = expires, tk_consumed = None\<rparr>"

definition store_verification :: "outside \<Rightarrow> string \<Rightarrow> string \<Rightarrow> (auth_error + unit) op" where
  "store_verification w userID hash =
     attempt (exec w (uuid_arg w userID (\<lambda>u n. insert_token tb_verifications (\<lambda>rows t. t\<lparr>tb_verifications := rows\<rparr>)
         (new_one_time hash u (db_now w n + 24 * hour)))))
       (\<lambda>e. Inl (Storage e)) (\<lambda>u. ret (Inr ()))"

definition store_reset_token :: "outside \<Rightarrow> string \<Rightarrow> string \<Rightarrow> (auth_error + unit) op" where
  "store_reset_token w userID hash =
     attempt (exec w (uuid_arg w userID (\<lambda>u n. insert_token tb_resets (\<lambda>rows t. t\<lparr>tb_resets := rows\<rparr>)
         (new_one_time hash u (db_now w n + hour)))))
       (\<lambda>e. Inl (Storage e)) (\<lambda>u. ret (Inr ()))"

definition live_token :: "string \<Rightarrow> time \<Rightarrow> TokenRow \<Rightarrow> bool" where
  "live_token hash now r = (tk_hash r = hash \<and> tk_consumed r = None \<and> now < tk_expires r)"

text \<open>\<^verbatim>\<open>UPDATE users ... WHERE id = (SELECT user_id FROM tokens ...)\<close>: the id of the changed user.\<close>

definition update_token_user :: "outside \<Rightarrow> (tables \<Rightarrow> TokenRow list) \<Rightarrow> string \<Rightarrow> (UserRow \<Rightarrow> UserRow) \<Rightarrow> string stmt" where
  "update_token_user w toks hash f n t =
     (case find (live_token hash (db_now w n)) (toks t) of
        None \<Rightarrow> Inl NoRows
      | Some r \<Rightarrow>
          if user_exists t (tk_user r)
          then Inr (tk_user r, t\<lparr>tb_users := update_where (\<lambda>u. us_id u = tk_user r) f (tb_users t)\<rparr>)
          else Inl NoRows)"

definition consume_rows :: "string \<Rightarrow> time \<Rightarrow> TokenRow list \<Rightarrow> TokenRow list" where
  "consume_rows hash now = update_where (\<lambda>r. tk_hash r = hash) (\<lambda>r. r\<lparr>tk_consumed := Some now\<rparr>)"

definition consume_verification :: "outside \<Rightarrow> string \<Rightarrow> (auth_error + string) op" where
  "consume_verification w hash =
     attempt (exec w (update_token_user w tb_verifications hash (\<lambda>u. u\<lparr>us_verified := True\<rparr>)))
       (\<lambda>e. Inl (if e = NoRows then ErrBadToken else Storage e))
       (\<lambda>userID. attempt (exec w (\<lambda>n t. Inr ((), t\<lparr>tb_verifications := consume_rows hash (db_now w n) (tb_verifications t)\<rparr>)))
          (\<lambda>e. Inl (Storage e)) (\<lambda>u. ret (Inr userID)))"

definition consume_reset_token :: "outside \<Rightarrow> string \<Rightarrow> string \<Rightarrow> (auth_error + unit) op" where
  "consume_reset_token w hash newHash =
     attempt (exec w (update_token_user w tb_resets hash (\<lambda>u. u\<lparr>us_hash := newHash\<rparr>)))
       (\<lambda>e. Inl (if e = NoRows then ErrBadToken else Storage e))
       (\<lambda>userID. attempt (exec w (\<lambda>n t. Inr ((), t\<lparr>tb_resets := consume_rows hash (db_now w n) (tb_resets t)\<rparr>)))
          (\<lambda>e. Inl (Storage e)) (\<lambda>u. ret (Inr ())))"

section \<open>The signup limit\<close>

abbreviation (input) signupsPerWindow :: int where "signupsPerWindow \<equiv> 5"
abbreviation (input) signupWindowLength :: duration where "signupWindowLength \<equiv> hour"

definition set_signup :: "string \<Rightarrow> (SignupRow \<Rightarrow> SignupRow) \<Rightarrow> unit stmt" where
  "set_signup addr f n t = Inr ((), t\<lparr>tb_signups := update_where (\<lambda>r. sl_ip r = addr) f (tb_signups t)\<rparr>)"

definition insert_signup :: "string \<Rightarrow> time \<Rightarrow> unit stmt" where
  "insert_signup addr now n t =
     (if list_ex (\<lambda>r. sl_ip r = addr) (tb_signups t) then Inl UniqueViolation
      else Inr ((), t\<lparr>tb_signups := tb_signups t @ [\<lparr>sl_ip = addr, sl_start = now, sl_count = 1\<rparr>]\<rparr>))"

definition check_signup_limit :: "outside \<Rightarrow> string \<Rightarrow> (auth_error + unit) op" where
  "check_signup_limit w text =
     (case go_addr w text of
        None \<Rightarrow> ret (Inr ())
      | Some ip \<Rightarrow> transact w Storage (\<lambda>now. do {
        r \<leftarrow> exec w (reading (\<lambda>t. one_row (\<lambda>r. sl_ip r = ip) (tb_signups t)));
        (case r of
           Inl e \<Rightarrow>
             if e = NoRows then attempt (exec w (insert_signup ip now)) (\<lambda>e. Inl (Storage e)) (\<lambda>u. ret (Inr ()))
             else ret (Inl (Storage e))
         | Inr row \<Rightarrow> do {
             t \<leftarrow> time_now w;
             (if signupWindowLength < time_sub t (sl_start row)
              then attempt (exec w (set_signup ip (\<lambda>r. r\<lparr>sl_count := 1, sl_start := now\<rparr>))) (\<lambda>e. Inl (Storage e)) (\<lambda>u. ret (Inr ()))
              else if signupsPerWindow \<le> sl_count row then ret (Inl ErrRateLimited)
              else attempt (exec w (set_signup ip (\<lambda>r. r\<lparr>sl_count := sl_count r + 1\<rparr>))) (\<lambda>e. Inl (Storage e)) (\<lambda>u. ret (Inr ())))
           })
      }))"

section \<open>Memberships\<close>

definition org_exists :: "tables \<Rightarrow> string \<Rightarrow> bool" where
  "org_exists t g = list_ex (\<lambda>r. og_id r = g) (tb_orgs t)"

definition membership :: "string \<Rightarrow> string \<Rightarrow> MembershipRow \<Rightarrow> bool" where
  "membership u g r = (mb_user r = u \<and> mb_org r = g)"

text \<open>The schema admits three roles only.\<close>

definition role_allowed :: "string \<Rightarrow> bool" where
  "role_allowed role = (role \<in> {''platform_admin'', ''workspace_admin'', ''member''})"

text \<open>\<^verbatim>\<open>INSERT INTO organization_members ... ON CONFLICT DO UPDATE SET role\<close>.\<close>

definition upsert_member :: "string \<Rightarrow> string \<Rightarrow> string \<Rightarrow> unit stmt" where
  "upsert_member u g role n t =
     (if \<not> role_allowed role then Inl CheckViolation
      else if list_ex (membership u g) (tb_members t)
      then Inr ((), t\<lparr>tb_members := update_where (membership u g) (\<lambda>r. r\<lparr>mb_role := role\<rparr>) (tb_members t)\<rparr>)
      else if \<not> user_exists t u \<or> \<not> org_exists t g then Inl ForeignKeyViolation
      else Inr ((), t\<lparr>tb_members := tb_members t @ [\<lparr>mb_user = u, mb_org = g, mb_role = role\<rparr>]\<rparr>))"

definition role_in_org :: "outside \<Rightarrow> string \<Rightarrow> string \<Rightarrow> (auth_error + string) op" where
  "role_in_org w userID orgID =
     attempt (exec w (uuid_arg w userID (\<lambda>u. uuid_arg w orgID (\<lambda>g. reading (\<lambda>t. one_row (membership u g) (tb_members t))))))
       (\<lambda>e. Inl (if e = NoRows then ErrUserNotFound else Storage e)) (\<lambda>r. ret (Inr (mb_role r)))"

record MemberRow =
  mr_UserID :: string
  mr_Email :: string
  mr_Role :: string

definition joined_member :: "tables \<Rightarrow> MembershipRow \<Rightarrow> MemberRow list" where
  "joined_member t m =
     map (\<lambda>u. \<lparr>mr_UserID = mb_user m, mr_Email = us_email u, mr_Role = mb_role m\<rparr>) (filter (\<lambda>u. us_id u = mb_user m) (tb_users t))"

definition list_members :: "outside \<Rightarrow> string \<Rightarrow> (auth_error + MemberRow list) op" where
  "list_members w orgID =
     attempt (exec w (uuid_arg w orgID (\<lambda>g. reading (\<lambda>t.
         Inr (sort_key (\<lambda>m. db_fold w (mr_Email m)) (concat (map (joined_member t) (filter (\<lambda>m. mb_org m = g) (tb_members t)))))))))
       (\<lambda>e. Inl (Storage e)) (\<lambda>ms. ret (Inr ms))"

text \<open>An unusable password for a stub account: the hash of a random token.\<close>

definition stub_hash :: "outside \<Rightarrow> (auth_error + string) op" where
  "stub_hash w = attempt (random_token w) (\<lambda>e. Inl Entropy) (\<lambda>pw.
     attempt (hash_password w pw) (\<lambda>e. Inl (Hashing e)) (\<lambda>h. ret (Inr h)))"

definition upsert_member_stmt :: "outside \<Rightarrow> string \<Rightarrow> string \<Rightarrow> string \<Rightarrow> unit stmt" where
  "upsert_member_stmt w userID orgID role = uuid_arg w userID (\<lambda>u. uuid_arg w orgID (\<lambda>g. upsert_member u g role))"

text \<open>The user id and whether a stub was created for it.\<close>

definition find_or_stub :: "outside \<Rightarrow> string \<Rightarrow> (auth_error + string \<times> bool) op" where
  "find_or_stub w email = do {
     r \<leftarrow> exec w (reading (\<lambda>t. one_row (\<lambda>r. same_text w (us_email r) email) (tb_users t)));
     (case r of
        Inr u \<Rightarrow> ret (Inr (us_id u, False))
      | Inl e \<Rightarrow>
          if e \<noteq> NoRows then ret (Inl (Storage e))
          else attempt (stub_hash w) Inl (\<lambda>h.
            attempt (exec w (insert_user w email h)) (\<lambda>e. Inl (Storage e)) (\<lambda>u. ret (Inr (us_id u, True)))))
   }"

definition invite_member_by_email :: "outside \<Rightarrow> string \<Rightarrow> string \<Rightarrow> string \<Rightarrow> (auth_error + string \<times> bool) op" where
  "invite_member_by_email w orgID email role =
     transact w Storage (\<lambda>now.
       attempt (find_or_stub w email) Inl (\<lambda>(userID, created).
         attempt (exec w (upsert_member_stmt w userID orgID role)) (\<lambda>e. Inl (Storage e))
           (\<lambda>u. ret (Inr (userID, created)))))"

section \<open>The default workspace\<close>

text \<open>\<^verbatim>\<open>ORDER BY role LIMIT 1\<close>.\<close>

definition first_membership :: "string \<Rightarrow> tables \<Rightarrow> sql_error + MembershipRow" where
  "first_membership u t = one_row (\<lambda>r. True) (sort_key mb_role (filter (\<lambda>r. mb_user r = u) (tb_members t)))"

definition insert_org :: "outside \<Rightarrow> string \<Rightarrow> string \<Rightarrow> OrgRow stmt" where
  "insert_org w name slug n t =
     (let g = \<lparr>og_id = db_uuid w n 0, og_name = name, og_slug = slug, og_tier = ''free''\<rparr> in
      if list_ex (\<lambda>r. og_id r = og_id g \<or> same_text w (og_slug r) slug) (tb_orgs t) then Inl UniqueViolation
      else Inr (g, t\<lparr>tb_orgs := tb_orgs t @ [g]\<rparr>))"

definition insert_member :: "string \<Rightarrow> string \<Rightarrow> string \<Rightarrow> unit stmt" where
  "insert_member u g role n t =
     (if list_ex (membership u g) (tb_members t) then Inl UniqueViolation else upsert_member u g role n t)"

text \<open>The part of the address before the first at sign, unless it is the first character.\<close>

definition local_part :: "string \<Rightarrow> string" where
  "local_part email =
     (let n = length (before CHR 0x40 email) in if CHR 0x40 \<in> set email \<and> 0 < n then take n email else email)"

definition create_workspace :: "outside \<Rightarrow> string \<Rightarrow> string \<Rightarrow> (auth_error + string) op" where
  "create_workspace w userID local =
     transact w Storage (\<lambda>now.
       attempt (random_token w) (\<lambda>e. Inl Entropy) (\<lambda>sfx.
         attempt (exec w (insert_org w (local @ [CHR 0x27] @ ''s workspace'') (''ws-'' @ take 8 userID @ ''-'' @ take 6 sfx)))
           (\<lambda>e. Inl (Storage e)) (\<lambda>g.
             attempt (exec w (uuid_arg w userID (\<lambda>u. insert_member u (og_id g) ''workspace_admin'')))
               (\<lambda>e. Inl (Storage e)) (\<lambda>u. ret (Inr (og_id g))))))"

definition default_org_for_user :: "outside \<Rightarrow> string \<Rightarrow> (auth_error + string) op" where
  "default_org_for_user w userID = do {
     r \<leftarrow> exec w (uuid_arg w userID (\<lambda>u. reading (first_membership u)));
     (case r of
        Inr m \<Rightarrow> ret (Inr (mb_org m))
      | Inl e \<Rightarrow>
          if e \<noteq> NoRows then ret (Inl (Storage e))
          else attempt (exec w (uuid_arg w userID (\<lambda>u. reading (\<lambda>t. one_row (\<lambda>r. us_id r = u) (tb_users t)))))
            (\<lambda>e. Inl (Storage e)) (\<lambda>usr. create_workspace w userID (local_part (us_email usr))))
   }"

definition ensure_bootstrap_user :: "outside \<Rightarrow> string \<Rightarrow> (auth_error + string) op" where
  "ensure_bootstrap_user w adminEmail =
     attempt (stub_hash w) Inl (\<lambda>h.
       attempt (exec w (insert_user w adminEmail h)) (\<lambda>e. Inl (Storage e)) (\<lambda>u. ret (Inr (us_id u))))"

definition ensure_platform_admin :: "outside \<Rightarrow> string \<Rightarrow> (auth_error + unit) op" where
  "ensure_platform_admin w adminEmail = do {
     r \<leftarrow> exec w (reading (\<lambda>t. one_row (\<lambda>r. same_text w (us_email r) adminEmail) (tb_users t)));
     attempt (case r of Inr u \<Rightarrow> ret (Inr (us_id u))
              | Inl e \<Rightarrow> if e = NoRows then ensure_bootstrap_user w adminEmail else ret (Inl (Storage e))) Inl (\<lambda>userID.
       attempt (default_org_for_user w userID) Inl (\<lambda>orgID.
         attempt (exec w (upsert_member_stmt w userID orgID ''platform_admin'')) (\<lambda>e. Inl (Storage e)) (\<lambda>u. ret (Inr ()))))
   }"

section \<open>API tokens\<close>

definition insert_api_token :: "outside \<Rightarrow> string \<Rightarrow> string \<Rightarrow> string \<Rightarrow> string \<Rightarrow> string \<Rightarrow> string stmt" where
  "insert_api_token w g u name hash display n t =
     (let row = \<lparr>at_id = db_uuid w n 0, at_org = g, at_user = u, at_name = name, at_hash = hash, at_prefix = display,
                 at_last_used = None, at_revoked = None, at_created = db_now w n\<rparr> in
      if list_ex (\<lambda>r. at_id r = at_id row \<or> at_hash r = hash) (tb_api_tokens t) then Inl UniqueViolation
      else if \<not> org_exists t g \<or> \<not> user_exists t u then Inl ForeignKeyViolation
      else Inr (at_id row, t\<lparr>tb_api_tokens := tb_api_tokens t @ [row]\<rparr>))"

definition create_api_token :: "outside \<Rightarrow> string \<Rightarrow> string \<Rightarrow> string \<Rightarrow> string \<Rightarrow> string \<Rightarrow> (auth_error + string) op" where
  "create_api_token w userID orgID name hash display =
     attempt (exec w (uuid_arg w orgID (\<lambda>g. uuid_arg w userID (\<lambda>u. insert_api_token w g u name hash display))))
       (\<lambda>e. Inl (Storage e)) (\<lambda>i. ret (Inr i))"

definition live_api_token :: "string \<Rightarrow> ApiTokenTableRow \<Rightarrow> bool" where
  "live_api_token hash r = (at_hash r = hash \<and> at_revoked r = None)"

definition touch_api_token :: "outside \<Rightarrow> string \<Rightarrow> unit stmt" where
  "touch_api_token w hash n t =
     Inr ((), t\<lparr>tb_api_tokens := update_where (\<lambda>r. at_hash r = hash) (\<lambda>r. r\<lparr>at_last_used := Some (db_now w n)\<rparr>) (tb_api_tokens t)\<rparr>)"

text \<open>User and organisation of a live token; the time stamp is best effort.\<close>

definition resolve_api_token :: "outside \<Rightarrow> string \<Rightarrow> (auth_error + string \<times> string) op" where
  "resolve_api_token w plaintext =
     (let hash = hash_token w plaintext in
      attempt (exec w (reading (\<lambda>t. one_row (live_api_token hash) (tb_api_tokens t))))
        (\<lambda>e. Inl (if e = NoRows then ErrTokenNotFound else Storage e))
        (\<lambda>r. do { u \<leftarrow> exec w (touch_api_token w hash); ret (Inr (at_user r, at_org r)) }))"

definition newest_first :: "('r \<Rightarrow> time) \<Rightarrow> 'r list \<Rightarrow> 'r list" where
  "newest_first created rows = sort_key (\<lambda>r. - created r) rows"

definition list_api_tokens :: "outside \<Rightarrow> string \<Rightarrow> (auth_error + ApiTokenTableRow list) op" where
  "list_api_tokens w userID =
     attempt (exec w (uuid_arg w userID (\<lambda>u. reading (\<lambda>t.
         Inr (newest_first at_created (filter (\<lambda>r. at_user r = u \<and> at_revoked r = None) (tb_api_tokens t)))))))
       (\<lambda>e. Inl (Storage e)) (\<lambda>rows. ret (Inr rows))"

definition revoke_stmt :: "outside \<Rightarrow> string \<Rightarrow> string \<Rightarrow> bool stmt" where
  "revoke_stmt w i u n t =
     (let P = (\<lambda>r. at_id r = i \<and> at_user r = u \<and> at_revoked r = None) in
      Inr (list_ex P (tb_api_tokens t),
           t\<lparr>tb_api_tokens := update_where P (\<lambda>r. r\<lparr>at_revoked := Some (db_now w n)\<rparr>) (tb_api_tokens t)\<rparr>))"

definition revoke_api_token :: "outside \<Rightarrow> string \<Rightarrow> string \<Rightarrow> (auth_error + bool) op" where
  "revoke_api_token w userID tokenID =
     attempt (exec w (uuid_arg w tokenID (\<lambda>i. uuid_arg w userID (\<lambda>u. revoke_stmt w i u))))
       (\<lambda>e. Inl (Storage e)) (\<lambda>b. ret (Inr b))"

section \<open>The audit trail\<close>

record AuditEntry =
  ad_ActorType :: string
  ad_ActorID :: string
  ad_Agent :: string
  ad_WorkspaceID :: string
  ad_Action :: string
  ad_SourceIP :: string
  ad_RequestID :: string
  ad_Result :: string

text \<open>Agents by their user agent string, the first of three names that occurs.\<close>

definition detect_agent :: "outside \<Rightarrow> string \<Rightarrow> string" where
  "detect_agent w ua =
     (case find (\<lambda>a. contains (go_lower w ua) a) [''codex'', ''claude'', ''cursor''] of None \<Rightarrow> [] | Some a \<Rightarrow> a)"

definition audit_stmt :: "outside \<Rightarrow> AuditEntry \<Rightarrow> unit stmt" where
  "audit_stmt w e n t =
     (case (nullable_cast (db_cast w) (ad_ActorID e), nullable_cast (db_cast w) (ad_WorkspaceID e), nullable_cast (db_inet w) (ad_SourceIP e)) of
        (Inr actor, Inr workspace, Inr ip) \<Rightarrow>
          if ad_ActorType e \<notin> {''user'', ''agent'', ''admin'', ''controller''} then Inl CheckViolation
          else if (case workspace of None \<Rightarrow> False | Some g \<Rightarrow> \<not> org_exists t g) then Inl ForeignKeyViolation
          else Inr ((), t\<lparr>tb_audit := tb_audit t @
             [\<lparr>au_actor_type = ad_ActorType e, au_actor_id = actor, au_agent = nullif_empty (ad_Agent e), au_workspace = workspace,
               au_action = ad_Action e, au_source_ip = ip, au_request_id = nullif_empty (ad_RequestID e),
               au_result = ad_Result e, au_occurred = db_now w n\<rparr>]\<rparr>)
      | _ \<Rightarrow> Inl BadText)"

definition insert_audit :: "outside \<Rightarrow> AuditEntry \<Rightarrow> (sql_error + unit) op" where
  "insert_audit w e = exec w (audit_stmt w e)"

definition insert_security_event :: "outside \<Rightarrow> string \<Rightarrow> string \<Rightarrow> string \<Rightarrow> (sql_error + unit) op" where
  "insert_security_event w kind sourceIP detail =
     exec w (\<lambda>n t. case nullable_cast (db_inet w) sourceIP of
        Inl e \<Rightarrow> Inl e
      | Inr ip \<Rightarrow> Inr ((), t\<lparr>tb_events := tb_events t @ [\<lparr>ev_kind = kind, ev_source_ip = ip, ev_detail = detail\<rparr>]\<rparr>))"

text \<open>The newest hundred rows of a workspace, of one action or of all.\<close>

definition list_audit :: "outside \<Rightarrow> string \<Rightarrow> string \<Rightarrow> (auth_error + AuditTableRow list) op" where
  "list_audit w orgID action =
     attempt (exec w (uuid_arg w orgID (\<lambda>g. reading (\<lambda>t.
         Inr (take 100 (newest_first au_occurred
           (filter (\<lambda>r. au_workspace r = Some g \<and> (action = [] \<or> au_action r = action)) (tb_audit t))))))))
       (\<lambda>e. Inl (Storage e)) (\<lambda>rows. ret (Inr rows))"

end
