(* ===== verification/Apps_Store.thy ===== *)
theory Apps_Store
  imports Auth_Store Go_Files
begin

text \<open>
  The application store: \<^verbatim>\<open>apps/store.go\<close>. One definition per statement and one per function; a statement takes
  the ids it was given as uuids. An id that came out of the database is passed back as its text, like the code does.
\<close>

section \<open>Errors and names\<close>

datatype apps_error =
    ErrNotFound
  | ErrQuotaExceeded string int
  | ErrConflict string
  | ErrUnsupportedKind string
  | ErrInvalidDigest string
  | ErrNotEnoughRevisions string
  | ErrPlanExpired
  | StoreFailed sql_error
  | NoEntropy

abbreviation (input) freeTierMaxApps :: int where "freeTierMaxApps \<equiv> 3"
abbreviation (input) proTierMaxApps :: int where "proTierMaxApps \<equiv> 50"

definition max_apps :: "string \<Rightarrow> int" where
  "max_apps tier = (if tier = ''pro'' then proTierMaxApps else freeTierMaxApps)"

definition tier_or_free :: "string \<Rightarrow> string" where
  "tier_or_free tier = (if tier = [] then ''free'' else tier)"

definition is_alnum :: "char \<Rightarrow> bool" where
  "is_alnum c = ((CHR ''a'' \<le> c \<and> c \<le> CHR ''z'') \<or> (CHR ''0'' \<le> c \<and> c \<le> CHR ''9''))"

text \<open>One byte per rune: letters and digits stay, every other rune becomes a dash.\<close>

definition slug_rune :: "nat \<times> string \<Rightarrow> char" where
  "slug_rune rb = (if fst rb < 128 \<and> is_alnum (char_of (fst rb)) then char_of (fst rb) else CHR ''-'')"

definition trim_dashes :: "string \<Rightarrow> string" where
  "trim_dashes s = rev (dropWhile (\<lambda>c. c = CHR ''-'') (rev (dropWhile (\<lambda>c. c = CHR ''-'') s)))"

definition slugify :: "outside \<Rightarrow> string \<Rightarrow> string" where
  "slugify w name = trim_dashes (map slug_rune (runes (go_lower w name)))"

text \<open>\<^verbatim>\<open>^[a-z0-9][a-z0-9-]{0,28}$\<close>.\<close>

definition env_name_ok :: "string \<Rightarrow> bool" where
  "env_name_ok s = (s \<noteq> [] \<and> length s \<le> 29 \<and> is_alnum (hd s) \<and> list_all (\<lambda>c. is_alnum c \<or> c = CHR ''-'') (tl s))"

text \<open>\<^verbatim>\<open>app-{shortAppID}-{env}\<close>.\<close>

definition namespace_for :: "string \<Rightarrow> string \<Rightarrow> string" where
  "namespace_for appID envName = ''app-'' @ before CHR ''-'' appID @ ''-'' @ envName"

section \<open>Applications\<close>

record App =
  app_ID :: string
  app_Name :: string
  app_Slug :: string
  app_CreatedAt :: string

definition app_of :: "outside \<Rightarrow> ApplicationRow \<Rightarrow> App" where
  "app_of w a = \<lparr>app_ID = ap_id a, app_Name = ap_name a, app_Slug = ap_slug a, app_CreatedAt = db_time w (ap_created a)\<rparr>"

definition live_app :: "string \<Rightarrow> ApplicationRow \<Rightarrow> bool" where
  "live_app g a = (ap_org a = g \<and> ap_deleted a = None)"

definition live_apps :: "string \<Rightarrow> tables \<Rightarrow> ApplicationRow list" where
  "live_apps g t = filter (live_app g) (tb_apps t)"

definition tier_stmt :: "string \<Rightarrow> string stmt" where
  "tier_stmt g = reading (\<lambda>t. case one_row (\<lambda>r. og_id r = g) (tb_orgs t) of Inl e \<Rightarrow> Inl e | Inr r \<Rightarrow> Inr (og_tier r))"

definition org_tier :: "outside \<Rightarrow> string \<Rightarrow> (apps_error + string) op" where
  "org_tier w orgID = do {
     r \<leftarrow> exec w (uuid_arg w orgID tier_stmt);
     ret (case r of Inl e \<Rightarrow> if e = NoRows then Inr ''free'' else Inl (StoreFailed e) | Inr tier \<Rightarrow> Inr tier)
   }"

definition new_app :: "outside \<Rightarrow> nat \<Rightarrow> string \<Rightarrow> string \<Rightarrow> string \<Rightarrow> string option \<Rightarrow> ApplicationRow" where
  "new_app w n g name slug creator =
     \<lparr>ap_id = db_uuid w n 0, ap_org = g, ap_name = name, ap_slug = slug, ap_created_by = creator, ap_deleted = None,
      ap_created = db_now w n, ap_spec = None\<rparr>"

text \<open>\<^verbatim>\<open>INSERT ... SELECT ... WHERE (SELECT count(*) ...) < $5 ON CONFLICT (org_id, name) DO NOTHING\<close>: names of
  deleted applications conflict too.\<close>

definition insert_app :: "outside \<Rightarrow> string \<Rightarrow> string \<Rightarrow> string \<Rightarrow> string \<Rightarrow> int \<Rightarrow> ApplicationRow stmt" where
  "insert_app w createdBy name slug g maxApps n t =
     (case nullable_cast (db_cast w) createdBy of
        Inl e \<Rightarrow> Inl e
      | Inr creator \<Rightarrow>
          (let a = new_app w n g name slug creator in
           if maxApps \<le> int (length (live_apps g t)) then Inl NoRows
           else if list_ex (\<lambda>r. ap_org r = g \<and> ap_name r = name) (tb_apps t) then Inl NoRows
           else if list_ex (\<lambda>r. ap_id r = ap_id a) (tb_apps t) then Inl UniqueViolation
           else if \<not> org_exists t g \<or> (case creator of None \<Rightarrow> False | Some u \<Rightarrow> \<not> user_exists t u) then Inl ForeignKeyViolation
           else Inr (a, t\<lparr>tb_apps := tb_apps t @ [a]\<rparr>)))"

text \<open>Why an insert produced no row.\<close>

definition classify_create_rejection :: "outside \<Rightarrow> string \<Rightarrow> string \<Rightarrow> apps_error op" where
  "classify_create_rejection w orgID name = do {
     taken \<leftarrow> exec w (uuid_arg w orgID (\<lambda>g. reading (\<lambda>t. Inr (list_ex (\<lambda>r. live_app g r \<and> ap_name r = name) (tb_apps t)))));
     (case taken of
        Inl e \<Rightarrow> ret (StoreFailed e)
      | Inr True \<Rightarrow> ret (ErrConflict ''name already used in this workspace'')
      | Inr False \<Rightarrow> do {
          counted \<leftarrow> exec w (uuid_arg w orgID (\<lambda>g. reading (\<lambda>t. Inr (int (length (live_apps g t))))));
          (case counted of
             Inl e \<Rightarrow> ret (StoreFailed e)
           | Inr n \<Rightarrow> do {
               r \<leftarrow> exec w (uuid_arg w orgID tier_stmt);
               (case r of
                  Inl e \<Rightarrow>
                    if e \<noteq> NoRows then ret (StoreFailed e)
                    else ret (if max_apps [] \<le> n then ErrQuotaExceeded (tier_or_free []) (max_apps []) else ErrConflict ''concurrent creation race'')
                | Inr tier \<Rightarrow>
                    ret (if max_apps tier \<le> n then ErrQuotaExceeded (tier_or_free tier) (max_apps tier) else ErrConflict ''concurrent creation race''))
             })
        })
   }"

definition create_app :: "outside \<Rightarrow> string \<Rightarrow> string \<Rightarrow> string \<Rightarrow> (apps_error + App) op" where
  "create_app w orgID name createdBy =
     (if slugify w name = [] \<or> trim_space name = [] then ret (Inl (ErrConflict ''name needs alphanumeric characters''))
      else attempt (exec w (uuid_arg w orgID tier_stmt)) (\<lambda>e. Inl (if e = NoRows then ErrNotFound else StoreFailed e)) (\<lambda>tier. do {
        r \<leftarrow> exec w (uuid_arg w orgID (\<lambda>g. insert_app w createdBy name (slugify w name) g (max_apps tier)));
        (case r of
           Inr a \<Rightarrow> ret (Inr (app_of w a))
         | Inl e \<Rightarrow>
             if e = NoRows then do { why \<leftarrow> classify_create_rejection w orgID name; ret (Inl why) }
             else ret (Inl (StoreFailed e)))
      }))"

text \<open>\<^verbatim>\<open>WHERE id = $1 AND org_id = $2 AND deleted_at IS NULL\<close>.\<close>

definition the_app :: "string \<Rightarrow> string \<Rightarrow> ApplicationRow \<Rightarrow> bool" where
  "the_app u g a = (ap_id a = u \<and> live_app g a)"

definition select_app :: "outside \<Rightarrow> string \<Rightarrow> string \<Rightarrow> ApplicationRow stmt" where
  "select_app w appID orgID =
     uuid_arg w appID (\<lambda>u. uuid_arg w orgID (\<lambda>g. reading (\<lambda>t. one_row (the_app u g) (tb_apps t))))"

definition update_app :: "outside \<Rightarrow> string \<Rightarrow> string \<Rightarrow> (time \<Rightarrow> ApplicationRow \<Rightarrow> ApplicationRow) \<Rightarrow> bool stmt" where
  "update_app w appID orgID f =
     uuid_arg w appID (\<lambda>u. uuid_arg w orgID (\<lambda>g n t.
       Inr (list_ex (the_app u g) (tb_apps t), t\<lparr>tb_apps := update_where (the_app u g) (f (db_now w n)) (tb_apps t)\<rparr>)))"

definition found :: "sql_error \<Rightarrow> apps_error" where
  "found e = (if e = NoRows then ErrNotFound else StoreFailed e)"

definition get_app :: "outside \<Rightarrow> string \<Rightarrow> string \<Rightarrow> (apps_error + App) op" where
  "get_app w orgID appID =
     (if \<not> go_uuid_ok w appID then ret (Inl ErrNotFound)
      else attempt (exec w (select_app w appID orgID)) (\<lambda>e. Inl (found e)) (\<lambda>a. ret (Inr (app_of w a))))"

definition list_apps :: "outside \<Rightarrow> string \<Rightarrow> (apps_error + App list) op" where
  "list_apps w orgID =
     attempt (exec w (uuid_arg w orgID (\<lambda>g. reading (\<lambda>t. Inr (newest_first ap_created (live_apps g t))))))
       (\<lambda>e. Inl (StoreFailed e)) (\<lambda>rows. ret (Inr (map (app_of w) rows)))"

text \<open>Unique on workspace and name, deleted applications included.\<close>

definition rename_stmt :: "outside \<Rightarrow> string \<Rightarrow> string \<Rightarrow> string \<Rightarrow> string \<Rightarrow> ApplicationRow stmt" where
  "rename_stmt w name slug u g n t =
     (if \<not> list_ex (the_app u g) (tb_apps t) then Inl NoRows
      else if list_ex (\<lambda>r. ap_id r \<noteq> u \<and> ap_org r = g \<and> ap_name r = name) (tb_apps t) then Inl UniqueViolation
      else
        (let rows = update_where (the_app u g) (\<lambda>a. a\<lparr>ap_name := name, ap_slug := slug\<rparr>) (tb_apps t) in
         case one_row (the_app u g) rows of Inl e \<Rightarrow> Inl e | Inr a \<Rightarrow> Inr (a, t\<lparr>tb_apps := rows\<rparr>)))"

definition rename_app :: "outside \<Rightarrow> string \<Rightarrow> string \<Rightarrow> string \<Rightarrow> (apps_error + App) op" where
  "rename_app w orgID appID name =
     (if \<not> go_uuid_ok w appID then ret (Inl ErrNotFound)
      else attempt (exec w (uuid_arg w appID (\<lambda>u. uuid_arg w orgID (\<lambda>g. rename_stmt w name (slugify w name) u g))))
        (\<lambda>e. Inl (if e = UniqueViolation then ErrConflict ''name already used in this workspace'' else found e))
        (\<lambda>a. ret (Inr (app_of w a))))"

text \<open>\<^verbatim>\<open>Exec\<close> of an update: no row changed reads as not found.\<close>

definition exec_or_missing :: "outside \<Rightarrow> bool stmt \<Rightarrow> (apps_error + unit) op" where
  "exec_or_missing w st = attempt (exec w st) (\<lambda>e. Inl (StoreFailed e)) (\<lambda>hit. ret (if hit then Inr () else Inl ErrNotFound))"

definition soft_delete_app :: "outside \<Rightarrow> string \<Rightarrow> string \<Rightarrow> (apps_error + unit) op" where
  "soft_delete_app w orgID appID =
     (if \<not> go_uuid_ok w appID then ret (Inl ErrNotFound)
      else exec_or_missing w (update_app w appID orgID (\<lambda>now a. a\<lparr>ap_deleted := Some now\<rparr>)))"

section \<open>Services and environments\<close>

record ServiceRow =
  sw_ID :: string
  sw_AppID :: string
  sw_Name :: string
  sw_Type :: string
  sw_Runtime :: string
  sw_Port :: int

definition service_of_row :: "ServiceTableRow \<Rightarrow> ServiceRow" where
  "service_of_row s =
     \<lparr>sw_ID = sv_id s, sw_AppID = sv_app s, sw_Name = sv_name s, sw_Type = sv_type s, sw_Runtime = sv_runtime s,
      sw_Port = (case sv_port s of None \<Rightarrow> 0 | Some p \<Rightarrow> p)\<rparr>"

definition app_exists :: "tables \<Rightarrow> string \<Rightarrow> bool" where
  "app_exists t u = list_ex (\<lambda>r. ap_id r = u) (tb_apps t)"

definition insert_service :: "outside \<Rightarrow> string \<Rightarrow> string \<Rightarrow> string \<Rightarrow> int \<Rightarrow> string \<Rightarrow> ServiceTableRow stmt" where
  "insert_service w name svcType runtime port u n t =
     (let s = \<lparr>sv_id = db_uuid w n 0, sv_app = u, sv_name = name, sv_type = svcType, sv_runtime = runtime,
               sv_port = (if port = 0 then None else Some port)\<rparr> in
      if svcType \<notin> {''frontend'', ''backend''} \<or> runtime \<notin> {''node'', ''python'', ''go''} then Inl CheckViolation
      else if list_ex (\<lambda>r. sv_app r = u \<and> sv_name r = name) (tb_services t) then Inl NoRows
      else if list_ex (\<lambda>r. sv_id r = sv_id s) (tb_services t) then Inl UniqueViolation
      else if \<not> app_exists t u then Inl ForeignKeyViolation
      else Inr (s, t\<lparr>tb_services := tb_services t @ [s]\<rparr>))"

definition add_service :: "outside \<Rightarrow> string \<Rightarrow> string \<Rightarrow> string \<Rightarrow> string \<Rightarrow> string \<Rightarrow> int \<Rightarrow> (apps_error + ServiceRow) op" where
  "add_service w orgID appID name svcType runtime port =
     attempt (get_app w orgID appID) Inl (\<lambda>a.
       attempt (exec w (uuid_arg w appID (insert_service w name svcType runtime port)))
         (\<lambda>e. Inl (if e = NoRows \<or> e = UniqueViolation then ErrConflict ''service name exists'' else StoreFailed e))
         (\<lambda>s. ret (Inr (service_of_row s))))"

definition env_key :: "string \<Rightarrow> string \<Rightarrow> EnvironmentRow \<Rightarrow> bool" where
  "env_key u name r = (en_app r = u \<and> en_name r = name)"

text \<open>The namespace is unique over all applications.\<close>

definition insert_env :: "outside \<Rightarrow> string \<Rightarrow> string \<Rightarrow> string \<Rightarrow> EnvironmentRow stmt" where
  "insert_env w name namespace u n t =
     (let r = \<lparr>en_id = db_uuid w n 0, en_app = u, en_name = name, en_namespace = Some namespace\<rparr> in
      if list_ex (env_key u name) (tb_envs t) then Inl NoRows
      else if list_ex (\<lambda>x. en_id x = en_id r \<or> en_namespace x = Some namespace) (tb_envs t) then Inl UniqueViolation
      else if \<not> app_exists t u then Inl ForeignKeyViolation
      else Inr (r, t\<lparr>tb_envs := tb_envs t @ [r]\<rparr>))"

definition add_environment :: "outside \<Rightarrow> string \<Rightarrow> string \<Rightarrow> string \<Rightarrow> (apps_error + string) op" where
  "add_environment w orgID appID envName =
     (if \<not> env_name_ok envName then ret (Inl (ErrConflict ''environment name must be lowercase alphanumeric''))
      else attempt (get_app w orgID appID) Inl (\<lambda>a.
        attempt (exec w (uuid_arg w appID (insert_env w envName (namespace_for appID envName))))
          (\<lambda>e. Inl (if e = NoRows \<or> e = UniqueViolation then ErrConflict ''environment exists'' else StoreFailed e))
          (\<lambda>r. ret (Inr (namespace_for appID envName)))))"

text \<open>\<^verbatim>\<open>ON CONFLICT (app_id, name) DO UPDATE SET name = EXCLUDED.name\<close>.\<close>

definition upsert_env :: "outside \<Rightarrow> string \<Rightarrow> string \<Rightarrow> string \<Rightarrow> EnvironmentRow stmt" where
  "upsert_env w name namespace u n t =
     (case one_row (env_key u name) (tb_envs t) of
        Inr r \<Rightarrow> Inr (r, t)
      | Inl e \<Rightarrow> insert_env w name namespace u n t)"

definition ensure_environment :: "outside \<Rightarrow> string \<Rightarrow> string \<Rightarrow> string \<Rightarrow> (apps_error + string) op" where
  "ensure_environment w orgID appID envName =
     attempt (get_app w orgID appID) Inl (\<lambda>a.
       if \<not> env_name_ok envName then ret (Inl (ErrConflict ''invalid environment name''))
       else attempt (exec w (uuid_arg w appID (upsert_env w envName (namespace_for appID envName))))
         (\<lambda>e. Inl (StoreFailed e)) (\<lambda>r. ret (Inr (en_id r))))"

section \<open>Specs and plans\<close>

text \<open>The document is stored as \<^verbatim>\<open>jsonb\<close>, which refuses what is not one JSON value.\<close>

definition store_spec :: "outside \<Rightarrow> string \<Rightarrow> string \<Rightarrow> string \<Rightarrow> bool stmt" where
  "store_spec w appID orgID raw =
     (case db_jsonb w raw of
        None \<Rightarrow> (\<lambda>n t. Inl BadText)
      | Some doc \<Rightarrow> update_app w appID orgID (\<lambda>now a. a\<lparr>ap_spec := Some doc\<rparr>))"

definition update_spec :: "outside \<Rightarrow> string \<Rightarrow> string \<Rightarrow> string \<Rightarrow> (apps_error + unit) op" where
  "update_spec w orgID appID raw =
     (if \<not> go_uuid_ok w appID then ret (Inl ErrNotFound) else exec_or_missing w (store_spec w appID orgID raw))"

definition save_app_spec :: "outside \<Rightarrow> string \<Rightarrow> string \<Rightarrow> string \<Rightarrow> (apps_error + unit) op" where
  "save_app_spec w orgID appID specRaw =
     (if \<not> go_uuid_ok w appID then ret (Inl ErrNotFound) else exec_or_missing w (store_spec w appID orgID specRaw))"

record AppWithSpec = App +
  app_SpecRaw :: string

definition get_app_with_spec :: "outside \<Rightarrow> string \<Rightarrow> string \<Rightarrow> (apps_error + AppWithSpec) op" where
  "get_app_with_spec w orgID appID =
     (if \<not> go_uuid_ok w appID then ret (Inl ErrNotFound)
      else attempt (exec w (select_app w appID orgID)) (\<lambda>e. Inl (found e)) (\<lambda>a.
        ret (Inr \<lparr>app_ID = ap_id a, app_Name = ap_name a, app_Slug = ap_slug a, app_CreatedAt = db_time w (ap_created a),
                  app_SpecRaw = coalesce (ap_spec a)\<rparr>)))"

definition env_exists :: "tables \<Rightarrow> string \<Rightarrow> bool" where
  "env_exists t e = list_ex (\<lambda>r. en_id r = e) (tb_envs t)"

definition insert_deployment :: "outside \<Rightarrow> string \<Rightarrow> string \<Rightarrow> string \<Rightarrow> DeploymentRow stmt" where
  "insert_deployment w snapshot u e n t =
     (case db_jsonb w snapshot of
        None \<Rightarrow> Inl BadText
      | Some doc \<Rightarrow>
          (let d = \<lparr>dp_id = db_uuid w n 0, dp_app = u, dp_env = e, dp_state = ''AWAITING_APPROVAL'',
                    dp_plan = Some (db_uuid w n 1), dp_snapshot = Some doc\<rparr> in
           if list_ex (\<lambda>r. dp_id r = dp_id d) (tb_deployments t) then Inl UniqueViolation
           else if \<not> app_exists t u \<or> \<not> env_exists t e then Inl ForeignKeyViolation
           else Inr (d, t\<lparr>tb_deployments := tb_deployments t @ [d]\<rparr>)))"

definition save_awaiting_plan :: "outside \<Rightarrow> string \<Rightarrow> string \<Rightarrow> string \<Rightarrow> string \<Rightarrow> (apps_error + string \<times> string) op" where
  "save_awaiting_plan w orgID appID envName planSnapshot =
     attempt (ensure_environment w orgID appID envName) Inl (\<lambda>envID.
       attempt (exec w (uuid_arg w appID (\<lambda>u. uuid_arg w envID (insert_deployment w planSnapshot u))))
         (\<lambda>e. Inl (StoreFailed e)) (\<lambda>d. ret (Inr (dp_id d, coalesce (dp_plan d)))))"

text \<open>\<^verbatim>\<open>deployments d JOIN applications a ON a.id = d.app_id WHERE a.org_id = $2 AND a.id = $3\<close>; unlike the other
  queries this one reads deleted applications too.\<close>

definition owned :: "tables \<Rightarrow> string \<Rightarrow> string \<Rightarrow> bool" where
  "owned t u g = list_ex (\<lambda>a. ap_id a = u \<and> ap_org a = g) (tb_apps t)"

definition select_plan :: "outside \<Rightarrow> string \<Rightarrow> string \<Rightarrow> string \<Rightarrow> DeploymentRow stmt" where
  "select_plan w planID orgID appID =
     uuid_arg w planID (\<lambda>p. uuid_arg w orgID (\<lambda>g. uuid_arg w appID (\<lambda>u. reading (\<lambda>t.
       one_row (\<lambda>d. dp_plan d = Some p \<and> dp_app d = u \<and> owned t u g) (tb_deployments t)))))"

definition set_deployment_state :: "outside \<Rightarrow> string \<Rightarrow> string \<Rightarrow> unit stmt" where
  "set_deployment_state w depID state =
     uuid_arg w depID (\<lambda>d n t.
       Inr ((), t\<lparr>tb_deployments := update_where (\<lambda>r. dp_id r = d) (\<lambda>r. r\<lparr>dp_state := state\<rparr>) (tb_deployments t)\<rparr>))"

definition approve_plan :: "outside \<Rightarrow> string \<Rightarrow> string \<Rightarrow> string \<Rightarrow> (apps_error + string) op" where
  "approve_plan w orgID appID planID =
     (if \<not> go_uuid_ok w planID then ret (Inl ErrNotFound)
      else attempt (exec w (select_plan w planID orgID appID)) (\<lambda>e. Inl (found e)) (\<lambda>d.
        case js_instant w ''expires_at'' (coalesce (dp_snapshot d)) of
          None \<Rightarrow> ret (Inl (ErrConflict ''corrupt snapshot''))
        | Some expires \<Rightarrow> do {
            now \<leftarrow> time_now w;
            (if expires < now then ret (Inl ErrPlanExpired)
             else if dp_state d \<noteq> ''AWAITING_APPROVAL'' then ret (Inl (ErrConflict (''plan already '' @ dp_state d)))
             else attempt (exec w (set_deployment_state w (dp_id d) ''PLANNED''))
               (\<lambda>e. Inl (StoreFailed e)) (\<lambda>u. ret (Inr (dp_id d))))
          }))"

text \<open>\<^verbatim>\<open>AuditRow\<close> has the fields of \<^verbatim>\<open>auth.AuditEntry\<close> and goes into the same table by the same statement.\<close>

definition insert_audit_row :: "outside \<Rightarrow> AuditEntry \<Rightarrow> (sql_error + unit) op" where
  "insert_audit_row w e = exec w (audit_stmt w e)"

end
