(* ===== verification/Releases.thy ===== *)
theory Releases
  imports Apps_Store
begin

text \<open>
  Revisions, domains and databases of an application: \<^verbatim>\<open>apps/deployments.go\<close> (with \<^verbatim>\<open>Store.RollbackLatest\<close>),
  \<^verbatim>\<open>apps/domains.go\<close> and \<^verbatim>\<open>apps/databases.go\<close>.
\<close>

section \<open>Revisions\<close>

text \<open>\<^verbatim>\<open>^sha256:[0-9a-f]{64}$\<close>.\<close>

definition digest_ok :: "string \<Rightarrow> bool" where
  "digest_ok s =
     (case cut_prefix s ''sha256:'' of
        None \<Rightarrow> False
      | Some h \<Rightarrow> length h = 64 \<and> list_all (\<lambda>c. (CHR ''0'' \<le> c \<and> c \<le> CHR ''9'') \<or> (CHR ''a'' \<le> c \<and> c \<le> CHR ''f'')) h)"

record RevisionInput =
  ri_GitSHA :: string
  ri_BuildID :: string
  ri_ImageDigest :: string
  ri_ConfigVersion :: int
  ri_SecretRevision :: int
  ri_AppSpecVersion :: string

record RevisionRow = RevisionInput +
  ri_Revision :: int
  ri_CreatedAt :: string

definition scan_revision :: "outside \<Rightarrow> RevisionTableRow \<Rightarrow> RevisionRow" where
  "scan_revision w r =
     \<lparr>ri_GitSHA = coalesce (rv_git_sha r), ri_BuildID = coalesce (rv_build r), ri_ImageDigest = rv_digest r,
      ri_ConfigVersion = rv_config r, ri_SecretRevision = rv_secret r, ri_AppSpecVersion = rv_spec_version r,
      ri_Revision = rv_number r, ri_CreatedAt = db_time w (rv_created r)\<rparr>"

definition revisions_of :: "string \<Rightarrow> tables \<Rightarrow> RevisionTableRow list" where
  "revisions_of d t = filter (\<lambda>r. rv_deployment r = d) (tb_revisions t)"

text \<open>\<^verbatim>\<open>COALESCE(max(revision), 0) + 1\<close>.\<close>

definition next_revision :: "string \<Rightarrow> tables \<Rightarrow> int" where
  "next_revision d t = (case map rv_number (revisions_of d t) of [] \<Rightarrow> 1 | n # ns \<Rightarrow> fold max ns n + 1)"

definition deployment_exists :: "tables \<Rightarrow> string \<Rightarrow> bool" where
  "deployment_exists t d = list_ex (\<lambda>r. dp_id r = d) (tb_deployments t)"

text \<open>No statement of the program writes the table of builds, so that a build id never finds its row.\<close>

definition insert_revision :: "outside \<Rightarrow> RevisionInput \<Rightarrow> int \<Rightarrow> string \<Rightarrow> RevisionTableRow stmt" where
  "insert_revision w inp nxt d n t =
     (case nullable_cast (db_cast w) (ri_BuildID inp) of
        Inl e \<Rightarrow> Inl e
      | Inr build \<Rightarrow>
          (let r = \<lparr>rv_deployment = d, rv_number = nxt, rv_git_sha = nullif_empty (ri_GitSHA inp), rv_build = build,
                    rv_digest = ri_ImageDigest inp, rv_config = ri_ConfigVersion inp, rv_secret = ri_SecretRevision inp,
                    rv_spec_version = ri_AppSpecVersion inp, rv_created = db_now w n\<rparr> in
           if \<not> digest_ok (rv_digest r) then Inl CheckViolation
           else if list_ex (\<lambda>x. rv_deployment x = d \<and> rv_number x = nxt) (tb_revisions t) then Inl UniqueViolation
           else if \<not> deployment_exists t d \<or> build \<noteq> None then Inl ForeignKeyViolation
           else Inr (r, t\<lparr>tb_revisions := tb_revisions t @ [r]\<rparr>)))"

definition save_revision :: "outside \<Rightarrow> string \<Rightarrow> string \<Rightarrow> string \<Rightarrow> RevisionInput \<Rightarrow> (apps_error + RevisionRow) op" where
  "save_revision w orgID appID deploymentID inp =
     attempt (get_app w orgID appID) Inl (\<lambda>a.
       if \<not> digest_ok (ri_ImageDigest inp) then ret (Inl (ErrInvalidDigest (ri_ImageDigest inp)))
       else if \<not> go_uuid_ok w deploymentID then ret (Inl ErrNotFound)
       else attempt (exec w (uuid_arg w deploymentID (\<lambda>d. reading (\<lambda>t. Inr (next_revision d t))))) (\<lambda>e. Inl (StoreFailed e)) (\<lambda>nxt.
         attempt (exec w (uuid_arg w deploymentID (insert_revision w inp nxt))) (\<lambda>e. Inl (StoreFailed e))
           (\<lambda>r. ret (Inr (scan_revision w r)))))"

text \<open>\<^verbatim>\<open>ORDER BY dp.id DESC, dr.revision DESC\<close>: uuids compare like their canonical texts.\<close>

definition newest_revision_first :: "RevisionTableRow list \<Rightarrow> RevisionTableRow list" where
  "newest_revision_first rows = sort_key (\<lambda>r. - rv_number r) rows"

definition rollback_target :: "outside \<Rightarrow> string \<Rightarrow> string \<Rightarrow> string \<Rightarrow> (apps_error + RevisionRow) op" where
  "rollback_target w orgID appID deploymentID =
     (if \<not> go_uuid_ok w deploymentID then ret (Inl ErrNotFound)
      else attempt
        (exec w (uuid_arg w deploymentID (\<lambda>d. uuid_arg w orgID (\<lambda>g. uuid_arg w appID (\<lambda>u. reading (\<lambda>t.
           let hits = (if list_ex (\<lambda>x. dp_id x = d \<and> dp_app x = u) (tb_deployments t) \<and> owned t u g
                       then newest_revision_first (revisions_of d t) else []) in
           one_row (\<lambda>r. True) (drop 1 hits)))))))
        (\<lambda>e. Inl (if e = NoRows then ErrNotEnoughRevisions ''need at least two revisions'' else StoreFailed e))
        (\<lambda>r. ret (Inr (scan_revision w r))))"

definition deployments_desc :: "string \<Rightarrow> tables \<Rightarrow> DeploymentRow list" where
  "deployments_desc u t = rev (sort_key dp_id (filter (\<lambda>d. dp_app d = u) (tb_deployments t)))"

definition live_owned :: "tables \<Rightarrow> string \<Rightarrow> string \<Rightarrow> bool" where
  "live_owned t u g = list_ex (the_app u g) (tb_apps t)"

definition list_revisions :: "outside \<Rightarrow> string \<Rightarrow> string \<Rightarrow> (apps_error + RevisionRow list) op" where
  "list_revisions w orgID appID =
     (if \<not> go_uuid_ok w appID then ret (Inl ErrNotFound)
      else attempt
        (exec w (uuid_arg w orgID (\<lambda>g. uuid_arg w appID (\<lambda>u. reading (\<lambda>t.
           Inr (if live_owned t u g
                then concat (map (\<lambda>d. newest_revision_first (revisions_of (dp_id d) t)) (deployments_desc u t)) else []))))))
        (\<lambda>e. Inl (StoreFailed e)) (\<lambda>rows. ret (Inr (map (scan_revision w) rows))))"

definition latest_deployment :: "outside \<Rightarrow> string \<Rightarrow> string \<Rightarrow> DeploymentRow stmt" where
  "latest_deployment w orgID appID =
     uuid_arg w orgID (\<lambda>g. uuid_arg w appID (\<lambda>u. reading (\<lambda>t.
       one_row (\<lambda>d. live_owned t u g) (deployments_desc u t))))"

definition rollback_latest :: "outside \<Rightarrow> string \<Rightarrow> string \<Rightarrow> (apps_error + RevisionRow \<times> RevisionRow) op" where
  "rollback_latest w orgID appID =
     (if \<not> go_uuid_ok w appID then ret (Inl ErrNotFound)
      else attempt (exec w (latest_deployment w orgID appID))
        (\<lambda>e. Inl (if e = NoRows then ErrNotEnoughRevisions ''no deployment yet'' else StoreFailed e)) (\<lambda>d.
        attempt (rollback_target w orgID appID (dp_id d)) Inl (\<lambda>target.
          attempt (save_revision w orgID appID (dp_id d) (RevisionInput.truncate target)) Inl
            (\<lambda>newRev. ret (Inr (newRev, target))))))"

section \<open>Domains\<close>

record DomainRow =
  do_ID :: string
  do_AppID :: string
  do_Hostname :: string
  do_Verified :: bool
  do_TXTChallenge :: string
  do_CNameTarget :: string
  do_IsDefault :: bool

definition domain_of_row :: "DomainTableRow \<Rightarrow> DomainRow" where
  "domain_of_row d =
     \<lparr>do_ID = dm_id d, do_AppID = dm_app d, do_Hostname = dm_hostname d, do_Verified = dm_verified d,
      do_TXTChallenge = coalesce (dm_challenge d), do_CNameTarget = coalesce (dm_cname d), do_IsDefault = dm_default d\<rparr>"

definition new_challenge_token :: "outside \<Rightarrow> (apps_error + string) op" where
  "new_challenge_token w = attempt (draw w 24) (\<lambda>e. Inl NoEntropy) (\<lambda>raw. ret (Inr (b64_encode b64_url raw)))"

definition get_domain :: "outside \<Rightarrow> string \<Rightarrow> string \<Rightarrow> (apps_error + DomainRow) op" where
  "get_domain w appID domainID =
     attempt (exec w (uuid_arg w domainID (\<lambda>i. uuid_arg w appID (\<lambda>u. reading (\<lambda>t.
         one_row (\<lambda>d. dm_id d = i \<and> dm_app d = u) (tb_domains t))))))
       (\<lambda>e. Inl (found e)) (\<lambda>d. ret (Inr (domain_of_row d)))"

text \<open>Host names are unique over all applications, under the folding of \<^verbatim>\<open>citext\<close>.\<close>

definition insert_domain_stmt :: "outside \<Rightarrow> DomainRow \<Rightarrow> string \<Rightarrow> DomainTableRow stmt" where
  "insert_domain_stmt w d u n t =
     (let r = \<lparr>dm_id = db_uuid w n 0, dm_app = u, dm_hostname = go_lower w (do_Hostname d), dm_verified = do_Verified d,
               dm_challenge = nullif_empty (do_TXTChallenge d), dm_cname = None, dm_default = do_IsDefault d,
               dm_created = db_now w n\<rparr> in
      if list_ex (\<lambda>x. dm_id x = dm_id r \<or> same_text w (dm_hostname x) (dm_hostname r)) (tb_domains t) then Inl UniqueViolation
      else if \<not> app_exists t u then Inl ForeignKeyViolation
      else Inr (r, t\<lparr>tb_domains := tb_domains t @ [r]\<rparr>))"

definition insert_domain :: "outside \<Rightarrow> DomainRow \<Rightarrow> (apps_error + DomainRow) op" where
  "insert_domain w d =
     attempt (exec w (uuid_arg w (do_AppID d) (insert_domain_stmt w d)))
       (\<lambda>e. Inl (if e = UniqueViolation then ErrConflict ''hostname already bound'' else StoreFailed e))
       (\<lambda>r. ret (Inr (d\<lparr>do_ID := dm_id r\<rparr>)))"

definition staged_domain :: "string \<Rightarrow> string \<Rightarrow> bool \<Rightarrow> string \<Rightarrow> bool \<Rightarrow> DomainRow" where
  "staged_domain appID hostname verified challenge dflt =
     \<lparr>do_ID = [], do_AppID = appID, do_Hostname = hostname, do_Verified = verified, do_TXTChallenge = challenge,
      do_CNameTarget = [], do_IsDefault = dflt\<rparr>"

definition allocate_default_domain :: "outside \<Rightarrow> string \<Rightarrow> string \<Rightarrow> string \<Rightarrow> (apps_error + DomainRow) op" where
  "allocate_default_domain w appID slug baseDomain =
     insert_domain w (staged_domain appID (slug @ ''.'' @ baseDomain) True [] True)"

definition add_custom_domain :: "outside \<Rightarrow> string \<Rightarrow> string \<Rightarrow> (apps_error + DomainRow) op" where
  "add_custom_domain w appID hostname =
     attempt (new_challenge_token w) Inl (\<lambda>token. insert_domain w (staged_domain appID hostname False token False))"

definition verify_domain_stmt :: "string \<Rightarrow> unit stmt" where
  "verify_domain_stmt i n t =
     Inr ((), t\<lparr>tb_domains := update_where (\<lambda>d. dm_id d = i \<and> \<not> dm_verified d) (\<lambda>d. d\<lparr>dm_verified := True\<rparr>) (tb_domains t)\<rparr>)"

definition mark_domain_verified :: "outside \<Rightarrow> string \<Rightarrow> (apps_error + unit) op" where
  "mark_domain_verified w domainID =
     attempt (exec w (uuid_arg w domainID verify_domain_stmt)) (\<lambda>e. Inl (StoreFailed e)) (\<lambda>u. ret (Inr ()))"

text \<open>\<^verbatim>\<open>ORDER BY is_default DESC, created_at\<close>.\<close>

definition list_domains :: "outside \<Rightarrow> string \<Rightarrow> (apps_error + DomainRow list) op" where
  "list_domains w appID =
     attempt (exec w (uuid_arg w appID (\<lambda>u. reading (\<lambda>t.
         let rows = sort_key dm_created (filter (\<lambda>d. dm_app d = u) (tb_domains t)) in
         Inr (filter dm_default rows @ filter (\<lambda>d. \<not> dm_default d) rows)))))
       (\<lambda>e. Inl (StoreFailed e)) (\<lambda>rows. ret (Inr (map domain_of_row rows)))"

definition require_verified_domain :: "outside \<Rightarrow> string \<Rightarrow> string \<Rightarrow> string \<Rightarrow> (apps_error + DomainRow) op" where
  "require_verified_domain w orgID appID domainID =
     attempt (get_app w orgID appID) Inl (\<lambda>a.
       attempt (get_domain w appID domainID) Inl (\<lambda>d.
         ret (if \<not> do_Verified d then Inl (ErrConflict ''domain not verified'') else Inr d)))"

abbreviation (input) challengePrefix :: string where "challengePrefix \<equiv> ''_tenara-challenge.''"

definition lookup_txt :: "outside \<Rightarrow> string \<Rightarrow> string list option op" where
  "lookup_txt w name = do { n \<leftarrow> event; ret (dns_txt w n name) }"

definition verify_custom_domain :: "outside \<Rightarrow> string \<Rightarrow> string \<Rightarrow> (apps_error + DomainRow) op" where
  "verify_custom_domain w appID domainID =
     attempt (get_domain w appID domainID) Inl (\<lambda>d.
       if do_Verified d then ret (Inr d)
       else if do_TXTChallenge d = [] then ret (Inl (ErrConflict ''domain has no active challenge''))
       else do {
         records \<leftarrow> lookup_txt w (challengePrefix @ do_Hostname d);
         (case records of
            None \<Rightarrow> ret (Inr d)
          | Some recs \<Rightarrow>
              if do_TXTChallenge d \<in> set recs
              then attempt (mark_domain_verified w (do_ID d)) Inl (\<lambda>u. get_domain w appID (do_ID d))
              else ret (Inr d))
       })"

section \<open>Databases\<close>

definition normalize_kind :: "string \<Rightarrow> apps_error + string" where
  "normalize_kind kind =
     (if kind = [] then Inr ''mongodb''
      else if kind = ''mongo'' then Inr ''mongodb''
      else if kind \<in> {''mongodb'', ''redis'', ''storage''} then Inr kind
      else Inl (ErrUnsupportedKind kind))"

record DatabaseRow =
  db_ID :: string
  db_AppID :: string
  db_Type :: string
  db_Isolation :: string
  db_State :: string

record BindingRow =
  bd_ID :: string
  bd_CredentialRef :: string
  bd_State :: string

definition insert_database :: "outside \<Rightarrow> string \<Rightarrow> string \<Rightarrow> string \<Rightarrow> DatabaseTableRow stmt" where
  "insert_database w kind isolation u n t =
     (let r = \<lparr>da_id = db_uuid w n 0, da_app = u, da_type = kind, da_isolation = isolation, da_state = ''pending'', da_name = None\<rparr> in
      if kind \<notin> {''mongodb'', ''redis'', ''storage''} \<or> isolation \<notin> {''shared'', ''dedicated''} then Inl CheckViolation
      else if list_ex (\<lambda>x. da_id x = da_id r \<or> (da_app x = u \<and> da_type x = kind)) (tb_databases t) then Inl UniqueViolation
      else if \<not> app_exists t u then Inl ForeignKeyViolation
      else Inr (r, t\<lparr>tb_databases := tb_databases t @ [r]\<rparr>))"

definition database_exists :: "tables \<Rightarrow> string \<Rightarrow> bool" where
  "database_exists t i = list_ex (\<lambda>r. da_id r = i) (tb_databases t)"

definition insert_binding :: "outside \<Rightarrow> string \<Rightarrow> string \<Rightarrow> unit stmt" where
  "insert_binding w i u n t =
     (let r = \<lparr>bi_id = db_uuid w n 0, bi_database = i, bi_app = u, bi_ref = None, bi_state = ''pending''\<rparr> in
      if list_ex (\<lambda>x. bi_id x = bi_id r) (tb_bindings t) then Inl UniqueViolation
      else if \<not> database_exists t i \<or> \<not> app_exists t u then Inl ForeignKeyViolation
      else Inr ((), t\<lparr>tb_bindings := tb_bindings t @ [r]\<rparr>))"

definition set_isolation :: "outside \<Rightarrow> string \<Rightarrow> string \<Rightarrow> unit stmt" where
  "set_isolation w databaseID isolation =
     uuid_arg w databaseID (\<lambda>i n t.
       Inr ((), t\<lparr>tb_databases := update_where (\<lambda>d. da_id d = i) (\<lambda>d. d\<lparr>da_isolation := isolation\<rparr>) (tb_databases t)\<rparr>))"

definition binding_for :: "outside \<Rightarrow> string \<Rightarrow> (apps_error + BindingRow) op" where
  "binding_for w databaseID =
     attempt (exec w (uuid_arg w databaseID (\<lambda>i. reading (\<lambda>t. one_row (\<lambda>b. bi_database b = i) (tb_bindings t)))))
       (\<lambda>e. Inl (found e))
       (\<lambda>b. ret (Inr \<lparr>bd_ID = bi_id b, bd_CredentialRef = coalesce (bi_ref b), bd_State = bi_state b\<rparr>))"

definition select_database :: "outside \<Rightarrow> string \<Rightarrow> string \<Rightarrow> DatabaseTableRow stmt" where
  "select_database w appID kind =
     uuid_arg w appID (\<lambda>u. reading (\<lambda>t. one_row (\<lambda>d. da_app d = u \<and> da_type d = kind) (tb_databases t)))"

text \<open>A repeated request scans id and state only; the other fields of the answer stay empty.\<close>

definition request_database :: "outside \<Rightarrow> string \<Rightarrow> string \<Rightarrow> string \<Rightarrow> string \<Rightarrow> (apps_error + DatabaseRow \<times> BindingRow) op" where
  "request_database w orgID appID kind isolation0 =
     attempt (get_app w orgID appID) Inl (\<lambda>a.
       case normalize_kind kind of
         Inl e \<Rightarrow> ret (Inl e)
       | Inr normalized \<Rightarrow>
           (let isolation = (if isolation0 \<noteq> ''shared'' \<and> isolation0 \<noteq> ''dedicated'' then ''shared'' else isolation0) in do {
              r \<leftarrow> exec w (select_database w appID normalized);
              (case r of
                 Inl e \<Rightarrow>
                   if e \<noteq> NoRows then ret (Inl (StoreFailed e))
                   else attempt (exec w (uuid_arg w appID (insert_database w normalized isolation))) (\<lambda>e. Inl (StoreFailed e)) (\<lambda>d.
                     attempt (exec w (uuid_arg w (da_id d) (\<lambda>i. uuid_arg w appID (insert_binding w i)))) (\<lambda>e. Inl (StoreFailed e)) (\<lambda>u.
                       ret (Inr (\<lparr>db_ID = da_id d, db_AppID = da_app d, db_Type = da_type d, db_Isolation = da_isolation d,
                                  db_State = da_state d\<rparr>, \<lparr>bd_ID = [], bd_CredentialRef = [], bd_State = ''pending''\<rparr>))))
               | Inr d \<Rightarrow>
                   attempt (exec w (set_isolation w (da_id d) isolation)) (\<lambda>e. Inl (StoreFailed e)) (\<lambda>u.
                     attempt (binding_for w (da_id d)) Inl (\<lambda>b.
                       ret (Inr (\<lparr>db_ID = da_id d, db_AppID = [], db_Type = [], db_Isolation = isolation, db_State = da_state d\<rparr>, b)))))
            }))"

definition mark_binding_ready :: "outside \<Rightarrow> string \<Rightarrow> string \<Rightarrow> (apps_error + unit) op" where
  "mark_binding_ready w orgID appID =
     attempt (get_app w orgID appID) Inl (\<lambda>a.
       let dbName = ''app_'' @ before CHR ''-'' appID in
       attempt (exec w (uuid_arg w appID (\<lambda>u n t.
           Inr ((), t\<lparr>tb_bindings := update_where (\<lambda>b. bi_app b = u \<and> bi_state b = ''pending'') (\<lambda>b. b\<lparr>bi_state := ''ready''\<rparr>) (tb_bindings t)\<rparr>))))
         (\<lambda>e. Inl (StoreFailed e)) (\<lambda>x.
       attempt (exec w (uuid_arg w appID (\<lambda>u n t.
           Inr ((), t\<lparr>tb_databases := update_where (\<lambda>d. da_app d = u \<and> da_state d = ''pending'')
              (\<lambda>d. d\<lparr>da_state := ''ready'', da_name := Some dbName\<rparr>) (tb_databases t)\<rparr>))))
         (\<lambda>e. Inl (StoreFailed e)) (\<lambda>x. ret (Inr ()))))"

end
