(* ===== verification/Secret_Store.thy ===== *)
theory Secret_Store
  imports Releases Sealing
begin

text \<open>
  The encrypted secret store: \<^verbatim>\<open>secrets/service.go\<close> over the tables of secrets and their revisions. The cipher and
  the master key of the KMS stub come with the service.
\<close>

record secret_service =
  ss_aead :: aead
  ss_key :: string

datatype secret_error = SecretNotFound | SecretStorage sql_error | SecretCipher kms_error

definition secret_key_of :: "string \<Rightarrow> string \<Rightarrow> SecretRow \<Rightarrow> bool" where
  "secret_key_of u name r = (se_app r = u \<and> se_name r = name)"

definition versions_of :: "string \<Rightarrow> tables \<Rightarrow> SecretRevisionRow list" where
  "versions_of s t = filter (\<lambda>r. sr_secret r = s) (tb_secret_revs t)"

text \<open>\<^verbatim>\<open>COALESCE((SELECT max(version) ...), 0) + 1\<close>.\<close>

definition next_version :: "string \<Rightarrow> tables \<Rightarrow> int" where
  "next_version s t = (case map sr_version (versions_of s t) of [] \<Rightarrow> 1 | n # ns \<Rightarrow> fold max ns n + 1)"

text \<open>\<^verbatim>\<open>INSERT ... ON CONFLICT (app_id, name) DO UPDATE SET ciphertext\<close>, with the id and the next version.\<close>

definition upsert_secret :: "outside \<Rightarrow> string \<Rightarrow> string \<Rightarrow> string \<Rightarrow> (string \<times> int) stmt" where
  "upsert_secret w name sealed u n t =
     (case one_row (secret_key_of u name) (tb_secrets t) of
        Inr r \<Rightarrow>
          Inr ((se_id r, next_version (se_id r) t),
               t\<lparr>tb_secrets := update_where (secret_key_of u name) (\<lambda>r. r\<lparr>se_ciphertext := sealed\<rparr>) (tb_secrets t)\<rparr>)
      | Inl e \<Rightarrow>
          (let r = \<lparr>se_id = db_uuid w n 0, se_app = u, se_name = name, se_ciphertext = sealed\<rparr> in
           if list_ex (\<lambda>x. se_id x = se_id r) (tb_secrets t) then Inl UniqueViolation
           else if \<not> app_exists t u then Inl ForeignKeyViolation
           else Inr ((se_id r, next_version (se_id r) t), t\<lparr>tb_secrets := tb_secrets t @ [r]\<rparr>)))"

definition insert_secret_revision :: "int \<Rightarrow> string \<Rightarrow> string \<Rightarrow> unit stmt" where
  "insert_secret_revision version sealed s n t =
     (if list_ex (\<lambda>r. sr_secret r = s \<and> sr_version r = version) (tb_secret_revs t) then Inl UniqueViolation
      else if \<not> list_ex (\<lambda>r. se_id r = s) (tb_secrets t) then Inl ForeignKeyViolation
      else Inr ((), t\<lparr>tb_secret_revs := tb_secret_revs t @ [\<lparr>sr_secret = s, sr_version = version, sr_ciphertext = sealed\<rparr>]\<rparr>))"

definition kms_seal :: "outside \<Rightarrow> secret_service \<Rightarrow> string \<Rightarrow> (secret_error + string) op" where
  "kms_seal w ss plaintext = do {
     nonce \<leftarrow> draw w 12;
     ret (case kms_encrypt (ss_aead ss) (ss_key ss) (case nonce of Inl u \<Rightarrow> None | Inr bytes \<Rightarrow> Some bytes) plaintext of
            Inl e \<Rightarrow> Inl (SecretCipher e) | Inr sealed \<Rightarrow> Inr sealed)
   }"

definition set_secret :: "outside \<Rightarrow> secret_service \<Rightarrow> string \<Rightarrow> string \<Rightarrow> string \<Rightarrow> (secret_error + unit) op" where
  "set_secret w ss appID name plaintext =
     attempt (kms_seal w ss plaintext) Inl (\<lambda>sealed.
       transact w SecretStorage (\<lambda>now.
         attempt (exec w (uuid_arg w appID (upsert_secret w name sealed))) (\<lambda>e. Inl (SecretStorage e)) (\<lambda>(secretID, nextVersion).
           attempt (exec w (uuid_arg w secretID (insert_secret_revision nextVersion sealed))) (\<lambda>e. Inl (SecretStorage e))
             (\<lambda>u. ret (Inr ())))))"

record Item =
  it_Name :: string
  it_Value :: string

definition list_secrets :: "outside \<Rightarrow> string \<Rightarrow> (secret_error + Item list) op" where
  "list_secrets w appID =
     attempt (exec w (uuid_arg w appID (\<lambda>u. reading (\<lambda>t. Inr (sort (map se_name (filter (\<lambda>r. se_app r = u) (tb_secrets t))))))))
       (\<lambda>e. Inl (SecretStorage e)) (\<lambda>names. ret (Inr (map (\<lambda>n. \<lparr>it_Name = n, it_Value = ''configured''\<rparr>) names)))"

definition reveal :: "outside \<Rightarrow> secret_service \<Rightarrow> string \<Rightarrow> string \<Rightarrow> (secret_error + string) op" where
  "reveal w ss appID name =
     attempt (exec w (uuid_arg w appID (\<lambda>u. reading (\<lambda>t. one_row (secret_key_of u name) (tb_secrets t)))))
       (\<lambda>e. Inl (if e = NoRows then SecretNotFound else SecretStorage e))
       (\<lambda>r. ret (case kms_decrypt (ss_aead ss) (ss_key ss) (se_ciphertext r) of Inl e \<Rightarrow> Inl (SecretCipher e) | Inr plain \<Rightarrow> Inr plain))"

end
