(* ===== verification/Auth_Gate.thy ===== *)
theory Auth_Gate
  imports Auth_Store
begin

text \<open>
  The middleware every route of the control plane goes through: \<^verbatim>\<open>auth/handler.go\<close> (bearer resolution and
  \<^verbatim>\<open>authenticated\<close>), \<^verbatim>\<open>auth/members.go\<close> (\<^verbatim>\<open>requireCap\<close>), \<^verbatim>\<open>auth/idem.go\<close>, \<^verbatim>\<open>auth/audit.go\<close> (\<^verbatim>\<open>audited\<close>),
  \<^verbatim>\<open>auth/bridge.go\<close> and \<^verbatim>\<open>httpx/middleware.go\<close>. A handler is a function of the request context and the request; a
  middleware is a function of handlers.
\<close>

section \<open>Handlers\<close>

record Identity =
  id_UserID :: string
  id_OrgID :: string
  id_ActorType :: string

record ctx =
  cx_identity :: "Identity option"
  cx_role :: "string option"
  cx_remote :: string

type_synonym handler = "ctx \<Rightarrow> http_request \<Rightarrow> http_response op"

definition write_problem :: "int \<Rightarrow> string \<Rightarrow> string \<Rightarrow> http_response" where
  "write_problem status code detail =
     \<lparr>hr_Status = status, hr_Headers = [(''Content-Type'', ''application/problem+json'')], hr_Body = Problem status code detail\<rparr>"

definition write_json :: "int \<Rightarrow> json \<Rightarrow> http_response" where
  "write_json status j = \<lparr>hr_Status = status, hr_Headers = [(''Content-Type'', ''application/json'')], hr_Body = Json j\<rparr>"

abbreviation (input) unauthorized :: "string \<Rightarrow> http_response" where
  "unauthorized detail \<equiv> write_problem 401 ''UNAUTHORIZED'' detail"

abbreviation (input) internal :: "string \<Rightarrow> http_response" where
  "internal detail \<equiv> write_problem 500 ''INTERNAL'' detail"

section \<open>The caller\<close>

text \<open>\<^verbatim>\<open>net.SplitHostPort\<close>: the host, \<open>None\<close> on an error.\<close>

definition split_host_port :: "string \<Rightarrow> string option" where
  "split_host_port hp =
     (if CHR '':'' \<notin> set hp then None
      else
        (let i = length hp - 1 - length (before CHR '':'' (rev hp)) in
         if hd hp = CHR ''['' then
           (let e = length (before CHR '']'' hp) in
            if CHR '']'' \<notin> set hp \<or> e + 1 = length hp \<or> e + 1 \<noteq> i then None
            else if CHR ''['' \<in> set (drop 1 hp) \<or> CHR '']'' \<in> set (drop (e + 1) hp) then None
            else Some (drop 1 (take e hp)))
         else
           (let host = take i hp in
            if CHR '':'' \<in> set host \<or> CHR ''['' \<in> set hp \<or> CHR '']'' \<in> set hp then None else Some host)))"

definition client_ip :: "ctx \<Rightarrow> http_request \<Rightarrow> string" where
  "client_ip cx r =
     (let xff = header r ''X-Forwarded-For'' in
      if xff \<noteq> [] then trim_space (before CHR '','' xff)
      else case split_host_port (cx_remote cx) of None \<Rightarrow> cx_remote cx | Some host \<Rightarrow> host)"

text \<open>A session token or an API token, resolved to user and organisation. A session may ask for another
  organisation by header; its membership is the business of \<open>require_cap\<close>.\<close>

definition resolve_bearer :: "outside \<Rightarrow> string \<Rightarrow> http_request \<Rightarrow> Identity option op" where
  "resolve_bearer w secret r =
     (let authz = header r ''Authorization'' in
      if length authz < 7 \<or> take 7 authz \<noteq> ''Bearer '' then ret None
      else
        (let raw = drop 7 authz in
         if has_prefix raw apiTokenPrefix then
           attempt (resolve_api_token w raw) (\<lambda>e. None)
             (\<lambda>(u, g). ret (Some \<lparr>id_UserID = u, id_OrgID = g, id_ActorType = ''user''\<rparr>))
         else do {
           u \<leftarrow> parse_token w secret raw;
           (case u of
              None \<Rightarrow> ret None
            | Some userID \<Rightarrow>
                attempt (default_org_for_user w userID) (\<lambda>e. None) (\<lambda>orgID.
                  let override = header r ''X-Tenara-Org'' in
                  ret (Some \<lparr>id_UserID = userID,
                             id_OrgID = (if override \<noteq> [] \<and> override \<noteq> orgID then override else orgID),
                             id_ActorType = ''user''\<rparr>)))
         }))"

definition authenticated :: "outside \<Rightarrow> string \<Rightarrow> handler \<Rightarrow> handler" where
  "authenticated w secret nxt cx r = do {
     i \<leftarrow> resolve_bearer w secret r;
     (case i of
        None \<Rightarrow> do {
          u \<leftarrow> insert_security_event w ''auth_failure'' (client_ip cx r) ''invalid credentials'';
          ret (unauthorized ''invalid credentials'')
        }
      | Some ident \<Rightarrow> nxt (cx\<lparr>cx_identity := Some ident\<rparr>) r)
   }"

definition require_cap :: "outside \<Rightarrow> string \<Rightarrow> string \<Rightarrow> handler \<Rightarrow> handler" where
  "require_cap w secret needed nxt =
     authenticated w secret (\<lambda>cx r.
       case cx_identity cx of
         None \<Rightarrow> ret (unauthorized ''missing identity'')
       | Some ident \<Rightarrow> do {
           role \<leftarrow> role_in_org w (id_UserID ident) (id_OrgID ident);
           (case role of
              Inl e \<Rightarrow> ret (write_problem 403 ''FORBIDDEN_CAPABILITY'' (''missing '' @ needed))
            | Inr rl \<Rightarrow>
                if \<not> can rl needed then ret (write_problem 403 ''FORBIDDEN_CAPABILITY'' (''missing '' @ needed))
                else nxt (cx\<lparr>cx_role := Some rl\<rparr>) r)
         })"

section \<open>Idempotent mutations\<close>

definition mutating_request :: "http_request \<Rightarrow> bool" where
  "mutating_request r = (rq_Method r \<notin> {''GET'', ''HEAD'', ''OPTIONS''})"

definition request_hash :: "outside \<Rightarrow> http_request \<Rightarrow> string \<Rightarrow> string" where
  "request_hash w r raw = hash_token w (rq_Method r @ rq_Path r @ raw)"

definition idem_row :: "string \<Rightarrow> string \<Rightarrow> IdempotencyRow \<Rightarrow> bool" where
  "idem_row key g r = (ik_key r = key \<and> ik_org r = g)"

definition purge_stmt :: "outside \<Rightarrow> string \<Rightarrow> string \<Rightarrow> unit stmt" where
  "purge_stmt w key g n t =
     Inr ((), t\<lparr>tb_idem := filter (\<lambda>r. \<not> (idem_row key g r \<and> ik_expires r \<le> db_now w n)) (tb_idem t)\<rparr>)"

definition claim_stmt :: "outside \<Rightarrow> string \<Rightarrow> string \<Rightarrow> string \<Rightarrow> unit stmt" where
  "claim_stmt w key g hash n t =
     (if list_ex (idem_row key g) (tb_idem t) then Inl NoRows
      else Inr ((), t\<lparr>tb_idem := tb_idem t @
        [\<lparr>ik_key = key, ik_org = g, ik_hash = hash, ik_status = None, ik_body = None, ik_expires = db_now w n + 24 * hour\<rparr>]\<rparr>))"

definition claim_idempotency :: "outside \<Rightarrow> string \<Rightarrow> string \<Rightarrow> string \<Rightarrow> (sql_error + bool) op" where
  "claim_idempotency w key orgID hash =
     attempt (exec w (uuid_arg w orgID (purge_stmt w key))) Inl (\<lambda>u. do {
       r \<leftarrow> exec w (uuid_arg w orgID (\<lambda>g. claim_stmt w key g hash));
       ret (case r of Inr _ \<Rightarrow> Inr True | Inl e \<Rightarrow> if e = NoRows then Inr False else Inl e)
     })"

record idem_error =
  ie_status :: int
  ie_code :: string
  ie_detail :: string

definition load_idempotent_response :: "outside \<Rightarrow> string \<Rightarrow> string \<Rightarrow> string \<Rightarrow> (idem_error + int \<times> string) op" where
  "load_idempotent_response w key orgID hash =
     attempt (exec w (uuid_arg w orgID (\<lambda>g. reading (\<lambda>t. one_row (idem_row key g) (tb_idem t)))))
       (\<lambda>e. Inl \<lparr>ie_status = 500, ie_code = ''INTERNAL'', ie_detail = ''idempotency lookup failed''\<rparr>)
       (\<lambda>r. ret
          (if ik_hash r \<noteq> hash then
             Inl \<lparr>ie_status = 422, ie_code = ''IDEMPOTENCY_CONFLICT'', ie_detail = ''key already used with a different payload''\<rparr>
           else case ik_status r of
             None \<Rightarrow> Inl \<lparr>ie_status = 409, ie_code = ''IDEMPOTENCY_IN_FLIGHT'', ie_detail = ''original request still running''\<rparr>
           | Some status \<Rightarrow> Inr (status, coalesce (ik_body r))))"

definition complete_stmt :: "string \<Rightarrow> string \<Rightarrow> int \<Rightarrow> string \<Rightarrow> unit stmt" where
  "complete_stmt key g status content n t =
     Inr ((), t\<lparr>tb_idem := update_where (idem_row key g) (\<lambda>r. r\<lparr>ik_status := Some status, ik_body := Some content\<rparr>) (tb_idem t)\<rparr>)"

definition stored_body :: "string \<Rightarrow> string" where
  "stored_body content = (if content = [] then ''{}'' else content)"

definition complete_idempotency :: "outside \<Rightarrow> string \<Rightarrow> string \<Rightarrow> int \<Rightarrow> string \<Rightarrow> (sql_error + unit) op" where
  "complete_idempotency w key orgID status content =
     exec w (uuid_arg w orgID (\<lambda>g. complete_stmt key g status (stored_body content)))"

definition cleanup_expired_idempotency :: "outside \<Rightarrow> (sql_error + int) op" where
  "cleanup_expired_idempotency w =
     exec w (\<lambda>n t. let old = (\<lambda>r. ik_expires r \<le> db_now w n) in
       Inr (int (length (filter old (tb_idem t))), t\<lparr>tb_idem := filter (\<lambda>r. \<not> old r) (tb_idem t)\<rparr>))"

definition replayed :: "int \<Rightarrow> string \<Rightarrow> http_response" where
  "replayed status content =
     \<lparr>hr_Status = status, hr_Headers = [(''Content-Type'', ''application/json''), (''Idempotent-Replayed'', ''true'')], hr_Body = Raw content\<rparr>"

definition idem :: "outside \<Rightarrow> handler \<Rightarrow> handler" where
  "idem w nxt cx r =
     (if \<not> mutating_request r then nxt cx r
      else if header r ''Idempotency-Key'' = [] then nxt cx r
      else case cx_identity cx of
        None \<Rightarrow> ret (unauthorized ''missing identity'')
      | Some ident \<Rightarrow>
          (case rq_Body r of
             None \<Rightarrow> ret (write_problem 400 ''VALIDATION_FAILED'' ''unreadable body'')
           | Some raw \<Rightarrow>
               (let key = header r ''Idempotency-Key''; org = id_OrgID ident; hash = request_hash w r raw in
                attempt (claim_idempotency w key org hash) (\<lambda>e. internal ''idempotency store failed'') (\<lambda>first.
                  if \<not> first then
                    attempt (load_idempotent_response w key org hash)
                      (\<lambda>e. write_problem (ie_status e) (ie_code e) (ie_detail e))
                      (\<lambda>(status, content). ret (replayed status content))
                  else do {
                    resp \<leftarrow> nxt cx r;
                    u \<leftarrow> complete_idempotency w key org (hr_Status resp) (js_bytes w (hr_Body resp));
                    ret resp
                  }))))"

section \<open>Audited mutations\<close>

text \<open>\<^verbatim>\<open>http.StatusText\<close> for the codes from 400 on; empty for a code without a registered text.\<close>

definition status_text :: "int \<Rightarrow> string" where
  "status_text code = coalesce (map_of
     [(400, ''Bad Request''), (401, ''Unauthorized''), (402, ''Payment Required''), (403, ''Forbidden''), (404, ''Not Found''),
      (405, ''Method Not Allowed''), (406, ''Not Acceptable''), (407, ''Proxy Authentication Required''), (408, ''Request Timeout''),
      (409, ''Conflict''), (410, ''Gone''), (411, ''Length Required''), (412, ''Precondition Failed''),
      (413, ''Request Entity Too Large''), (414, ''Request URI Too Long''), (415, ''Unsupported Media Type''),
      (416, ''Requested Range Not Satisfiable''), (417, ''Expectation Failed''), (418, ''I'' @ [CHR 0x27] @ ''m a teapot''),
      (421, ''Misdirected Request''), (422, ''Unprocessable Entity''), (423, ''Locked''), (424, ''Failed Dependency''),
      (425, ''Too Early''), (426, ''Upgrade Required''), (428, ''Precondition Required''), (429, ''Too Many Requests''),
      (431, ''Request Header Fields Too Large''), (451, ''Unavailable For Legal Reasons''), (500, ''Internal Server Error''),
      (501, ''Not Implemented''), (502, ''Bad Gateway''), (503, ''Service Unavailable''), (504, ''Gateway Timeout''),
      (505, ''HTTP Version Not Supported''), (506, ''Variant Also Negotiates''), (507, ''Insufficient Storage''),
      (508, ''Loop Detected''), (510, ''Not Extended''), (511, ''Network Authentication Required'')] code)"

definition audit_result :: "int \<Rightarrow> string" where
  "audit_result status =
     (if status < 400 then ''success'' else if status_text status = [] then ''error'' else status_text status)"

definition audited :: "outside \<Rightarrow> string \<Rightarrow> handler \<Rightarrow> handler" where
  "audited w action nxt cx r = do {
     resp \<leftarrow> nxt cx r;
     (case cx_identity cx of
        None \<Rightarrow> ret resp
      | Some ident \<Rightarrow>
          (let agent = detect_agent w (header r ''User-Agent'') in do {
             u \<leftarrow> insert_audit w
               \<lparr>ad_ActorType = (if agent \<noteq> [] then ''agent'' else id_ActorType ident), ad_ActorID = id_UserID ident,
                ad_Agent = agent, ad_WorkspaceID = id_OrgID ident, ad_Action = action, ad_SourceIP = client_ip cx r,
                ad_RequestID = header r ''X-Request-Id'', ad_Result = audit_result (hr_Status resp)\<rparr>;
             ret resp
           }))
   }"

section \<open>Request ids and recovery\<close>

text \<open>The response carries the id of the request, or a fresh one; \<open>uuid\<close> is the generator.\<close>

definition request_id :: "(nat \<Rightarrow> string) \<Rightarrow> handler \<Rightarrow> handler" where
  "request_id uuid nxt cx r = do {
     i \<leftarrow> (if header r ''X-Request-Id'' = [] then do { n \<leftarrow> event; ret (uuid n) } else ret (header r ''X-Request-Id''));
     resp \<leftarrow> nxt cx r;
     ret (resp\<lparr>hr_Headers := (''X-Request-Id'', i) # hr_Headers resp\<rparr>)
   }"

section \<open>Who gets through\<close>

text \<open>What resolving a caller may change: the security events, the time stamps of API tokens, and the personal
  workspace created on first use.\<close>

definition token_core :: "ApiTokenTableRow \<Rightarrow> ApiTokenTableRow" where
  "token_core r = r\<lparr>at_last_used := None\<rparr>"

definition gate_only :: "tables \<Rightarrow> tables \<Rightarrow> bool" where
  "gate_only t t' =
     (\<exists>ev tk og mb. t' = t\<lparr>tb_events := ev, tb_api_tokens := tk, tb_orgs := og, tb_members := mb\<rparr> \<and>
        map token_core tk = map token_core (tb_api_tokens t) \<and> prefix (tb_orgs t) og \<and> prefix (tb_members t) mb)"

lemma gate_onlyI:
  assumes "t' = t\<lparr>tb_events := ev, tb_api_tokens := tk, tb_orgs := og, tb_members := mb\<rparr>"
    and "map token_core tk = map token_core (tb_api_tokens t)" "prefix (tb_orgs t) og" "prefix (tb_members t) mb"
  shows "gate_only t t'"
  using assms unfolding gate_only_def by blast

lemma gate_only_refl: "gate_only t t"
  by (rule gate_onlyI [where ev = "tb_events t" and tk = "tb_api_tokens t" and og = "tb_orgs t" and mb = "tb_members t"]) simp_all

lemma gate_only_trans:
  assumes "gate_only t0 t" "gate_only t t'"
  shows "gate_only t0 t'"
proof -
  from assms(1) obtain ev tk og mb where t: "t = t0\<lparr>tb_events := ev, tb_api_tokens := tk, tb_orgs := og, tb_members := mb\<rparr>"
    and p: "map token_core tk = map token_core (tb_api_tokens t0)" "prefix (tb_orgs t0) og" "prefix (tb_members t0) mb"
    unfolding gate_only_def by blast
  from assms(2) obtain ev' tk' og' mb' where t': "t' = t\<lparr>tb_events := ev', tb_api_tokens := tk', tb_orgs := og', tb_members := mb'\<rparr>"
    and p': "map token_core tk' = map token_core (tb_api_tokens t)" "prefix (tb_orgs t) og'" "prefix (tb_members t) mb'"
    unfolding gate_only_def by blast
  show ?thesis
  proof (rule gate_onlyI)
    show "t' = t0\<lparr>tb_events := ev', tb_api_tokens := tk', tb_orgs := og', tb_members := mb'\<rparr>" by (simp add: t t')
    show "map token_core tk' = map token_core (tb_api_tokens t0)" using p'(1) p(1) by (simp add: t)
    show "prefix (tb_orgs t0) og'" using p(2) p'(2) by (simp add: t)
    show "prefix (tb_members t0) mb'" using p(3) p'(3) by (simp add: t)
  qed
qed

lemma gate_only_step:
  "gate_only t (t\<lparr>tb_events := ev\<rparr>)"
  "map token_core tk = map token_core (tb_api_tokens t) \<Longrightarrow> gate_only t (t\<lparr>tb_api_tokens := tk\<rparr>)"
  "prefix (tb_orgs t) og \<Longrightarrow> gate_only t (t\<lparr>tb_orgs := og\<rparr>)"
  "prefix (tb_members t) mb \<Longrightarrow> gate_only t (t\<lparr>tb_members := mb\<rparr>)"
proof -
  show "gate_only t (t\<lparr>tb_events := ev\<rparr>)"
    by (rule gate_onlyI [where ev = ev and tk = "tb_api_tokens t" and og = "tb_orgs t" and mb = "tb_members t"]) simp_all
  show "gate_only t (t\<lparr>tb_api_tokens := tk\<rparr>)" if "map token_core tk = map token_core (tb_api_tokens t)"
    using that by (intro gate_onlyI [where ev = "tb_events t" and tk = tk and og = "tb_orgs t" and mb = "tb_members t"]) simp_all
  show "gate_only t (t\<lparr>tb_orgs := og\<rparr>)" if "prefix (tb_orgs t) og"
    using that by (intro gate_onlyI [where ev = "tb_events t" and tk = "tb_api_tokens t" and og = og and mb = "tb_members t"]) simp_all
  show "gate_only t (t\<lparr>tb_members := mb\<rparr>)" if "prefix (tb_members t) mb"
    using that by (intro gate_onlyI [where ev = "tb_events t" and tk = "tb_api_tokens t" and og = "tb_orgs t" and mb = mb]) simp_all
qed

lemma token_core_touched: "map token_core (update_where P (\<lambda>r. r\<lparr>at_last_used := x\<rparr>) rows) = map token_core rows"
  by (rule map_update_where_same) (simp add: token_core_def)

lemma stmt_keeps_gate_only:
  assumes "\<And>n t x t'. st n t = Inr (x, t') \<Longrightarrow> gate_only t t'"
  shows "stmt_keeps (gate_only t0) st"
  by (rule stmt_keepsI) (rule gate_only_trans [OF _ assms])

lemma gate_stmts [keeps_intro]:
  "stmt_keeps (gate_only t0) (touch_api_token w hash)"
  "stmt_keeps (gate_only t0) (insert_org w name slug)"
  "stmt_keeps (gate_only t0) (insert_member u g role)"
  by (rule stmt_keeps_gate_only,
      auto simp: touch_api_token_def insert_org_def insert_member_def upsert_member_def Let_def token_core_touched
        intro!: gate_only_step split: if_splits)+

lemma security_event_gate_only: "keeps (gate_only t0) (insert_security_event w kind ip detail)"
  unfolding insert_security_event_def
  by (intro keeps_intro stmt_keeps_gate_only) (auto intro: gate_only_step(1) split: sum.splits)

text \<open>What every predicate that those statements keep says of two states of the tables.\<close>

definition gate_stable :: "outside \<Rightarrow> (tables \<Rightarrow> bool) \<Rightarrow> bool" where
  "gate_stable w J =
     ((\<forall>hash. stmt_keeps J (touch_api_token w hash)) \<and> (\<forall>name slug. stmt_keeps J (insert_org w name slug)) \<and>
      (\<forall>u g role. stmt_keeps J (insert_member u g role)) \<and> (\<forall>kind ip detail. keeps J (insert_security_event w kind ip detail)))"

definition gate_moves :: "outside \<Rightarrow> tables \<Rightarrow> tables \<Rightarrow> bool" where
  "gate_moves w t t' = (\<forall>J. gate_stable w J \<longrightarrow> J t \<longrightarrow> J t')"

lemma gate_movesD: "gate_moves w t t' \<Longrightarrow> gate_stable w J \<Longrightarrow> J t \<Longrightarrow> J t'"
  unfolding gate_moves_def by blast

lemma gate_moves_trans: "gate_moves w t0 t \<Longrightarrow> gate_moves w t t' \<Longrightarrow> gate_moves w t0 t'"
  unfolding gate_moves_def by blast

lemma gate_stable_gate_only: "gate_stable w (gate_only t0)"
  by (simp add: gate_stable_def gate_stmts security_event_gate_only)

lemma gate_moves_only: "gate_moves w t t' \<Longrightarrow> gate_only t t'"
  by (rule gate_movesD [OF _ gate_stable_gate_only gate_only_refl])

lemma resolve_bearer_keeps: "gate_stable w J \<Longrightarrow> keeps J (resolve_bearer w secret r)"
  unfolding resolve_bearer_def resolve_api_token_def parse_token_def default_org_for_user_def create_workspace_def random_token_def
    Let_def gate_stable_def
  by (elim conjE) (intro keeps_intro; blast)

lemma resolve_bearer_moves: "run_state (resolve_bearer w secret r) p = (i, p') \<Longrightarrow> gate_moves w (pf_tables p) (pf_tables p')"
  unfolding gate_moves_def using keepsD [OF resolve_bearer_keeps] by blast

text \<open>A resolved caller presented a live API token, of which it is the owner and the organisation, or a session
  token that parses to it.\<close>

definition presented :: "http_request \<Rightarrow> string" where
  "presented r = drop 7 (header r ''Authorization'')"

definition genuine :: "outside \<Rightarrow> string \<Rightarrow> tables \<Rightarrow> http_request \<Rightarrow> Identity \<Rightarrow> bool" where
  "genuine w secret t r ident =
     ((\<exists>row \<in> set (tb_api_tokens t). at_hash row = hash_token w (presented r) \<and> at_revoked row = None \<and>
         id_UserID ident = at_user row \<and> id_OrgID ident = at_org row) \<or>
      (\<exists>now. jwt_parse w secret now (presented r) = Some (id_UserID ident)))"

lemma resolve_bearer_genuine:
  assumes "run_state (resolve_bearer w secret r) p = (Some ident, p')"
  shows "genuine w secret (pf_tables p) r ident"
proof (cases "has_prefix (presented r) apiTokenPrefix")
  case True
  let ?q = "\<lambda>t. one_row (live_api_token (hash_token w (presented r))) (tb_api_tokens t)"
  obtain q p1 where l: "run_state (exec w (reading ?q)) p = (q, p1)" by (cases "run_state (exec w (reading ?q)) p")
  have "\<exists>row. q = Inr row \<and> id_UserID ident = at_user row \<and> id_OrgID ident = at_org row"
    using assms True l
    by (cases q) (auto simp: resolve_bearer_def presented_def resolve_api_token_def Let_def run_attempt split: if_splits prod.splits)
  then obtain row where row: "q = Inr row" "id_UserID ident = at_user row" "id_OrgID ident = at_org row" by blast
  have "row \<in> set (tb_api_tokens (pf_tables p)) \<and> live_api_token (hash_token w (presented r)) row"
    by (rule one_row_Inr) (rule exec_reading(2) [OF l row(1)])
  then show ?thesis using row by (auto simp: genuine_def live_api_token_def)
next
  case False
  obtain q p1 where l: "run_state (parse_token w secret (presented r)) p = (q, p1)" by (cases "run_state (parse_token w secret (presented r)) p")
  have "q = Some (id_UserID ident)"
    using assms False l
    by (cases q) (auto simp: resolve_bearer_def presented_def Let_def run_attempt split: if_splits prod.splits sum.splits)
  with l have "\<exists>now. jwt_parse w secret now (presented r) = Some (id_UserID ident)"
    by (auto simp: parse_token_def time_now_def split: option.splits if_splits)
  then show ?thesis by (auto simp: genuine_def)
qed

lemma role_found:
  assumes "run_state (role_in_org w userID orgID) p = (Inr role, p')"
  shows "\<exists>m \<in> set (tb_members (pf_tables p)). db_cast w userID = Some (mb_user m) \<and> db_cast w orgID = Some (mb_org m) \<and> mb_role m = role"
proof (cases "db_cast w userID = None \<or> db_cast w orgID = None")
  case True
  then show ?thesis
    using assms by (cases "db_cast w userID") (auto simp: role_in_org_def run_attempt exec_def Let_def split: option.splits db_fault.splits)
next
  case False
  then obtain u g where ug: "db_cast w userID = Some u" "db_cast w orgID = Some g" by auto
  obtain q p1 where l: "run_state (exec w (reading (\<lambda>t. one_row (membership u g) (tb_members t)))) p = (q, p1)"
    by (cases "run_state (exec w (reading (\<lambda>t. one_row (membership u g) (tb_members t)))) p")
  obtain m where m: "q = Inr m" "mb_role m = role" using assms l ug by (cases q) (auto simp: role_in_org_def run_attempt)
  have "m \<in> set (tb_members (pf_tables p)) \<and> membership u g m" by (rule one_row_Inr) (rule exec_reading(2) [OF l m(1)])
  then show ?thesis using ug m(2) by (auto simp: membership_def)
qed

text \<open>A resolution touches no token but its time stamp, so a caller genuine afterwards was genuine before.\<close>

lemma genuine_before:
  assumes "genuine w secret t' r ident" "gate_only t t'"
  shows "genuine w secret t r ident"
proof -
  have "map token_core (tb_api_tokens t') = map token_core (tb_api_tokens t)" using assms(2) by (auto simp: gate_only_def)
  then have "token_core ` set (tb_api_tokens t') = token_core ` set (tb_api_tokens t)" by (metis set_map)
  then have "\<exists>row' \<in> set (tb_api_tokens t). token_core row' = token_core row" if "row \<in> set (tb_api_tokens t')" for row
    using that by (metis imageE imageI)
  moreover have "at_hash x = at_hash y \<and> at_revoked x = at_revoked y \<and> at_user x = at_user y \<and> at_org x = at_org y"
    if "token_core x = token_core y" for x y using that by (cases x; cases y) (simp add: token_core_def)
  ultimately show ?thesis using assms(1) unfolding genuine_def by metis
qed

text \<open>The two ways through the gate.\<close>

definition admits :: "outside \<Rightarrow> string \<Rightarrow> tables \<Rightarrow> Identity \<Rightarrow> MembershipRow \<Rightarrow> bool" where
  "admits w needed t ident m =
     (m \<in> set (tb_members t) \<and> db_cast w (id_UserID ident) = Some (mb_user m) \<and> db_cast w (id_OrgID ident) = Some (mb_org m) \<and>
      can (mb_role m) needed)"

lemma authenticated_outcome:
  assumes run: "run_state (authenticated w secret nxt cx r) p = (resp, p')"
  obtains (through) ident q where "run_state (resolve_bearer w secret r) p = (Some ident, q)"
      "run_state (nxt (cx\<lparr>cx_identity := Some ident\<rparr>) r) q = (resp, p')"
    | (refused) "hr_Status resp = 401" "gate_moves w (pf_tables p) (pf_tables p')"
proof -
  obtain i p1 where res: "run_state (resolve_bearer w secret r) p = (i, p1)" by (cases "run_state (resolve_bearer w secret r) p")
  show thesis
  proof (cases i)
    case None
    obtain u p2 where ev: "run_state (insert_security_event w ''auth_failure'' (client_ip cx r) ''invalid credentials'') p1 = (u, p2)"
      by (cases "run_state (insert_security_event w ''auth_failure'' (client_ip cx r) ''invalid credentials'') p1")
    have "gate_moves w (pf_tables p1) (pf_tables p2)"
      unfolding gate_moves_def gate_stable_def using keepsD [OF _ _ ev] by blast
    then have "gate_moves w (pf_tables p) (pf_tables p2)" by (rule gate_moves_trans [OF resolve_bearer_moves [OF res]])
    moreover have "hr_Status resp = 401 \<and> p' = p2" using run res None ev by (auto simp: authenticated_def write_problem_def)
    ultimately show thesis using refused by simp
  next
    case (Some ident)
    then show thesis using through run res by (simp add: authenticated_def)
  qed
qed

lemma gate_outcome:
  assumes run: "run_state (require_cap w secret needed nxt cx r) p = (resp, p')"
  obtains (through) ident m q p1 where "run_state (resolve_bearer w secret r) p = (Some ident, q)" "pf_tables p1 = pf_tables q"
      "admits w needed (pf_tables q) ident m"
      "run_state (nxt (cx\<lparr>cx_identity := Some ident, cx_role := Some (mb_role m)\<rparr>) r) p1 = (resp, p')"
    | (refused) "hr_Status resp = 401 \<or> hr_Status resp = 403" "gate_moves w (pf_tables p) (pf_tables p')"
proof (rule authenticated_outcome [OF run [unfolded require_cap_def]], goal_cases)
  case (1 ident q)
  let ?cx = "cx\<lparr>cx_identity := Some ident\<rparr>"
  obtain role p1 where rl: "run_state (role_in_org w (id_UserID ident) (id_OrgID ident)) q = (role, p1)"
    by (cases "run_state (role_in_org w (id_UserID ident) (id_OrgID ident)) q")
  have "keeps (\<lambda>t. t = pf_tables q) (role_in_org w (id_UserID ident) (id_OrgID ident))"
    unfolding role_in_org_def by (intro keeps_intro)
  then have same: "pf_tables p1 = pf_tables q" using keepsD [OF _ _ rl] by blast
  show ?case
  proof (cases "\<exists>ro. role = Inr ro \<and> can ro needed")
    case True
    then obtain ro where ro: "role = Inr ro" "can ro needed" by blast
    obtain m where m: "admits w needed (pf_tables q) ident m" "mb_role m = ro"
      using role_found [OF rl [unfolded ro]] ro(2) by (auto simp: admits_def)
    have "run_state (nxt (?cx\<lparr>cx_role := Some ro\<rparr>) r) p1 = (resp, p')" using 1(4) rl ro by simp
    then show ?thesis using through [OF 1(3) same m(1)] m(2) by simp
  next
    case False
    then have "resp = write_problem 403 ''FORBIDDEN_CAPABILITY'' (''missing '' @ needed)" "p' = p1"
      using 1(4) rl by (auto split: sum.splits if_splits)
    then show ?thesis using refused resolve_bearer_moves [OF 1(3)] same by (simp add: write_problem_def)
  qed
next
  case 2
  then show ?case using refused by blast
qed


section \<open>A claimed key never runs the handler again\<close>

lemma purge_idle:
  assumes "\<And>r. r \<in> set (tb_idem t) \<Longrightarrow> idem_row key g r \<Longrightarrow> db_now w n < ik_expires r"
  shows "purge_stmt w key g n t = Inr ((), t)"
proof -
  have "filter (\<lambda>r. \<not> (idem_row key g r \<and> ik_expires r \<le> db_now w n)) (tb_idem t) = tb_idem t"
    using assms by (intro filter_True) force
  then show ?thesis by (simp add: purge_stmt_def)
qed

text \<open>While a row for the key is live, a claim fails or answers that the key is taken; nothing changes.\<close>

lemma claim_taken:
  assumes cast: "db_cast w org = Some g" and row: "row \<in> set (tb_idem (pf_tables p))" "idem_row key g row"
    and live: "\<And>r. r \<in> set (tb_idem (pf_tables p)) \<Longrightarrow> idem_row key g r \<Longrightarrow> db_now w (pf_tick p) < ik_expires r"
    and run: "run_state (claim_idempotency w key org hash) p = (res, p')"
  shows "pf_tables p' = pf_tables p" and "res = Inr b \<Longrightarrow> \<not> b"
proof -
  obtain r1 p1 where e1: "run_state (exec w (uuid_arg w org (purge_stmt w key))) p = (r1, p1)"
    by (cases "run_state (exec w (uuid_arg w org (purge_stmt w key))) p")
  have t1: "pf_tables p1 = pf_tables p"
    by (rule exec_idle(1) [OF _ e1]) (simp add: cast purge_idle [OF live])
  obtain r2 p2 where e2: "run_state (exec w (uuid_arg w org (\<lambda>g. claim_stmt w key g hash))) p1 = (r2, p2)"
    by (cases "run_state (exec w (uuid_arg w org (\<lambda>g. claim_stmt w key g hash))) p1")
  have taken: "uuid_arg w org (\<lambda>g. claim_stmt w key g hash) n (pf_tables p1) = Inl NoRows" for n
    using row cast t1 by (auto simp: claim_stmt_def list_ex_iff)
  have t2: "pf_tables p2 = pf_tables p1" by (rule exec_idle(1) [OF _ e2]) (simp add: taken)
  have no: "r2 \<noteq> Inr ()" using exec_idle(2) [where x = "()", OF _ e2] taken by auto
  show "pf_tables p' = pf_tables p"
    using run e1 e2 t1 t2 by (cases r1) (auto simp: claim_idempotency_def run_attempt)
  show "\<not> b" if "res = Inr b"
    using run e1 e2 no that by (cases r1; cases r2) (auto simp: claim_idempotency_def run_attempt split: if_splits)
qed

abbreviation (input) keyed :: "ctx \<Rightarrow> http_request \<Rightarrow> Identity \<Rightarrow> string \<Rightarrow> bool" where
  "keyed cx r ident raw \<equiv> mutating_request r \<and> header r ''Idempotency-Key'' \<noteq> [] \<and> cx_identity cx = Some ident \<and> rq_Body r = Some raw"

definition answer_from :: "string \<Rightarrow> IdempotencyRow \<Rightarrow> http_response" where
  "answer_from hash row =
     (if ik_hash row \<noteq> hash then write_problem 422 ''IDEMPOTENCY_CONFLICT'' ''key already used with a different payload''
      else case ik_status row of
        None \<Rightarrow> write_problem 409 ''IDEMPOTENCY_IN_FLIGHT'' ''original request still running''
      | Some status \<Rightarrow> replayed status (coalesce (ik_body row)))"

lemma claim_calm:
  "\<forall>n. db_fault w n = None \<Longrightarrow> db_cast w org = Some g \<Longrightarrow> run_state (claim_idempotency w key org hash) p = (res, p') \<Longrightarrow>
     \<exists>b. res = Inr b"
  by (auto simp: claim_idempotency_def run_attempt run_exec purge_stmt_def claim_stmt_def split: if_splits)

lemma idem_taken:
  assumes req: "keyed cx r ident raw" and cast: "db_cast w (id_OrgID ident) = Some g"
    and row: "row \<in> set (tb_idem (pf_tables p))" "idem_row (header r ''Idempotency-Key'') g row"
    and unique: "\<And>r'. r' \<in> set (tb_idem (pf_tables p)) \<Longrightarrow> idem_row (header r ''Idempotency-Key'') g r' \<Longrightarrow> r' = row"
    and live: "db_now w (pf_tick p) < ik_expires row"
    and run: "run_state (idem w nxt cx r) p = (resp, p')"
  shows "pf_tables p' = pf_tables p \<and> (hr_Status resp = 500 \<or> resp = answer_from (request_hash w r raw) row) \<and>
    ((\<forall>n. db_fault w n = None) \<longrightarrow> resp = answer_from (request_hash w r raw) row)"
proof -
  let ?key = "header r ''Idempotency-Key''" and ?hash = "request_hash w r raw"
  obtain res p1 where c: "run_state (claim_idempotency w ?key (id_OrgID ident) ?hash) p = (res, p1)"
    by (cases "run_state (claim_idempotency w ?key (id_OrgID ident) ?hash) p")
  have live': "\<And>r'. r' \<in> set (tb_idem (pf_tables p)) \<Longrightarrow> idem_row ?key g r' \<Longrightarrow> db_now w (pf_tick p) < ik_expires r'"
    using unique live by auto
  have t1: "pf_tables p1 = pf_tables p" by (rule claim_taken(1) [OF cast row live' c])
  show ?thesis
  proof (cases res)
    case (Inl e)
    then show ?thesis using run req c t1 claim_calm [OF _ cast c] by (auto simp: idem_def Let_def run_attempt write_problem_def)
  next
    case (Inr b)
    have b: "\<not> b" by (rule claim_taken(2) [OF cast row live' c Inr])
    obtain q p2 where l: "run_state (exec w (reading (\<lambda>t. one_row (idem_row ?key g) (tb_idem t)))) p1 = (q, p2)"
      by (cases "run_state (exec w (reading (\<lambda>t. one_row (idem_row ?key g) (tb_idem t)))) p1")
    have t2: "pf_tables p2 = pf_tables p1" by (rule exec_reading(1) [OF l])
    have found: "q = Inr row' \<Longrightarrow> row' = row" for row'
      using exec_reading(2) [OF l, of row'] unique t1 by (auto dest!: one_row_Inr)
    show ?thesis
    proof (cases q)
      case (Inl e)
      have "\<not> (\<forall>n. db_fault w n = None)"
      proof
        assume "\<forall>n. db_fault w n = None"
        from exec_reading_calm [OF this l] Inl have "one_row (idem_row ?key g) (tb_idem (pf_tables p)) = Inl e" using t1 by simp
        with row show False by (auto simp: one_row_Inl)
      qed
      then show ?thesis using run req c \<open>res = Inr b\<close> b l t1 t2 Inl
        by (auto simp: idem_def Let_def run_attempt load_idempotent_response_def write_problem_def cast)
    next
      case (Inr row')
      have "row' = row" by (rule found [OF Inr])
      then show ?thesis using run req c \<open>res = Inr b\<close> b l Inr t1 t2
        by (auto simp: idem_def Let_def run_attempt load_idempotent_response_def answer_from_def cast split: option.splits)
    qed
  qed
qed


text \<open>
  While the row of an idempotency key is live, no request of the organisation with that key runs its
  handler, whatever the handler and whatever statement fails: nothing in the database changes, and the answer
  is a storage failure or the one the row calls for: a conflict for another payload, in flight while there is
  no outcome, and otherwise the stored outcome.
\<close>

theorem claimed_key_never_reruns:
  assumes req: "keyed cx r ident raw" and cast: "db_cast w (id_OrgID ident) = Some g"
    and row: "row \<in> set (tb_idem (pf_tables p))" "idem_row (header r ''Idempotency-Key'') g row"
    and unique: "\<And>r'. r' \<in> set (tb_idem (pf_tables p)) \<Longrightarrow> idem_row (header r ''Idempotency-Key'') g r' \<Longrightarrow> r' = row"
    and live: "db_now w (pf_tick p) < ik_expires row"
    and run: "run_state (idem w nxt cx r) p = (resp, p')"
  shows "pf_tables p' = pf_tables p \<and> (hr_Status resp = 500 \<or> resp = answer_from (request_hash w r raw) row)"
  using idem_taken [OF req cast row unique live run] by blast

text \<open>The first request of a fresh key: it runs the handler once and stores the outcome.\<close>

lemma idem_first:
  assumes calm: "\<forall>n. db_fault w n = None" and req: "keyed cx r ident raw" and cast: "db_cast w (id_OrgID ident) = Some g"
    and fresh: "\<And>row. row \<in> set (tb_idem (pf_tables p)) \<Longrightarrow> idem_row (header r ''Idempotency-Key'') g row \<Longrightarrow> ik_expires row \<le> db_now w (pf_tick p)"
    and keeps: "\<And>s. tb_idem (pf_tables (snd (run_state (nxt cx r) s))) = tb_idem (pf_tables s)"
    and run: "run_state (idem w nxt cx r) p = (resp, p')"
  shows "\<exists>p1 p2 row. run_state (nxt cx r) p1 = (resp, p2) \<and>
    row = \<lparr>ik_key = header r ''Idempotency-Key'', ik_org = g, ik_hash = request_hash w r raw, ik_status = Some (hr_Status resp),
           ik_body = Some (stored_body (js_bytes w (hr_Body resp))), ik_expires = db_now w (Suc (pf_tick p)) + 24 * hour\<rparr> \<and>
    row \<in> set (tb_idem (pf_tables p')) \<and>
    (\<forall>r' \<in> set (tb_idem (pf_tables p')). idem_row (header r ''Idempotency-Key'') g r' \<longrightarrow> r' = row)"
proof -
  let ?key = "header r ''Idempotency-Key''" and ?hash = "request_hash w r raw"
  let ?purged = "filter (\<lambda>r. \<not> (idem_row ?key g r \<and> ik_expires r \<le> db_now w (pf_tick p))) (tb_idem (pf_tables p))"
  let ?new = "\<lparr>ik_key = ?key, ik_org = g, ik_hash = ?hash, ik_status = None, ik_body = None,
      ik_expires = db_now w (Suc (pf_tick p)) + 24 * hour\<rparr>"
  have none: "\<not> idem_row ?key g row" if "row \<in> set ?purged" for row using that fresh by auto
  then have free: "\<not> list_ex (idem_row ?key g) ?purged" by (auto simp: list_ex_iff)
  define p1 where "p1 = p\<lparr>pf_tick := Suc (Suc (pf_tick p)), pf_tables := (pf_tables p)\<lparr>tb_idem := ?purged @ [?new]\<rparr>\<rparr>"
  have claim: "run_state (claim_idempotency w ?key (id_OrgID ident) ?hash) p = (Inr True, p1)"
    using calm cast free by (simp add: claim_idempotency_def run_attempt run_exec purge_stmt_def claim_stmt_def p1_def)
  obtain resp0 p2 where nx: "run_state (nxt cx r) p1 = (resp0, p2)" by (cases "run_state (nxt cx r) p1")
  have idem2: "tb_idem (pf_tables p2) = ?purged @ [?new]" using keeps [of p1] nx by (simp add: p1_def)
  have out: "resp0 = resp" "tb_idem (pf_tables p') = update_where (idem_row ?key g)
      (\<lambda>r. r\<lparr>ik_status := Some (hr_Status resp0), ik_body := Some (stored_body (js_bytes w (hr_Body resp0)))\<rparr>) (tb_idem (pf_tables p2))"
    using run req claim nx calm cast
    by (simp_all add: idem_def Let_def run_attempt complete_idempotency_def run_exec complete_stmt_def, auto)
  have idle: "update_where (idem_row ?key g) f ?purged = ?purged" for f by (rule update_where_idle) (rule none)
  let ?row = "?new\<lparr>ik_status := Some (hr_Status resp), ik_body := Some (stored_body (js_bytes w (hr_Body resp)))\<rparr>"
  have "idem_row ?key g ?new" by (simp add: idem_row_def)
  then have after_run: "tb_idem (pf_tables p') = ?purged @ [?row]"
    using out idem2 idle by (simp add: update_where_def)
  have "row = ?row" if "row \<in> set (tb_idem (pf_tables p'))" "idem_row ?key g row" for row
  proof -
    have "row \<in> set ?purged \<or> row = ?row" using that(1) unfolding after_run by (simp only: set_append Un_iff list.set insert_iff empty_iff simp_thms)
    then show ?thesis using none [of row] that(2) by blast
  qed
  moreover have "?row \<in> set (tb_idem (pf_tables p'))" unfolding after_run by simp
  moreover have "run_state (nxt cx r) p1 = (resp, p2)" using nx out(1) by simp
  moreover have "?row = \<lparr>ik_key = ?key, ik_org = g, ik_hash = ?hash, ik_status = Some (hr_Status resp),
           ik_body = Some (stored_body (js_bytes w (hr_Body resp))), ik_expires = db_now w (Suc (pf_tick p)) + 24 * hour\<rparr>" by simp
  ultimately show ?thesis by (intro exI [of _ p1] exI [of _ p2] exI [of _ ?row] conjI ballI impI)
qed

text \<open>
  C38: a repeated request is a replay: when the first request with an idempotency key completed, every later
  request of the organisation with the key and the same method, path and body, within a day, gets the same
  status and the same bytes (an empty body becomes an empty object), marked as replayed, and changes nothing.
\<close>

theorem idempotent_replay:
  assumes calm: "\<forall>n. db_fault w n = None" and req: "keyed cx r ident raw" and cast: "db_cast w (id_OrgID ident) = Some g"
    and fresh: "\<And>row. row \<in> set (tb_idem (pf_tables p)) \<Longrightarrow> idem_row (header r ''Idempotency-Key'') g row \<Longrightarrow> ik_expires row \<le> db_now w (pf_tick p)"
    and keeps: "\<And>s. tb_idem (pf_tables (snd (run_state (nxt cx r) s))) = tb_idem (pf_tables s)"
    and run: "run_state (idem w nxt cx r) p = (resp, p')"
    and again: "keyed cx' r' ident' raw" "header r' ''Idempotency-Key'' = header r ''Idempotency-Key''"
      "rq_Method r' = rq_Method r" "rq_Path r' = rq_Path r" "id_OrgID ident' = id_OrgID ident"
    and later: "tb_idem (pf_tables q) = tb_idem (pf_tables p')" "db_now w (pf_tick q) < db_now w (Suc (pf_tick p)) + 24 * hour"
    and run': "run_state (idem w nxt' cx' r') q = (resp', q')"
  shows "(\<exists>p1 p2. run_state (nxt cx r) p1 = (resp, p2)) \<and>
    resp' = replayed (hr_Status resp) (stored_body (js_bytes w (hr_Body resp))) \<and> pf_tables q' = pf_tables q"
proof -
  from idem_first [OF calm req cast fresh keeps run] obtain p1 p2 row where nx: "run_state (nxt cx r) p1 = (resp, p2)"
    and row: "row = \<lparr>ik_key = header r ''Idempotency-Key'', ik_org = g, ik_hash = request_hash w r raw, ik_status = Some (hr_Status resp),
           ik_body = Some (stored_body (js_bytes w (hr_Body resp))), ik_expires = db_now w (Suc (pf_tick p)) + 24 * hour\<rparr>"
    and mem: "row \<in> set (tb_idem (pf_tables p'))"
    and unique: "\<forall>r' \<in> set (tb_idem (pf_tables p')). idem_row (header r ''Idempotency-Key'') g r' \<longrightarrow> r' = row"
    by blast
  have hash: "request_hash w r' raw = request_hash w r raw" using again by (simp add: request_hash_def)
  have "pf_tables q' = pf_tables q \<and> resp' = answer_from (request_hash w r' raw) row"
  proof -
    have k: "idem_row (header r' ''Idempotency-Key'') g row" using again(2) by (simp add: row idem_row_def)
    have c: "db_cast w (id_OrgID ident') = Some g" using cast again(5) by simp
    have m: "row \<in> set (tb_idem (pf_tables q))" using mem later(1) by simp
    have u: "\<And>x. x \<in> set (tb_idem (pf_tables q)) \<Longrightarrow> idem_row (header r' ''Idempotency-Key'') g x \<Longrightarrow> x = row"
      using unique again(2) later(1) by simp
    have l: "db_now w (pf_tick q) < ik_expires row" using later(2) by (simp add: row)
    show ?thesis using idem_taken [OF again(1) c m k u l run'] calm by blast
  qed
  then show ?thesis using nx by (auto simp: answer_from_def hash row coalesce_def)
qed

text \<open>A concrete caller and request.\<close>

definition sample_ident :: Identity where
  "sample_ident = \<lparr>id_UserID = ''u1'', id_OrgID = ''g1'', id_ActorType = ''user''\<rparr>"

definition sample_ctx :: ctx where
  "sample_ctx = \<lparr>cx_identity = Some sample_ident, cx_role = None, cx_remote = ''10.0.0.1:5000''\<rparr>"

definition sample_post :: http_request where
  "sample_post = \<lparr>rq_Method = ''POST'', rq_Path = ''/v1/apps'', rq_Headers = [(''Idempotency-Key'', ''k1'')], rq_Query = [],
     rq_PathValues = [], rq_Body = Some ''shop''\<rparr>"

definition sample_handler :: handler where
  "sample_handler cx r = do { n \<leftarrow> event; ret (bare_status 201) }"

definition claimed_platform :: platform where
  "claimed_platform = fresh_platform\<lparr>pf_tables := empty_tables\<lparr>tb_idem :=
     [\<lparr>ik_key = ''k1'', ik_org = ''g1'', ik_hash = ''x'', ik_status = None, ik_body = None, ik_expires = hour\<rparr>]\<rparr>\<rparr>"

lemma sample_post_keyed: "keyed sample_ctx sample_post sample_ident ''shop''"
  by (simp add: sample_ctx_def sample_post_def mutating_request_def lookup_or_empty_def)

lemma sample_post_key: "header sample_post ''Idempotency-Key'' = ''k1''"
  by (simp add: sample_post_def lookup_or_empty_def)

lemma calm_simps: "db_fault calm n = None" "db_cast calm s = Some s" "db_now calm n = int n * second"
  by (simp_all add: calm_def)

theorem claimed_key_never_reruns_witness:
  "\<exists>resp p'. run_state (idem calm sample_handler sample_ctx sample_post) claimed_platform = (resp, p') \<and>
     pf_tables p' = pf_tables claimed_platform \<and> hr_Status resp \<noteq> 201"
proof -
  obtain resp p' where r: "run_state (idem calm sample_handler sample_ctx sample_post) claimed_platform = (resp, p')"
    by (cases "run_state (idem calm sample_handler sample_ctx sample_post) claimed_platform")
  let ?row = "\<lparr>ik_key = ''k1'', ik_org = ''g1'', ik_hash = ''x'', ik_status = None, ik_body = None, ik_expires = hour\<rparr>"
  have rows: "tb_idem (pf_tables claimed_platform) = [?row]" by (simp add: claimed_platform_def fresh_platform_def)
  have "pf_tables p' = pf_tables claimed_platform \<and>
      (hr_Status resp = 500 \<or> resp = answer_from (request_hash calm sample_post ''shop'') ?row)"
    by (rule claimed_key_never_reruns [OF sample_post_keyed _ _ _ _ _ r, of "''g1''"])
      (auto simp: rows idem_row_def sample_post_key sample_ident_def calm_simps,
       simp add: claimed_platform_def fresh_platform_def hour_def minute_def second_def)
  moreover have "hr_Status (answer_from h ?row) \<noteq> 201" for h by (simp add: answer_from_def write_problem_def)
  ultimately have "pf_tables p' = pf_tables claimed_platform" "hr_Status resp \<noteq> 201" by auto
  then show ?thesis using r by blast
qed

theorem idempotent_replay_witness:
  "\<exists>resp p' resp' q'. run_state (idem calm sample_handler sample_ctx sample_post) fresh_platform = (resp, p') \<and>
     run_state (idem calm sample_handler sample_ctx sample_post) (p'\<lparr>pf_tick := 60\<rparr>) = (resp', q') \<and>
     hr_Status resp' = hr_Status resp \<and> hr_Body resp' = Raw ''{}''"
proof -
  obtain resp p' where r: "run_state (idem calm sample_handler sample_ctx sample_post) fresh_platform = (resp, p')"
    by (cases "run_state (idem calm sample_handler sample_ctx sample_post) fresh_platform")
  obtain resp' q' where r': "run_state (idem calm sample_handler sample_ctx sample_post) (p'\<lparr>pf_tick := 60\<rparr>) = (resp', q')"
    by (cases "run_state (idem calm sample_handler sample_ctx sample_post) (p'\<lparr>pf_tick := 60\<rparr>)")
  have "(\<exists>p1 p2. run_state (sample_handler sample_ctx sample_post) p1 = (resp, p2)) \<and>
      resp' = replayed (hr_Status resp) (stored_body (js_bytes calm (hr_Body resp))) \<and> pf_tables q' = pf_tables (p'\<lparr>pf_tick := 60\<rparr>)"
  proof (rule idempotent_replay [OF _ sample_post_keyed _ _ _ r sample_post_keyed _ _ _ _ _ _ r', of "''g1''"])
    show "\<And>row. row \<in> set (tb_idem (pf_tables fresh_platform)) \<Longrightarrow> idem_row (header sample_post ''Idempotency-Key'') ''g1'' row \<Longrightarrow>
        ik_expires row \<le> db_now calm (pf_tick fresh_platform)"
      by (simp add: fresh_platform_def empty_tables_def)
  qed (simp_all add: calm_simps sample_ident_def sample_handler_def fresh_platform_def hour_def minute_def second_def)
  then show ?thesis using r r' by (intro exI [of _ resp] exI [of _ p'] exI [of _ resp'] exI [of _ q'])
      (simp add: replayed_def stored_body_def calm_def)
qed

definition token_request :: http_request where
  "token_request = sample_post\<lparr>rq_Headers := [(''Authorization'', ''Bearer tenara_x'')]\<rparr>"

definition member_platform :: platform where
  "member_platform = fresh_platform\<lparr>pf_tables := empty_tables\<lparr>
     tb_members := [\<lparr>mb_user = ''u1'', mb_org = ''g1'', mb_role = ''member''\<rparr>],
     tb_api_tokens := [\<lparr>at_id = ''t1'', at_org = ''g1'', at_user = ''u1'', at_name = ''ci'', at_hash = hash_token calm ''tenara_x'',
       at_prefix = ''tenara_x'', at_last_used = None, at_revoked = None, at_created = 0\<rparr>]\<rparr>\<rparr>"


end
