(* ===== verification/Schema.thy ===== *)
theory Schema
  imports Secret_Store Auth_Gate
begin

text \<open>
  The constraints of the schema (\<^verbatim>\<open>store/migrations\<close>) as an invariant of the tables: keys are unique, references
  have their row, checked columns hold what the check admits, and an id reads as itself when it is passed back.
  Every statement of the control plane keeps them, which is what makes the row it means the row it finds.
\<close>

section \<open>Keys, references and checked columns\<close>

definition keyed :: "('r \<Rightarrow> 'k) \<Rightarrow> 'r list \<Rightarrow> bool" where
  "keyed k rows = distinct (map k rows)"

definition refers :: "('r \<Rightarrow> 'k) \<Rightarrow> 'r list \<Rightarrow> ('s \<Rightarrow> 'k) \<Rightarrow> 's list \<Rightarrow> bool" where
  "refers k rows l rows' = (k ` set rows \<subseteq> l ` set rows')"

named_theorems table_simps \<open>how an appended, changed or filtered table keeps keys and references\<close>

lemma keyed_append [table_simps]: "keyed k (rows @ [r]) \<longleftrightarrow> keyed k rows \<and> (\<forall>x \<in> set rows. k x \<noteq> k r)"
  by (simp add: keyed_def image_iff) metis

lemma keyed_update [table_simps]: "(\<And>r. k (f r) = k r) \<Longrightarrow> keyed k (update_where P f rows) = keyed k rows"
  by (simp add: keyed_def map_update_where_same)

lemma keyed_filter [table_simps]: "keyed k rows \<Longrightarrow> keyed k (filter P rows)"
  by (simp add: keyed_def distinct_map_filter)

lemma refers_append_left [table_simps]:
  "refers k (rows @ [r]) l rows' \<longleftrightarrow> refers k rows l rows' \<and> (\<exists>x \<in> set rows'. l x = k r)"
  by (simp add: refers_def image_iff) metis

lemma refers_append_right [table_simps]: "refers k rows l rows' \<Longrightarrow> refers k rows l (rows' @ [r])"
  by (auto simp: refers_def)

lemma refers_update_left [table_simps]: "(\<And>r. k (f r) = k r) \<Longrightarrow> refers k (update_where P f rows) l rows' = refers k rows l rows'"
  by (simp add: refers_def map_update_where_same flip: set_map)

lemma refers_update_right [table_simps]: "(\<And>r. l (f r) = l r) \<Longrightarrow> refers k rows l (update_where P f rows') = refers k rows l rows'"
  by (simp add: refers_def map_update_where_same flip: set_map)

lemma refers_filter_left [table_simps]: "refers k rows l rows' \<Longrightarrow> refers k (filter P rows) l rows'"
  by (auto simp: refers_def)

lemma list_all_update [table_simps]: "(\<And>r. Q r \<Longrightarrow> Q (f r)) \<Longrightarrow> list_all Q rows \<Longrightarrow> list_all Q (update_where P f rows)"
  by (auto simp: update_where_def list_all_iff)

lemma list_ex_update: "(\<And>r. Q (f r) = Q r) \<Longrightarrow> list_ex Q (update_where P f rows) = list_ex Q rows"
  by (auto simp: update_where_def list_ex_iff)

lemma keyed_unique: "keyed k rows \<Longrightarrow> r \<in> set rows \<Longrightarrow> s \<in> set rows \<Longrightarrow> k r = k s \<Longrightarrow> r = s"
  by (auto simp: keyed_def dest: inj_onD [OF distinct_map [THEN iffD1, THEN conjunct2]])

section \<open>The schema\<close>

definition account_keys :: "outside \<Rightarrow> tables \<Rightarrow> bool" where
  "account_keys w t =
     (keyed us_id (tb_users t) \<and> keyed (\<lambda>u. db_fold w (us_email u)) (tb_users t) \<and>
      keyed og_id (tb_orgs t) \<and> keyed (\<lambda>g. db_fold w (og_slug g)) (tb_orgs t) \<and>
      keyed (\<lambda>m. (mb_user m, mb_org m)) (tb_members t) \<and>
      keyed tk_hash (tb_verifications t) \<and> keyed tk_hash (tb_resets t) \<and> keyed sl_ip (tb_signups t) \<and>
      keyed at_id (tb_api_tokens t) \<and> keyed at_hash (tb_api_tokens t) \<and> keyed (\<lambda>r. (ik_key r, ik_org r)) (tb_idem t))"

definition app_keys :: "outside \<Rightarrow> tables \<Rightarrow> bool" where
  "app_keys w t =
     (keyed ap_id (tb_apps t) \<and> keyed (\<lambda>a. (ap_org a, ap_name a)) (tb_apps t) \<and>
      keyed sv_id (tb_services t) \<and> keyed (\<lambda>s. (sv_app s, sv_name s)) (tb_services t) \<and>
      keyed en_id (tb_envs t) \<and> keyed (\<lambda>e. (en_app e, en_name e)) (tb_envs t) \<and>
      keyed dp_id (tb_deployments t) \<and> keyed (\<lambda>r. (rv_deployment r, rv_number r)) (tb_revisions t) \<and>
      keyed dm_id (tb_domains t) \<and> keyed (\<lambda>d. db_fold w (dm_hostname d)) (tb_domains t) \<and>
      keyed da_id (tb_databases t) \<and> keyed (\<lambda>d. (da_app d, da_type d)) (tb_databases t) \<and> keyed bi_id (tb_bindings t) \<and>
      keyed se_id (tb_secrets t) \<and> keyed (\<lambda>s. (se_app s, se_name s)) (tb_secrets t) \<and>
      keyed (\<lambda>r. (sr_secret r, sr_version r)) (tb_secret_revs t))"

definition references :: "tables \<Rightarrow> bool" where
  "references t =
     (refers mb_user (tb_members t) us_id (tb_users t) \<and> refers mb_org (tb_members t) og_id (tb_orgs t) \<and>
      refers tk_user (tb_verifications t) us_id (tb_users t) \<and> refers tk_user (tb_resets t) us_id (tb_users t) \<and>
      refers at_user (tb_api_tokens t) us_id (tb_users t) \<and> refers at_org (tb_api_tokens t) og_id (tb_orgs t) \<and>
      refers ap_org (tb_apps t) og_id (tb_orgs t) \<and>
      refers sv_app (tb_services t) ap_id (tb_apps t) \<and> refers en_app (tb_envs t) ap_id (tb_apps t) \<and>
      refers dp_app (tb_deployments t) ap_id (tb_apps t) \<and> refers dp_env (tb_deployments t) en_id (tb_envs t) \<and>
      refers rv_deployment (tb_revisions t) dp_id (tb_deployments t) \<and>
      refers dm_app (tb_domains t) ap_id (tb_apps t) \<and> refers da_app (tb_databases t) ap_id (tb_apps t) \<and>
      refers bi_database (tb_bindings t) da_id (tb_databases t) \<and> refers bi_app (tb_bindings t) ap_id (tb_apps t) \<and>
      refers se_app (tb_secrets t) ap_id (tb_apps t) \<and> refers sr_secret (tb_secret_revs t) se_id (tb_secrets t))"

definition reads_back :: "outside \<Rightarrow> ('r \<Rightarrow> string) \<Rightarrow> 'r list \<Rightarrow> bool" where
  "reads_back w k rows = list_all (\<lambda>r. db_cast w (k r) = Some (k r)) rows"

definition service_shape :: "string \<Rightarrow> string \<Rightarrow> bool" where
  "service_shape ty rt = (ty \<in> {''frontend'', ''backend''} \<and> rt \<in> {''node'', ''python'', ''go''})"

definition plan_state :: "string \<Rightarrow> bool" where
  "plan_state s = (s \<in> {''AWAITING_APPROVAL'', ''PLANNED''})"

definition database_shape :: "string \<Rightarrow> string \<Rightarrow> bool" where
  "database_shape kind isolation = (kind \<in> {''mongodb'', ''redis'', ''storage''} \<and> isolation \<in> {''shared'', ''dedicated''})"

definition columns :: "outside \<Rightarrow> tables \<Rightarrow> bool" where
  "columns w t =
     (list_all (\<lambda>m. role_allowed (mb_role m)) (tb_members t) \<and>
      list_all (\<lambda>s. service_shape (sv_type s) (sv_runtime s)) (tb_services t) \<and>
      list_all (\<lambda>d. plan_state (dp_state d)) (tb_deployments t) \<and>
      list_all (\<lambda>r. digest_ok (rv_digest r)) (tb_revisions t) \<and>
      list_all (\<lambda>d. database_shape (da_type d) (da_isolation d)) (tb_databases t) \<and>
      reads_back w dp_id (tb_deployments t) \<and> reads_back w dm_id (tb_domains t) \<and>
      reads_back w da_id (tb_databases t) \<and> reads_back w se_id (tb_secrets t))"

definition schema_ok :: "outside \<Rightarrow> tables \<Rightarrow> bool" where
  "schema_ok w t = (account_keys w t \<and> app_keys w t \<and> references t \<and> columns w t)"

text \<open>Generated ids are canonical uuids.\<close>

definition uuid_law :: "outside \<Rightarrow> bool" where
  "uuid_law w = (\<forall>n k. db_cast w (db_uuid w n k) = Some (db_uuid w n k))"

lemmas schema_defs = schema_ok_def account_keys_def app_keys_def references_def columns_def reads_back_def

lemma list_ex_bool: "\<not> list_ex P xs \<longleftrightarrow> (\<forall>x \<in> set xs. \<not> P x)"
  by (simp add: list_ex_iff)

section \<open>The application statements\<close>

lemma schema_insert_app: "stmt_keeps (schema_ok w) (insert_app w c name slug g m)"
  by (rule stmt_keepsI)
    (clarsimp simp: insert_app_def new_app_def schema_defs table_simps list_ex_iff org_exists_def Let_def split: sum.splits if_splits, blast?)

lemma schema_update_app:
  assumes "\<And>now a. ap_id (f now a) = ap_id a \<and> ap_org (f now a) = ap_org a \<and> ap_name (f now a) = ap_name a"
  shows "stmt_keeps (schema_ok w) (update_app w appID orgID f)"
  unfolding update_app_def
  by (intro stmt_keeps_uuid_arg stmt_keepsI) (clarsimp simp: schema_defs table_simps assms, blast?)

lemma schema_insert_service: "stmt_keeps (schema_ok w) (insert_service w name ty rt port u)"
  by (rule stmt_keepsI)
    (clarsimp simp: insert_service_def schema_defs table_simps list_ex_iff app_exists_def Let_def split: if_splits; auto simp: service_shape_def)

lemma schema_insert_env: "stmt_keeps (schema_ok w) (insert_env w name ns u)"
  by (rule stmt_keepsI)
    (clarsimp simp: insert_env_def schema_defs table_simps list_ex_iff app_exists_def env_key_def Let_def split: if_splits, blast?)

lemma schema_insert_deployment: "uuid_law w \<Longrightarrow> stmt_keeps (schema_ok w) (insert_deployment w snapshot u e)"
  by (rule stmt_keepsI)
    (clarsimp simp: insert_deployment_def schema_defs table_simps list_ex_iff app_exists_def env_exists_def uuid_law_def plan_state_def Let_def split: option.splits if_splits, blast?)

lemma schema_set_deployment_state: "stmt_keeps (schema_ok w) (set_deployment_state w depID ''PLANNED'')"
  unfolding set_deployment_state_def
  by (intro stmt_keeps_uuid_arg stmt_keepsI) (clarsimp simp: schema_defs table_simps plan_state_def)

lemma schema_insert_revision: "stmt_keeps (schema_ok w) (insert_revision w inp nxt d)"
  by (rule stmt_keepsI)
    (clarsimp simp: insert_revision_def schema_defs table_simps list_ex_iff deployment_exists_def Let_def split: sum.splits if_splits, blast?)

lemma schema_insert_domain: "uuid_law w \<Longrightarrow> stmt_keeps (schema_ok w) (insert_domain_stmt w d u)"
  by (rule stmt_keepsI)
    (clarsimp simp: insert_domain_stmt_def schema_defs table_simps list_ex_iff app_exists_def same_text_def uuid_law_def Let_def split: if_splits, blast?)

lemma schema_verify_domain: "stmt_keeps (schema_ok w) (verify_domain_stmt i)"
  by (rule stmt_keepsI) (clarsimp simp: verify_domain_stmt_def schema_defs table_simps)

lemma schema_insert_database: "uuid_law w \<Longrightarrow> stmt_keeps (schema_ok w) (insert_database w kind isolation u)"
  by (rule stmt_keepsI)
    (clarsimp simp: insert_database_def schema_defs table_simps list_ex_iff app_exists_def uuid_law_def Let_def split: if_splits; auto simp: database_shape_def)

lemma schema_insert_binding: "stmt_keeps (schema_ok w) (insert_binding w i u)"
  by (rule stmt_keepsI)
    (clarsimp simp: insert_binding_def schema_defs table_simps list_ex_iff app_exists_def database_exists_def Let_def split: if_splits, blast?)

lemma schema_set_isolation:
  assumes "isolation \<in> {''shared'', ''dedicated''}"
  shows "stmt_keeps (schema_ok w) (set_isolation w i isolation)"
proof -
  have shape: "database_shape k j \<Longrightarrow> database_shape k isolation" for k j using assms by (simp add: database_shape_def)
  show ?thesis
    unfolding set_isolation_def
    by (intro stmt_keeps_uuid_arg stmt_keepsI) (clarsimp simp: schema_defs table_simps shape)
qed

lemma schema_upsert_secret: "uuid_law w \<Longrightarrow> stmt_keeps (schema_ok w) (upsert_secret w name sealed u)"
  by (rule stmt_keepsI)
    (clarsimp simp: upsert_secret_def schema_defs table_simps list_ex_iff app_exists_def uuid_law_def secret_key_of_def one_row_Inl Let_def
       split: sum.splits if_splits, blast?)

lemma schema_insert_secret_revision: "stmt_keeps (schema_ok w) (insert_secret_revision version sealed s)"
  by (rule stmt_keepsI) (clarsimp simp: insert_secret_revision_def schema_defs table_simps list_ex_iff split: if_splits, blast?)

text \<open>A renamed application: its workspace has no other of that name.\<close>

lemma keyed_rename:
  assumes ids: "keyed ap_id apps" and names: "keyed (\<lambda>a. (ap_org a, ap_name a)) apps"
    and free: "\<And>r. r \<in> set apps \<Longrightarrow> ap_id r \<noteq> u \<Longrightarrow> ap_org r = g \<Longrightarrow> ap_name r \<noteq> name"
  shows "keyed (\<lambda>a. (ap_org a, ap_name a)) (update_where (the_app u g) (\<lambda>a. a\<lparr>ap_name := name, ap_slug := slug\<rparr>) apps)"
proof -
  define key :: "ApplicationRow \<Rightarrow> string \<times> string" where "key = (\<lambda>a. (ap_org a, ap_name a))"
  define new where "new = (\<lambda>a. if the_app u g a then a\<lparr>ap_name := name, ap_slug := slug\<rparr> else a)"
  have apart: "key (new a) \<noteq> key (new b)" if "a \<in> set apps" "b \<in> set apps" "ap_id a \<noteq> ap_id b" "key a \<noteq> key b" for a b
    using that free [of a] free [of b] by (auto simp: key_def new_def the_app_def live_app_def)
  have sub: "set rows \<subseteq> set apps \<Longrightarrow> distinct (map ap_id rows) \<Longrightarrow> distinct (map key rows) \<Longrightarrow> distinct (map key (map new rows))" for rows
  proof (induction rows)
    case (Cons a rows)
    have "key (new a) \<noteq> key (new b)" if "b \<in> set rows" for b
    proof (rule apart)
      show "ap_id a \<noteq> ap_id b" using Cons.prems(2) that by (metis distinct.simps(2) image_eqI list.set_map list.simps(9))
      show "key a \<noteq> key b" using Cons.prems(3) that by (metis distinct.simps(2) image_eqI list.set_map list.simps(9))
    qed (use Cons.prems that in auto)
    then have "key (new a) \<notin> (\<lambda>x. key (new x)) ` set rows" by (metis imageE)
    then show ?case using Cons by simp
  qed simp
  then show ?thesis using sub [of apps] ids names by (simp add: keyed_def update_where_def key_def new_def)
qed

lemma schema_rename: "stmt_keeps (schema_ok w) (rename_stmt w name slug u g)"
proof (rule stmt_keepsI)
  fix n t x t'
  assume ok: "schema_ok w t" and run: "rename_stmt w name slug u g n t = Inr (x, t')"
  let ?rows = "update_where (the_app u g) (\<lambda>a. a\<lparr>ap_name := name, ap_slug := slug\<rparr>) (tb_apps t)"
  have t': "t' = t\<lparr>tb_apps := ?rows\<rparr>" and free: "\<not> list_ex (\<lambda>r. ap_id r \<noteq> u \<and> ap_org r = g \<and> ap_name r = name) (tb_apps t)"
    using run by (auto simp: rename_stmt_def Let_def split: if_splits sum.splits)
  have "keyed (\<lambda>a. (ap_org a, ap_name a)) ?rows"
    using ok free by (intro keyed_rename) (auto simp: schema_defs list_ex_iff)
  then show "schema_ok w t'" using ok by (auto simp: t' schema_defs table_simps)
qed

lemma schema_upsert_env: "stmt_keeps (schema_ok w) (upsert_env w name ns u)"
  using schema_insert_env [of w name ns u] by (clarsimp simp: stmt_keeps_def upsert_env_def split: sum.splits, blast?)

section \<open>The account statements\<close>

lemma schema_insert_user: "stmt_keeps (schema_ok w) (insert_user w email hash)"
  by (rule stmt_keepsI)
    (clarsimp simp: insert_user_def new_user_def schema_defs table_simps list_ex_iff same_text_def Let_def split: if_splits, blast?)

lemma schema_insert_user_unless_taken: "stmt_keeps (schema_ok w) (insert_user_unless_taken w email hash)"
  using schema_insert_user [of w email hash] by (clarsimp simp: stmt_keeps_def insert_user_unless_taken_def split: if_splits, blast?)

lemma schema_account_stmts:
  "stmt_keeps (schema_ok w) (\<lambda>n. insert_token tb_verifications (\<lambda>rows t. t\<lparr>tb_verifications := rows\<rparr>) (new_one_time hash u (e n)))"
  "stmt_keeps (schema_ok w) (\<lambda>n. insert_token tb_resets (\<lambda>rows t. t\<lparr>tb_resets := rows\<rparr>) (new_one_time hash u (e n)))"
  "stmt_keeps (schema_ok w) (update_token_user w toks hash (\<lambda>u. u\<lparr>us_verified := True\<rparr>))"
  "stmt_keeps (schema_ok w) (update_token_user w toks hash (\<lambda>u. u\<lparr>us_hash := h\<rparr>))"
  "stmt_keeps (schema_ok w) (\<lambda>n t. Inr ((), t\<lparr>tb_verifications := consume_rows hash (now n) (tb_verifications t)\<rparr>))"
  "stmt_keeps (schema_ok w) (\<lambda>n t. Inr ((), t\<lparr>tb_resets := consume_rows hash (now n) (tb_resets t)\<rparr>))"
  "stmt_keeps (schema_ok w) (insert_signup ip start)"
  "stmt_keeps (schema_ok w) (set_signup ip (\<lambda>r. r\<lparr>sl_count := sl_count r + 1\<rparr>))"
  "stmt_keeps (schema_ok w) (set_signup ip (\<lambda>r. r\<lparr>sl_count := 1, sl_start := start\<rparr>))"
  by (rule stmt_keepsI,
      clarsimp simp: insert_token_def new_one_time_def update_token_user_def consume_rows_def insert_signup_def set_signup_def
        user_exists_def schema_defs table_simps list_ex_iff split: option.splits if_splits, blast?)+

lemma schema_member_stmts:
  "stmt_keeps (schema_ok w) (upsert_member u g role)"
  "stmt_keeps (schema_ok w) (insert_member u g role)"
  "stmt_keeps (schema_ok w) (insert_org w name slug)"
  by (rule stmt_keepsI,
      clarsimp simp: upsert_member_def insert_member_def insert_org_def membership_def user_exists_def org_exists_def same_text_def
        schema_defs table_simps list_ex_iff Let_def split: if_splits, blast?)+

lemma schema_token_stmts:
  "stmt_keeps (schema_ok w) (insert_api_token w g u name hash display)"
  "stmt_keeps (schema_ok w) (touch_api_token w hash)"
  "stmt_keeps (schema_ok w) (revoke_stmt w i u)"
  "stmt_keeps (schema_ok w) (audit_stmt w e)"
  by (rule stmt_keepsI,
      clarsimp simp: insert_api_token_def touch_api_token_def revoke_stmt_def audit_stmt_def user_exists_def org_exists_def
        schema_defs table_simps list_ex_iff Let_def split: if_splits sum.splits, blast?)+

lemma schema_idem_stmts:
  "stmt_keeps (schema_ok w) (purge_stmt w key g)"
  "stmt_keeps (schema_ok w) (claim_stmt w key g hash)"
  "stmt_keeps (schema_ok w) (complete_stmt key g status content)"
  by (rule stmt_keepsI,
      clarsimp simp: purge_stmt_def claim_stmt_def complete_stmt_def idem_row_def schema_defs table_simps list_ex_iff split: if_splits, blast?)+

lemma schema_security_event: "keeps (schema_ok w) (insert_security_event w kind ip detail)"
  unfolding insert_security_event_def
  by (intro keeps_intro stmt_keepsI) (clarsimp simp: schema_defs split: sum.splits)

lemma schema_gate_stable: "gate_stable w (schema_ok w)"
  by (simp add: gate_stable_def schema_token_stmts schema_member_stmts schema_security_event)

end
