(* ===== verification/Auth_Handlers.thy ===== *)
theory Auth_Handlers
  imports Auth_Gate
begin

text \<open>
  The account routes: \<^verbatim>\<open>auth/handler.go\<close>, the handlers of \<^verbatim>\<open>auth/members.go\<close>, \<^verbatim>\<open>auth/audit.go\<close> and
  \<^verbatim>\<open>auth/tokens_handler.go\<close>, and the table of routes \<^verbatim>\<open>Service.Mount\<close> registers.
\<close>

section \<open>Reading requests\<close>

record service =
  sc_secret :: string
  sc_baseURL :: string

text \<open>The fields of a body, \<open>None\<close> when it cannot be read or decoded.\<close>

definition decode_body :: "outside \<Rightarrow> string list \<Rightarrow> http_request \<Rightarrow> (string \<Rightarrow> string) option" where
  "decode_body w names r = (case rq_Body r of None \<Rightarrow> None | Some raw \<Rightarrow> js_strings w names raw)"

abbreviation (input) invalid :: "string \<Rightarrow> http_response" where
  "invalid detail \<equiv> write_problem 422 ''VALIDATION_FAILED'' detail"

abbreviation (input) no_identity :: http_response where
  "no_identity \<equiv> write_problem 401 ''UNAUTHORIZED'' ''missing identity''"

text \<open>\<^verbatim>\<open>http.Status\<close> codes written without a body of their own.\<close>

definition policy_text :: "policy_error \<Rightarrow> string" where
  "policy_text e =
     (case e of PasswordTooShort \<Rightarrow> ''password must be at least 8 characters''
      | PasswordTooPlain \<Rightarrow> ''password must contain letters and digits'')"

section \<open>Mail\<close>

definition send_mail :: "outside \<Rightarrow> string \<Rightarrow> string \<Rightarrow> (unit + unit) op" where
  "send_mail w to url = do {
     n \<leftarrow> event;
     (if smtp_ok w n then do {
        p \<leftarrow> State_Monad.get;
        State_Monad.set (p\<lparr>pf_mails := pf_mails p @ [(to, url)]\<rparr>);
        ret (Inr ())
      } else ret (Inl ()))
   }"

text \<open>The last at sign has text on both sides.\<close>

definition local_and_domain :: "string \<Rightarrow> bool" where
  "local_and_domain addr =
     (let n = length (before CHR 0x40 (rev addr)) in CHR 0x40 \<in> set addr \<and> n + 1 < length addr \<and> 0 < n)"

definition mail_address_has_local_and_domain :: "outside \<Rightarrow> string \<Rightarrow> bool" where
  "mail_address_has_local_and_domain w email = (case go_mail w email of None \<Rightarrow> False | Some addr \<Rightarrow> local_and_domain addr)"

section \<open>Registration and login\<close>

text \<open>The part of a registration after the account row: token, verification row, mail.\<close>

definition start_verification :: "outside \<Rightarrow> service \<Rightarrow> string \<Rightarrow> UserRow \<Rightarrow> http_response op" where
  "start_verification w sc addr user =
     attempt (random_token w) (\<lambda>e. internal ''token error'') (\<lambda>token.
       attempt (store_verification w (us_id user) (hash_token w token)) (\<lambda>e. internal ''store verification failed'') (\<lambda>u.
         attempt (send_mail w addr (sc_baseURL sc @ ''/v1/auth/verify?token='' @ token)) (\<lambda>e. internal ''mail send failed'')
           (\<lambda>u. ret (bare_status 201))))"

definition handle_register :: "outside \<Rightarrow> service \<Rightarrow> handler" where
  "handle_register w sc cx r =
     (case decode_body w [''email'', ''password''] r of
        None \<Rightarrow> ret (invalid ''invalid JSON'')
      | Some inp \<Rightarrow>
          (case go_mail w (inp ''email'') of
             None \<Rightarrow> ret (invalid ''invalid email'')
           | Some addr \<Rightarrow>
               if \<not> mail_address_has_local_and_domain w (inp ''email'') then ret (invalid ''invalid email'')
               else (case validate_password (inp ''password'') of
                 Some e \<Rightarrow> ret (invalid (policy_text e))
               | None \<Rightarrow>
                   attempt (check_signup_limit w (client_ip cx r))
                     (\<lambda>e. if e = ErrRateLimited then write_problem 429 ''RATE_LIMITED'' ''signup rate limit exceeded''
                          else internal ''storage error'')
                     (\<lambda>u. attempt (hash_password w (inp ''password'')) (\<lambda>e. internal ''hash error'') (\<lambda>hash.
                        do {
                          res \<leftarrow> create_unverified w (inp ''email'') hash;
                          (case res of
                             Inl e \<Rightarrow> ret (if e = ErrEmailTaken then bare_status 201 else internal ''create failed'')
                           | Inr user \<Rightarrow> start_verification w sc addr user)
                        })))))"

definition handle_verify :: "outside \<Rightarrow> handler" where
  "handle_verify w cx r =
     (case decode_body w [''token''] r of
        None \<Rightarrow> ret (invalid ''token required'')
      | Some inp \<Rightarrow>
          if inp ''token'' = [] then ret (invalid ''token required'')
          else attempt (consume_verification w (hash_token w (inp ''token'')))
            (\<lambda>e. write_problem 410 ''TOKEN_EXPIRED'' ''verification link invalid or expired'') (\<lambda>u. ret (bare_status 204)))"

definition handle_login :: "outside \<Rightarrow> service \<Rightarrow> handler" where
  "handle_login w sc cx r =
     (case decode_body w [''email'', ''password''] r of
        None \<Rightarrow> ret (invalid ''invalid JSON'')
      | Some inp \<Rightarrow>
          attempt (get_by_email w (inp ''email'')) (\<lambda>e. unauthorized ''invalid credentials'') (\<lambda>user.
            if verify_password w (inp ''password'') (us_hash user) \<noteq> Inr True then ret (unauthorized ''invalid credentials'')
            else if \<not> us_verified user then ret (write_problem 403 ''FORBIDDEN'' ''email not verified'')
            else do {
              access \<leftarrow> new_access w (sc_secret sc) (us_id user);
              refresh \<leftarrow> new_refresh w (sc_secret sc) (us_id user);
              ret (case (access, refresh) of
                (Some a, Some f) \<Rightarrow> write_json 200 (JObj [(''access_token'', JStr a), (''refresh_token'', JStr f)])
              | _ \<Rightarrow> internal ''token error'')
            }))"

definition handle_me :: handler where
  "handle_me cx r =
     ret (case cx_identity cx of
       None \<Rightarrow> no_identity
     | Some ident \<Rightarrow> write_json 200 (JObj [(''id'', JStr (id_UserID ident)), (''org_id'', JStr (id_OrgID ident))]))"

section \<open>Password reset\<close>

definition notify_password_reset :: "outside \<Rightarrow> service \<Rightarrow> UserRow \<Rightarrow> unit op" where
  "notify_password_reset w sc user =
     attempt (random_token w) (\<lambda>e. ()) (\<lambda>token.
       attempt (store_reset_token w (us_id user) (hash_token w token)) (\<lambda>e. ()) (\<lambda>u.
         case go_mail w (us_email user) of
           None \<Rightarrow> ret ()
         | Some addr \<Rightarrow> do { x \<leftarrow> send_mail w addr (sc_baseURL sc @ ''/v1/auth/reset-password?token='' @ token); ret () }))"

definition handle_request_reset :: "outside \<Rightarrow> service \<Rightarrow> handler" where
  "handle_request_reset w sc cx r =
     (case decode_body w [''email''] r of
        None \<Rightarrow> ret (invalid ''invalid JSON'')
      | Some inp \<Rightarrow> do {
          res \<leftarrow> get_by_email w (inp ''email'');
          u \<leftarrow> (case res of
                 Inr user \<Rightarrow> if us_verified user then notify_password_reset w sc user else ret ()
               | Inl e \<Rightarrow> ret ());
          ret (bare_status 202)
        })"

definition handle_reset_password :: "outside \<Rightarrow> handler" where
  "handle_reset_password w cx r =
     (case decode_body w [''token'', ''new_password''] r of
        None \<Rightarrow> ret (invalid ''invalid JSON'')
      | Some inp \<Rightarrow>
          (case validate_password (inp ''new_password'') of
             Some e \<Rightarrow> ret (invalid (policy_text e))
           | None \<Rightarrow>
               attempt (hash_password w (inp ''new_password'')) (\<lambda>e. internal ''hash error'') (\<lambda>hash.
                 attempt (consume_reset_token w (hash_token w (inp ''token'')) hash)
                   (\<lambda>e. write_problem 410 ''TOKEN_EXPIRED'' ''reset link invalid or expired'') (\<lambda>u. ret (bare_status 204)))))"

section \<open>Members\<close>

definition member_json :: "MemberRow \<Rightarrow> json" where
  "member_json m = JObj [(''user_id'', JStr (mr_UserID m)), (''email'', JStr (mr_Email m)), (''role'', JStr (mr_Role m))]"

definition handle_list_members :: "outside \<Rightarrow> handler" where
  "handle_list_members w cx r =
     (case cx_identity cx of
        None \<Rightarrow> ret no_identity
      | Some ident \<Rightarrow>
          attempt (list_members w (id_OrgID ident)) (\<lambda>e. internal ''list failed'')
            (\<lambda>ms. ret (write_json 200 (JArr (map member_json ms)))))"

definition handle_invite_member :: "outside \<Rightarrow> handler" where
  "handle_invite_member w cx r =
     (case decode_body w [''email'', ''role''] r of
        None \<Rightarrow> ret (invalid ''invalid JSON'')
      | Some inp \<Rightarrow>
          if go_mail w (inp ''email'') = None \<or> \<not> is_valid_role (inp ''role'') then ret (invalid ''invalid email or role'')
          else (case cx_identity cx of
            None \<Rightarrow> ret no_identity
          | Some ident \<Rightarrow>
              attempt (invite_member_by_email w (id_OrgID ident) (inp ''email'') (inp ''role'')) (\<lambda>e. internal ''invite failed'')
                (\<lambda>(userID, created). ret (write_json 201 (JObj
                   [(''email'', JStr (inp ''email'')), (''role'', JStr (inp ''role'')),
                    (''status'', JStr (if created then ''provisioned'' else ''existed'')), (''user_id'', JStr userID)])))))"

section \<open>Tokens\<close>

definition handle_create_token :: "outside \<Rightarrow> handler" where
  "handle_create_token w cx r =
     (case cx_identity cx of
        None \<Rightarrow> ret no_identity
      | Some ident \<Rightarrow>
          (case decode_body w [''name''] r of
             None \<Rightarrow> ret (invalid ''name required'')
           | Some inp \<Rightarrow>
               if inp ''name'' = [] then ret (invalid ''name required'')
               else attempt (default_org_for_user w (id_UserID ident)) (\<lambda>e. internal ''org resolution failed'') (\<lambda>orgID.
                 attempt (generate_api_token w) (\<lambda>e. internal ''token generation failed'') (\<lambda>(plaintext, display, hash).
                   attempt (create_api_token w (id_UserID ident) orgID (inp ''name'') hash display) (\<lambda>e. internal ''token persist failed'')
                     (\<lambda>i. ret (write_json 201 (JObj
                        [(''id'', JStr i), (''name'', JStr (inp ''name'')), (''plaintext'', JStr plaintext), (''prefix'', JStr display)])))))))"

definition api_token_json :: "outside \<Rightarrow> ApiTokenTableRow \<Rightarrow> json" where
  "api_token_json w t =
     JObj [(''ID'', JStr (at_id t)), (''Name'', JStr (at_name t)), (''Prefix'', JStr (at_prefix t)), (''CreatedAt'', JStr (db_time w (at_created t)))]"

definition handle_list_tokens :: "outside \<Rightarrow> handler" where
  "handle_list_tokens w cx r =
     (case cx_identity cx of
        None \<Rightarrow> ret no_identity
      | Some ident \<Rightarrow>
          attempt (list_api_tokens w (id_UserID ident)) (\<lambda>e. internal ''list failed'')
            (\<lambda>rows. ret (write_json 200 (JArr (map (api_token_json w) rows)))))"

definition handle_revoke_token :: "outside \<Rightarrow> handler" where
  "handle_revoke_token w cx r =
     (case cx_identity cx of
        None \<Rightarrow> ret no_identity
      | Some ident \<Rightarrow>
          attempt (revoke_api_token w (id_UserID ident) (path_value r ''tokenId'')) (\<lambda>e. internal ''revoke failed'')
            (\<lambda>revoked. ret (if \<not> revoked then write_problem 404 ''NOT_FOUND'' ''token not found'' else bare_status 204)))"

definition audit_json :: "outside \<Rightarrow> AuditTableRow \<Rightarrow> json" where
  "audit_json w a =
     JObj [(''actor_type'', JStr (au_actor_type a)), (''agent'', JStr (coalesce (au_agent a))), (''action'', JStr (au_action a)),
           (''result'', JStr (au_result a)), (''occurred_at'', JStr (db_time w (au_occurred a)))]"

definition handle_audit_logs :: "outside \<Rightarrow> handler" where
  "handle_audit_logs w cx r =
     (case cx_identity cx of
        None \<Rightarrow> ret no_identity
      | Some ident \<Rightarrow>
          attempt (list_audit w (id_OrgID ident) (query r ''action'')) (\<lambda>e. internal ''audit query failed'')
            (\<lambda>rows. ret (write_json 200 (JArr (map (audit_json w) rows)))))"

section \<open>The routes\<close>

definition auth_routes :: "outside \<Rightarrow> service \<Rightarrow> ((string \<times> string) \<times> handler) list" where
  "auth_routes w sc =
     (let authed = authenticated w (sc_secret sc); gated = require_cap w (sc_secret sc) in
      [((''POST'', ''/v1/auth/register''), handle_register w sc),
       ((''POST'', ''/v1/auth/verify''), handle_verify w),
       ((''POST'', ''/v1/auth/login''), handle_login w sc),
       ((''POST'', ''/v1/auth/request-password-reset''), handle_request_reset w sc),
       ((''POST'', ''/v1/auth/reset-password''), handle_reset_password w),
       ((''GET'', ''/v1/me''), authed handle_me),
       ((''GET'', ''/v1/members''), gated CapAppRead (handle_list_members w)),
       ((''GET'', ''/v1/auditlogs''), authed (handle_audit_logs w)),
       ((''POST'', ''/v1/members''), gated CapMemberInvite (idem w (audited w ''member.invite'' (handle_invite_member w)))),
       ((''POST'', ''/v1/tokens''), authed (idem w (audited w ''api_token.create'' (handle_create_token w)))),
       ((''GET'', ''/v1/tokens''), authed (handle_list_tokens w)),
       ((''DELETE'', ''/v1/tokens/{tokenId}''), authed (handle_revoke_token w))])"

section \<open>Accounts nobody can enter\<close>

lemma get_by_email_found:
  assumes "run_state (get_by_email w email) p = (res, p')"
  shows "pf_tables p' = pf_tables p" and "res = Inr v \<Longrightarrow> v \<in> set (tb_users (pf_tables p)) \<and> same_text w (us_email v) email"
proof -
  let ?q = "\<lambda>t. one_row (\<lambda>r. same_text w (us_email r) email) (tb_users t)"
  obtain q p1 where l: "run_state (exec w (reading ?q)) p = (q, p1)" by (cases "run_state (exec w (reading ?q)) p")
  show "pf_tables p' = pf_tables p"
    using assms l exec_reading(1) [OF l] by (cases q) (auto simp: get_by_email_def run_attempt)
  show "v \<in> set (tb_users (pf_tables p)) \<and> same_text w (us_email v) email" if "res = Inr v"
  proof -
    have "q = Inr v" using assms l that by (cases q) (auto simp: get_by_email_def run_attempt)
    from one_row_Inr [OF exec_reading(2) [OF l this]] show ?thesis .
  qed
qed

definition signups_only :: "tables \<Rightarrow> tables \<Rightarrow> bool" where
  "signups_only t t' = (\<exists>sg. t' = t\<lparr>tb_signups := sg\<rparr>)"

lemma signup_limit_signups_only: "keeps (signups_only t0) (check_signup_limit w text)"
  unfolding check_signup_limit_def
  by (intro keeps_intro stmt_keepsI) (auto simp: signups_only_def insert_signup_def set_signup_def split: if_splits)

lemma taken_address_not_created:
  assumes "v \<in> set (tb_users (pf_tables p))" and "same_text w (us_email v) email"
    and run: "run_state (create_unverified w email hash) p = (res, p')"
  shows "\<exists>e. res = Inl e" and "pf_tables p' = pf_tables p"
proof -
  have "insert_user_unless_taken w email hash n (pf_tables p) = Inl NoRows" for n
    using assms(1,2) by (auto simp: insert_user_unless_taken_def list_ex_iff)
  then show "\<exists>e. res = Inl e" and "pf_tables p' = pf_tables p"
    using run by (auto simp: create_unverified_def run_attempt exec_def Let_def split: option.splits db_fault.splits)
qed


definition stub_user :: UserRow where
  "stub_user = \<lparr>us_id = ''u9'', us_email = ''eve@x.io'', us_hash = ''h'', us_verified = False, us_github = None, us_login = None\<rparr>"

definition stub_platform :: platform where
  "stub_platform = fresh_platform\<lparr>pf_tables := empty_tables\<lparr>tb_users := [stub_user]\<rparr>\<rparr>"

definition eve_request :: http_request where
  "eve_request = sample_post\<lparr>rq_Body := Some ''eve@x.io''\<rparr>"

definition sample_service :: service where
  "sample_service = \<lparr>sc_secret = ''s'', sc_baseURL = ''https://x.io''\<rparr>"


text \<open>An invitation to a role the capability catalogue knows but the schema does not fails, and adds nobody.\<close>

lemma invite_role_rejected:
  assumes "\<not> role_allowed role" and run: "run_state (invite_member_by_email w orgID email role) p = (res, p')"
  shows "(\<exists>e. res = Inl e) \<and> pf_tables p' = pf_tables p"
proof -
  have refused: "\<exists>e. upsert_member_stmt w u orgID role n t = Inl e" for u n t
    using assms(1) by (auto simp: upsert_member_stmt_def uuid_arg_def upsert_member_def split: option.split)
  have "fails (attempt (find_or_stub w email) (\<lambda>e. Inl ((\<lambda>e. e) e)) (\<lambda>(userID, created).
      attempt (exec w (upsert_member_stmt w userID orgID role)) (\<lambda>e. Inl (Storage e)) (\<lambda>u. ret (Inr (userID, created)))))"
  proof (rule fails_attempt)
    show "fails (case x of (userID, created) \<Rightarrow>
        attempt (exec w (upsert_member_stmt w userID orgID role)) (\<lambda>e. Inl (Storage e)) (\<lambda>u. ret (Inr (userID, created))))" for x
      by (auto intro!: fails_first fails_exec refused split: prod.split)
  qed
  then show ?thesis using transact_fails [OF _ run [unfolded invite_member_by_email_def]] by simp
qed

lemma invitable_roles_refused:
  "is_valid_role ''developer'' \<and> is_valid_role ''viewer'' \<and> is_valid_role ''billing_admin'' \<and> is_valid_role ''security_admin'' \<and>
   \<not> role_allowed ''developer'' \<and> \<not> role_allowed ''viewer'' \<and> \<not> role_allowed ''billing_admin'' \<and> \<not> role_allowed ''security_admin''"
  by code_simp

text \<open>A reset token whose consumption is not recorded stays live: the two statements are not one transaction.\<close>

lemma reset_token_reusable:
  assumes "db_fault w (pf_tick p) = None" and "db_fault w (Suc (pf_tick p)) = Some Refused"
    and "find (live_token hash (db_now w (pf_tick p))) (tb_resets (pf_tables p)) = Some row" and "user_exists (pf_tables p) (tk_user row)"
  shows "\<exists>p'. run_state (consume_reset_token w hash newHash) p = (Inl (Storage ConnectionLost), p') \<and>
    tb_resets (pf_tables p') = tb_resets (pf_tables p) \<and>
    tb_users (pf_tables p') = update_where (\<lambda>u. us_id u = tk_user row) (\<lambda>u. u\<lparr>us_hash := newHash\<rparr>) (tb_users (pf_tables p))"
  using assms by (simp add: consume_reset_token_def run_attempt run_exec update_token_user_def exec_def Let_def)

text \<open>The audit route asks for no membership: a session naming any workspace reads its rows.\<close>

lemma audit_of_any_workspace:
  assumes calm: "\<forall>n. db_fault w n = None" and cast: "db_cast w g = Some g" and session: "cx_identity cx = Some ident" "id_OrgID ident = g"
  shows "fst (run_state (handle_audit_logs w cx r) p) = write_json 200 (JArr (map (audit_json w)
     (take 100 (newest_first au_occurred
        (filter (\<lambda>a. au_workspace a = Some g \<and> (query r ''action'' = [] \<or> au_action a = query r ''action'')) (tb_audit (pf_tables p)))))))"
  using assms by (simp add: handle_audit_logs_def list_audit_def run_attempt run_exec reading_def)

lemma session_names_any_workspace:
  assumes calm: "\<forall>n. db_fault w n = None" and key: "header r ''Authorization'' = ''Bearer '' @ raw" "\<not> has_prefix raw apiTokenPrefix"
    and valid: "\<And>t. jwt_parse w secret t raw = Some u" "u \<noteq> []" "db_cast w u = Some u"
    and member: "first_membership u (pf_tables p) = Inr m" and other: "header r ''X-Tenara-Org'' = g" "g \<noteq> []" "g \<noteq> mb_org m"
  shows "fst (run_state (resolve_bearer w secret r) p) = Some \<lparr>id_UserID = u, id_OrgID = g, id_ActorType = ''user''\<rparr>"
  using assms
  by (simp add: resolve_bearer_def Let_def parse_token_def time_now_def default_org_for_user_def run_attempt run_exec reading_def)

text \<open>A refresh token is a session token that lives for a week.\<close>

lemma refresh_token_is_session:
  "new_refresh w secret u = new_token w secret u (7 * 24 * hour)" "new_access w secret u = new_token w secret u (15 * minute)"
  by (simp_all add: new_refresh_def new_access_def)

section \<open>The signup limit over a window\<close>

fun signup_checks :: "outside \<Rightarrow> string \<Rightarrow> nat \<Rightarrow> (auth_error + unit) list op" where
  "signup_checks w ip 0 = ret []"
| "signup_checks w ip (Suc k) = do { r \<leftarrow> check_signup_limit w ip; rs \<leftarrow> signup_checks w ip k; ret (r # rs) }"

lemma find_update_where:
  "(\<And>r. P r \<Longrightarrow> P (f r)) \<Longrightarrow> find P (update_where P f rows) = map_option f (find P rows)"
  by (induction rows) (auto simp: update_where_def)

definition signup_row :: "platform \<Rightarrow> string \<Rightarrow> SignupRow option" where
  "signup_row p addr = find (\<lambda>r. sl_ip r = addr) (tb_signups (pf_tables p))"

text \<open>One check in a window that is still open: admitted below the limit and counted, refused at the limit.\<close>

lemma signup_check_step:
  assumes calm: "\<forall>n. db_fault w n = None" and addr: "go_addr w text = Some addr"
    and open_window: "\<And>n m. time_sub (go_now w n) (db_now w m) \<le> hour"
    and row: "case signup_row p addr of None \<Rightarrow> c = 0 | Some r \<Rightarrow> sl_count r = int c \<and> (\<exists>m. sl_start r = db_now w m)"
    and run: "run_state (check_signup_limit w text) p = (res, p')"
  shows "is_ok res \<longleftrightarrow> c < 5"
    and "\<exists>r. signup_row p' addr = Some r \<and> sl_count r = int (if c < 5 then Suc c else c) \<and> (\<exists>m. sl_start r = db_now w m)"
proof -
  let ?n = "pf_tick p"
  have "(is_ok res \<longleftrightarrow> c < 5) \<and> (\<exists>r. signup_row p' addr = Some r \<and> sl_count r = int (if c < 5 then Suc c else c) \<and> (\<exists>m. sl_start r = db_now w m))"
  proof (cases "signup_row p addr")
    case None
    then have absent: "\<not> list_ex (\<lambda>r. sl_ip r = addr) (tb_signups (pf_tables p))" "one_row (\<lambda>r. sl_ip r = addr) (tb_signups (pf_tables p)) = Inl NoRows"
      by (auto simp: signup_row_def find_None_iff list_ex_iff one_row_def split: option.split)
    have "res = Inr ()" "tb_signups (pf_tables p') = tb_signups (pf_tables p) @ [\<lparr>sl_ip = addr, sl_start = db_now w ?n, sl_count = 1\<rparr>]"
      using run calm addr absent
      by (simp_all add: check_signup_limit_def run_transact_calm run_attempt run_exec reading_def insert_signup_def, auto)
    moreover have "find (\<lambda>r. sl_ip r = addr) (tb_signups (pf_tables p) @ [\<lparr>sl_ip = addr, sl_start = db_now w ?n, sl_count = 1\<rparr>]) =
        Some \<lparr>sl_ip = addr, sl_start = db_now w ?n, sl_count = 1\<rparr>"
      using None by (simp add: signup_row_def find_append)
    ultimately show ?thesis using row None by (auto simp: signup_row_def)
  next
    case (Some r)
    then have found: "one_row (\<lambda>r. sl_ip r = addr) (tb_signups (pf_tables p)) = Inr r" by (simp add: signup_row_def one_row_def)
    from row Some obtain m where r: "sl_count r = int c" "sl_start r = db_now w m" by auto
    have inside: "\<not> hour < time_sub (go_now w (Suc (Suc ?n))) (sl_start r)" using open_window [of "Suc (Suc ?n)" m] r(2) by simp
    show ?thesis
    proof (cases "c < 5")
      case True
      have "res = Inr ()" "tb_signups (pf_tables p') =
          update_where (\<lambda>r. sl_ip r = addr) (\<lambda>r. r\<lparr>sl_count := sl_count r + 1\<rparr>) (tb_signups (pf_tables p))"
        using run calm addr found inside r True
        by (simp_all add: check_signup_limit_def run_transact_calm run_attempt run_exec reading_def time_now_def set_signup_def, auto)
      then show ?thesis using True r Some by (auto simp: signup_row_def find_update_where)
    next
      case False
      have "res = Inl ErrRateLimited" "pf_tables p' = pf_tables p"
        using run calm addr found inside r False
        by (simp_all add: check_signup_limit_def run_transact_calm run_attempt run_exec reading_def time_now_def, auto)
      then show ?thesis using False r Some by (auto simp: signup_row_def)
    qed
  qed
  then show "is_ok res \<longleftrightarrow> c < 5"
    and "\<exists>r. signup_row p' addr = Some r \<and> sl_count r = int (if c < 5 then Suc c else c) \<and> (\<exists>m. sl_start r = db_now w m)"
    by auto
qed

lemma signup_checks_from:
  assumes calm: "\<forall>n. db_fault w n = None" and addr: "go_addr w text = Some addr"
    and open_window: "\<And>n m. time_sub (go_now w n) (db_now w m) \<le> hour"
  shows "c \<le> 5 \<Longrightarrow> (case signup_row p addr of None \<Rightarrow> c = 0 | Some r \<Rightarrow> sl_count r = int c \<and> (\<exists>m. sl_start r = db_now w m)) \<Longrightarrow>
    map is_ok (fst (run_state (signup_checks w text k) p)) = replicate (min k (5 - c)) True @ replicate (k - (5 - c)) False"
proof (induction k arbitrary: p c)
  case 0
  then show ?case by simp
next
  case (Suc k)
  obtain res p' where run: "run_state (check_signup_limit w text) p = (res, p')" by (cases "run_state (check_signup_limit w text) p")
  note step = signup_check_step [OF calm addr open_window Suc.prems(2) run]
  let ?c = "if c < 5 then Suc c else c"
  have "case signup_row p' addr of None \<Rightarrow> ?c = 0 | Some r \<Rightarrow> sl_count r = int ?c \<and> (\<exists>m. sl_start r = db_now w m)"
    using step(2) by auto
  then have ih: "map is_ok (fst (run_state (signup_checks w text k) p')) = replicate (min k (5 - ?c)) True @ replicate (k - (5 - ?c)) False"
    by (intro Suc.IH) (use Suc.prems(1) in auto)
  obtain rs p2 where rest: "run_state (signup_checks w text k) p' = (rs, p2)" by (cases "run_state (signup_checks w text k) p'")
  show ?case
  proof (cases "c < 5")
    case True
    then obtain d where d: "5 - c = Suc d" "5 - ?c = d" by (cases "5 - c") auto
    show ?thesis using ih run rest step(1) True d by simp
  next
    case False
    then show ?thesis using ih run rest step(1) by simp
  qed
qed

text \<open>While one window is open, of any number of registrations from an address exactly the first five are admitted.\<close>

lemma signup_window_exact:
  assumes "\<forall>n. db_fault w n = None" and "go_addr w text = Some addr"
    and "\<And>n m. time_sub (go_now w n) (db_now w m) \<le> hour" and "signup_row p addr = None"
  shows "map is_ok (fst (run_state (signup_checks w text k) p)) = replicate (min k 5) True @ replicate (k - 5) False"
  using signup_checks_from [OF assms(1-3), of 0 p k] assms(4) by simp

end
