(* ===== verification/Apps_Handlers.thy ===== *)
theory Apps_Handlers
  imports Secret_Store Auth_Handlers Plan_Generator Tenant_Manifests
begin

text \<open>
  The application routes: \<^verbatim>\<open>apps/handlers.go\<close> and \<^verbatim>\<open>apps/secrets_handlers.go\<close>. The analyzer, the cluster applier, Loki,
  the decoders and the texts of foreign errors come with the service; the analyzer and Loki answer per event.
\<close>

section \<open>The service\<close>

datatype analyze_error = UnsupportedStack string | AnalyzeFailed string

datatype loki_answer = LokiUnreachable | LokiBadBody | LokiDocument json

record apps_service =
  hs_tokenSecret :: string
  hs_Analyze :: "(nat \<Rightarrow> string \<Rightarrow> string \<Rightarrow> analyze_error + string) option"
  hs_LokiURL :: string
  hs_Applier :: "(nat \<Rightarrow> json \<Rightarrow> bool) option"
  hs_baseDomain :: string
  hs_secrets :: secret_service
  hs_decodeSpec :: "string \<Rightarrow> Spec option"
  hs_appSpecMember :: "string \<Rightarrow> string option"
  hs_marshalPlan :: "DeployPlan \<Rightarrow> string option"
  hs_getLogs :: "nat \<Rightarrow> string \<Rightarrow> loki_answer"
  hs_specText :: "spec_error \<Rightarrow> string"
  hs_planText :: "plan_error \<Rightarrow> string"
  hs_quote :: "string \<Rightarrow> string"
  hs_rawJson :: "string \<Rightarrow> json"
  hs_fieldAfterDecode :: "string \<Rightarrow> string \<Rightarrow> string"

section \<open>Answers\<close>

text \<open>The texts of the wrapped sentinel errors.\<close>

definition apps_error_text :: "apps_service \<Rightarrow> apps_error \<Rightarrow> string" where
  "apps_error_text hs e =
     (case e of
        ErrNotFound \<Rightarrow> ''not found''
      | ErrQuotaExceeded tier n \<Rightarrow> ''quota exceeded: '' @ tier @ '' tier allows '' @ itoa n @ '' apps''
      | ErrConflict s \<Rightarrow> ''conflict: '' @ s
      | ErrUnsupportedKind k \<Rightarrow> ''unsupported database kind: '' @ hs_quote hs k
      | ErrInvalidDigest d \<Rightarrow> ''invalid image digest: '' @ hs_quote hs d
      | ErrNotEnoughRevisions s \<Rightarrow> ''not enough revisions for rollback: '' @ s
      | ErrPlanExpired \<Rightarrow> ''plan expired''
      | _ \<Rightarrow> [])"

definition map_write_err :: "apps_service \<Rightarrow> apps_error \<Rightarrow> http_response" where
  "map_write_err hs e =
     (case e of
        ErrNotFound \<Rightarrow> write_problem 404 ''NOT_FOUND'' ''not found''
      | ErrQuotaExceeded tier n \<Rightarrow> write_problem 402 ''QUOTA_EXCEEDED'' (apps_error_text hs e)
      | ErrConflict s \<Rightarrow> write_problem 409 ''CONFLICT'' (apps_error_text hs e)
      | ErrUnsupportedKind k \<Rightarrow> write_problem 400 ''BAD_REQUEST'' (apps_error_text hs e)
      | _ \<Rightarrow> internal ''storage error'')"

definition with_org :: "(string \<Rightarrow> http_response op) \<Rightarrow> ctx \<Rightarrow> http_response op" where
  "with_org f cx = (case cx_identity cx of None \<Rightarrow> ret no_identity | Some ident \<Rightarrow> f (id_OrgID ident))"

text \<open>Struct fields without tags keep their names; \<^verbatim>\<open>omitempty\<close> drops the empty string.\<close>

definition omit_empty :: "string \<Rightarrow> string \<Rightarrow> (string \<times> json) list" where
  "omit_empty k s = (if s = [] then [] else [(k, JStr s)])"

definition app_json :: "App \<Rightarrow> json" where
  "app_json a = JObj [(''ID'', JStr (app_ID a)), (''Name'', JStr (app_Name a)), (''Slug'', JStr (app_Slug a)), (''CreatedAt'', JStr (app_CreatedAt a))]"

definition service_json :: "ServiceRow \<Rightarrow> json" where
  "service_json s =
     JObj [(''ID'', JStr (sw_ID s)), (''AppID'', JStr (sw_AppID s)), (''Name'', JStr (sw_Name s)), (''Type'', JStr (sw_Type s)),
           (''Runtime'', JStr (sw_Runtime s)), (''Port'', JInt (sw_Port s))]"

definition revision_json :: "RevisionRow \<Rightarrow> json" where
  "revision_json r =
     JObj ([(''revision'', JInt (ri_Revision r))] @ omit_empty ''git_sha'' (ri_GitSHA r) @ omit_empty ''build_id'' (ri_BuildID r) @
           [(''image_digest'', JStr (ri_ImageDigest r)), (''config_version'', JInt (ri_ConfigVersion r)),
            (''secret_revision'', JInt (ri_SecretRevision r)), (''appspec_version'', JStr (ri_AppSpecVersion r)),
            (''created_at'', JStr (ri_CreatedAt r))])"

definition domain_json :: "DomainRow \<Rightarrow> json" where
  "domain_json d =
     JObj ([(''id'', JStr (do_ID d))] @ omit_empty ''app_id'' (do_AppID d) @
           [(''hostname'', JStr (do_Hostname d)), (''verified'', JBool (do_Verified d))] @
           omit_empty ''txt_challenge'' (do_TXTChallenge d) @ omit_empty ''cname_target'' (do_CNameTarget d) @
           [(''is_default'', JBool (do_IsDefault d))])"

definition database_json :: "DatabaseRow \<Rightarrow> json" where
  "database_json d =
     JObj [(''id'', JStr (db_ID d)), (''app_id'', JStr (db_AppID d)), (''type'', JStr (db_Type d)),
           (''isolation'', JStr (db_Isolation d)), (''state'', JStr (db_State d))]"

definition binding_json :: "BindingRow \<Rightarrow> json" where
  "binding_json b = JObj ([(''id'', JStr (bd_ID b))] @ omit_empty ''credential_secret_ref'' (bd_CredentialRef b) @ [(''state'', JStr (bd_State b))])"

definition resources_json :: "ServiceResources \<Rightarrow> json" where
  "resources_json r = JObj [(''cpu_millicores'', JInt (sr_CPUMillicores r)), (''memory_megabytes'', JInt (sr_MemoryMegabytes r))]"

definition plan_json :: "outside \<Rightarrow> DeployPlan \<Rightarrow> json" where
  "plan_json w p =
     JObj ([(''services'', JArr (map (\<lambda>s. JObj [(''name'', JStr (ps_Name s)), (''resources'', resources_json (ps_Resources s))]) (dp_Services p))),
            (''expires_at'', JStr (db_time w (dp_ExpiresAt p))), (''namespace_name'', JStr (dp_NamespaceName p))] @
           omit_empty ''database_name'' (dp_DatabaseName p) @ [(''domain'', JStr (dp_Domain p))] @ omit_empty ''plan_id'' (dp_PlanID p))"

section \<open>Applications\<close>

abbreviation (input) app_param :: "http_request \<Rightarrow> string" where "app_param r \<equiv> path_value r ''appId''"

definition handle_list :: "outside \<Rightarrow> apps_service \<Rightarrow> handler" where
  "handle_list w hs cx r = with_org (\<lambda>orgID.
     attempt (list_apps w orgID) (map_write_err hs) (\<lambda>apps. ret (write_json 200 (JArr (map app_json apps))))) cx"

definition handle_create :: "outside \<Rightarrow> apps_service \<Rightarrow> handler" where
  "handle_create w hs cx r =
     (case cx_identity cx of
        None \<Rightarrow> ret no_identity
      | Some ident \<Rightarrow>
          (case decode_body w [''name''] r of
             None \<Rightarrow> ret (invalid ''name required'')
           | Some inp \<Rightarrow>
               if trim_space (inp ''name'') = [] then ret (invalid ''name required'')
               else attempt (create_app w (id_OrgID ident) (trim_space (inp ''name'')) (id_UserID ident)) (map_write_err hs)
                 (\<lambda>a. ret (write_json 201 (app_json a)))))"

definition handle_get :: "outside \<Rightarrow> apps_service \<Rightarrow> handler" where
  "handle_get w hs cx r = with_org (\<lambda>orgID.
     attempt (get_app w orgID (app_param r)) (map_write_err hs) (\<lambda>a. ret (write_json 200 (app_json a)))) cx"

definition handle_rename :: "outside \<Rightarrow> apps_service \<Rightarrow> handler" where
  "handle_rename w hs cx r = with_org (\<lambda>orgID.
     case decode_body w [''name''] r of
       None \<Rightarrow> ret (invalid ''name required'')
     | Some inp \<Rightarrow>
         if trim_space (inp ''name'') = [] then ret (invalid ''name required'')
         else attempt (rename_app w orgID (app_param r) (trim_space (inp ''name''))) (map_write_err hs)
           (\<lambda>a. ret (write_json 200 (app_json a)))) cx"

definition handle_delete :: "outside \<Rightarrow> apps_service \<Rightarrow> handler" where
  "handle_delete w hs cx r = with_org (\<lambda>orgID.
     attempt (soft_delete_app w orgID (app_param r)) (map_write_err hs) (\<lambda>u. ret (bare_status 204))) cx"

definition handle_add_service :: "outside \<Rightarrow> apps_service \<Rightarrow> handler" where
  "handle_add_service w hs cx r = with_org (\<lambda>orgID.
     let refused = invalid ''name/type/runtime/port invalid'' in
     case (decode_body w [''name'', ''type'', ''runtime''] r, case rq_Body r of None \<Rightarrow> None | Some raw \<Rightarrow> js_int w ''port'' raw) of
       (Some inp, Some port) \<Rightarrow>
         if trim_space (inp ''name'') = [] \<or> inp ''type'' \<notin> {''frontend'', ''backend''} \<or>
            inp ''runtime'' \<notin> {''node'', ''python'', ''go''} \<or> port < 0 \<or> 65535 < port
         then ret refused
         else attempt (add_service w orgID (app_param r) (inp ''name'') (inp ''type'') (inp ''runtime'') port) (map_write_err hs)
           (\<lambda>s. ret (write_json 201 (service_json s)))
     | _ \<Rightarrow> ret refused) cx"

definition handle_add_environment :: "outside \<Rightarrow> apps_service \<Rightarrow> handler" where
  "handle_add_environment w hs cx r = with_org (\<lambda>orgID.
     case decode_body w [''name''] r of
       None \<Rightarrow> ret (invalid ''invalid JSON'')
     | Some inp \<Rightarrow>
         attempt (add_environment w orgID (app_param r) (inp ''name'')) (map_write_err hs)
           (\<lambda>namespace. ret (write_json 201 (JObj [(''namespace_name'', JStr namespace)])))) cx"

section \<open>Specs, plans and deployments\<close>

definition handle_put_spec :: "outside \<Rightarrow> apps_service \<Rightarrow> handler" where
  "handle_put_spec w hs cx r = with_org (\<lambda>orgID.
     case rq_Body r of
       None \<Rightarrow> ret (write_problem 400 ''VALIDATION_FAILED'' ''unreadable body'')
     | Some raw \<Rightarrow>
         (case snd (parse_spec (hs_decodeSpec hs) raw) of
            Some e \<Rightarrow> ret (write_problem 422 ''INVALID_SPEC'' (hs_specText hs e))
          | None \<Rightarrow> attempt (update_spec w orgID (app_param r) raw) (map_write_err hs) (\<lambda>u. ret (bare_status 204)))) cx"

definition handle_rollback :: "outside \<Rightarrow> apps_service \<Rightarrow> handler" where
  "handle_rollback w hs cx r = with_org (\<lambda>orgID.
     attempt (rollback_latest w orgID (app_param r))
       (\<lambda>e. case e of
          ErrNotEnoughRevisions s \<Rightarrow> write_problem 409 ''NOT_ENOUGH_REVISIONS'' (apps_error_text hs e)
        | _ \<Rightarrow> map_write_err hs e)
       (\<lambda>(newRev, target). ret (write_json 200 (JObj
          [(''new_revision'', JInt (ri_Revision newRev)), (''rolled_back_to'', JInt (ri_Revision target))])))) cx"

definition handle_list_deployments :: "outside \<Rightarrow> apps_service \<Rightarrow> handler" where
  "handle_list_deployments w hs cx r = with_org (\<lambda>orgID.
     attempt (list_revisions w orgID (app_param r)) (map_write_err hs)
       (\<lambda>revs. ret (write_json 200 (JObj [(''items'', JArr (map revision_json revs))])))) cx"

definition handle_analyze :: "outside \<Rightarrow> apps_service \<Rightarrow> handler" where
  "handle_analyze w hs cx r = with_org (\<lambda>orgID.
     case hs_Analyze hs of
       None \<Rightarrow> ret (write_problem 501 ''NOT_IMPLEMENTED'' ''analyzer not wired'')
     | Some analyze \<Rightarrow>
         (case decode_body w [''repo_path''] r of
            None \<Rightarrow> ret (write_problem 400 ''BAD_REQUEST'' ''repo_path required'')
          | Some inp \<Rightarrow>
              if trim_space (inp ''repo_path'') = [] then ret (write_problem 400 ''BAD_REQUEST'' ''repo_path required'')
              else do {
                n \<leftarrow> event;
                (case analyze n (inp ''repo_path'') (hs_baseDomain hs) of
                   Inl (UnsupportedStack s) \<Rightarrow> ret (write_problem 400 ''UNSUPPORTED_STACK'' s)
                 | Inl (AnalyzeFailed s) \<Rightarrow> ret (internal ''storage error'')
                 | Inr raw \<Rightarrow>
                     (let doc = coalesce (hs_appSpecMember hs raw) in
                      if doc = [] then ret (write_problem 422 ''INVALID_SPEC'' ''analysis lacks app_spec'')
                      else case snd (parse_spec (hs_decodeSpec hs) doc) of
                        Some e \<Rightarrow> ret (write_problem 422 ''INVALID_SPEC'' (hs_specText hs e))
                      | None \<Rightarrow>
                          attempt (save_app_spec w orgID (app_param r) doc) (map_write_err hs)
                            (\<lambda>u. ret (write_json 200 (JObj [(''spec'', hs_rawJson hs doc)])))))
              })) cx"

definition handle_get_plan :: "outside \<Rightarrow> apps_service \<Rightarrow> handler" where
  "handle_get_plan w hs cx r = with_org (\<lambda>orgID.
     attempt (get_app_with_spec w orgID (app_param r)) (map_write_err hs) (\<lambda>a.
       if app_SpecRaw a = [] then ret (write_problem 409 ''SPEC_REQUIRED'' ''analyze or override a spec first'')
       else case parse_spec (hs_decodeSpec hs) (app_SpecRaw a) of
         (sp, Some e) \<Rightarrow> ret (write_problem 422 ''INVALID_SPEC'' (hs_specText hs e))
       | (sp, None) \<Rightarrow> do {
           now \<leftarrow> time_now w;
           (case generate_plan \<lparr>pi_Spec = sp, pi_Now = now, pi_AppID = app_param r, pi_Slug = app_Slug a, pi_Env = ''production'',
                                pi_BaseDomain = hs_baseDomain hs, pi_TTL = 24 * hour\<rparr> of
              Inl e \<Rightarrow> ret (invalid (hs_planText hs e))
            | Inr plan \<Rightarrow>
                (case hs_marshalPlan hs plan of
                   None \<Rightarrow> ret (internal ''snapshot failed'')
                 | Some snapshot \<Rightarrow>
                     attempt (save_awaiting_plan w orgID (app_param r) ''production'' snapshot) (map_write_err hs)
                       (\<lambda>(depID, planID). ret (write_json 200 (plan_json w (plan\<lparr>dp_PlanID := planID\<rparr>))))))
         })) cx"

text \<open>The manifest handed to the cluster; failures are logged only.\<close>

definition apply_object :: "(nat \<Rightarrow> json \<Rightarrow> bool) \<Rightarrow> json \<Rightarrow> unit op" where
  "apply_object applier obj = do {
     n \<leftarrow> event;
     (if applier n obj then do { p \<leftarrow> State_Monad.get; State_Monad.set (p\<lparr>pf_applied := pf_applied p @ [obj]\<rparr>) } else ret ())
   }"

definition apply_bridge_best_effort :: "outside \<Rightarrow> apps_service \<Rightarrow> string \<Rightarrow> string \<Rightarrow> string \<Rightarrow> string \<Rightarrow> string \<Rightarrow> unit op" where
  "apply_bridge_best_effort w hs orgID appIDParam img gitURL gitSHA =
     (case hs_Applier hs of
        None \<Rightarrow> ret ()
      | Some applier \<Rightarrow> attempt (get_app w orgID appIDParam) (\<lambda>e. ()) (\<lambda>a. do {
          tier \<leftarrow> org_tier w orgID;
          (let inp = \<lparr>ai_AppID = app_ID a, ai_Env = ''production'', ai_Name = app_Slug a,
                      ai_QuotaTier = tier_or_free (case tier of Inl e \<Rightarrow> [] | Inr t \<Rightarrow> t), ai_Isolation = ''shared'', ai_Services = []\<rparr> in
           if img \<noteq> [] then
             apply_object applier (build_app_env
               (if contains img ''@sha256:''
                then inp\<lparr>ai_Services := [\<lparr>pv_Name = app_Slug a @ ''-web'', pv_Image = img, pv_Port = 0\<rparr>]\<rparr> else inp))
           else if gitURL \<noteq> [] then do {
             now \<leftarrow> time_now w;
             apply_object applier (build_build
               \<lparr>bi_AppID = app_ID a, bi_Env = ''production'', bi_Name = app_Slug a @ ''-b-'' @ itoa (now smod 100000),
                bi_GitURL = gitURL, bi_GitSHA = gitSHA, bi_Dockerfile = []\<rparr>)
           }
           else ret ())
        }))"

definition approve_err :: "apps_service \<Rightarrow> apps_error \<Rightarrow> http_response" where
  "approve_err hs e =
     (case e of
        ErrNotFound \<Rightarrow> write_problem 404 ''NOT_FOUND'' ''unknown plan''
      | ErrPlanExpired \<Rightarrow> write_problem 410 ''PLAN_EXPIRED'' ''plan approval window elapsed''
      | ErrConflict s \<Rightarrow> write_problem 409 ''CONFLICT'' (apps_error_text hs e)
      | _ \<Rightarrow> internal ''approval failed'')"

definition handle_deploy :: "outside \<Rightarrow> apps_service \<Rightarrow> handler" where
  "handle_deploy w hs cx r = with_org (\<lambda>orgID.
     case decode_body w [''plan_id'', ''image'', ''git_url'', ''git_sha''] r of
       None \<Rightarrow> ret (invalid ''plan_id required'')
     | Some inp \<Rightarrow>
         if inp ''plan_id'' = [] then ret (invalid ''plan_id required'')
         else attempt (approve_plan w orgID (app_param r) (inp ''plan_id'')) (approve_err hs) (\<lambda>depID. do {
           u \<leftarrow> apply_bridge_best_effort w hs orgID (app_param r) (inp ''image'') (inp ''git_url'') (inp ''git_sha'');
           ret (write_json 202 (JObj [(''id'', JStr depID), (''state'', JStr ''PLANNED'')]))
         })) cx"

section \<open>Domains and databases\<close>

definition handle_list_domains :: "outside \<Rightarrow> apps_service \<Rightarrow> handler" where
  "handle_list_domains w hs cx r = with_org (\<lambda>orgID.
     attempt (get_app w orgID (app_param r)) (map_write_err hs) (\<lambda>a.
       attempt (list_domains w (app_param r)) (\<lambda>e. internal ''list failed'')
         (\<lambda>ds. ret (write_json 200 (JArr (map domain_json ds)))))) cx"

definition handle_add_domain :: "outside \<Rightarrow> apps_service \<Rightarrow> handler" where
  "handle_add_domain w hs cx r = with_org (\<lambda>orgID.
     attempt (get_app w orgID (app_param r)) (map_write_err hs) (\<lambda>a.
       case decode_body w [''hostname''] r of
         None \<Rightarrow> ret (invalid ''invalid JSON'')
       | Some inp \<Rightarrow>
           (let hostname = go_lower w (trim_space (inp ''hostname'')) in
            attempt (if hostname = [] then allocate_default_domain w (app_param r) (app_Slug a) (hs_baseDomain hs)
                     else add_custom_domain w (app_param r) hostname) (map_write_err hs)
              (\<lambda>d. ret (write_json 201 (domain_json d)))))) cx"

definition handle_verify_domain :: "outside \<Rightarrow> apps_service \<Rightarrow> handler" where
  "handle_verify_domain w hs cx r = with_org (\<lambda>orgID.
     attempt (get_app w orgID (app_param r)) (map_write_err hs) (\<lambda>a.
       attempt (verify_custom_domain w (app_param r) (path_value r ''domainId'')) (map_write_err hs)
         (\<lambda>d. ret (write_json 200 (domain_json d))))) cx"

text \<open>The body is optional and the error of decoding it ignored: \<open>hs_fieldAfterDecode\<close> is what a field holds then.\<close>

definition handle_request_database :: "outside \<Rightarrow> apps_service \<Rightarrow> handler" where
  "handle_request_database w hs cx r = with_org (\<lambda>orgID.
     let inp = (case rq_Body r of None \<Rightarrow> (\<lambda>f. []) | Some raw \<Rightarrow> hs_fieldAfterDecode hs raw) in
     attempt (request_database w orgID (app_param r) (inp ''kind'') (inp ''isolation'')) (map_write_err hs)
       (\<lambda>(d, b). ret (write_json 201 (JObj [(''binding'', binding_json b), (''database'', database_json d)])))) cx"

section \<open>Logs and diagnostics\<close>

definition no_logs :: "string \<Rightarrow> http_response" where
  "no_logs source = write_json 200 (JObj [(''items'', JArr []), (''source'', JStr source)])"

definition handle_list_logs :: "outside \<Rightarrow> apps_service \<Rightarrow> handler" where
  "handle_list_logs w hs cx r = with_org (\<lambda>orgID.
     attempt (get_app w orgID (app_param r)) (map_write_err hs) (\<lambda>a.
       if hs_LokiURL hs = [] then ret (no_logs ''none'')
       else
         (let q = (if query r ''source'' \<noteq> [] then [(''source'', query r ''source'')] else []) @
                  (if query r ''limit'' \<noteq> [] then [(''limit'', query r ''limit'')] else []) in do {
            n \<leftarrow> event;
            ret (case hs_getLogs hs n (hs_LokiURL hs @ ''?'' @ encode_values q) of
                   LokiUnreachable \<Rightarrow> no_logs ''loki-unreachable''
                 | LokiBadBody \<Rightarrow> no_logs ''loki-parse-error''
                 | LokiDocument j \<Rightarrow> write_json 200 j)
          }))) cx"

definition handle_diagnostics :: "outside \<Rightarrow> apps_service \<Rightarrow> handler" where
  "handle_diagnostics w hs cx r = with_org (\<lambda>orgID.
     attempt (get_app w orgID (app_param r)) (map_write_err hs) (\<lambda>a. do {
       listed \<leftarrow> list_revisions w orgID (app_param r);
       (let revisions = (case listed of Inl e \<Rightarrow> [] | Inr revs \<Rightarrow> revs) in
        ret (write_json 200 (JObj
          [(''app_id'', JStr (app_ID a)),
           (''latest_digest'', JStr (case revisions of [] \<Rightarrow> [] | newest # _ \<Rightarrow> ri_ImageDigest newest)),
           (''revision_count'', JInt (int (length revisions)))])))
     })) cx"

section \<open>Secrets\<close>

definition handle_put_env :: "outside \<Rightarrow> apps_service \<Rightarrow> handler" where
  "handle_put_env w hs cx r = with_org (\<lambda>orgID.
     attempt (get_app w orgID (app_param r)) (map_write_err hs) (\<lambda>a.
       case decode_body w [''name'', ''value''] r of
         None \<Rightarrow> ret (invalid ''name and value required'')
       | Some inp \<Rightarrow>
           if trim_space (inp ''name'') = [] \<or> inp ''value'' = [] then ret (invalid ''name and value required'')
           else attempt (set_secret w (hs_secrets hs) (app_param r) (trim_space (inp ''name'')) (inp ''value''))
             (\<lambda>e. internal ''secret storage failed'') (\<lambda>u. ret (bare_status 204)))) cx"

definition item_json :: "Item \<Rightarrow> json" where
  "item_json i = JObj [(''name'', JStr (it_Name i)), (''value'', JStr (it_Value i))]"

definition handle_list_secrets :: "outside \<Rightarrow> apps_service \<Rightarrow> handler" where
  "handle_list_secrets w hs cx r = with_org (\<lambda>orgID.
     attempt (get_app w orgID (app_param r)) (map_write_err hs) (\<lambda>a.
       attempt (list_secrets w (app_param r)) (\<lambda>e. internal ''list failed'')
         (\<lambda>items. ret (write_json 200 (JArr (map item_json items)))))) cx"

definition handle_reveal_secret :: "outside \<Rightarrow> apps_service \<Rightarrow> handler" where
  "handle_reveal_secret w hs cx r =
     (case cx_identity cx of
        None \<Rightarrow> ret no_identity
      | Some ident \<Rightarrow>
          attempt (get_app w (id_OrgID ident) (app_param r)) (map_write_err hs) (\<lambda>a.
            case decode_body w [''name''] r of
              None \<Rightarrow> ret (invalid ''name required'')
            | Some inp \<Rightarrow>
                if inp ''name'' = [] then ret (invalid ''name required'')
                else attempt (reveal w (hs_secrets hs) (app_param r) (inp ''name''))
                  (\<lambda>e. if e = SecretNotFound then write_problem 404 ''NOT_FOUND'' ''unknown secret'' else internal ''reveal failed'')
                  (\<lambda>plaintext. do {
                     u \<leftarrow> insert_audit_row w
                       \<lparr>ad_ActorType = ''user'', ad_ActorID = id_UserID ident, ad_Agent = [], ad_WorkspaceID = id_OrgID ident,
                        ad_Action = ''secret.reveal'', ad_SourceIP = [], ad_RequestID = [], ad_Result = ''revealed''\<rparr>;
                     ret (write_json 200 (JObj [(''value'', JStr plaintext)]))
                   })))"

section \<open>The routes\<close>

definition apps_routes :: "outside \<Rightarrow> apps_service \<Rightarrow> ((string \<times> string) \<times> handler) list" where
  "apps_routes w hs =
     (let authed = authenticated w (hs_tokenSecret hs);
          gated = require_cap w (hs_tokenSecret hs);
          reads = (\<lambda>h. gated CapAppRead (authed h));
          writes = (\<lambda>cap action h. authed (gated cap (idem w (audited w action h)))) in
      [((''GET'', ''/v1/apps''), reads (handle_list w hs)),
       ((''POST'', ''/v1/apps''), writes CapAppCreate ''app.create'' (handle_create w hs)),
       ((''GET'', ''/v1/apps/{appId}''), reads (handle_get w hs)),
       ((''PATCH'', ''/v1/apps/{appId}''), writes CapAppCreate ''app.update'' (handle_rename w hs)),
       ((''DELETE'', ''/v1/apps/{appId}''), writes CapAppDelete ''app.delete'' (handle_delete w hs)),
       ((''POST'', ''/v1/apps/{appId}/services''), writes CapAppCreate ''service.create'' (handle_add_service w hs)),
       ((''POST'', ''/v1/apps/{appId}/environments''), writes CapAppCreate ''environment.create'' (handle_add_environment w hs)),
       ((''PUT'', ''/v1/apps/{appId}/spec''), writes CapAppCreate ''app.spec.override'' (handle_put_spec w hs)),
       ((''POST'', ''/v1/apps/{appId}/databases''), writes CapDatabaseCreate ''database.create'' (handle_request_database w hs)),
       ((''GET'', ''/v1/apps/{appId}/domains''), reads (handle_list_domains w hs)),
       ((''POST'', ''/v1/apps/{appId}/domains''), writes CapDomainBind ''domain.bind'' (handle_add_domain w hs)),
       ((''POST'', ''/v1/apps/{appId}/domains/{domainId}/verify''), authed (gated CapDomainBind (handle_verify_domain w hs))),
       ((''GET'', ''/v1/apps/{appId}/plan''), reads (handle_get_plan w hs)),
       ((''POST'', ''/v1/apps/{appId}/analyze''), authed (gated CapAppCreate (handle_analyze w hs))),
       ((''POST'', ''/v1/apps/{appId}/deployments''), writes CapAppDeploy ''app.deploy'' (handle_deploy w hs)),
       ((''GET'', ''/v1/apps/{appId}/deployments''), reads (handle_list_deployments w hs)),
       ((''POST'', ''/v1/apps/{appId}/rollback''), writes CapAppDeploy ''app.rollback'' (handle_rollback w hs)),
       ((''GET'', ''/v1/apps/{appId}/logs''), reads (handle_list_logs w hs)),
       ((''GET'', ''/v1/apps/{appId}/diagnostics''), reads (handle_diagnostics w hs)),
       ((''PUT'', ''/v1/apps/{appId}/env''), writes CapSecretWrite ''secret.set'' (handle_put_env w hs)),
       ((''GET'', ''/v1/apps/{appId}/secrets''), reads (handle_list_secrets w hs)),
       ((''POST'', ''/v1/apps/{appId}/secrets/reveal''), authed (gated CapSecretReveal (handle_reveal_secret w hs)))])"

end
