(* ===== verification/App_Invariants.thy ===== *)
theory App_Invariants
  imports Schema Apps_Handlers
begin

text \<open>
  What every application route does to an invariant of the tables, proved once: the locale \<open>app_invariant\<close> states
  what the statements must do, each on a row of an application the acting organisation owns, and derives the same
  of every handler. The handlers look the application up first; that lookup is what gives a statement its guard.
\<close>

section \<open>From one predicate to another\<close>

definition leads :: "(tables \<Rightarrow> bool) \<Rightarrow> (tables \<Rightarrow> bool) \<Rightarrow> 'a op \<Rightarrow> bool" where
  "leads P I m = (\<forall>p. P (pf_tables p) \<longrightarrow> I (pf_tables (snd (run_state m p))))"

named_theorems leads_intro \<open>introduction rules for operations that lead from one predicate to another\<close>

lemma leads_keeps: "keeps I m \<Longrightarrow> (\<And>t. P t \<Longrightarrow> I t) \<Longrightarrow> leads P I m"
  by (auto simp: leads_def keeps_def)

lemma keeps_leads: "leads I I m \<Longrightarrow> keeps I m"
  by (auto simp: leads_def keeps_def)

lemma leads_ret [leads_intro]: "(\<And>t. P t \<Longrightarrow> I t) \<Longrightarrow> leads P I (ret x)"
  by (simp add: leads_def)

lemma leads_if [leads_intro]: "(c \<Longrightarrow> leads P I a) \<Longrightarrow> (\<not> c \<Longrightarrow> leads P I b) \<Longrightarrow> leads P I (if c then a else b)"
  by simp

lemma leads_sum [leads_intro]:
  "(\<And>e. r = Inl e \<Longrightarrow> leads P I (f e)) \<Longrightarrow> (\<And>x. r = Inr x \<Longrightarrow> leads P I (g x)) \<Longrightarrow> leads P I (case r of Inl e \<Rightarrow> f e | Inr x \<Rightarrow> g x)"
  by (cases r) auto

lemma leads_option [leads_intro]:
  "(r = None \<Longrightarrow> leads P I f) \<Longrightarrow> (\<And>x. r = Some x \<Longrightarrow> leads P I (g x)) \<Longrightarrow> leads P I (case r of None \<Rightarrow> f | Some x \<Rightarrow> g x)"
  by (cases r) auto

lemma leads_prod [leads_intro]: "(\<And>a b. r = (a, b) \<Longrightarrow> leads P I (f a b)) \<Longrightarrow> leads P I (case r of (a, b) \<Rightarrow> f a b)"
  by (cases r) auto

lemma leads_bind: "keeps P m \<Longrightarrow> (\<And>x. leads P I (f x)) \<Longrightarrow> leads P I (do { x \<leftarrow> m; f x })"
  by (auto simp: leads_def keeps_def split: prod.split)

lemma leads_attempt: "keeps P m \<Longrightarrow> (\<And>t. P t \<Longrightarrow> I t) \<Longrightarrow> (\<And>x. leads P I (f x)) \<Longrightarrow> leads P I (attempt m h f)"
  unfolding attempt_def by (intro leads_bind leads_sum leads_ret)

text \<open>After a query the result is known of the tables.\<close>

lemma leads_query:
  assumes "\<And>t. P t \<Longrightarrow> I t" and "\<And>n t x t'. P t \<Longrightarrow> st n t = Inr (x, t') \<Longrightarrow> R x t'" and "\<And>x t. R x t \<Longrightarrow> I t"
    and "\<And>x. leads (R x) I (f x)"
  shows "leads P I (attempt (exec w st) h f)"
proof -
  have "I (pf_tables (snd (run_state (attempt (exec w st) h f) p)))" if p: "P (pf_tables p)" for p
  proof -
    obtain r p1 where run: "run_state (exec w st) p = (r, p1)" by (cases "run_state (exec w st) p")
    have fail: "r = Inl e \<Longrightarrow> pf_tables p1 = pf_tables p \<or> (\<exists>x. st (pf_tick p) (pf_tables p) = Inr (x, pf_tables p1))" for e
      using run by (auto simp: exec_def Let_def split: option.splits db_fault.splits sum.splits)
    have good: "r = Inr x \<Longrightarrow> st (pf_tick p) (pf_tables p) = Inr (x, pf_tables p1)" for x
      using run by (auto simp: exec_def Let_def split: option.splits db_fault.splits sum.splits)
    show ?thesis
    proof (cases r)
      case (Inl e)
      with fail consider "pf_tables p1 = pf_tables p" | x where "st (pf_tick p) (pf_tables p) = Inr (x, pf_tables p1)" by blast
      then have "I (pf_tables p1)"
      proof cases
        case 2
        then show ?thesis using assms(2,3) p by blast
      qed (use assms(1) p in simp)
      then show ?thesis using run Inl by (simp add: run_attempt)
    next
      case (Inr x)
      then have "R x (pf_tables p1)" using assms(2) p good by blast
      then have "I (pf_tables (snd (run_state (f x) p1)))" using assms(4) [of x] by (simp add: leads_def)
      then show ?thesis using run Inr by (simp add: run_attempt)
    qed
  qed
  then show ?thesis by (simp add: leads_def)
qed


lemma leads_write:
  assumes "\<And>t. P t \<Longrightarrow> I t" and "\<And>n t x t'. P t \<Longrightarrow> st n t = Inr (x, t') \<Longrightarrow> I t'" and "\<And>x. leads I I (f x)"
  shows "leads P I (attempt (exec w st) h f)"
  using assms by (intro leads_query [where R = "\<lambda>x. I"])

lemma leads_exec:
  assumes I: "\<And>t. P t \<Longrightarrow> I t" and st: "\<And>n t x t'. P t \<Longrightarrow> st n t = Inr (x, t') \<Longrightarrow> I t'"
  shows "leads P I (exec w st)"
proof -
  have "I (pf_tables (snd (run_state (exec w st) p)))" if "P (pf_tables p)" for p
    using I [OF that] st [OF that] by (auto simp: exec_def Let_def split: option.splits db_fault.splits sum.splits)
  then show ?thesis by (simp add: leads_def)
qed

lemma leads_do: "leads P I m \<Longrightarrow> (\<And>x. leads I I (f x)) \<Longrightarrow> leads P I (do { x \<leftarrow> m; f x })"
  by (auto simp: leads_def split: prod.splits)

lemma leads_query_do:
  assumes I: "\<And>t. P t \<Longrightarrow> I t" and st: "\<And>n t x t'. P t \<Longrightarrow> st n t = Inr (x, t') \<Longrightarrow> R x t \<and> t' = t"
    and "\<And>e. leads P I (f (Inl e))" "\<And>x. leads (R x) I (f (Inr x))"
  shows "leads P I (do { r \<leftarrow> exec w st; f r })"
proof -
  have "I (pf_tables (snd (run_state (do { r \<leftarrow> exec w st; f r }) p)))" if p: "P (pf_tables p)" for p
  proof -
    obtain r p1 where run: "run_state (exec w st) p = (r, p1)" by (cases "run_state (exec w st) p")
    have same: "pf_tables p1 = pf_tables p" by (rule exec_idle(1) [OF _ run]) (use st p in blast)
    show ?thesis
    proof (cases r)
      case (Inl e)
      then show ?thesis using run assms(3) [of e] p same by (simp add: leads_def)
    next
      case (Inr x)
      then obtain t' where "st (pf_tick p) (pf_tables p) = Inr (x, t')" using exec_idle(2) [OF _ run] st p by blast
      then have "R x (pf_tables p1)" using st [OF p] same by auto
      then show ?thesis using run Inr assms(4) [of x] by (simp add: leads_def)
    qed
  qed
  then show ?thesis by (simp add: leads_def)
qed

lemma leads_transact:
  assumes "\<And>t. P t \<Longrightarrow> I t" and work: "\<And>now. leads P I (work now)"
  shows "leads P I (transact w wrap work)"
proof -
  have "I (pf_tables (snd (run_state (transact w wrap work) p)))" if p: "P (pf_tables p)" for p
  proof -
    obtain r p1 where run: "run_state (work (db_now w (pf_tick p))) (p\<lparr>pf_tick := Suc (pf_tick p)\<rparr>) = (r, p1)"
      by (cases "run_state (work (db_now w (pf_tick p))) (p\<lparr>pf_tick := Suc (pf_tick p)\<rparr>)")
    have "I (pf_tables (snd (run_state (work (db_now w (pf_tick p))) (p\<lparr>pf_tick := Suc (pf_tick p)\<rparr>))))"
      using work p by (simp add: leads_def)
    then show ?thesis
      using assms(1) [OF p] run by (auto simp: transact_def Let_def split: sum.split option.split db_fault.split)
  qed
  then show ?thesis by (simp add: leads_def)
qed

lemma uuid_arg_Inr: "uuid_arg w s st n t = Inr y \<longleftrightarrow> (\<exists>u. db_cast w s = Some u \<and> st u n t = Inr y)"
  by (simp add: uuid_arg_def split: option.split)

lemma reading_Inr: "reading q n t = Inr (x, t') \<longleftrightarrow> q t = Inr x \<and> t' = t"
  by (auto simp: reading_def split: sum.split)

lemma leads_then: "leads P I m \<Longrightarrow> (\<And>x. leads I I (f x)) \<Longrightarrow> leads P I (attempt m h f)"
  by (auto simp: leads_def run_attempt split: prod.splits sum.splits)

lemma attempt_assoc:
  "attempt (attempt m (\<lambda>e. Inl (h e)) g) h' k = attempt m (\<lambda>e. h' (h e)) (\<lambda>x. attempt (g x) h' k)"
  by (rule state.expand) (auto simp: run_attempt split: prod.split sum.split)

lemma attempt_ret: "attempt (ret (Inr x)) h f = f x" "attempt (ret (Inl e)) h f = ret (h e)"
  by (simp_all add: attempt_def)

lemma keeps_bool [keeps_intro]: "(b \<Longrightarrow> keeps I f) \<Longrightarrow> (\<not> b \<Longrightarrow> keeps I g) \<Longrightarrow> keeps I (case b of True \<Rightarrow> f | False \<Rightarrow> g)"
  by (cases b) auto

text \<open>The lookup of an application yields an application of the acting organisation.\<close>

lemma select_app_owned: "select_app w appID orgID n t = Inr (a, t') \<Longrightarrow>
    t' = t \<and> (\<exists>u g. db_cast w appID = Some u \<and> db_cast w orgID = Some g \<and> owned t u g)"
  by (auto simp: select_app_def uuid_arg_Inr reading_Inr owned_def list_ex_iff the_app_def live_app_def dest!: one_row_Inr)

lemma leads_get_app:
  assumes I: "\<And>t. P t \<Longrightarrow> I t" and acting: "\<And>g. db_cast w orgID = Some g \<Longrightarrow> g = me"
    and f: "\<And>a u. db_cast w appID = Some u \<Longrightarrow> leads (\<lambda>t. P t \<and> owned t u me) I (f a)"
  shows "leads P I (attempt (get_app w orgID appID) h f)"
proof (cases "go_uuid_ok w appID")
  case False
  then show ?thesis using I by (simp add: get_app_def leads_def run_attempt)
next
  case True
  have "leads P I (attempt (exec w (select_app w appID orgID)) (\<lambda>e. h (found e)) (\<lambda>a. f (app_of w a)))"
  proof (rule leads_query [where R = "\<lambda>a t. P t \<and> (\<exists>u. db_cast w appID = Some u \<and> owned t u me)"])
    show "P t' \<and> (\<exists>u. db_cast w appID = Some u \<and> owned t' u me)" if "P t" "select_app w appID orgID n t = Inr (a, t')" for n t a t'
      using select_app_owned [OF that(2)] that(1) acting by blast
    show "leads (\<lambda>t. P t \<and> (\<exists>u. db_cast w appID = Some u \<and> owned t u me)) I (f (app_of w a))" for a
      using f by (cases "db_cast w appID") (auto simp: leads_def)
  qed (auto intro: I)
  then show ?thesis using True by (simp add: get_app_def leads_def run_attempt split: prod.splits sum.splits) blast
qed


section \<open>The contract of the statements\<close>

definition deployment_of :: "tables \<Rightarrow> string \<Rightarrow> string \<Rightarrow> bool" where
  "deployment_of t u d = list_ex (\<lambda>r. dp_id r = d \<and> dp_app r = u) (tb_deployments t)"

definition domain_of :: "tables \<Rightarrow> string \<Rightarrow> string \<Rightarrow> bool" where
  "domain_of t u i = list_ex (\<lambda>r. dm_id r = i \<and> dm_app r = u) (tb_domains t)"

definition database_of :: "tables \<Rightarrow> string \<Rightarrow> string \<Rightarrow> bool" where
  "database_of t u i = list_ex (\<lambda>r. da_id r = i \<and> da_app r = u) (tb_databases t)"

definition secret_of :: "tables \<Rightarrow> string \<Rightarrow> string \<Rightarrow> bool" where
  "secret_of t u s = list_ex (\<lambda>r. se_id r = s \<and> se_app r = u) (tb_secrets t)"

definition tier_of :: "string \<Rightarrow> tables \<Rightarrow> string \<Rightarrow> bool" where
  "tier_of g t tier = (\<exists>r \<in> set (tb_orgs t). og_id r = g \<and> og_tier r = tier)"

lemma tier_stmt_Inr: "uuid_arg w orgID tier_stmt n t = Inr (tier, t') \<Longrightarrow> t' = t \<and> (\<exists>g. db_cast w orgID = Some g \<and> tier_of g t tier)"
proof -
  assume q: "uuid_arg w orgID tier_stmt n t = Inr (tier, t')"
  then obtain g where g: "db_cast w orgID = Some g" "tier_stmt g n t = Inr (tier, t')" by (auto simp: uuid_arg_Inr)
  then obtain r where "t' = t" "one_row (\<lambda>r. og_id r = g) (tb_orgs t) = Inr r" "tier = og_tier r"
    by (auto simp: tier_stmt_def reading_Inr split: sum.splits)
  then show ?thesis using g(1) by (auto simp: tier_of_def dest!: one_row_Inr)
qed

locale app_invariant =
  fixes w :: outside and me :: string and I :: "tables \<Rightarrow> bool"
  assumes schema: "I t \<Longrightarrow> schema_ok w t"
    and app_inserted: "\<lbrakk>I t; tier_of me t tier; insert_app w c name slug me (max_apps tier) n t = Inr (x1, t')\<rbrakk> \<Longrightarrow> I t'"
    and app_deleted: "\<lbrakk>I t; db_cast w orgID = Some me; update_app w appID orgID (\<lambda>now a. a\<lparr>ap_deleted := Some now\<rparr>) n t = Inr (x2, t')\<rbrakk> \<Longrightarrow> I t'"
    and spec_stored: "\<lbrakk>I t; db_cast w orgID = Some me; update_app w appID orgID (\<lambda>now a. a\<lparr>ap_spec := Some doc\<rparr>) n t = Inr (x2, t')\<rbrakk> \<Longrightarrow> I t'"
    and app_renamed: "\<lbrakk>I t; rename_stmt w name slug u me n t = Inr (x1, t')\<rbrakk> \<Longrightarrow> I t'"
    and service_inserted: "\<lbrakk>I t; owned t u me; insert_service w name ty rt port u n t = Inr (x3, t')\<rbrakk> \<Longrightarrow> I t'"
    and env_inserted: "\<lbrakk>I t; owned t u me; insert_env w name ns u n t = Inr (x4, t')\<rbrakk> \<Longrightarrow> I t'"
    and deployment_inserted: "\<lbrakk>I t; owned t u me; insert_deployment w snapshot u e n t = Inr (x5, t')\<rbrakk> \<Longrightarrow> I t'"
    and deployment_planned: "\<lbrakk>I t; owned t u me; deployment_of t u d; set_deployment_state w d ''PLANNED'' n t = Inr (x6, t')\<rbrakk> \<Longrightarrow> I t'"
    and revision_inserted: "\<lbrakk>I t; owned t u me; deployment_of t u d; insert_revision w inp nxt d n t = Inr (x7, t')\<rbrakk> \<Longrightarrow> I t'"
    and domain_inserted: "\<lbrakk>I t; owned t u me; insert_domain_stmt w dr u n t = Inr (x8, t')\<rbrakk> \<Longrightarrow> I t'"
    and domain_verified: "\<lbrakk>I t; owned t u me; domain_of t u i; verify_domain_stmt i n t = Inr (x6, t')\<rbrakk> \<Longrightarrow> I t'"
    and database_inserted: "\<lbrakk>I t; owned t u me; insert_database w kind isolation u n t = Inr (x9, t')\<rbrakk> \<Longrightarrow> I t'"
    and binding_inserted: "\<lbrakk>I t; owned t u me; database_of t u i; insert_binding w i u n t = Inr (x6, t')\<rbrakk> \<Longrightarrow> I t'"
    and isolation_set: "\<lbrakk>I t; owned t u me; database_of t u i; isolation \<in> {''shared'', ''dedicated''};
      set_isolation w i isolation n t = Inr (x6, t')\<rbrakk> \<Longrightarrow> I t'"
    and secret_upserted: "\<lbrakk>I t; owned t u me; upsert_secret w name sealed u n t = Inr (x10, t')\<rbrakk> \<Longrightarrow> I t'"
    and secret_revised: "\<lbrakk>I t; owned t u me; secret_of t u s; insert_secret_revision version sealed s n t = Inr (x6, t')\<rbrakk> \<Longrightarrow> I t'"
    and side_tables: "stmt_keeps I (purge_stmt w key g)" "stmt_keeps I (claim_stmt w key g hash)"
      "stmt_keeps I (complete_stmt key g status content)" "stmt_keeps I (audit_stmt w entry)"
    and gate_tables: "gate_stable w I"
begin

abbreviation acts :: "string \<Rightarrow> bool" where
  "acts orgID \<equiv> (\<forall>g. db_cast w orgID = Some g \<longrightarrow> g = me)"

lemma reads: "keeps P (classify_create_rejection w orgID name)" "keeps P (get_app w orgID appID)" "keeps P (list_apps w orgID)"
    "keeps P (org_tier w orgID)" "keeps P (get_app_with_spec w orgID appID)" "keeps P (get_domain w appID domainID)"
    "keeps P (list_domains w appID)" "keeps P (rollback_target w orgID appID d)" "keeps P (list_revisions w orgID appID)"
    "keeps P (binding_for w i)" "keeps P (list_secrets w appID)" "keeps P (reveal w ss appID name)"
    "keeps P (new_challenge_token w)" "keeps P (lookup_txt w host)" "keeps P (kms_seal w ss text)"
  unfolding classify_create_rejection_def get_app_def list_apps_def org_tier_def get_app_with_spec_def get_domain_def
    list_domains_def rollback_target_def list_revisions_def binding_for_def list_secrets_def reveal_def select_app_def
    new_challenge_token_def lookup_txt_def kms_seal_def tier_stmt_def
  by (intro keeps_intro)+

lemma create: "acts orgID \<Longrightarrow> leads I I (create_app w orgID name createdBy)"
  unfolding create_app_def
  apply (intro leads_if leads_ret, assumption)
  apply (rule leads_query [where R = "\<lambda>tier t. I t \<and> tier_of me t tier"])
     apply assumption
  subgoal by (drule tier_stmt_Inr) blast
   apply simp
  apply (intro leads_do leads_exec)
    apply simp
  subgoal by (clarsimp simp: uuid_arg_Inr) (blast intro: app_inserted)
  apply (intro leads_sum leads_if leads_do leads_ret leads_keeps reads; assumption)
  done

lemma guarded_write:
  assumes "db_cast w appID = Some u" and "\<And>n t x t'. I t \<Longrightarrow> owned t u me \<Longrightarrow> st u n t = Inr (x, t') \<Longrightarrow> I t'"
    and "\<And>x. leads I I (f x)"
  shows "leads (\<lambda>t. I t \<and> owned t u me) I (attempt (exec w (uuid_arg w appID st)) h f)"
  using assms by (intro leads_write) (auto simp: uuid_arg_Inr)

lemma rename: "acts orgID \<Longrightarrow> leads I I (rename_app w orgID appID name)"
  unfolding rename_app_def
  by (intro leads_if leads_ret leads_write) (auto simp: uuid_arg_Inr intro: app_renamed)

lemma update_acts: "acts orgID \<Longrightarrow> update_app w appID orgID f n t = Inr (x, t') \<Longrightarrow> db_cast w orgID = Some me"
  by (auto simp: update_app_def uuid_arg_Inr)

lemma soft_delete: "acts orgID \<Longrightarrow> leads I I (soft_delete_app w orgID appID)"
  unfolding soft_delete_app_def exec_or_missing_def
  by (intro leads_if leads_ret leads_write) (auto intro: app_deleted dest: update_acts)

lemma store_spec_keeps: "acts orgID \<Longrightarrow> I t \<Longrightarrow> store_spec w appID orgID raw n t = Inr (x, t') \<Longrightarrow> I t'"
  by (auto simp: store_spec_def intro: spec_stored dest: update_acts split: option.splits)

lemma spec_updates: "acts orgID \<Longrightarrow> leads I I (update_spec w orgID appID raw)" "acts orgID \<Longrightarrow> leads I I (save_app_spec w orgID appID raw)"
  unfolding update_spec_def save_app_spec_def exec_or_missing_def
  by (intro leads_if leads_ret leads_write; auto intro: store_spec_keeps)+

lemma add_service_keeps: "acts orgID \<Longrightarrow> leads I I (add_service w orgID appID name ty rt port)"
  unfolding add_service_def
  by (intro leads_get_app [where me = me] guarded_write leads_ret) (auto intro: service_inserted)

lemma add_environment_keeps: "acts orgID \<Longrightarrow> leads I I (add_environment w orgID appID envName)"
  unfolding add_environment_def
  by (intro leads_if leads_get_app [where me = me] guarded_write leads_ret) (auto intro: env_inserted)

lemma upsert_env_keeps: "I t \<Longrightarrow> owned t u me \<Longrightarrow> upsert_env w name ns u n t = Inr (x, t') \<Longrightarrow> I t'"
  by (auto simp: upsert_env_def intro: env_inserted split: sum.splits)

lemma upsert_env_owned: "owned t u me \<Longrightarrow> upsert_env w name ns u n t = Inr (x, t') \<Longrightarrow> owned t' u me"
  by (auto simp: upsert_env_def insert_env_def owned_def Let_def split: sum.splits if_splits)

lemma save_awaiting_plan_keeps: "acts orgID \<Longrightarrow> leads I I (save_awaiting_plan w orgID appID envName snapshot)"
  unfolding save_awaiting_plan_def ensure_environment_def
proof (subst attempt_assoc, rule leads_get_app [where me = me])
  fix a u assume u: "db_cast w appID = Some u"
  let ?G = "\<lambda>t. I t \<and> owned t u me"
  show "leads ?G I
     (attempt (if \<not> env_name_ok envName then ret (Inl (ErrConflict ''invalid environment name''))
        else attempt (exec w (uuid_arg w appID (upsert_env w envName (namespace_for appID envName)))) (\<lambda>e. Inl (StoreFailed e)) (\<lambda>r. ret (Inr (en_id r))))
       Inl (\<lambda>envID. attempt (exec w (uuid_arg w appID (\<lambda>u. uuid_arg w envID (insert_deployment w snapshot u)))) (\<lambda>e. Inl (StoreFailed e))
         (\<lambda>d. ret (Inr (dp_id d, coalesce (dp_plan d))))))"
  proof (cases "env_name_ok envName")
    case True
    have "leads ?G I (attempt (exec w (uuid_arg w appID (upsert_env w envName (namespace_for appID envName)))) (\<lambda>e. Inl (StoreFailed e))
      (\<lambda>r. attempt (exec w (uuid_arg w appID (\<lambda>u. uuid_arg w (en_id r) (insert_deployment w snapshot u)))) (\<lambda>e. Inl (StoreFailed e))
         (\<lambda>d. ret (Inr (dp_id d, coalesce (dp_plan d))))))"
    proof (rule leads_query [where R = "\<lambda>r. ?G"])
      show "?G t'" if "?G t" "uuid_arg w appID (upsert_env w envName (namespace_for appID envName)) n t = Inr (x, t')" for n t x t'
        using that u upsert_env_keeps upsert_env_owned by (auto simp: uuid_arg_Inr)
      show "leads ?G I (attempt (exec w (uuid_arg w appID (\<lambda>u. uuid_arg w (en_id r) (insert_deployment w snapshot u)))) (\<lambda>e. Inl (StoreFailed e))
         (\<lambda>d. ret (Inr (dp_id d, coalesce (dp_plan d)))))" for r
        using u by (intro guarded_write leads_ret) (auto simp: uuid_arg_Inr intro: deployment_inserted)
    qed auto
    then show ?thesis using True by (simp add: attempt_assoc attempt_ret)
  qed (auto simp: attempt_ret intro!: leads_ret)
qed auto

lemma canonical:
  assumes "I t"
  shows "deployment_of t u d \<Longrightarrow> db_cast w d = Some d" "domain_of t u d \<Longrightarrow> db_cast w d = Some d"
    "database_of t u d \<Longrightarrow> db_cast w d = Some d" "secret_of t u d \<Longrightarrow> db_cast w d = Some d"
  using schema [OF assms]
  by (auto simp: schema_ok_def columns_def reads_back_def deployment_of_def domain_of_def database_of_def secret_of_def list_ex_iff list_all_iff)

lemma approve_plan_keeps: "acts orgID \<Longrightarrow> leads I I (approve_plan w orgID appID planID)"
  unfolding approve_plan_def
proof (intro leads_if leads_ret)
  assume acts: "acts orgID"
  let ?R = "\<lambda>d t. I t \<and> owned t (dp_app d) me \<and> deployment_of t (dp_app d) (dp_id d)"
  show "leads I I (attempt (exec w (select_plan w planID orgID appID)) (\<lambda>e. Inl (found e)) (\<lambda>d.
        case js_instant w ''expires_at'' (coalesce (dp_snapshot d)) of
          None \<Rightarrow> ret (Inl (ErrConflict ''corrupt snapshot''))
        | Some expires \<Rightarrow> do {
            now \<leftarrow> time_now w;
            (if expires < now then ret (Inl ErrPlanExpired)
             else if dp_state d \<noteq> ''AWAITING_APPROVAL'' then ret (Inl (ErrConflict (''plan already '' @ dp_state d)))
             else attempt (exec w (set_deployment_state w (dp_id d) ''PLANNED''))
               (\<lambda>e. Inl (StoreFailed e)) (\<lambda>u. ret (Inr (dp_id d))))
          }))"
  proof (rule leads_query [where R = ?R])
    show "?R d t'" if "I t" "select_plan w planID orgID appID n t = Inr (d, t')" for n t d t'
      using that acts by (auto simp: select_plan_def uuid_arg_Inr reading_Inr deployment_of_def list_ex_iff dest!: one_row_Inr)
    show "leads (?R d) I (case js_instant w ''expires_at'' (coalesce (dp_snapshot d)) of
          None \<Rightarrow> ret (Inl (ErrConflict ''corrupt snapshot''))
        | Some expires \<Rightarrow> do {
            now \<leftarrow> time_now w;
            (if expires < now then ret (Inl ErrPlanExpired)
             else if dp_state d \<noteq> ''AWAITING_APPROVAL'' then ret (Inl (ErrConflict (''plan already '' @ dp_state d)))
             else attempt (exec w (set_deployment_state w (dp_id d) ''PLANNED''))
               (\<lambda>e. Inl (StoreFailed e)) (\<lambda>u. ret (Inr (dp_id d))))
          })" for d
      by (intro leads_option leads_bind leads_if leads_ret leads_write keeps_time_now) (auto intro: deployment_planned)
  qed auto
qed auto

lemma save_revision_keeps:
  assumes "acts orgID"
  shows "leads (\<lambda>t. I t \<and> (\<exists>u. owned t u me \<and> deployment_of t u dep)) I (save_revision w orgID appID dep inp)"
  unfolding save_revision_def
proof (rule leads_get_app [where me = me])
  fix a u
  let ?P = "\<lambda>t. (I t \<and> (\<exists>u. owned t u me \<and> deployment_of t u dep)) \<and> owned t u me"
  show "leads ?P I (if \<not> digest_ok (ri_ImageDigest inp) then ret (Inl (ErrInvalidDigest (ri_ImageDigest inp)))
       else if \<not> go_uuid_ok w dep then ret (Inl ErrNotFound)
       else attempt (exec w (uuid_arg w dep (\<lambda>d. reading (\<lambda>t. Inr (next_revision d t))))) (\<lambda>e. Inl (StoreFailed e)) (\<lambda>nxt.
         attempt (exec w (uuid_arg w dep (insert_revision w inp nxt))) (\<lambda>e. Inl (StoreFailed e))
           (\<lambda>r. ret (Inr (scan_revision w r)))))"
  proof (intro leads_if leads_ret)
    have step: "leads ?P I (attempt (exec w (uuid_arg w dep (insert_revision w inp nxt))) (\<lambda>e. Inl (StoreFailed e))
           (\<lambda>r. ret (Inr (scan_revision w r))))" for nxt
    proof (rule leads_write)
      fix n t x t'
      assume P: "?P t" and run: "uuid_arg w dep (insert_revision w inp nxt) n t = Inr (x, t')"
      then obtain v where v: "I t" "owned t v me" "deployment_of t v dep" by blast
      then have "insert_revision w inp nxt dep n t = Inr (x, t')" using run canonical(1) by (auto simp: uuid_arg_Inr)
      with v show "I t'" by (rule revision_inserted)
    qed (auto intro: leads_ret)
    show "leads ?P I (attempt (exec w (uuid_arg w dep (\<lambda>d. reading (\<lambda>t. Inr (next_revision d t))))) (\<lambda>e. Inl (StoreFailed e)) (\<lambda>nxt.
         attempt (exec w (uuid_arg w dep (insert_revision w inp nxt))) (\<lambda>e. Inl (StoreFailed e))
           (\<lambda>r. ret (Inr (scan_revision w r)))))"
      by (rule leads_query [where R = "\<lambda>x. ?P", OF _ _ _ step]) (auto simp: uuid_arg_Inr reading_Inr)
  qed auto
qed (use assms in auto)

lemma rollback_keeps: "acts orgID \<Longrightarrow> leads I I (rollback_latest w orgID appID)"
  unfolding rollback_latest_def
proof (intro leads_if leads_ret)
  assume acts: "acts orgID"
  let ?R = "\<lambda>d t. I t \<and> (\<exists>u. owned t u me \<and> deployment_of t u (dp_id d))"
  show "leads I I (attempt (exec w (latest_deployment w orgID appID))
        (\<lambda>e. Inl (if e = NoRows then ErrNotEnoughRevisions ''no deployment yet'' else StoreFailed e)) (\<lambda>d.
        attempt (rollback_target w orgID appID (dp_id d)) Inl (\<lambda>target.
          attempt (save_revision w orgID appID (dp_id d) (RevisionInput.truncate target)) Inl
            (\<lambda>newRev. ret (Inr (newRev, target))))))"
  proof (rule leads_query [where R = ?R])
    show "?R d t'" if "I t" "latest_deployment w orgID appID n t = Inr (d, t')" for n t d t'
      using that acts
      by (auto simp: latest_deployment_def uuid_arg_Inr reading_Inr deployment_of_def owned_def live_owned_def the_app_def live_app_def
          deployments_desc_def list_ex_iff dest!: one_row_Inr) blast
    show "leads (?R d) I (attempt (rollback_target w orgID appID (dp_id d)) Inl (\<lambda>target.
          attempt (save_revision w orgID appID (dp_id d) (RevisionInput.truncate target)) Inl
            (\<lambda>newRev. ret (Inr (newRev, target)))))" for d
      using acts by (intro leads_attempt leads_then reads save_revision_keeps leads_ret) auto
  qed auto
qed auto

lemma insert_domain_keeps:
  "db_cast w (do_AppID d) = Some u \<Longrightarrow> leads (\<lambda>t. I t \<and> owned t u me) I (insert_domain w d)"
  unfolding insert_domain_def by (intro guarded_write leads_ret) (auto intro: domain_inserted)

lemma domain_allocation:
  assumes "db_cast w appID = Some u"
  shows "leads (\<lambda>t. I t \<and> owned t u me) I (allocate_default_domain w appID slug base)"
    "leads (\<lambda>t. I t \<and> owned t u me) I (add_custom_domain w appID hostname)"
  unfolding allocate_default_domain_def add_custom_domain_def
  by (intro leads_attempt insert_domain_keeps reads; use assms in \<open>auto simp: staged_domain_def\<close>)+

lemma attempt_get_domain:
  "attempt (get_domain w appID domainID) Inl f =
     attempt (exec w (uuid_arg w domainID (\<lambda>i. uuid_arg w appID (\<lambda>u. reading (\<lambda>t.
         one_row (\<lambda>d. dm_id d = i \<and> dm_app d = u) (tb_domains t))))))
       (\<lambda>e. Inl (found e)) (\<lambda>d. f (domain_of_row d))"
  by (simp add: get_domain_def attempt_assoc attempt_ret)

lemma verify_domain_keeps:
  assumes "db_cast w appID = Some u"
  shows "leads (\<lambda>t. I t \<and> owned t u me) I (verify_custom_domain w appID domainID)"
  unfolding verify_custom_domain_def attempt_get_domain
proof (rule leads_query [where R = "\<lambda>d t. (I t \<and> owned t u me) \<and> domain_of t u (dm_id d)"])
  let ?R = "\<lambda>d t. (I t \<and> owned t u me) \<and> domain_of t u (dm_id d)"
  show "?R d t'" if "I t \<and> owned t u me" "uuid_arg w domainID (\<lambda>i. uuid_arg w appID (\<lambda>u. reading (\<lambda>t.
         one_row (\<lambda>d. dm_id d = i \<and> dm_app d = u) (tb_domains t)))) n t = Inr (d, t')" for n t d t'
    using that assms by (auto simp: uuid_arg_Inr reading_Inr domain_of_def list_ex_iff dest!: one_row_Inr)
  have mark: "leads (?R d) I (mark_domain_verified w (do_ID (domain_of_row d)))" for d
    unfolding mark_domain_verified_def
  proof (intro leads_write leads_ret)
    fix n t x t'
    assume R: "?R d t" and run: "uuid_arg w (do_ID (domain_of_row d)) verify_domain_stmt n t = Inr (x, t')"
    then have "verify_domain_stmt (dm_id d) n t = Inr (x, t')" using canonical(2) by (auto simp: uuid_arg_Inr domain_of_row_def)
    then show "I t'" using R domain_verified by blast
  qed auto
  show "leads (?R d) I (if do_Verified (domain_of_row d) then ret (Inr (domain_of_row d))
       else if do_TXTChallenge (domain_of_row d) = [] then ret (Inl (ErrConflict ''domain has no active challenge''))
       else do {
         records \<leftarrow> lookup_txt w (challengePrefix @ do_Hostname (domain_of_row d));
         (case records of
            None \<Rightarrow> ret (Inr (domain_of_row d))
          | Some recs \<Rightarrow>
              if do_TXTChallenge (domain_of_row d) \<in> set recs
              then attempt (mark_domain_verified w (do_ID (domain_of_row d))) Inl (\<lambda>u. get_domain w appID (do_ID (domain_of_row d)))
              else ret (Inr (domain_of_row d)))
       })" for d
    by (intro leads_if leads_ret leads_bind leads_option leads_then mark leads_keeps reads) auto
qed auto

lemma normalized_isolation: "(if i \<noteq> ''shared'' \<and> i \<noteq> ''dedicated'' then ''shared'' else i) \<in> {''shared'', ''dedicated''}"
  by auto

lemma database_first_request:
  assumes u: "db_cast w appID = Some u"
  shows "leads (\<lambda>t. I t \<and> owned t u me) I
    (attempt (exec w (uuid_arg w appID (insert_database w kind isolation))) h (\<lambda>d.
       attempt (exec w (uuid_arg w (da_id d) (\<lambda>i. uuid_arg w appID (insert_binding w i)))) h' (\<lambda>x. ret (f d))))"
proof (rule leads_query [where R = "\<lambda>d t. (I t \<and> owned t u me) \<and> database_of t u (da_id d)"])
  let ?R = "\<lambda>d t. (I t \<and> owned t u me) \<and> database_of t u (da_id d)"
  show "?R d t'" if "I t \<and> owned t u me" "uuid_arg w appID (insert_database w kind isolation) n t = Inr (d, t')" for n t d t'
  proof -
    have ins: "insert_database w kind isolation u n t = Inr (d, t')" using that u by (simp add: uuid_arg_Inr)
    then have "I t'" using that database_inserted by blast
    moreover have "owned t' u me" "database_of t' u (da_id d)"
      using ins that(1) by (auto simp: insert_database_def owned_def database_of_def Let_def split: if_splits)
    ultimately show ?thesis by blast
  qed
  show "leads (?R d) I (attempt (exec w (uuid_arg w (da_id d) (\<lambda>i. uuid_arg w appID (insert_binding w i)))) h' (\<lambda>x. ret (f d)))" for d
  proof (rule leads_write)
    fix n t x t'
    assume R: "?R d t" and run: "uuid_arg w (da_id d) (\<lambda>i. uuid_arg w appID (insert_binding w i)) n t = Inr (x, t')"
    then have "insert_binding w (da_id d) u n t = Inr (x, t')" using canonical(3) u by (auto simp: uuid_arg_Inr)
    then show "I t'" using R binding_inserted by blast
  qed (auto intro: leads_ret)
qed auto

lemma request_database_keeps:
  assumes "acts orgID"
  shows "leads I I (request_database w orgID appID kind isolation0)"
  unfolding request_database_def
proof (rule leads_get_app [where me = me], goal_cases)
  case (3 a u)
  define isolation where "isolation = (if isolation0 \<noteq> ''shared'' \<and> isolation0 \<noteq> ''dedicated'' then ''shared'' else isolation0)"
  have valid: "isolation \<in> {''shared'', ''dedicated''}" by (simp add: isolation_def)
  let ?G = "\<lambda>t. I t \<and> owned t u me"
  show ?case
    unfolding isolation_def [symmetric] Let_def
  proof (intro leads_sum leads_ret)
    fix normalized
    show "leads ?G I (do {
        r \<leftarrow> exec w (select_database w appID normalized);
        (case r of
           Inl e \<Rightarrow>
             if e \<noteq> NoRows then ret (Inl (StoreFailed e))
             else attempt (exec w (uuid_arg w appID (insert_database w normalized isolation))) (\<lambda>e. Inl (StoreFailed e)) (\<lambda>d.
               attempt (exec w (uuid_arg w (da_id d) (\<lambda>i. uuid_arg w appID (insert_binding w i)))) (\<lambda>e. Inl (StoreFailed e)) (\<lambda>u.
                 ret (Inr (\<lparr>db_ID = da_id d, db_AppID = da_app d, db_Type = da_type d, db_Isolation = da_isolation d,
                            db_State = da_state d\<rparr>, \<lparr>bd_ID = [], bd_CredentialRef = [], bd_State = ''pending''\<rparr>))))
         | Inr d \<Rightarrow>
             attempt (exec w (set_isolation w (da_id d) isolation)) (\<lambda>e. Inl (StoreFailed e)) (\<lambda>u.
               attempt (binding_for w (da_id d)) Inl (\<lambda>b.
                 ret (Inr (\<lparr>db_ID = da_id d, db_AppID = [], db_Type = [], db_Isolation = isolation, db_State = da_state d\<rparr>, b)))))
      })"
    proof (rule leads_query_do [where R = "\<lambda>d t. (I t \<and> owned t u me) \<and> database_of t u (da_id d)"], goal_cases)
      case (2 n t x t')
      then show ?case using 3
        by (auto simp: select_database_def uuid_arg_Inr reading_Inr database_of_def list_ex_iff dest!: one_row_Inr)
    next
      case (3 e)
      show ?case unfolding sum.case
        by (intro leads_if leads_ret database_first_request \<open>db_cast w appID = Some u\<close>) auto
    next
      case (4 d)
      show ?case unfolding sum.case
      proof (rule leads_write)
        show "I t'" if "(I t \<and> owned t u me) \<and> database_of t u (da_id d)" "set_isolation w (da_id d) isolation n t = Inr (x, t')" for n t x t'
          using that isolation_set [OF _ _ _ valid] by blast
        show "leads I I (attempt (binding_for w (da_id d)) Inl (\<lambda>b.
            ret (Inr (\<lparr>db_ID = da_id d, db_AppID = [], db_Type = [], db_Isolation = isolation, db_State = da_state d\<rparr>, b))))"
          by (intro leads_attempt reads leads_ret)
      qed simp
    qed auto
  qed auto
qed (use assms in auto)

lemma set_secret_keeps:
  assumes u: "db_cast w appID = Some u"
  shows "leads (\<lambda>t. I t \<and> owned t u me) I (set_secret w ss appID name plaintext)"
  unfolding set_secret_def
proof (rule leads_attempt, goal_cases)
  case 1
  show ?case by (simp add: kms_seal_def) (intro keeps_intro)
next
  case (3 sealed)
  let ?R = "\<lambda>x t. (I t \<and> owned t u me) \<and> secret_of t u (fst x)"
  have "leads (?R x) I (attempt (exec w (uuid_arg w (fst x) (insert_secret_revision (snd x) sealed))) (\<lambda>e. Inl (SecretStorage e)) (\<lambda>u. ret (Inr ())))" for x
  proof (intro leads_write leads_ret)
    fix n t y t'
    assume R: "?R x t" and run: "uuid_arg w (fst x) (insert_secret_revision (snd x) sealed) n t = Inr (y, t')"
    then have "insert_secret_revision (snd x) sealed (fst x) n t = Inr (y, t')" using canonical(4) by (auto simp: uuid_arg_Inr)
    then show "I t'" using R secret_revised by blast
  qed auto
  then have step: "leads (?R x) I (case x of (secretID, nextVersion) \<Rightarrow>
      attempt (exec w (uuid_arg w secretID (insert_secret_revision nextVersion sealed))) (\<lambda>e. Inl (SecretStorage e)) (\<lambda>u. ret (Inr ())))" for x
    by (metis (no_types, lifting) case_prod_beta')
  show ?case
  proof (rule leads_transact)
    show "leads (\<lambda>t. I t \<and> owned t u me) I (attempt (exec w (uuid_arg w appID (upsert_secret w name sealed))) (\<lambda>e. Inl (SecretStorage e)) (\<lambda>(secretID, nextVersion).
      attempt (exec w (uuid_arg w secretID (insert_secret_revision nextVersion sealed))) (\<lambda>e. Inl (SecretStorage e)) (\<lambda>u. ret (Inr ()))))"
    proof (rule leads_query [OF _ _ _ step])
    show "?R x t'" if "I t \<and> owned t u me" "uuid_arg w appID (upsert_secret w name sealed) n t = Inr (x, t')" for n t x t'
    proof -
      have ups: "upsert_secret w name sealed u n t = Inr (x, t')" using that u by (simp add: uuid_arg_Inr)
      then have "I t'" using that secret_upserted by blast
      moreover have "owned t' u me" "secret_of t' u (fst x)"
        using ups that(1)
        by (auto simp: upsert_secret_def owned_def secret_of_def secret_key_of_def list_ex_update Let_def split: sum.splits if_splits dest!: one_row_Inr)
          (auto simp: list_ex_iff)
      ultimately show ?thesis by blast
    qed
    qed auto
  qed auto
qed auto

end

end
