(* ===== verification/App_Conduct.thy ===== *)
theory App_Conduct
  imports App_Invariants
begin

text \<open>
  The application routes keep every invariant that satisfies the contract \<open>app_invariant\<close> of their statements: first
  each handler, for a caller who acts for the organisation of the invariant, then the idempotency and audit
  middleware around it.
\<close>

section \<open>The handlers\<close>

lemma keeps_apply_object [keeps_intro]: "keeps I (apply_object applier obj)"
  by (simp add: apply_object_def keeps_def)

lemma keeps_org_tier [keeps_intro]: "keeps I (org_tier w orgID)"
  unfolding org_tier_def tier_stmt_def by (intro keeps_intro)

lemma keeps_get_app [keeps_intro]: "keeps I (get_app w orgID appID)"
  unfolding get_app_def select_app_def by (intro keeps_intro)

lemma keeps_bridge [keeps_intro]: "keeps I (apply_bridge_best_effort w hs orgID appID img gitURL gitSHA)"
  unfolding apply_bridge_best_effort_def Let_def by (intro keeps_intro)

text \<open>The caller acts for the organisation \<open>me\<close>, if for any.\<close>

definition acting_for :: "outside \<Rightarrow> string \<Rightarrow> ctx \<Rightarrow> bool" where
  "acting_for w me cx = (\<forall>ident g. cx_identity cx = Some ident \<longrightarrow> db_cast w (id_OrgID ident) = Some g \<longrightarrow> g = me)"

context app_invariant
begin

lemma with_org_keeps: "acting_for w me cx \<Longrightarrow> (\<And>orgID. acts orgID \<Longrightarrow> keeps I (f orgID)) \<Longrightarrow> keeps I (with_org f cx)"
  unfolding with_org_def acting_for_def by (cases "cx_identity cx") (auto intro: keeps_ret)

lemmas moves = create rename soft_delete spec_updates add_service_keeps add_environment_keeps save_awaiting_plan_keeps
  approve_plan_keeps rollback_keeps request_database_keeps

lemmas moves_keep = moves [THEN keeps_leads]

lemma account_handlers:
  assumes "acting_for w me cx"
  shows "keeps I (handle_list w hs cx r)" "keeps I (handle_create w hs cx r)" "keeps I (handle_get w hs cx r)"
    "keeps I (handle_rename w hs cx r)" "keeps I (handle_delete w hs cx r)" "keeps I (handle_add_service w hs cx r)"
    "keeps I (handle_add_environment w hs cx r)"
  using assms
  unfolding handle_list_def handle_create_def handle_get_def handle_rename_def handle_delete_def handle_add_service_def
    handle_add_environment_def Let_def
  by (auto intro!: with_org_keeps keeps_intro reads moves_keep split: option.split prod.split simp: acting_for_def)

lemma plan_handlers:
  assumes "acting_for w me cx"
  shows "keeps I (handle_put_spec w hs cx r)" "keeps I (handle_rollback w hs cx r)" "keeps I (handle_list_deployments w hs cx r)"
    "keeps I (handle_analyze w hs cx r)" "keeps I (handle_get_plan w hs cx r)" "keeps I (handle_deploy w hs cx r)"
    "keeps I (handle_request_database w hs cx r)"
  using assms
  unfolding handle_put_spec_def handle_rollback_def handle_list_deployments_def handle_analyze_def handle_get_plan_def
    handle_deploy_def handle_request_database_def Let_def
  by (auto intro!: with_org_keeps keeps_intro reads moves_keep split: option.split prod.split analyze_error.split sum.split)

lemma after_lookup:
  assumes "acts orgID" and "\<And>a u. db_cast w appID = Some u \<Longrightarrow> leads (\<lambda>t. I t \<and> owned t u me) I (f a)"
  shows "keeps I (attempt (get_app w orgID appID) h f)"
  using assms by (intro keeps_leads leads_get_app [where me = me]) auto

lemma owned_reads: "leads (\<lambda>t. I t \<and> owned t u me) I m" if "keeps I m" for u m
  using that by (rule leads_keeps) simp

lemma owned_ret: "leads (\<lambda>t. I t \<and> owned t u me) I (ret x)" for u x
  by (rule leads_ret) simp

lemma read_handlers:
  assumes "acting_for w me cx"
  shows "keeps I (handle_list_domains w hs cx r)" "keeps I (handle_list_logs w hs cx r)" "keeps I (handle_diagnostics w hs cx r)"
    "keeps I (handle_list_secrets w hs cx r)" "keeps I (handle_reveal_secret w hs cx r)"
  using assms
  unfolding handle_list_domains_def handle_list_logs_def handle_diagnostics_def handle_list_secrets_def handle_reveal_secret_def
    insert_audit_row_def Let_def
  by (auto intro!: with_org_keeps keeps_intro reads side_tables split: option.split)

lemma add_domain_handler: "acting_for w me cx \<Longrightarrow> keeps I (handle_add_domain w hs cx r)"
  unfolding handle_add_domain_def Let_def
  by (intro with_org_keeps after_lookup leads_option leads_then leads_if owned_ret leads_ret domain_allocation)

lemma verify_domain_handler: "acting_for w me cx \<Longrightarrow> keeps I (handle_verify_domain w hs cx r)"
  unfolding handle_verify_domain_def
  by (intro with_org_keeps after_lookup leads_then leads_ret verify_domain_keeps)

lemma put_env_handler: "acting_for w me cx \<Longrightarrow> keeps I (handle_put_env w hs cx r)"
  unfolding handle_put_env_def
  by (intro with_org_keeps after_lookup leads_option leads_if owned_ret leads_then leads_ret set_secret_keeps)

text \<open>The middleware around a handler.\<close>

lemma audited_keeps: "keeps I (nxt cx r) \<Longrightarrow> keeps I (audited w action nxt cx r)"
  unfolding audited_def insert_audit_def Let_def by (intro keeps_intro side_tables)

lemma idem_keeps: "keeps I (nxt cx r) \<Longrightarrow> keeps I (idem w nxt cx r)"
  unfolding idem_def claim_idempotency_def load_idempotent_response_def complete_idempotency_def Let_def
  by (intro keeps_intro side_tables)

lemmas handlers_keep = account_handlers plan_handlers read_handlers add_domain_handler verify_domain_handler put_env_handler

end

end
