(* ===== verification/Callers.thy ===== *)
theory Callers
  imports Auth_Gate
begin

text \<open>
  The reading routes resolve the caller twice: once for the capability and once for the identity the handler sees.
  Both resolutions of one request name the same user and organisation, because nothing in between can change what the
  bearer token stands for. The signing library must name one user per token, whenever it is asked.
\<close>

definition one_user_per_token :: "outside \<Rightarrow> string \<Rightarrow> bool" where
  "one_user_per_token w secret =
     (\<forall>raw t t' u u'. jwt_parse w secret t raw = Some u \<longrightarrow> jwt_parse w secret t' raw = Some u' \<longrightarrow> u = u')"

lemma find_same_core:
  assumes "map f xs = map f ys" and "\<And>x y. f x = f y \<Longrightarrow> P x = P y" and "find P xs = Some x" "find P ys = Some y"
  shows "f x = f y"
  using assms(1,3,4)
proof (induction xs arbitrary: ys)
  case (Cons a xs)
  then obtain b ys' where ys: "ys = b # ys'" "f a = f b" "map f xs = map f ys'" by (cases ys) auto
  have "P a = P b" by (rule assms(2) [OF ys(2)])
  then show ?case using Cons.IH [OF ys(3)] Cons.prems(2,3) ys(1,2) by (cases "P a") simp_all
qed simp

lemma token_core_fields:
  assumes "token_core x = token_core y"
  shows "at_hash x = at_hash y" "at_revoked x = at_revoked y" "at_user x = at_user y" "at_org x = at_org y"
  using arg_cong [OF assms, of at_hash] arg_cong [OF assms, of at_revoked] arg_cong [OF assms, of at_user] arg_cong [OF assms, of at_org]
  by (simp_all add: token_core_def)

lemma same_token:
  assumes "map token_core xs = map token_core ys"
    and "one_row (live_api_token h) xs = Inr x" "one_row (live_api_token h) ys = Inr y"
  shows "at_user x = at_user y \<and> at_org x = at_org y"
proof -
  have "live_api_token h a = live_api_token h b" if "token_core a = token_core b" for a b
    using token_core_fields [OF that] by (simp add: live_api_token_def)
  moreover have "find (live_api_token h) xs = Some x" "find (live_api_token h) ys = Some y"
    using assms(2,3) by (simp_all add: one_row_def split: option.split_asm)
  ultimately have "token_core x = token_core y" by (intro find_same_core [OF assms(1)])
  then show ?thesis using token_core_fields by blast
qed

text \<open>A workspace created for a user is the user's first membership afterwards.\<close>

lemma exec_Inr:
  "run_state (exec w st) p = (Inr x, p') \<Longrightarrow> st (pf_tick p) (pf_tables p) = Inr (x, pf_tables p')"
  by (auto simp: exec_def Let_def split: option.splits db_fault.splits sum.splits)

lemma member_inserted:
  "insert_member u g role n t = Inr (x, t') \<Longrightarrow> tb_members t' = tb_members t @ [\<lparr>mb_user = u, mb_org = g, mb_role = role\<rparr>]"
  by (auto simp: insert_member_def upsert_member_def split: if_splits)

lemma org_inserted: "insert_org w name slug n t = Inr (x, t') \<Longrightarrow> tb_members t' = tb_members t"
  by (auto simp: insert_org_def Let_def split: if_splits)

lemma attempt_Inr:
  assumes "run_state (attempt m (\<lambda>e. Inl (h e)) f) p = (Inr x, p')"
  obtains y p1 where "run_state m p = (Inr y, p1)" "run_state (f y) p1 = (Inr x, p')"
  using assms by (cases "run_state m p") (auto simp: run_attempt split: sum.splits)

lemma workspace_created:
  assumes cast: "db_cast w userID = Some u" and run: "run_state (create_workspace w userID local) p = (Inr g, p')"
  shows "tb_members (pf_tables p') = tb_members (pf_tables p) @ [\<lparr>mb_user = u, mb_org = g, mb_role = ''workspace_admin''\<rparr>]"
proof -
  let ?org = "\<lambda>sfx. insert_org w (local @ [CHR 0x27] @ ''s workspace'') (''ws-'' @ take 8 userID @ ''-'' @ take 6 sfx)"
  let ?p0 = "p\<lparr>pf_tick := Suc (pf_tick p)\<rparr>"
  obtain p1 where work: "run_state (attempt (random_token w) (\<lambda>e. Inl Entropy) (\<lambda>sfx.
        attempt (exec w (?org sfx)) (\<lambda>e. Inl (Storage e)) (\<lambda>g.
          attempt (exec w (uuid_arg w userID (\<lambda>u. insert_member u (og_id g) ''workspace_admin''))) (\<lambda>e. Inl (Storage e))
            (\<lambda>u. ret (Inr (og_id g)))))) ?p0 = (Inr g, p1)" and p': "pf_tables p' = pf_tables p1"
    using run by (auto simp: create_workspace_def transact_def Let_def split: if_splits prod.splits sum.splits option.splits db_fault.splits)
  from work obtain sfx p2 where r: "run_state (random_token w) ?p0 = (Inr sfx, p2)"
    and work2: "run_state (attempt (exec w (?org sfx)) (\<lambda>e. Inl (Storage e)) (\<lambda>g.
          attempt (exec w (uuid_arg w userID (\<lambda>u. insert_member u (og_id g) ''workspace_admin''))) (\<lambda>e. Inl (Storage e))
            (\<lambda>u. ret (Inr (og_id g))))) p2 = (Inr g, p1)"
    by (rule attempt_Inr)
  have t2: "pf_tables p2 = pf_tables p" using r by (auto simp: random_token_def draw_def)
  from work2 obtain row p3 where o1: "run_state (exec w (?org sfx)) p2 = (Inr row, p3)"
    and work3: "run_state (attempt (exec w (uuid_arg w userID (\<lambda>u. insert_member u (og_id row) ''workspace_admin''))) (\<lambda>e. Inl (Storage e))
            (\<lambda>u. ret (Inr (og_id row)))) p3 = (Inr g, p1)"
    by (rule attempt_Inr)
  have t3: "tb_members (pf_tables p3) = tb_members (pf_tables p)"
    using org_inserted [OF exec_Inr [OF o1]] t2 by simp
  from work3 obtain x p4 where m: "run_state (exec w (uuid_arg w userID (\<lambda>u. insert_member u (og_id row) ''workspace_admin''))) p3 = (Inr x, p4)"
    and e: "run_state (ret (Inr (og_id row)) :: (auth_error + string) op) p4 = (Inr g, p1)"
    by (rule attempt_Inr)
  then show ?thesis using member_inserted [of u "og_id row" "''workspace_admin''"] exec_Inr [OF m] t3 p' by (simp add: cast)
qed

lemma first_membership_added:
  assumes "first_membership u t = Inl e" and "tb_members t' = tb_members t @ [\<lparr>mb_user = u, mb_org = g, mb_role = role\<rparr>]"
  shows "first_membership u t' = Inr \<lparr>mb_user = u, mb_org = g, mb_role = role\<rparr>"
proof -
  have "filter (\<lambda>r. mb_user r = u) (tb_members t) = []"
    using assms(1) by (auto simp: first_membership_def one_row_Inl filter_empty_conv)
  then show ?thesis using assms(2) by (simp add: first_membership_def one_row_def)
qed

lemma default_org_found:
  assumes "run_state (default_org_for_user w userID) p = (Inr g, p')"
  obtains u m where "db_cast w userID = Some u" "first_membership u (pf_tables p') = Inr m" "mb_org m = g"
    "first_membership u (pf_tables p) = Inr m \<or> (\<exists>e. first_membership u (pf_tables p) = Inl e)"
proof (cases "db_cast w userID")
  case None
  then have False using assms by (auto simp: default_org_for_user_def exec_def Let_def split: option.splits db_fault.splits)
  then show ?thesis ..
next
  case (Some u)
  obtain r p1 where q: "run_state (exec w (reading (first_membership u))) p = (r, p1)"
    by (cases "run_state (exec w (reading (first_membership u))) p")
  note same = exec_reading [OF q]
  show ?thesis
  proof (cases r)
    case (Inr m)
    then have "g = mb_org m" "p' = p1" using assms q Some by (auto simp: default_org_for_user_def)
    then show ?thesis using that Some same(1) same(2) [OF Inr] by metis
  next
    case (Inl e)
    then have none: "e = NoRows" using assms q Some by (auto simp: default_org_for_user_def split: if_splits)
    let ?who = "exec w (reading (\<lambda>t. one_row (\<lambda>r. us_id r = u) (tb_users t)))"
    obtain usr p2 where u: "run_state ?who p1 = (Inr usr, p2)" and c: "run_state (create_workspace w userID (local_part (us_email usr))) p2 = (Inr g, p')"
      using assms q Some Inl none by (auto simp: default_org_for_user_def elim!: attempt_Inr)
    have absent: "first_membership u (pf_tables p) = Inl NoRows" using same(3) [OF Inl] none by simp
    have "tb_members (pf_tables p') = tb_members (pf_tables p) @ [\<lparr>mb_user = u, mb_org = g, mb_role = ''workspace_admin''\<rparr>]"
      using workspace_created [OF Some c] exec_reading(1) [OF u] same(1) by simp
    then have "first_membership u (pf_tables p') = Inr \<lparr>mb_user = u, mb_org = g, mb_role = ''workspace_admin''\<rparr>"
      by (rule first_membership_added [OF absent])
    then show ?thesis by (intro that [OF Some]) (auto simp: absent)
  qed
qed

lemma default_org_stable:
  assumes "run_state (default_org_for_user w userID) p = (Inr g, p')" and "pf_tables q = pf_tables p'"
    and "run_state (default_org_for_user w userID) q = (Inr g', q')"
  shows "g' = g"
proof -
  obtain u m where 1: "db_cast w userID = Some u" "first_membership u (pf_tables p') = Inr m" "mb_org m = g"
    by (rule default_org_found [OF assms(1)])
  obtain u' m' where 2: "db_cast w userID = Some u'" "first_membership u' (pf_tables q') = Inr m'" "mb_org m' = g'"
    "first_membership u' (pf_tables q) = Inr m' \<or> (\<exists>e. first_membership u' (pf_tables q) = Inl e)"
    by (rule default_org_found [OF assms(3)])
  then show ?thesis using 1 assms(2) by auto
qed

text \<open>Both resolutions agree.\<close>

lemma resolve_token:
  assumes "has_prefix (presented r) apiTokenPrefix" and "run_state (resolve_bearer w secret r) p = (Some i, p')"
  shows "\<exists>row. one_row (live_api_token (hash_token w (presented r))) (tb_api_tokens (pf_tables p)) = Inr row \<and>
    id_UserID i = at_user row \<and> id_OrgID i = at_org row"
proof -
  let ?q = "\<lambda>t. one_row (live_api_token (hash_token w (presented r))) (tb_api_tokens t)"
  obtain q p1 where l: "run_state (exec w (reading ?q)) p = (q, p1)" by (cases "run_state (exec w (reading ?q)) p")
  have "\<exists>row. q = Inr row \<and> id_UserID i = at_user row \<and> id_OrgID i = at_org row"
    using assms l
    by (cases q) (auto simp: resolve_bearer_def presented_def resolve_api_token_def Let_def run_attempt split: if_splits prod.splits)
  then show ?thesis using exec_reading(2) [OF l] by blast
qed

lemma resolve_session:
  assumes "\<not> has_prefix (presented r) apiTokenPrefix" and "run_state (resolve_bearer w secret r) p = (Some i, p')"
  obtains t g p1 where "jwt_parse w secret t (presented r) = Some (id_UserID i)"
    "run_state (default_org_for_user w (id_UserID i)) p1 = (Inr g, p')"
    "id_OrgID i = (if header r ''X-Tenara-Org'' \<noteq> [] \<and> header r ''X-Tenara-Org'' \<noteq> g then header r ''X-Tenara-Org'' else g)"
    "pf_tables p1 = pf_tables p"
proof -
  obtain q p1 where l: "run_state (parse_token w secret (presented r)) p = (q, p1)" by (cases "run_state (parse_token w secret (presented r)) p")
  have jwt: "q = Some u \<Longrightarrow> \<exists>t. jwt_parse w secret t (presented r) = Some u" and same: "pf_tables p1 = pf_tables p" for u
    using l by (auto simp: parse_token_def time_now_def split: option.splits if_splits)
  let ?chosen = "\<lambda>g. if header r ''X-Tenara-Org'' \<noteq> [] \<and> header r ''X-Tenara-Org'' \<noteq> g then header r ''X-Tenara-Org'' else g"
  obtain u where u: "q = Some u" and run: "run_state (attempt (default_org_for_user w u) (\<lambda>e. None) (\<lambda>g.
      ret (Some \<lparr>id_UserID = u, id_OrgID = ?chosen g, id_ActorType = ''user''\<rparr>))) p1 = (Some i, p')"
    using assms l by (cases q) (simp_all add: resolve_bearer_def presented_def Let_def split: if_split_asm)
  obtain res p2 where d: "run_state (default_org_for_user w u) p1 = (res, p2)" by (cases "run_state (default_org_for_user w u) p1")
  from run d obtain g where "res = Inr g" "i = \<lparr>id_UserID = u, id_OrgID = ?chosen g, id_ActorType = ''user''\<rparr>" "p2 = p'"
    by (cases res) (auto simp: run_attempt)
  then show ?thesis using that [of _ p1 g] jwt [OF u] same d by auto
qed

lemma resolve_bearer_stable:
  assumes one: "one_user_per_token w secret"
    and first: "run_state (resolve_bearer w secret r) p = (Some i, p')" and same: "pf_tables q = pf_tables p'"
    and again: "run_state (resolve_bearer w secret r) q = (Some j, q')"
  shows "id_UserID j = id_UserID i \<and> id_OrgID j = id_OrgID i"
proof (cases "has_prefix (presented r) apiTokenPrefix")
  case True
  have "gate_only (pf_tables p) (pf_tables p')" by (rule gate_moves_only [OF resolve_bearer_moves [OF first]])
  then have "map token_core (tb_api_tokens (pf_tables p)) = map token_core (tb_api_tokens (pf_tables q))"
    using same by (auto simp: gate_only_def)
  then show ?thesis using resolve_token [OF True first] resolve_token [OF True again] same_token by metis
next
  case False
  obtain t g p1 where 1: "jwt_parse w secret t (presented r) = Some (id_UserID i)"
    "run_state (default_org_for_user w (id_UserID i)) p1 = (Inr g, p')"
    "id_OrgID i = (if header r ''X-Tenara-Org'' \<noteq> [] \<and> header r ''X-Tenara-Org'' \<noteq> g then header r ''X-Tenara-Org'' else g)"
    by (rule resolve_session [OF False first])
  obtain t' g' q1 where 2: "jwt_parse w secret t' (presented r) = Some (id_UserID j)"
    "run_state (default_org_for_user w (id_UserID j)) q1 = (Inr g', q')"
    "id_OrgID j = (if header r ''X-Tenara-Org'' \<noteq> [] \<and> header r ''X-Tenara-Org'' \<noteq> g' then header r ''X-Tenara-Org'' else g')"
    "pf_tables q1 = pf_tables q"
    by (rule resolve_session [OF False again])
  have user: "id_UserID j = id_UserID i" using one 1(1) 2(1) unfolding one_user_per_token_def by blast
  have "g' = g" by (rule default_org_stable [OF 1(2) _ 2(2) [unfolded user]]) (simp add: 2(4) same)
  then show ?thesis using user 1(3) 2(3) by simp
qed

end
