(* ===== verification/Tenancy.thy ===== *)
theory Tenancy
  imports App_Conduct Callers
begin

text \<open>
  What the application routes may do to the rows of an organisation. The contract \<open>app_invariant\<close> is interpreted three
  times on the tables of the control plane: for the constraints of the schema, for the rows of another organisation,
  and for the application quota. A route then keeps each of these, whoever calls it, whatever statement fails.
\<close>

section \<open>Routes\<close>

text \<open>The capability a route asks for.\<close>

definition route_needs :: "string \<times> string \<Rightarrow> string" where
  "route_needs route =
     (if fst route = ''GET'' then CapAppRead
      else coalesce (map_of
        [((''POST'', ''/v1/apps''), CapAppCreate), ((''PATCH'', ''/v1/apps/{appId}''), CapAppCreate),
         ((''DELETE'', ''/v1/apps/{appId}''), CapAppDelete), ((''POST'', ''/v1/apps/{appId}/services''), CapAppCreate),
         ((''POST'', ''/v1/apps/{appId}/environments''), CapAppCreate), ((''PUT'', ''/v1/apps/{appId}/spec''), CapAppCreate),
         ((''POST'', ''/v1/apps/{appId}/databases''), CapDatabaseCreate), ((''POST'', ''/v1/apps/{appId}/domains''), CapDomainBind),
         ((''POST'', ''/v1/apps/{appId}/domains/{domainId}/verify''), CapDomainBind), ((''POST'', ''/v1/apps/{appId}/analyze''), CapAppCreate),
         ((''POST'', ''/v1/apps/{appId}/deployments''), CapAppDeploy), ((''POST'', ''/v1/apps/{appId}/rollback''), CapAppDeploy),
         ((''PUT'', ''/v1/apps/{appId}/env''), CapSecretWrite), ((''POST'', ''/v1/apps/{appId}/secrets/reveal''), CapSecretReveal)] route))"

definition conduct :: "outside \<Rightarrow> handler \<Rightarrow> bool" where
  "conduct w nxt = (\<forall>me I cx r. app_invariant w me I \<longrightarrow> acting_for w me cx \<longrightarrow> keeps I (nxt cx r))"

lemma handlers_conduct:
  "conduct w (handle_list w hs)" "conduct w (handle_create w hs)" "conduct w (handle_get w hs)" "conduct w (handle_rename w hs)"
  "conduct w (handle_delete w hs)" "conduct w (handle_add_service w hs)" "conduct w (handle_add_environment w hs)"
  "conduct w (handle_put_spec w hs)" "conduct w (handle_rollback w hs)" "conduct w (handle_list_deployments w hs)"
  "conduct w (handle_analyze w hs)" "conduct w (handle_get_plan w hs)" "conduct w (handle_deploy w hs)"
  "conduct w (handle_request_database w hs)" "conduct w (handle_list_domains w hs)" "conduct w (handle_list_logs w hs)"
  "conduct w (handle_diagnostics w hs)" "conduct w (handle_list_secrets w hs)" "conduct w (handle_reveal_secret w hs)"
  "conduct w (handle_add_domain w hs)" "conduct w (handle_verify_domain w hs)" "conduct w (handle_put_env w hs)"
  unfolding conduct_def by (blast intro: app_invariant.handlers_keep)+

lemma conduct_idem: "conduct w nxt \<Longrightarrow> conduct w (idem w nxt)"
  unfolding conduct_def by (blast intro: app_invariant.idem_keeps)

lemma conduct_audited: "conduct w nxt \<Longrightarrow> conduct w (audited w action nxt)"
  unfolding conduct_def by (blast intro: app_invariant.audited_keeps)

definition gated_by :: "outside \<Rightarrow> string \<Rightarrow> string \<Rightarrow> handler \<Rightarrow> bool" where
  "gated_by w secret needed h =
     (\<exists>nxt. conduct w nxt \<and>
        (h = require_cap w secret needed (authenticated w secret nxt) \<or> h = authenticated w secret (require_cap w secret needed nxt)))"

lemma gated_byI:
  "conduct w nxt \<Longrightarrow> needed = cap \<Longrightarrow> gated_by w secret needed (require_cap w secret cap (authenticated w secret nxt))"
  "conduct w nxt \<Longrightarrow> needed = cap \<Longrightarrow> gated_by w secret needed (authenticated w secret (require_cap w secret cap nxt))"
  by (auto simp: gated_by_def)

lemma routes_gated: "list_all (\<lambda>(route, h). gated_by w (hs_tokenSecret hs) (route_needs route) h) (apps_routes w hs)"
  unfolding apps_routes_def Let_def list.pred_inject prod.case
  by (intro conjI TrueI gated_byI handlers_conduct conduct_idem conduct_audited; simp add: route_needs_def coalesce_def)

section \<open>The effect of a route\<close>

text \<open>A caller who got through: a genuine token, whose user is a member of \<open>me\<close> in a role with the capability.\<close>

definition admitted :: "outside \<Rightarrow> string \<Rightarrow> string \<Rightarrow> tables \<Rightarrow> http_request \<Rightarrow> string \<Rightarrow> bool" where
  "admitted w secret needed t r me =
     (\<exists>ident m t1. genuine w secret t r ident \<and> gate_only t t1 \<and> admits w needed t1 ident m \<and> mb_org m = me)"

text \<open>Either nobody's invariant is touched, or the organisation acted for is one the caller was admitted to.\<close>

definition effect :: "outside \<Rightarrow> (string \<Rightarrow> bool) \<Rightarrow> tables \<Rightarrow> tables \<Rightarrow> bool" where
  "effect w allowed t t' =
     ((\<forall>me I. app_invariant w me I \<longrightarrow> I t \<longrightarrow> I t') \<or> (\<exists>me. allowed me \<and> (\<forall>I. app_invariant w me I \<longrightarrow> I t \<longrightarrow> I t')))"

lemma effect_moves: "gate_moves w t t' \<Longrightarrow> effect w allowed t t'"
  unfolding effect_def using gate_movesD app_invariant.gate_tables by blast

lemma conduct_moves:
  assumes "conduct w nxt" and "run_state (nxt cx r) p1 = (resp, p')" and "acting_for w me cx"
    and "gate_moves w t (pf_tables p1)" and I: "app_invariant w me I" and "I t"
  shows "I (pf_tables p')"
proof -
  have "keeps I (nxt cx r)" using assms(1,3) I unfolding conduct_def by blast
  moreover have "I (pf_tables p1)" by (rule gate_movesD [OF assms(4) app_invariant.gate_tables [OF I] assms(6)])
  ultimately show ?thesis by (rule keepsD [OF _ _ assms(2)])
qed

lemma admits_acting: "admits w needed t ident m \<Longrightarrow> (\<And>i. cx_identity cx = Some i \<Longrightarrow> id_OrgID i = id_OrgID ident) \<Longrightarrow> acting_for w (mb_org m) cx"
  by (auto simp: admits_def acting_for_def)

lemma gated_effect:
  assumes nxt: "conduct w nxt" and run: "run_state (require_cap w secret needed nxt cx r) p = (resp, p')"
  shows "effect w (admitted w secret needed (pf_tables p) r) (pf_tables p) (pf_tables p')"
proof (cases rule: gate_outcome [OF run])
  case (1 ident m q p1)
  have moves: "gate_moves w (pf_tables p) (pf_tables p1)" using resolve_bearer_moves [OF 1(1)] 1(2) by simp
  have "admitted w secret needed (pf_tables p) r (mb_org m)"
    using resolve_bearer_genuine [OF 1(1)] gate_moves_only [OF moves] 1(2,3) unfolding admitted_def by metis
  moreover have "acting_for w (mb_org m) (cx\<lparr>cx_identity := Some ident, cx_role := Some (mb_role m)\<rparr>)"
    by (rule admits_acting [OF 1(3)]) simp_all
  then have "I (pf_tables p')" if "app_invariant w (mb_org m) I" "I (pf_tables p)" for I
    using conduct_moves [OF nxt 1(4) _ moves that] by blast
  ultimately show ?thesis unfolding effect_def by blast
next
  case 2
  then show ?thesis by (simp add: effect_moves)
qed

lemma admitted_before:
  assumes "admitted w secret needed t' r me" and "gate_only t t'"
  shows "admitted w secret needed t r me"
proof -
  from assms(1) obtain ident m t1 where "genuine w secret t' r ident" "gate_only t' t1" "admits w needed t1 ident m" "mb_org m = me"
    unfolding admitted_def by blast
  then have "genuine w secret t r ident" "gate_only t t1" "admits w needed t1 ident m" "mb_org m = me"
    using genuine_before [OF _ assms(2)] gate_only_trans [OF assms(2)] by simp_all
  then show ?thesis unfolding admitted_def by blast
qed

lemma effect_before:
  assumes "effect w (admitted w secret needed t1 r) t1 t'" and "gate_moves w t t1"
  shows "effect w (admitted w secret needed t r) t t'"
  using assms admitted_before [OF _ gate_moves_only [OF assms(2)]] app_invariant.gate_tables gate_movesD [OF assms(2)]
  unfolding effect_def by meson

lemma authed_gated_effect:
  assumes "conduct w nxt" and run: "run_state (authenticated w secret (require_cap w secret needed nxt) cx r) p = (resp, p')"
  shows "effect w (admitted w secret needed (pf_tables p) r) (pf_tables p) (pf_tables p')"
proof (cases rule: authenticated_outcome [OF run])
  case (1 ident q)
  show ?thesis by (rule effect_before [OF gated_effect [OF assms(1) 1(2)] resolve_bearer_moves [OF 1(1)]])
next
  case 2
  then show ?thesis by (simp add: effect_moves)
qed

lemma gated_authed_effect:
  assumes one: "one_user_per_token w secret" and nxt: "conduct w nxt"
    and run: "run_state (require_cap w secret needed (authenticated w secret nxt) cx r) p = (resp, p')"
  shows "effect w (admitted w secret needed (pf_tables p) r) (pf_tables p) (pf_tables p')"
proof (cases rule: gate_outcome [OF run])
  case (1 ident m q p1)
  have moves: "gate_moves w (pf_tables p) (pf_tables p1)" using resolve_bearer_moves [OF 1(1)] 1(2) by simp
  show ?thesis
  proof (cases rule: authenticated_outcome [OF 1(4)])
    case again: (1 ident' q')
    have moves': "gate_moves w (pf_tables p) (pf_tables q')" by (rule gate_moves_trans [OF moves resolve_bearer_moves [OF again(1)]])
    have "id_OrgID ident' = id_OrgID ident" using resolve_bearer_stable [OF one 1(1) 1(2) again(1)] by blast
    then have "acting_for w (mb_org m) (cx\<lparr>cx_identity := Some ident, cx_role := Some (mb_role m)\<rparr>\<lparr>cx_identity := Some ident'\<rparr>)"
      by (intro admits_acting [OF 1(3)]) simp_all
    then have "I (pf_tables p')" if "app_invariant w (mb_org m) I" "I (pf_tables p)" for I
      using conduct_moves [OF nxt again(2) _ moves' that] by blast
    moreover have "admitted w secret needed (pf_tables p) r (mb_org m)"
      using resolve_bearer_genuine [OF 1(1)] gate_moves_only [OF moves] 1(2,3) unfolding admitted_def by metis
    ultimately show ?thesis unfolding effect_def by blast
  next
    case 2
    then show ?thesis using effect_moves gate_moves_trans [OF moves] by blast
  qed
next
  case 2
  then show ?thesis by (simp add: effect_moves)
qed

lemma route_effect:
  assumes "(route, h) \<in> set (apps_routes w hs)" and "one_user_per_token w (hs_tokenSecret hs)" and "run_state (h cx r) p = (resp, p')"
  shows "effect w (admitted w (hs_tokenSecret hs) (route_needs route) (pf_tables p) r) (pf_tables p) (pf_tables p')"
proof -
  have "gated_by w (hs_tokenSecret hs) (route_needs route) h" using routes_gated [of w hs] assms(1) by (auto simp: list_all_iff)
  then show ?thesis using assms(2,3) authed_gated_effect gated_authed_effect unfolding gated_by_def by blast
qed

end
