(* ===== verification/Tenant_Rows.thy ===== *)
theory Tenant_Rows
  imports Tenancy
begin

text \<open>
  The three interpretations of \<open>app_invariant\<close>: the schema, the rows of another organisation, the application quota.
\<close>

section \<open>The schema\<close>

definition sound_tables :: "outside \<Rightarrow> tables \<Rightarrow> bool" where
  "sound_tables w t = (uuid_law w \<and> schema_ok w t)"

lemma sound_keepsD: "stmt_keeps (schema_ok w) st \<Longrightarrow> sound_tables w t \<Longrightarrow> st n t = Inr (x, t') \<Longrightarrow> sound_tables w t'"
  by (auto simp: sound_tables_def stmt_keeps_def)

lemma stmt_keeps_sound: "stmt_keeps (schema_ok w) st \<Longrightarrow> stmt_keeps (sound_tables w) st"
  by (auto simp: sound_tables_def stmt_keeps_def)

lemma sound_gate_stable: "gate_stable w (sound_tables w)"
  using schema_gate_stable [of w] unfolding gate_stable_def
  by (auto intro: stmt_keeps_sound) (auto simp: sound_tables_def keeps_def)

lemma schema_contract: "app_invariant w me (sound_tables w)"
proof
  show "stmt_keeps (sound_tables w) (purge_stmt w key g)" "stmt_keeps (sound_tables w) (claim_stmt w key g hash)"
    "stmt_keeps (sound_tables w) (complete_stmt key g status content)" "stmt_keeps (sound_tables w) (audit_stmt w entry)"
    for key g hash status content entry
    by (intro stmt_keeps_sound schema_idem_stmts schema_token_stmts)+
  show "sound_tables w t'" if "sound_tables w t" "rename_stmt w name slug u me n t = Inr (x, t')" for t name slug u n x t'
    using that by (rule sound_keepsD [OF schema_rename])
qed (rule sound_gate_stable | (rule sound_keepsD; (assumption | rule schema_insert_app schema_update_app schema_insert_service
  schema_insert_env schema_insert_deployment schema_set_deployment_state schema_insert_revision schema_insert_domain
  schema_verify_domain schema_insert_database schema_insert_binding schema_set_isolation schema_upsert_secret
  schema_insert_secret_revision))
  | simp add: sound_tables_def)+

interpretation kept: app_invariant w me "sound_tables w" for w me
  by (rule schema_contract)

section \<open>The rows of another organisation\<close>

definition deployed_by :: "tables \<Rightarrow> string \<Rightarrow> string \<Rightarrow> bool" where
  "deployed_by t d g = list_ex (\<lambda>r. dp_id r = d \<and> owned t (dp_app r) g) (tb_deployments t)"

definition secret_held :: "tables \<Rightarrow> string \<Rightarrow> string \<Rightarrow> bool" where
  "secret_held t s g = list_ex (\<lambda>r. se_id r = s \<and> owned t (se_app r) g) (tb_secrets t)"

text \<open>Everything the applications of an organisation consist of.\<close>

definition org_view :: "string \<Rightarrow> tables \<Rightarrow> tables" where
  "org_view g t = empty_tables
     \<lparr>tb_apps := filter (\<lambda>a. ap_org a = g) (tb_apps t),
      tb_services := filter (\<lambda>r. owned t (sv_app r) g) (tb_services t),
      tb_envs := filter (\<lambda>r. owned t (en_app r) g) (tb_envs t),
      tb_deployments := filter (\<lambda>r. owned t (dp_app r) g) (tb_deployments t),
      tb_revisions := filter (\<lambda>r. deployed_by t (rv_deployment r) g) (tb_revisions t),
      tb_domains := filter (\<lambda>r. owned t (dm_app r) g) (tb_domains t),
      tb_databases := filter (\<lambda>r. owned t (da_app r) g) (tb_databases t),
      tb_bindings := filter (\<lambda>r. owned t (bi_app r) g) (tb_bindings t),
      tb_secrets := filter (\<lambda>r. owned t (se_app r) g) (tb_secrets t),
      tb_secret_revs := filter (\<lambda>r. secret_held t (sr_secret r) g) (tb_secret_revs t)\<rparr>"

lemma one_owner: "schema_ok w t \<Longrightarrow> owned t u g \<Longrightarrow> owned t u g' \<Longrightarrow> g = g'"
  by (auto simp: owned_def list_ex_iff schema_ok_def app_keys_def dest: keyed_unique [of ap_id])

definition apart :: "outside \<Rightarrow> string \<Rightarrow> string \<Rightarrow> tables \<Rightarrow> tables \<Rightarrow> bool" where
  "apart w me g V t = (me \<noteq> g \<and> sound_tables w t \<and> org_view g t = V)"

lemma apartD: "apart w me g V t \<Longrightarrow> me \<noteq> g \<and> schema_ok w t"
  by (simp add: apart_def sound_tables_def)

lemma apart_step: "apart w me g V t \<Longrightarrow> sound_tables w t' \<Longrightarrow> org_view g t' = org_view g t \<Longrightarrow> apart w me g V t'"
  by (simp add: apart_def)

lemma filter_update_apart:
  "(\<And>x. x \<in> set xs \<Longrightarrow> P x \<Longrightarrow> \<not> Q x \<and> \<not> Q (f x)) \<Longrightarrow> filter Q (update_where P f xs) = filter Q xs"
  by (induction xs) auto

text \<open>Tables that only changed in other columns.\<close>

lemma owned_same_apps: "tb_apps t' = tb_apps t \<Longrightarrow> owned t' u g = owned t u g"
  by (simp add: owned_def)

lemma owned_update: "(\<And>a. ap_id (f a) = ap_id a \<and> ap_org (f a) = ap_org a) \<Longrightarrow> owned (t\<lparr>tb_apps := update_where P f (tb_apps t)\<rparr>) u g = owned t u g"
  by (simp add: owned_def list_ex_update)

lemma view_app_changed:
  assumes "\<And>a. ap_id (f a) = ap_id a \<and> ap_org (f a) = ap_org a" and "\<And>a. P a \<Longrightarrow> ap_org a \<noteq> g"
  shows "org_view g (t\<lparr>tb_apps := update_where P f (tb_apps t)\<rparr>) = org_view g t"
proof -
  have "filter (\<lambda>a. ap_org a = g) (update_where P f (tb_apps t)) = filter (\<lambda>a. ap_org a = g) (tb_apps t)"
    using assms by (intro filter_update_apart) auto
  then show ?thesis by (simp add: org_view_def deployed_by_def secret_held_def owned_update [OF assms(1)])
qed

lemma view_app_added:
  assumes "ap_org a \<noteq> g"
  shows "org_view g (t\<lparr>tb_apps := tb_apps t @ [a]\<rparr>) = org_view g t"
proof -
  have "owned (t\<lparr>tb_apps := tb_apps t @ [a]\<rparr>) u g = owned t u g" for u using assms by (simp add: owned_def)
  then show ?thesis using assms by (simp add: org_view_def deployed_by_def secret_held_def)
qed

lemma view_rows_added:
  "\<not> owned t (sv_app a) g \<Longrightarrow> org_view g (t\<lparr>tb_services := tb_services t @ [a]\<rparr>) = org_view g t"
  "\<not> owned t (en_app b) g \<Longrightarrow> org_view g (t\<lparr>tb_envs := tb_envs t @ [b]\<rparr>) = org_view g t"
  "\<not> owned t (dp_app c) g \<Longrightarrow> org_view g (t\<lparr>tb_deployments := tb_deployments t @ [c]\<rparr>) = org_view g t"
  "\<not> deployed_by t (rv_deployment d) g \<Longrightarrow> org_view g (t\<lparr>tb_revisions := tb_revisions t @ [d]\<rparr>) = org_view g t"
  "\<not> owned t (dm_app e) g \<Longrightarrow> org_view g (t\<lparr>tb_domains := tb_domains t @ [e]\<rparr>) = org_view g t"
  "\<not> owned t (da_app x) g \<Longrightarrow> org_view g (t\<lparr>tb_databases := tb_databases t @ [x]\<rparr>) = org_view g t"
  "\<not> owned t (bi_app y) g \<Longrightarrow> org_view g (t\<lparr>tb_bindings := tb_bindings t @ [y]\<rparr>) = org_view g t"
  "\<not> owned t (se_app z) g \<Longrightarrow> org_view g (t\<lparr>tb_secrets := tb_secrets t @ [z]\<rparr>) = org_view g t"
  "\<not> secret_held t (sr_secret v) g \<Longrightarrow> org_view g (t\<lparr>tb_secret_revs := tb_secret_revs t @ [v]\<rparr>) = org_view g t"
  by (simp_all add: org_view_def deployed_by_def secret_held_def owned_def)

lemma same_deployment: "schema_ok w t \<Longrightarrow> x \<in> set (tb_deployments t) \<Longrightarrow> deployment_of t u (dp_id x) \<Longrightarrow> dp_app x = u"
  by (auto simp: deployment_of_def list_ex_iff schema_ok_def app_keys_def dest: keyed_unique [of dp_id])

lemma same_domain: "schema_ok w t \<Longrightarrow> x \<in> set (tb_domains t) \<Longrightarrow> domain_of t u (dm_id x) \<Longrightarrow> dm_app x = u"
  by (auto simp: domain_of_def list_ex_iff schema_ok_def app_keys_def dest: keyed_unique [of dm_id])

lemma same_database: "schema_ok w t \<Longrightarrow> x \<in> set (tb_databases t) \<Longrightarrow> database_of t u (da_id x) \<Longrightarrow> da_app x = u"
  by (auto simp: database_of_def list_ex_iff schema_ok_def app_keys_def dest: keyed_unique [of da_id])

lemma same_secret: "schema_ok w t \<Longrightarrow> x \<in> set (tb_secrets t) \<Longrightarrow> secret_of t u (se_id x) \<Longrightarrow> se_app x = u"
  by (auto simp: secret_of_def list_ex_iff schema_ok_def app_keys_def dest: keyed_unique [of se_id])

lemma foreign_deployment: "schema_ok w t \<Longrightarrow> deployment_of t u d \<Longrightarrow> \<not> owned t u g \<Longrightarrow> \<not> deployed_by t d g"
  by (auto simp: deployed_by_def list_ex_iff dest: same_deployment)

lemma foreign_secret: "schema_ok w t \<Longrightarrow> secret_of t u s \<Longrightarrow> \<not> owned t u g \<Longrightarrow> \<not> secret_held t s g"
  by (auto simp: secret_held_def list_ex_iff dest: same_secret)

text \<open>A row changed in a column that is neither its id nor its application.\<close>

lemma view_deployment_changed:
  assumes f: "\<And>r. dp_id (f r) = dp_id r \<and> dp_app (f r) = dp_app r"
    and P: "\<And>r. r \<in> set (tb_deployments t) \<Longrightarrow> P r \<Longrightarrow> \<not> owned t (dp_app r) g"
  shows "org_view g (t\<lparr>tb_deployments := update_where P f (tb_deployments t)\<rparr>) = org_view g t"
proof -
  have "filter (\<lambda>r. owned t (dp_app r) g) (update_where P f (tb_deployments t)) = filter (\<lambda>r. owned t (dp_app r) g) (tb_deployments t)"
    using f P by (intro filter_update_apart) simp
  then show ?thesis by (simp add: org_view_def deployed_by_def secret_held_def owned_def list_ex_update f)
qed

lemma view_domain_changed:
  assumes f: "\<And>r. dm_app (f r) = dm_app r"
    and P: "\<And>r. r \<in> set (tb_domains t) \<Longrightarrow> P r \<Longrightarrow> \<not> owned t (dm_app r) g"
  shows "org_view g (t\<lparr>tb_domains := update_where P f (tb_domains t)\<rparr>) = org_view g t"
proof -
  have "filter (\<lambda>r. owned t (dm_app r) g) (update_where P f (tb_domains t)) = filter (\<lambda>r. owned t (dm_app r) g) (tb_domains t)"
    using f P by (intro filter_update_apart) simp
  then show ?thesis by (simp add: org_view_def deployed_by_def secret_held_def owned_def)
qed

lemma view_database_changed:
  assumes f: "\<And>r. da_app (f r) = da_app r"
    and P: "\<And>r. r \<in> set (tb_databases t) \<Longrightarrow> P r \<Longrightarrow> \<not> owned t (da_app r) g"
  shows "org_view g (t\<lparr>tb_databases := update_where P f (tb_databases t)\<rparr>) = org_view g t"
proof -
  have "filter (\<lambda>r. owned t (da_app r) g) (update_where P f (tb_databases t)) = filter (\<lambda>r. owned t (da_app r) g) (tb_databases t)"
    using f P by (intro filter_update_apart) simp
  then show ?thesis by (simp add: org_view_def deployed_by_def secret_held_def owned_def)
qed

lemma view_secret_changed:
  assumes f: "\<And>r. se_id (f r) = se_id r \<and> se_app (f r) = se_app r"
    and P: "\<And>r. r \<in> set (tb_secrets t) \<Longrightarrow> P r \<Longrightarrow> \<not> owned t (se_app r) g"
  shows "org_view g (t\<lparr>tb_secrets := update_where P f (tb_secrets t)\<rparr>) = org_view g t"
proof -
  have "filter (\<lambda>r. owned t (se_app r) g) (update_where P f (tb_secrets t)) = filter (\<lambda>r. owned t (se_app r) g) (tb_secrets t)"
    using f P by (intro filter_update_apart) simp
  then show ?thesis by (simp add: org_view_def deployed_by_def secret_held_def owned_def list_ex_update f)
qed

text \<open>Tables outside the view.\<close>

lemma view_elsewhere [simp]:
  "org_view g (t\<lparr>tb_idem := x1\<rparr>) = org_view g t" "org_view g (t\<lparr>tb_audit := x2\<rparr>) = org_view g t"
  "org_view g (t\<lparr>tb_events := x3\<rparr>) = org_view g t" "org_view g (t\<lparr>tb_api_tokens := x4\<rparr>) = org_view g t"
  "org_view g (t\<lparr>tb_orgs := x5\<rparr>) = org_view g t" "org_view g (t\<lparr>tb_members := x6\<rparr>) = org_view g t"
  by (simp_all add: org_view_def deployed_by_def secret_held_def owned_def)

lemma stmt_keeps_apart:
  assumes "stmt_keeps (schema_ok w) st" and "\<And>n t x t'. st n t = Inr (x, t') \<Longrightarrow> org_view g t' = org_view g t"
  shows "stmt_keeps (apart w me g V) st"
  using assms by (auto simp: stmt_keeps_def apart_def sound_tables_def)

lemma apart_gate_stable: "gate_stable w (apart w me g V)"
proof -
  have "stmt_keeps (apart w me g V) (touch_api_token w hash)" "stmt_keeps (apart w me g V) (insert_org w name slug)"
    "stmt_keeps (apart w me g V) (insert_member u h role)" for hash name slug u h role
    by (rule stmt_keeps_apart, rule schema_token_stmts schema_member_stmts,
        auto simp: touch_api_token_def insert_org_def insert_member_def upsert_member_def Let_def split: if_splits)+
  moreover have "keeps (apart w me g V) (insert_security_event w kind ip detail)" for kind ip detail
    unfolding insert_security_event_def
    by (intro keeps_intro stmt_keepsI) (auto simp: apart_def sound_tables_def schema_defs split: sum.splits)
  ultimately show ?thesis by (simp add: gate_stable_def)
qed

lemma apart_foreign: "apart w me g V t \<Longrightarrow> owned t u me \<Longrightarrow> \<not> owned t u g"
  using one_owner by (auto simp: apart_def sound_tables_def)

lemma apart_views:
  assumes I: "apart w me g V t" and own: "owned t u me"
  shows "insert_service w name ty rt port u n t = Inr (x3, t') \<Longrightarrow> org_view g t' = org_view g t"
    "insert_env w name ns u n t = Inr (x4, t') \<Longrightarrow> org_view g t' = org_view g t"
    "insert_deployment w snapshot u e n t = Inr (x5, t') \<Longrightarrow> org_view g t' = org_view g t"
    "deployment_of t u d \<Longrightarrow> set_deployment_state w d state n t = Inr (x6, t') \<Longrightarrow> org_view g t' = org_view g t"
    "deployment_of t u d \<Longrightarrow> insert_revision w inp nxt d n t = Inr (x7, t') \<Longrightarrow> org_view g t' = org_view g t"
    "insert_domain_stmt w dr u n t = Inr (x8, t') \<Longrightarrow> org_view g t' = org_view g t"
    "domain_of t u i \<Longrightarrow> verify_domain_stmt i n t = Inr (x6, t') \<Longrightarrow> org_view g t' = org_view g t"
    "insert_database w kind isolation u n t = Inr (x9, t') \<Longrightarrow> org_view g t' = org_view g t"
    "insert_binding w i u n t = Inr (x6, t') \<Longrightarrow> org_view g t' = org_view g t"
    "database_of t u i \<Longrightarrow> set_isolation w i isolation n t = Inr (x6, t') \<Longrightarrow> org_view g t' = org_view g t"
    "upsert_secret w name sealed u n t = Inr (x10, t') \<Longrightarrow> org_view g t' = org_view g t"
    "secret_of t u sid \<Longrightarrow> insert_secret_revision version sealed sid n t = Inr (x6, t') \<Longrightarrow> org_view g t' = org_view g t"
proof -
  note foreign = apart_foreign [OF I own]
  have ok: "schema_ok w t" using apartD [OF I] by blast
  note defs = insert_service_def insert_env_def insert_deployment_def insert_revision_def insert_domain_stmt_def insert_database_def
    insert_binding_def insert_secret_revision_def Let_def
  show "insert_service w name ty rt port u n t = Inr (x3, t') \<Longrightarrow> org_view g t' = org_view g t"
    "insert_env w name ns u n t = Inr (x4, t') \<Longrightarrow> org_view g t' = org_view g t"
    "insert_deployment w snapshot u e n t = Inr (x5, t') \<Longrightarrow> org_view g t' = org_view g t"
    "insert_domain_stmt w dr u n t = Inr (x8, t') \<Longrightarrow> org_view g t' = org_view g t"
    "insert_database w kind isolation u n t = Inr (x9, t') \<Longrightarrow> org_view g t' = org_view g t"
    "insert_binding w i u n t = Inr (x6, t') \<Longrightarrow> org_view g t' = org_view g t"
    using foreign by (auto simp: defs view_rows_added split: option.splits if_splits)
  show "deployment_of t u d \<Longrightarrow> insert_revision w inp nxt d n t = Inr (x7, t') \<Longrightarrow> org_view g t' = org_view g t"
    using foreign_deployment [OF ok _ foreign] by (auto simp: defs view_rows_added split: sum.splits if_splits)
  show "secret_of t u sid \<Longrightarrow> insert_secret_revision version sealed sid n t = Inr (x6, t') \<Longrightarrow> org_view g t' = org_view g t"
    using foreign_secret [OF ok _ foreign] by (auto simp: defs view_rows_added split: if_splits)
  show "org_view g t' = org_view g t" if d: "deployment_of t u d" and run: "set_deployment_state w d state n t = Inr (x6, t')"
  proof -
    have "db_cast w d = Some d"
      using d ok by (auto simp: schema_ok_def columns_def reads_back_def deployment_of_def list_ex_iff list_all_iff)
    then have "t' = t\<lparr>tb_deployments := update_where (\<lambda>r. dp_id r = d) (\<lambda>r. r\<lparr>dp_state := state\<rparr>) (tb_deployments t)\<rparr>"
      using run by (simp add: set_deployment_state_def)
    then show ?thesis using same_deployment [OF ok] d foreign by (auto intro!: view_deployment_changed)
  qed
  show "org_view g t' = org_view g t" if d: "database_of t u i" and run: "set_isolation w i isolation n t = Inr (x6, t')"
  proof -
    have "db_cast w i = Some i"
      using d ok by (auto simp: schema_ok_def columns_def reads_back_def database_of_def list_ex_iff list_all_iff)
    then have "t' = t\<lparr>tb_databases := update_where (\<lambda>r. da_id r = i) (\<lambda>r. r\<lparr>da_isolation := isolation\<rparr>) (tb_databases t)\<rparr>"
      using run by (simp add: set_isolation_def)
    then show ?thesis using same_database [OF ok] d foreign by (auto intro!: view_database_changed)
  qed
  show "domain_of t u i \<Longrightarrow> verify_domain_stmt i n t = Inr (x6, t') \<Longrightarrow> org_view g t' = org_view g t"
    using same_domain [OF ok] foreign by (auto simp: verify_domain_stmt_def intro!: view_domain_changed)
  show "upsert_secret w name sealed u n t = Inr (x10, t') \<Longrightarrow> org_view g t' = org_view g t"
    using foreign by (auto simp: upsert_secret_def secret_key_of_def Let_def view_rows_added split: sum.splits if_splits intro!: view_secret_changed)
qed

lemma apart_sound: "apart w me g V t \<Longrightarrow> sound_tables w t"
  by (simp add: apart_def)

lemma apart_org: "apart w me g V t \<Longrightarrow> me \<noteq> g"
  by (simp add: apart_def)

lemma view_insert_app: "g \<noteq> me \<Longrightarrow> insert_app w c name slug me m n t = Inr (x, t') \<Longrightarrow> org_view g t' = org_view g t"
  by (auto simp: insert_app_def new_app_def Let_def view_app_added split: sum.splits if_splits)

lemma view_update_app:
  assumes "g \<noteq> me" "db_cast w orgID = Some me" and "\<And>now a. ap_id (f now a) = ap_id a \<and> ap_org (f now a) = ap_org a"
    and "update_app w appID orgID f n t = Inr (x, t')"
  shows "org_view g t' = org_view g t"
  using assms by (auto simp: update_app_def uuid_arg_Inr the_app_def live_app_def intro!: view_app_changed)

lemma view_rename: "g \<noteq> me \<Longrightarrow> rename_stmt w name slug u me n t = Inr (x, t') \<Longrightarrow> org_view g t' = org_view g t"
  by (auto simp: rename_stmt_def the_app_def live_app_def Let_def split: if_splits sum.splits intro!: view_app_changed)

lemma apart_contract: "app_invariant w me (apart w me g V)"
proof
  show "stmt_keeps (apart w me g V) (purge_stmt w key h)" "stmt_keeps (apart w me g V) (claim_stmt w key h hash)"
    "stmt_keeps (apart w me g V) (complete_stmt key h status content)" "stmt_keeps (apart w me g V) (audit_stmt w entry)"
    for key h hash status content entry
    by (rule stmt_keeps_apart, rule schema_idem_stmts schema_token_stmts,
        auto simp: purge_stmt_def claim_stmt_def complete_stmt_def audit_stmt_def split: if_splits sum.splits)+
  show "apart w me g V t'" if "apart w me g V t" "owned t u me" "insert_service w name ty rt port u n t = Inr (x3, t')" for t u n t' name port rt ty x3
    by (rule apart_step [OF that(1) kept.service_inserted [OF apart_sound [OF that(1)] that(2-3)] apart_views(1) [OF that]])
  show "apart w me g V t'" if "apart w me g V t" "owned t u me" "insert_env w name ns u n t = Inr (x4, t')" for t u n t' name ns x4
    by (rule apart_step [OF that(1) kept.env_inserted [OF apart_sound [OF that(1)] that(2-3)] apart_views(2) [OF that]])
  show "apart w me g V t'" if "apart w me g V t" "owned t u me" "insert_deployment w snapshot u e n t = Inr (x5, t')" for t u n t' e snapshot x5
    by (rule apart_step [OF that(1) kept.deployment_inserted [OF apart_sound [OF that(1)] that(2-3)] apart_views(3) [OF that]])
  show "apart w me g V t'" if "apart w me g V t" "owned t u me" "deployment_of t u d" "set_deployment_state w d ''PLANNED'' n t = Inr (x6, t')" for t u n t' d x6
    by (rule apart_step [OF that(1) kept.deployment_planned [OF apart_sound [OF that(1)] that(2-4)] apart_views(4) [OF that]])
  show "apart w me g V t'" if "apart w me g V t" "owned t u me" "deployment_of t u d" "insert_revision w inp nxt d n t = Inr (x7, t')" for t u n t' d inp nxt x7
    by (rule apart_step [OF that(1) kept.revision_inserted [OF apart_sound [OF that(1)] that(2-4)] apart_views(5) [OF that]])
  show "apart w me g V t'" if "apart w me g V t" "owned t u me" "insert_domain_stmt w dr u n t = Inr (x8, t')" for t u n t' dr x8
    by (rule apart_step [OF that(1) kept.domain_inserted [OF apart_sound [OF that(1)] that(2-3)] apart_views(6) [OF that]])
  show "apart w me g V t'" if "apart w me g V t" "owned t u me" "domain_of t u i" "verify_domain_stmt i n t = Inr (x6, t')" for t u n t' i x6
    by (rule apart_step [OF that(1) kept.domain_verified [OF apart_sound [OF that(1)] that(2-4)] apart_views(7) [OF that]])
  show "apart w me g V t'" if "apart w me g V t" "owned t u me" "insert_database w kind isolation u n t = Inr (x9, t')" for t u n t' isolation kind x9
    by (rule apart_step [OF that(1) kept.database_inserted [OF apart_sound [OF that(1)] that(2-3)] apart_views(8) [OF that]])
  show "apart w me g V t'" if "apart w me g V t" "owned t u me" "database_of t u i" "insert_binding w i u n t = Inr (x6, t')" for t u n t' i x6
    by (rule apart_step [OF that(1) kept.binding_inserted [OF apart_sound [OF that(1)] that(2-4)] apart_views(9) [OF that(1,2,4)]])
  show "apart w me g V t'" if "apart w me g V t" "owned t u me" "upsert_secret w name sealed u n t = Inr (x10, t')" for t u n t' name sealed x10
    by (rule apart_step [OF that(1) kept.secret_upserted [OF apart_sound [OF that(1)] that(2-3)] apart_views(11) [OF that]])
  show "apart w me g V t'" if "apart w me g V t" "owned t u me" "secret_of t u s" "insert_secret_revision version sealed s n t = Inr (x6, t')" for t u n t' s sealed version x6
    by (rule apart_step [OF that(1) kept.secret_revised [OF apart_sound [OF that(1)] that(2-4)] apart_views(12) [OF that]])
  show "apart w me g V t'" if "apart w me g V t" "owned t u me" "database_of t u i" "isolation \<in> {''shared'', ''dedicated''}"
    "set_isolation w i isolation n t = Inr (x6, t')" for t u n t' i isolation x6
    by (rule apart_step [OF that(1) kept.isolation_set [OF apart_sound [OF that(1)] that(2-5)] apart_views(10) [OF that(1,2,3,5)]])
  show "apart w me g V t'" if "apart w me g V t" "tier_of me t tier" "insert_app w c name slug me (max_apps tier) n t = Inr (x1, t')"
    for t tier c name slug n x1 t'
    by (rule apart_step [OF that(1) kept.app_inserted [OF apart_sound [OF that(1)] that(2,3)] view_insert_app [OF apart_org [OF that(1), symmetric] that(3)]])
  show "apart w me g V t'" if "apart w me g V t" "rename_stmt w name slug u me n t = Inr (x1, t')" for t name slug u n x1 t'
    by (rule apart_step [OF that(1) kept.app_renamed [OF apart_sound [OF that(1)] that(2)] view_rename [OF apart_org [OF that(1), symmetric] that(2)]])
  show "apart w me g V t'" if "apart w me g V t" "db_cast w orgID = Some me"
    "update_app w appID orgID (\<lambda>now a. a\<lparr>ap_deleted := Some now\<rparr>) n t = Inr (x2, t')" for t orgID appID n x2 t'
    by (rule apart_step [OF that(1) kept.app_deleted [OF apart_sound [OF that(1)] that(2,3)] view_update_app [OF apart_org [OF that(1), symmetric] that(2) _ that(3)]]) simp
  show "apart w me g V t'" if "apart w me g V t" "db_cast w orgID = Some me"
    "update_app w appID orgID (\<lambda>now a. a\<lparr>ap_spec := Some doc\<rparr>) n t = Inr (x2, t')" for t orgID appID doc n x2 t'
    by (rule apart_step [OF that(1) kept.spec_stored [OF apart_sound [OF that(1)] that(2,3)] view_update_app [OF apart_org [OF that(1), symmetric] that(2) _ that(3)]]) simp
qed (simp_all add: apart_gate_stable apart_def sound_tables_def)

interpretation foreign: app_invariant w me "apart w me g V" for w me g V
  by (rule apart_contract)

section \<open>The quota\<close>

definition within_quota :: "tables \<Rightarrow> bool" where
  "within_quota t = (\<forall>r \<in> set (tb_orgs t). int (length (live_apps (og_id r) t)) \<le> max_apps (og_tier r))"

definition quota_tables :: "outside \<Rightarrow> tables \<Rightarrow> bool" where
  "quota_tables w t = (sound_tables w t \<and> within_quota t)"

lemma within_quota_same: "tb_apps t' = tb_apps t \<Longrightarrow> tb_orgs t' = tb_orgs t \<Longrightarrow> within_quota t \<Longrightarrow> within_quota t'"
  by (simp add: within_quota_def live_apps_def)

lemma filter_update_shrinks:
  "(\<And>x. Q (f x) \<Longrightarrow> Q x) \<Longrightarrow> length (filter Q (update_where P f xs)) \<le> length (filter Q xs)"
  by (induction xs) auto

lemma within_quota_update:
  assumes f: "\<And>g a. live_app g (f a) \<Longrightarrow> live_app g a" and ok: "within_quota t"
  shows "within_quota (t\<lparr>tb_apps := update_where P f (tb_apps t)\<rparr>)"
proof -
  have "length (live_apps g (t\<lparr>tb_apps := update_where P f (tb_apps t)\<rparr>)) \<le> length (live_apps g t)" for g
    using filter_update_shrinks [of "live_app g" f, OF f] by (simp add: live_apps_def)
  then show ?thesis using ok unfolding within_quota_def by (auto intro: order_trans [rotated])
qed

lemma within_quota_insert:
  assumes ok: "schema_ok w t" "within_quota t" and tier: "tier_of me t tier"
    and ins: "insert_app w c name slug me (max_apps tier) n t = Inr (x, t')"
  shows "within_quota t'"
proof -
  obtain a where t': "t' = t\<lparr>tb_apps := tb_apps t @ [a]\<rparr>" and a: "ap_org a = me" "ap_deleted a = None"
    and room: "int (length (live_apps me t)) < max_apps tier"
    using ins by (auto simp: insert_app_def new_app_def Let_def split: sum.splits if_splits)
  have "int (length (live_apps (og_id r) t')) \<le> max_apps (og_tier r)" if r: "r \<in> set (tb_orgs t)" for r
  proof (cases "og_id r = me")
    case True
    then have "og_tier r = tier"
      using tier r ok(1) by (auto simp: tier_of_def schema_ok_def account_keys_def dest: keyed_unique [of og_id])
    then show ?thesis using room True a by (simp add: t' live_apps_def live_app_def)
  next
    case False
    then have "live_apps (og_id r) t' = live_apps (og_id r) t" using a by (simp add: t' live_apps_def live_app_def)
    then show ?thesis using ok(2) r by (simp add: within_quota_def)
  qed
  then show ?thesis by (simp add: within_quota_def t')
qed

lemma within_quota_new_org:
  assumes ok: "schema_ok w t" "within_quota t" and ins: "insert_org w name slug n t = Inr (x, t')"
  shows "within_quota t'"
proof -
  have t': "t' = t\<lparr>tb_orgs := tb_orgs t @ [x]\<rparr>" and fresh: "og_id x \<notin> og_id ` set (tb_orgs t)"
    using ins by (auto simp: insert_org_def Let_def list_ex_iff split: if_splits)
  have "ap_org ` set (tb_apps t) \<subseteq> og_id ` set (tb_orgs t)"
    using ok(1) by (simp add: schema_ok_def references_def refers_def)
  then have "og_id x \<notin> ap_org ` set (tb_apps t)" using fresh by blast
  then have "live_apps (og_id x) t' = []" by (auto simp: t' live_apps_def live_app_def filter_empty_conv image_iff)
  then have "int (length (live_apps (og_id s) t')) \<le> max_apps (og_tier s)" if "s \<in> set (tb_orgs t')" for s
    using that ok(2) by (cases "s \<in> set (tb_orgs t)") (auto simp: within_quota_def t' live_apps_def max_apps_def)
  then show ?thesis by (simp add: within_quota_def)
qed

lemma quota_elsewhere:
  assumes "sound_tables w t \<Longrightarrow> sound_tables w t'" and "tb_apps t' = tb_apps t" "tb_orgs t' = tb_orgs t" and "quota_tables w t"
  shows "quota_tables w t'"
  using assms within_quota_same unfolding quota_tables_def by blast

lemma same_apps:
  "insert_service w name ty rt port u n t = Inr (x3, t') \<Longrightarrow> tb_apps t' = tb_apps t \<and> tb_orgs t' = tb_orgs t"
  "insert_env w name ns u n t = Inr (x4, t') \<Longrightarrow> tb_apps t' = tb_apps t \<and> tb_orgs t' = tb_orgs t"
  "insert_deployment w snapshot u e n t = Inr (x5, t') \<Longrightarrow> tb_apps t' = tb_apps t \<and> tb_orgs t' = tb_orgs t"
  "set_deployment_state w d state n t = Inr (x6, t') \<Longrightarrow> tb_apps t' = tb_apps t \<and> tb_orgs t' = tb_orgs t"
  "insert_revision w inp nxt d n t = Inr (x7, t') \<Longrightarrow> tb_apps t' = tb_apps t \<and> tb_orgs t' = tb_orgs t"
  "insert_domain_stmt w dr u n t = Inr (x8, t') \<Longrightarrow> tb_apps t' = tb_apps t \<and> tb_orgs t' = tb_orgs t"
  "verify_domain_stmt i n t = Inr (x6, t') \<Longrightarrow> tb_apps t' = tb_apps t \<and> tb_orgs t' = tb_orgs t"
  "insert_database w kind isolation u n t = Inr (x9, t') \<Longrightarrow> tb_apps t' = tb_apps t \<and> tb_orgs t' = tb_orgs t"
  "insert_binding w i u n t = Inr (x6, t') \<Longrightarrow> tb_apps t' = tb_apps t \<and> tb_orgs t' = tb_orgs t"
  "set_isolation w i isolation n t = Inr (x6, t') \<Longrightarrow> tb_apps t' = tb_apps t \<and> tb_orgs t' = tb_orgs t"
  "upsert_secret w name sealed u n t = Inr (x10, t') \<Longrightarrow> tb_apps t' = tb_apps t \<and> tb_orgs t' = tb_orgs t"
  "insert_secret_revision version sealed s n t = Inr (x6, t') \<Longrightarrow> tb_apps t' = tb_apps t \<and> tb_orgs t' = tb_orgs t"
  "touch_api_token w hash n t = Inr (x6, t') \<Longrightarrow> tb_apps t' = tb_apps t \<and> tb_orgs t' = tb_orgs t"
  "insert_member u g role n t = Inr (x6, t') \<Longrightarrow> tb_apps t' = tb_apps t \<and> tb_orgs t' = tb_orgs t"
  "purge_stmt w key g n t = Inr (x6, t') \<Longrightarrow> tb_apps t' = tb_apps t \<and> tb_orgs t' = tb_orgs t"
  "claim_stmt w key g hash n t = Inr (x6, t') \<Longrightarrow> tb_apps t' = tb_apps t \<and> tb_orgs t' = tb_orgs t"
  "complete_stmt key g status content n t = Inr (x6, t') \<Longrightarrow> tb_apps t' = tb_apps t \<and> tb_orgs t' = tb_orgs t"
  "audit_stmt w entry n t = Inr (x6, t') \<Longrightarrow> tb_apps t' = tb_apps t \<and> tb_orgs t' = tb_orgs t"
  by (auto simp: insert_service_def insert_env_def insert_deployment_def set_deployment_state_def insert_revision_def insert_domain_stmt_def
      verify_domain_stmt_def insert_database_def insert_binding_def set_isolation_def upsert_secret_def insert_secret_revision_def
      touch_api_token_def insert_member_def upsert_member_def purge_stmt_def claim_stmt_def complete_stmt_def audit_stmt_def uuid_arg_Inr Let_def
      split: sum.splits option.splits if_splits)

lemma stmt_keeps_quota:
  assumes "stmt_keeps (schema_ok w) st" and "\<And>n t x t'. st n t = Inr (x, t') \<Longrightarrow> tb_apps t' = tb_apps t \<and> tb_orgs t' = tb_orgs t"
  shows "stmt_keeps (quota_tables w) st"
proof (rule stmt_keepsI)
  fix n t x t'
  assume q: "quota_tables w t" and run: "st n t = Inr (x, t')"
  show "quota_tables w t'"
    by (rule quota_elsewhere [OF sound_keepsD [OF assms(1) _ run] _ _ q]) (use assms(2) [OF run] in auto)
qed

lemma quota_gate_stable: "gate_stable w (quota_tables w)"
proof -
  have "stmt_keeps (quota_tables w) (touch_api_token w hash)" "stmt_keeps (quota_tables w) (insert_member u h role)" for hash u h role
    by (rule stmt_keeps_quota; (rule schema_token_stmts schema_member_stmts same_apps; assumption?))+
  moreover have "stmt_keeps (quota_tables w) (insert_org w name slug)" for name slug
    using sound_keepsD [OF schema_member_stmts(3) [of w name slug]] within_quota_new_org [of w _ name slug]
    by (auto simp: stmt_keeps_def quota_tables_def sound_tables_def)
  moreover have "keeps (quota_tables w) (insert_security_event w kind ip detail)" for kind ip detail
    unfolding insert_security_event_def
    by (intro keeps_intro stmt_keepsI) (auto simp: quota_tables_def sound_tables_def schema_defs within_quota_def live_apps_def split: sum.splits)
  ultimately show ?thesis by (simp add: gate_stable_def)
qed

lemma quota_parts: "quota_tables w t \<longleftrightarrow> sound_tables w t \<and> within_quota t"
  by (simp add: quota_tables_def)

lemma quota_step:
  assumes "quota_tables w t" and "sound_tables w t'" and "tb_apps t' = tb_apps t \<and> tb_orgs t' = tb_orgs t"
  shows "quota_tables w t'"
  using assms within_quota_same by (simp add: quota_tables_def)

lemma quota_sound: "quota_tables w t \<Longrightarrow> sound_tables w t"
  by (simp add: quota_tables_def)

lemma quota_update_app:
  assumes "quota_tables w t" and "sound_tables w t'" and f: "\<And>now g a. live_app g (f now a) \<Longrightarrow> live_app g a"
    and "update_app w appID orgID f n t = Inr (x, t')"
  shows "quota_tables w t'"
  using assms within_quota_update [of "f (db_now w n)", OF f] by (auto simp: quota_tables_def update_app_def uuid_arg_Inr)

lemma quota_rename:
  assumes "quota_tables w t" and "sound_tables w t'" and "rename_stmt w name slug u me n t = Inr (x, t')"
  shows "quota_tables w t'"
  using assms within_quota_update [of "\<lambda>a. a\<lparr>ap_name := name, ap_slug := slug\<rparr>" t]
  by (auto simp: quota_tables_def rename_stmt_def live_app_def Let_def split: if_splits sum.splits)

lemma quota_contract: "app_invariant w me (quota_tables w)"
proof
  show "stmt_keeps (quota_tables w) (purge_stmt w key h)" "stmt_keeps (quota_tables w) (claim_stmt w key h hash)"
    "stmt_keeps (quota_tables w) (complete_stmt key h status content)" "stmt_keeps (quota_tables w) (audit_stmt w entry)"
    for key h hash status content entry
    by (rule stmt_keeps_quota; (rule schema_idem_stmts schema_token_stmts same_apps; assumption?))+
  show "quota_tables w t'" if "quota_tables w t" "owned t u me" "insert_service w name ty rt port u n t = Inr (x3, t')" for t u n t' name port rt ty x3
    by (rule quota_step [OF that(1) kept.service_inserted [OF quota_sound [OF that(1)] that(2-3)] same_apps(1) [OF that(3)]])
  show "quota_tables w t'" if "quota_tables w t" "owned t u me" "insert_env w name ns u n t = Inr (x4, t')" for t u n t' name ns x4
    by (rule quota_step [OF that(1) kept.env_inserted [OF quota_sound [OF that(1)] that(2-3)] same_apps(2) [OF that(3)]])
  show "quota_tables w t'" if "quota_tables w t" "owned t u me" "insert_deployment w snapshot u e n t = Inr (x5, t')" for t u n t' e snapshot x5
    by (rule quota_step [OF that(1) kept.deployment_inserted [OF quota_sound [OF that(1)] that(2-3)] same_apps(3) [OF that(3)]])
  show "quota_tables w t'" if "quota_tables w t" "owned t u me" "deployment_of t u d" "set_deployment_state w d ''PLANNED'' n t = Inr (x6, t')" for t u n t' d x6
    by (rule quota_step [OF that(1) kept.deployment_planned [OF quota_sound [OF that(1)] that(2-4)] same_apps(4) [OF that(4)]])
  show "quota_tables w t'" if "quota_tables w t" "owned t u me" "deployment_of t u d" "insert_revision w inp nxt d n t = Inr (x7, t')" for t u n t' d inp nxt x7
    by (rule quota_step [OF that(1) kept.revision_inserted [OF quota_sound [OF that(1)] that(2-4)] same_apps(5) [OF that(4)]])
  show "quota_tables w t'" if "quota_tables w t" "owned t u me" "insert_domain_stmt w dr u n t = Inr (x8, t')" for t u n t' dr x8
    by (rule quota_step [OF that(1) kept.domain_inserted [OF quota_sound [OF that(1)] that(2-3)] same_apps(6) [OF that(3)]])
  show "quota_tables w t'" if "quota_tables w t" "owned t u me" "domain_of t u i" "verify_domain_stmt i n t = Inr (x6, t')" for t u n t' i x6
    by (rule quota_step [OF that(1) kept.domain_verified [OF quota_sound [OF that(1)] that(2-4)] same_apps(7) [OF that(4)]])
  show "quota_tables w t'" if "quota_tables w t" "owned t u me" "insert_database w kind isolation u n t = Inr (x9, t')" for t u n t' isolation kind x9
    by (rule quota_step [OF that(1) kept.database_inserted [OF quota_sound [OF that(1)] that(2-3)] same_apps(8) [OF that(3)]])
  show "quota_tables w t'" if "quota_tables w t" "owned t u me" "database_of t u i" "insert_binding w i u n t = Inr (x6, t')" for t u n t' i x6
    by (rule quota_step [OF that(1) kept.binding_inserted [OF quota_sound [OF that(1)] that(2-4)] same_apps(9) [OF that(4)]])
  show "quota_tables w t'" if "quota_tables w t" "owned t u me" "upsert_secret w name sealed u n t = Inr (x10, t')" for t u n t' name sealed x10
    by (rule quota_step [OF that(1) kept.secret_upserted [OF quota_sound [OF that(1)] that(2-3)] same_apps(11) [OF that(3)]])
  show "quota_tables w t'" if "quota_tables w t" "owned t u me" "secret_of t u s" "insert_secret_revision version sealed s n t = Inr (x6, t')" for t u n t' s sealed version x6
    by (rule quota_step [OF that(1) kept.secret_revised [OF quota_sound [OF that(1)] that(2-4)] same_apps(12) [OF that(4)]])
  show "quota_tables w t'" if "quota_tables w t" "owned t u me" "database_of t u i" "isolation \<in> {''shared'', ''dedicated''}"
    "set_isolation w i isolation n t = Inr (x6, t')" for t u n t' i isolation x6
    by (rule quota_step [OF that(1) kept.isolation_set [OF quota_sound [OF that(1)] that(2-5)] same_apps(10) [OF that(5)]])
  show "quota_tables w t'" if "quota_tables w t" "tier_of me t tier" "insert_app w c name slug me (max_apps tier) n t = Inr (x1, t')"
    for t tier c name slug n x1 t'
    using kept.app_inserted [OF quota_sound [OF that(1)] that(2,3)] within_quota_insert [OF _ _ that(2,3)] that(1)
    by (simp add: quota_parts sound_tables_def)
  show "quota_tables w t'" if "quota_tables w t" "rename_stmt w name slug u me n t = Inr (x1, t')" for t name slug u n x1 t'
    by (rule quota_rename [OF that(1) kept.app_renamed [OF quota_sound [OF that(1)] that(2)] that(2)])
  show "quota_tables w t'" if "quota_tables w t" "db_cast w orgID = Some me"
    "update_app w appID orgID (\<lambda>now a. a\<lparr>ap_deleted := Some now\<rparr>) n t = Inr (x2, t')" for t orgID appID n x2 t'
    by (rule quota_update_app [OF that(1) kept.app_deleted [OF quota_sound [OF that(1)] that(2,3)] _ that(3)]) (simp add: live_app_def)
  show "quota_tables w t'" if "quota_tables w t" "db_cast w orgID = Some me"
    "update_app w appID orgID (\<lambda>now a. a\<lparr>ap_spec := Some doc\<rparr>) n t = Inr (x2, t')" for t orgID appID doc n x2 t'
    by (rule quota_update_app [OF that(1) kept.spec_stored [OF quota_sound [OF that(1)] that(2,3)] _ that(3)]) (simp add: live_app_def)
qed (simp_all add: quota_gate_stable quota_parts sound_tables_def)

interpretation bounded: app_invariant w me "quota_tables w" for w me
  by (rule quota_contract)

end
