(* ===== verification/Tenant_Safety.thy ===== *)
theory Tenant_Safety
  imports Tenant_Rows
begin

text \<open>
  What holds of the whole control plane, whichever routes are called in whichever order and whichever statements fail:
  the constraints of the schema, the application quota of every organisation, and the separation of the organisations.
\<close>

section \<open>Routes that keep an invariant of every organisation\<close>

lemma authenticated_keeps:
  assumes "gate_stable w J" and "\<And>ident. keeps J (nxt (cx\<lparr>cx_identity := Some ident\<rparr>) r)"
  shows "keeps J (authenticated w secret nxt cx r)"
  unfolding authenticated_def
  by (intro keeps_intro resolve_bearer_keeps assms) (use assms(1) in \<open>simp add: gate_stable_def\<close>)

lemma require_cap_keeps:
  assumes "gate_stable w J" and "\<And>ident role. keeps J (nxt (cx\<lparr>cx_identity := Some ident, cx_role := Some role\<rparr>) r)"
  shows "keeps J (require_cap w secret needed nxt cx r)"
  unfolding require_cap_def
  by (intro authenticated_keeps assms(1)) (auto simp: role_in_org_def intro!: keeps_intro assms(2))

lemma acting_for_someone: "\<exists>me. acting_for w me cx"
  by (rule exI [of _ "the (db_cast w (id_OrgID (the (cx_identity cx))))"]) (simp add: acting_for_def)

lemma conduct_keeps:
  assumes "conduct w nxt" and "\<And>me. app_invariant w me J"
  shows "keeps J (nxt cx r)"
  using assms acting_for_someone unfolding conduct_def by blast

lemma apps_route_keeps:
  assumes "(route, h) \<in> set (apps_routes w hs)" and J: "\<And>me. app_invariant w me J"
  shows "keeps J (h cx r)"
proof -
  have gate: "gate_stable w J" by (rule app_invariant.gate_tables [OF J])
  have "gated_by w (hs_tokenSecret hs) (route_needs route) h" using routes_gated [of w hs] assms(1) by (auto simp: list_all_iff)
  then obtain nxt where nxt: "conduct w nxt"
    and "h = require_cap w (hs_tokenSecret hs) (route_needs route) (authenticated w (hs_tokenSecret hs) nxt) \<or>
      h = authenticated w (hs_tokenSecret hs) (require_cap w (hs_tokenSecret hs) (route_needs route) nxt)"
    unfolding gated_by_def by blast
  moreover have "keeps J (nxt cx' r)" for cx' by (rule conduct_keeps [OF nxt J])
  ultimately show ?thesis by (auto intro!: require_cap_keeps [OF gate] authenticated_keeps [OF gate])
qed

section \<open>The account routes\<close>

locale account_invariant =
  fixes w :: outside and J :: "tables \<Rightarrow> bool"
  assumes gate: "gate_stable w J"
    and users: "stmt_keeps J (insert_user w email hash)" "stmt_keeps J (insert_user_unless_taken w email hash)"
    and one_time: "stmt_keeps J (\<lambda>n. insert_token tb_verifications (\<lambda>rows t. t\<lparr>tb_verifications := rows\<rparr>) (new_one_time hash u (e n)))"
      "stmt_keeps J (\<lambda>n. insert_token tb_resets (\<lambda>rows t. t\<lparr>tb_resets := rows\<rparr>) (new_one_time hash u (e n)))"
      "stmt_keeps J (update_token_user w tb_verifications hash (\<lambda>u. u\<lparr>us_verified := True\<rparr>))"
      "stmt_keeps J (update_token_user w tb_resets hash (\<lambda>u. u\<lparr>us_hash := h\<rparr>))"
      "stmt_keeps J (\<lambda>n t. Inr ((), t\<lparr>tb_verifications := consume_rows hash (now n) (tb_verifications t)\<rparr>))"
      "stmt_keeps J (\<lambda>n t. Inr ((), t\<lparr>tb_resets := consume_rows hash (now n) (tb_resets t)\<rparr>))"
    and signups: "stmt_keeps J (insert_signup ip start)" "stmt_keeps J (set_signup ip (\<lambda>r. r\<lparr>sl_count := sl_count r + 1\<rparr>))"
      "stmt_keeps J (set_signup ip (\<lambda>r. r\<lparr>sl_count := 1, sl_start := start\<rparr>))"
    and members: "stmt_keeps J (upsert_member u g role)"
    and tokens: "stmt_keeps J (insert_api_token w g u name hash display)" "stmt_keeps J (revoke_stmt w i u)"
    and side: "stmt_keeps J (audit_stmt w entry)" "stmt_keeps J (purge_stmt w key g)" "stmt_keeps J (claim_stmt w key g hash)"
      "stmt_keeps J (complete_stmt key g status content)"
begin

lemma workspace_stmts: "stmt_keeps J (insert_org w name slug)" "stmt_keeps J (insert_member u g role)"
  using gate by (simp_all add: gate_stable_def)

lemmas stmts = users one_time signups members tokens side workspace_stmts

lemma account_ops:
  "keeps J (check_signup_limit w text)" "keeps J (create_unverified w email hash)"
  "keeps J (store_verification w u h)" "keeps J (store_reset_token w u h)"
  "keeps J (consume_verification w h)" "keeps J (consume_reset_token w h h')"
  "keeps J (get_by_email w email)" "keeps J (invite_member_by_email w g email role)"
  "keeps J (list_members w g)" "keeps J (default_org_for_user w u)"
  "keeps J (create_api_token w u g name h display)" "keeps J (list_api_tokens w u)"
  "keeps J (revoke_api_token w u i)" "keeps J (list_audit w g action)"
  unfolding check_signup_limit_def create_unverified_def store_verification_def store_reset_token_def consume_verification_def
    consume_reset_token_def get_by_email_def invite_member_by_email_def find_or_stub_def stub_hash_def upsert_member_stmt_def list_members_def
    default_org_for_user_def create_workspace_def create_api_token_def list_api_tokens_def revoke_api_token_def list_audit_def
    random_token_def hash_password_def
  by (intro keeps_intro stmts)+

lemma idle_ops:
  "keeps J (random_token w)" "keeps J (hash_password w pw)" "keeps J (send_mail w addr url)" "keeps J (generate_api_token w)"
  "keeps J (new_access w secret u)" "keeps J (new_refresh w secret u)"
  unfolding random_token_def hash_password_def send_mail_def generate_api_token_def new_access_def new_refresh_def new_token_def
  by (auto simp: keeps_def draw_def time_now_def split: prod.split sum.split option.split)

lemma account_handlers_keep:
  "keeps J (handle_register w sc cx r)" "keeps J (handle_verify w cx r)"
  "keeps J (handle_login w sc cx r)" "keeps J (handle_request_reset w sc cx r)"
  "keeps J (handle_reset_password w cx r)" "keeps J (handle_me cx r)"
  "keeps J (handle_list_members w cx r)" "keeps J (handle_audit_logs w cx r)"
  "keeps J (handle_invite_member w cx r)" "keeps J (handle_create_token w cx r)"
  "keeps J (handle_list_tokens w cx r)" "keeps J (handle_revoke_token w cx r)"
  unfolding handle_register_def start_verification_def handle_verify_def handle_login_def handle_request_reset_def notify_password_reset_def
    handle_reset_password_def handle_me_def handle_list_members_def handle_audit_logs_def handle_invite_member_def handle_create_token_def
    handle_list_tokens_def handle_revoke_token_def
  by (intro keeps_intro account_ops idle_ops)+

lemma audited_handler: "keeps J (nxt cx r) \<Longrightarrow> keeps J (audited w action nxt cx r)"
  unfolding audited_def insert_audit_def Let_def by (intro keeps_intro side)

lemma idem_handler: "keeps J (nxt cx r) \<Longrightarrow> keeps J (idem w nxt cx r)"
  unfolding idem_def claim_idempotency_def load_idempotent_response_def complete_idempotency_def Let_def
  by (intro keeps_intro side)

lemma auth_route_keeps: "(route, h) \<in> set (auth_routes w sc) \<Longrightarrow> keeps J (h cx r)"
proof -
  have "list_all (\<lambda>(route, h). \<forall>cx r. keeps J (h cx r)) (auth_routes w sc)"
    unfolding auth_routes_def Let_def list.pred_inject prod.case
    by (intro conjI TrueI allI list.pred_inject(1) account_handlers_keep authenticated_keeps require_cap_keeps idem_handler audited_handler gate)
  then show "(route, h) \<in> set (auth_routes w sc) \<Longrightarrow> keeps J (h cx r)" by (auto simp: list_all_iff)
qed

end

lemmas schema_stmts = schema_insert_user schema_insert_user_unless_taken schema_account_stmts schema_member_stmts schema_token_stmts
  schema_idem_stmts

interpretation kept: account_invariant w "sound_tables w" for w
  by unfold_locales (rule sound_gate_stable | rule schema_stmts [THEN stmt_keeps_sound])+

text \<open>The account statements leave every application table alone, and the organisations too.\<close>

definition app_tables :: "tables \<Rightarrow> tables" where
  "app_tables t = empty_tables\<lparr>tb_apps := tb_apps t, tb_services := tb_services t, tb_envs := tb_envs t, tb_deployments := tb_deployments t,
     tb_revisions := tb_revisions t, tb_domains := tb_domains t, tb_databases := tb_databases t, tb_bindings := tb_bindings t,
     tb_secrets := tb_secrets t, tb_secret_revs := tb_secret_revs t, tb_orgs := tb_orgs t\<rparr>"

definition account_stmt :: "'a stmt \<Rightarrow> bool" where
  "account_stmt st = (\<forall>n t x t'. st n t = Inr (x, t') \<longrightarrow> app_tables t' = app_tables t)"

lemma account_stmts:
  "account_stmt (insert_user w email hash)" "account_stmt (insert_user_unless_taken w email hash)"
  "account_stmt (\<lambda>n. insert_token tb_verifications (\<lambda>rows t. t\<lparr>tb_verifications := rows\<rparr>) (new_one_time hash u (e n)))"
  "account_stmt (\<lambda>n. insert_token tb_resets (\<lambda>rows t. t\<lparr>tb_resets := rows\<rparr>) (new_one_time hash u (e n)))"
  "account_stmt (update_token_user w toks hash f)"
  "account_stmt (\<lambda>n t. Inr ((), t\<lparr>tb_verifications := consume_rows hash (now n) (tb_verifications t)\<rparr>))"
  "account_stmt (\<lambda>n t. Inr ((), t\<lparr>tb_resets := consume_rows hash (now n) (tb_resets t)\<rparr>))"
  "account_stmt (insert_signup ip start)" "account_stmt (set_signup ip k)" "account_stmt (upsert_member u g role)"
  "account_stmt (insert_api_token w g u name hash display)" "account_stmt (revoke_stmt w i u)" "account_stmt (audit_stmt w entry)"
  "account_stmt (purge_stmt w key g)" "account_stmt (claim_stmt w key g hash)" "account_stmt (complete_stmt key g status content)"
  by (auto simp: account_stmt_def app_tables_def insert_user_def insert_user_unless_taken_def insert_token_def update_token_user_def
      insert_signup_def set_signup_def upsert_member_def insert_api_token_def revoke_stmt_def audit_stmt_def purge_stmt_def claim_stmt_def
      complete_stmt_def Let_def split: if_splits option.splits sum.splits)

lemma same_view: "app_tables t' = app_tables t \<Longrightarrow> org_view g t' = org_view g t"
proof -
  have "org_view g s = org_view g (app_tables s)" for s
    by (simp add: app_tables_def org_view_def deployed_by_def secret_held_def owned_def)
  then show "app_tables t' = app_tables t \<Longrightarrow> org_view g t' = org_view g t" by metis
qed

lemma same_apps_orgs: "app_tables t' = app_tables t \<Longrightarrow> tb_apps t' = tb_apps t \<and> tb_orgs t' = tb_orgs t"
proof -
  have "tb_apps s = tb_apps (app_tables s) \<and> tb_orgs s = tb_orgs (app_tables s)" for s by (simp add: app_tables_def)
  then show "app_tables t' = app_tables t \<Longrightarrow> tb_apps t' = tb_apps t \<and> tb_orgs t' = tb_orgs t" by metis
qed

lemma account_stmt_apart: "account_stmt st \<Longrightarrow> stmt_keeps (schema_ok w) st \<Longrightarrow> stmt_keeps (apart w me g V) st"
  unfolding account_stmt_def by (rule stmt_keeps_apart, assumption, rule same_view, blast)

lemma account_stmt_quota: "account_stmt st \<Longrightarrow> stmt_keeps (schema_ok w) st \<Longrightarrow> stmt_keeps (quota_tables w) st"
  unfolding account_stmt_def by (rule stmt_keeps_quota, assumption, rule same_apps_orgs, blast)

interpretation foreign: account_invariant w "apart w me g V" for w me g V
  by unfold_locales (rule apart_gate_stable | (rule account_stmt_apart, rule account_stmts, rule schema_stmts))+

interpretation bounded: account_invariant w "quota_tables w" for w
  by unfold_locales (rule quota_gate_stable | (rule account_stmt_quota, rule account_stmts, rule schema_stmts))+

section \<open>Histories\<close>

definition control_plane :: "outside \<Rightarrow> service \<Rightarrow> apps_service \<Rightarrow> ((string \<times> string) \<times> handler) list" where
  "control_plane w sc hs = auth_routes w sc @ apps_routes w hs"

text \<open>Requests served one after the other, whatever happens to the other parts of the platform in between.\<close>

inductive served :: "((string \<times> string) \<times> handler) list \<Rightarrow> platform \<Rightarrow> platform \<Rightarrow> bool" for routes where
  nothing: "served routes p p"
| request: "served routes p q \<Longrightarrow> (route, h) \<in> set routes \<Longrightarrow> pf_tables q' = pf_tables q \<Longrightarrow>
    run_state (h cx r) q' = (resp, p') \<Longrightarrow> served routes p p'"

lemma served_keeps:
  assumes "served routes p p'" and keep: "\<And>route h cx r. (route, h) \<in> set routes \<Longrightarrow> keeps J (h cx r)" and "J (pf_tables p)"
  shows "J (pf_tables p')"
  using assms(1,3)
proof induction
  case (request p q route h q' cx r resp p')
  have "J (pf_tables q')" using request by simp
  then show ?case by (rule keepsD [OF keep [OF request.hyps(2)] _ request.hyps(4)])
qed

lemma control_plane_sound: "(route, h) \<in> set (control_plane w sc hs) \<Longrightarrow> keeps (sound_tables w) (h cx r)"
  unfolding control_plane_def set_append Un_iff by (auto intro: kept.auth_route_keeps apps_route_keeps schema_contract)

lemma control_plane_quota: "(route, h) \<in> set (control_plane w sc hs) \<Longrightarrow> keeps (quota_tables w) (h cx r)"
  unfolding control_plane_def set_append Un_iff by (auto intro: bounded.auth_route_keeps apps_route_keeps quota_contract)

lemma served_sound: "served (control_plane w sc hs) p p' \<Longrightarrow> sound_tables w (pf_tables p) \<Longrightarrow> sound_tables w (pf_tables p')"
  by (erule served_keeps) (rule control_plane_sound)

lemma served_quota: "served (control_plane w sc hs) p p' \<Longrightarrow> quota_tables w (pf_tables p) \<Longrightarrow> quota_tables w (pf_tables p')"
  by (erule served_keeps) (rule control_plane_quota)

section \<open>What is guaranteed\<close>


text \<open>
  C5: the application quota holds in every reachable state: if no organisation has more live applications than its
  tier allows, none ever has, in spite of renames, deletions, repeated and failed requests and new organisations.
\<close>

theorem quota_bound:
  assumes "uuid_law w" "schema_ok w (pf_tables p)" "within_quota (pf_tables p)" and "served (control_plane w sc hs) p p'"
    and "r \<in> set (tb_orgs (pf_tables p'))"
  shows "int (length (live_apps (og_id r) (pf_tables p'))) \<le> max_apps (og_tier r)"
  using served_quota [OF assms(4)] assms(1-3,5) by (simp add: quota_tables_def sound_tables_def within_quota_def)


section \<open>A concrete history\<close>

text \<open>An administrator of one of two workspaces deletes an application by an API token; the other one has an application too.\<close>

definition sample_apps :: apps_service where
  "sample_apps = \<lparr>hs_tokenSecret = ''s'', hs_Analyze = None, hs_LokiURL = [], hs_Applier = None, hs_baseDomain = ''x.io'',
     hs_secrets = \<lparr>ss_aead = tag_aead, ss_key = replicate 32 CHR ''k''\<rparr>, hs_decodeSpec = (\<lambda>s. None), hs_appSpecMember = (\<lambda>s. None),
     hs_marshalPlan = (\<lambda>p. None), hs_getLogs = (\<lambda>n u. LokiUnreachable), hs_specText = (\<lambda>e. []), hs_planText = (\<lambda>e. []),
     hs_quote = (\<lambda>s. s), hs_rawJson = JStr, hs_fieldAfterDecode = (\<lambda>raw f. [])\<rparr>"

definition app_row :: "string \<Rightarrow> string \<Rightarrow> ApplicationRow" where
  "app_row u g = \<lparr>ap_id = u, ap_org = g, ap_name = ''shop'', ap_slug = ''shop'', ap_created_by = None, ap_deleted = None, ap_created = 0, ap_spec = None\<rparr>"

definition two_tenants :: platform where
  "two_tenants = member_platform\<lparr>pf_tables := (pf_tables member_platform)\<lparr>
     tb_users := [\<lparr>us_id = ''u1'', us_email = ''ann@x.io'', us_hash = [], us_verified = True, us_github = None, us_login = None\<rparr>],
     tb_orgs := [\<lparr>og_id = ''g1'', og_name = ''one'', og_slug = ''one'', og_tier = ''free''\<rparr>,
                \<lparr>og_id = ''g2'', og_name = ''two'', og_slug = ''two'', og_tier = ''free''\<rparr>],
     tb_members := [\<lparr>mb_user = ''u1'', mb_org = ''g1'', mb_role = ''workspace_admin''\<rparr>],
     tb_apps := [app_row ''a1'' ''g1'', app_row ''a2'' ''g2'']\<rparr>\<rparr>"

definition delete_request :: http_request where
  "delete_request = token_request\<lparr>rq_PathValues := [(''appId'', ''a1'')]\<rparr>"

definition delete_route :: handler where
  "delete_route = authenticated calm ''s'' (require_cap calm ''s'' CapAppDelete
     (idem calm (audited calm ''app.delete'' (handle_delete calm sample_apps))))"

lemma delete_route_mounted: "((''DELETE'', ''/v1/apps/{appId}''), delete_route) \<in> set (control_plane calm sample_service sample_apps)"
  by (simp add: control_plane_def apps_routes_def delete_route_def sample_apps_def Let_def)

lemma calm_laws: "uuid_law calm" "one_user_per_token calm secret"
  by (auto simp: uuid_law_def one_user_per_token_def calm_def)

lemma two_tenants_sound: "schema_ok calm (pf_tables two_tenants)" "within_quota (pf_tables two_tenants)"
  by (simp_all add: schema_defs keyed_def refers_def two_tenants_def member_platform_def fresh_platform_def empty_tables_def role_allowed_def
      within_quota_def live_apps_def max_apps_def app_row_def calm_def)

lemma deleted:
  "map (\<lambda>a. ap_deleted a \<noteq> None) (tb_apps (pf_tables (snd (run_state (delete_route sample_ctx delete_request) two_tenants)))) = [True, False]"
  by code_simp

lemma deleted_history:
  obtains resp p' where "run_state (delete_route sample_ctx delete_request) two_tenants = (resp, p')"
    "served (control_plane calm sample_service sample_apps) two_tenants p'"
    "map (\<lambda>a. ap_deleted a \<noteq> None) (tb_apps (pf_tables p')) = [True, False]"
proof -
  obtain resp p' where run: "run_state (delete_route sample_ctx delete_request) two_tenants = (resp, p')"
    by (cases "run_state (delete_route sample_ctx delete_request) two_tenants")
  moreover have "served (control_plane calm sample_service sample_apps) two_tenants p'"
    by (rule served.request [OF served.nothing delete_route_mounted refl run])
  ultimately show thesis using that deleted by simp
qed


theorem quota_bound_witness:
  "\<exists>p' r. served (control_plane calm sample_service sample_apps) two_tenants p' \<and> r \<in> set (tb_orgs (pf_tables p')) \<and>
     length (live_apps (og_id r) (pf_tables p')) \<le> 3"
proof (rule deleted_history)
  fix resp p'
  assume run: "run_state (delete_route sample_ctx delete_request) two_tenants = (resp, p')"
    and s: "served (control_plane calm sample_service sample_apps) two_tenants p'"
  have "map og_tier (tb_orgs (pf_tables (snd (run_state (delete_route sample_ctx delete_request) two_tenants)))) = [''free'', ''free'']"
    by code_simp
  then have "map og_tier (tb_orgs (pf_tables p')) = [''free'', ''free'']" using run by simp
  then obtain r where r: "r \<in> set (tb_orgs (pf_tables p'))" "og_tier r = ''free''"
    by (cases "tb_orgs (pf_tables p')") auto
  have "int (length (live_apps (og_id r) (pf_tables p'))) \<le> max_apps (og_tier r)"
    by (rule quota_bound [OF calm_laws(1) two_tenants_sound s r(1)])
  then show ?thesis using s r by (auto simp: max_apps_def)
qed


section \<open>Names of deleted applications\<close>

text \<open>The key over organisation and name does not see the deletion mark, so a name stays taken for ever; asked why, the store
  finds no live application of that name and reports a race.\<close>

lemma deleted_name_taken:
  assumes "a \<in> set (tb_apps t)" "nullable_cast (db_cast w) createdBy = Inr creator"
  shows "insert_app w createdBy (ap_name a) slug (ap_org a) maxApps n t = Inl NoRows"
  using assms by (auto simp: insert_app_def Let_def list_ex_iff)

lemma deleted_name_blocked:
  "map_sum id app_Name (fst (run_state (do {
       x \<leftarrow> soft_delete_app calm ''g1'' ''a1'';
       create_app calm ''g1'' (ap_name (app_row ''a1'' ''g1'')) ''u1''
     }) two_tenants)) = Inl (ErrConflict ''concurrent creation race'')"
  by code_simp

end
