(* ===== verification/Secret_Laws.thy ===== *)
theory Secret_Laws
  imports Tenant_Safety
begin

text \<open>
  What the secret store promises: the text set last is the text revealed, other secrets stay as they are, and the
  history of a secret grows by one entry whose version is beyond every earlier one.
\<close>

section \<open>One write\<close>

lemma fold_max_ge: "(a :: int) \<le> fold max xs a \<and> (\<forall>x \<in> set xs. x \<le> fold max xs a)"
proof (induction xs arbitrary: a)
  case (Cons x xs)
  from Cons [of "max x a"] show ?case by auto
qed simp

lemma next_version_above: "r \<in> set (versions_of s t) \<Longrightarrow> sr_version r < next_version s t"
proof -
  assume r: "r \<in> set (versions_of s t)"
  then obtain x xs where xs: "versions_of s t = x # xs" by (cases "versions_of s t") auto
  have "sr_version r \<le> fold max (map sr_version xs) (sr_version x)"
    using r fold_max_ge [of "sr_version x" "map sr_version xs"] unfolding xs by auto
  then show "sr_version r < next_version s t" by (simp add: next_version_def xs)
qed

lemma upserted:
  assumes "upsert_secret w name sealed u n t = Inr ((s, v), t')"
  shows "one_row (secret_key_of u name) (tb_secrets t') = Inr \<lparr>se_id = s, se_app = u, se_name = name, se_ciphertext = sealed\<rparr>"
    and "v = next_version s t" and "tb_secret_revs t' = tb_secret_revs t"
    and "(u', name') \<noteq> (u, name) \<Longrightarrow> one_row (secret_key_of u' name') (tb_secrets t') = one_row (secret_key_of u' name') (tb_secrets t)"
proof -
  have find_same: "find P (update_where Q f xs) = map_option f (find Q xs)" if "\<And>x. P (f x) = Q x" "\<And>x. P x = Q x" for P Q f and xs :: "SecretRow list"
    using that by (induction xs) auto
  have find_apart: "find P (update_where Q f xs) = find P xs" if "\<And>x. Q x \<Longrightarrow> \<not> P x \<and> \<not> P (f x)" for P Q f and xs :: "SecretRow list"
    using that by (induction xs) auto
  have find_last: "find P (xs @ [x]) = (case find P xs of None \<Rightarrow> if P x then Some x else None | Some y \<Rightarrow> Some y)" for P and xs :: "SecretRow list" and x
    by (induction xs) auto
  have row: "r\<lparr>se_ciphertext := sealed\<rparr> = \<lparr>se_id = se_id r, se_app = u, se_name = name, se_ciphertext = sealed\<rparr>" if "secret_key_of u name r" for r
    using that by (cases r) (simp add: secret_key_of_def)
  show "one_row (secret_key_of u name) (tb_secrets t') = Inr \<lparr>se_id = s, se_app = u, se_name = name, se_ciphertext = sealed\<rparr>"
  proof (cases "one_row (secret_key_of u name) (tb_secrets t)")
    case (Inl e)
    then show ?thesis using assms
      by (auto simp: upsert_secret_def Let_def one_row_def find_last secret_key_of_def split: if_splits option.splits)
  next
    case (Inr r)
    then have r: "find (secret_key_of u name) (tb_secrets t) = Some r" "secret_key_of u name r"
      using one_row_Inr [OF Inr] by (simp_all add: one_row_def split: option.splits)
    have "find (secret_key_of u name) (tb_secrets t') = Some (r\<lparr>se_ciphertext := sealed\<rparr>)" "s = se_id r"
      using assms Inr r(1) by (auto simp: upsert_secret_def find_same secret_key_of_def)
    then show ?thesis using row [OF r(2)] by (simp add: one_row_def)
  qed
  show "v = next_version s t" "tb_secret_revs t' = tb_secret_revs t"
    using assms by (auto simp: upsert_secret_def Let_def split: sum.splits if_splits)
  show "one_row (secret_key_of u' name') (tb_secrets t') = one_row (secret_key_of u' name') (tb_secrets t)" if "(u', name') \<noteq> (u, name)"
  proof -
    have "find (secret_key_of u' name') (update_where (secret_key_of u name) (\<lambda>r. r\<lparr>se_ciphertext := sealed\<rparr>) (tb_secrets t)) =
        find (secret_key_of u' name') (tb_secrets t)"
      by (rule find_apart) (use that in \<open>auto simp: secret_key_of_def\<close>)
    moreover have "\<not> secret_key_of u' name' \<lparr>se_id = i, se_app = u, se_name = name, se_ciphertext = sealed\<rparr>" for i
      using that by (auto simp: secret_key_of_def)
    ultimately show ?thesis using assms
      by (auto simp: upsert_secret_def Let_def one_row_def find_last split: sum.splits if_splits option.splits)
  qed
qed

section \<open>Set, then reveal\<close>

lemma revision_appended:
  "insert_secret_revision v c s m t = Inr (x, t') \<Longrightarrow> tb_secrets t' = tb_secrets t \<and>
     tb_secret_revs t' = tb_secret_revs t @ [\<lparr>sr_secret = s, sr_version = v, sr_ciphertext = c\<rparr>]"
  by (auto simp: insert_secret_revision_def split: if_splits)

lemma kms_sealed:
  assumes "run_state (kms_seal w ss text) p = (Inr sealed, p')" and "\<And>n bytes. go_random w n 12 = Some bytes \<Longrightarrow> length bytes = 12"
  obtains nonce where "length nonce = 12" "sealed = nonce @ ad_seal (ss_aead ss) (ss_key ss) nonce text" "pf_tables p' = pf_tables p"
  using assms by (auto simp: kms_seal_def draw_def kms_encrypt_def split: option.splits)

lemma transact_Inr:
  assumes "run_state (transact w wrap work) p = (Inr x, p')"
  obtains now p0 p1 where "run_state (work now) p0 = (Inr x, p1)" "pf_tables p0 = pf_tables p" "pf_tables p1 = pf_tables p'"
proof -
  let ?p0 = "p\<lparr>pf_tick := Suc (pf_tick p)\<rparr>"
  obtain r p1 where w: "run_state (work (db_now w (pf_tick p))) ?p0 = (r, p1)"
    by (cases "run_state (work (db_now w (pf_tick p))) ?p0")
  have "r = Inr x" "pf_tables p1 = pf_tables p'"
    using assms w by (auto simp: transact_def Let_def split: if_splits sum.splits option.splits db_fault.splits)
  then show thesis using that [OF w [unfolded \<open>r = Inr x\<close>]] by simp
qed

lemma set_secret_run:
  assumes run: "run_state (set_secret w ss appID name text) p = (Inr x, p')" and sound: "sound_tables w (pf_tables p)"
    and entropy: "\<And>n bytes. go_random w n 12 = Some bytes \<Longrightarrow> length bytes = 12"
  obtains u s nonce n m t1 where "db_cast w appID = Some u" "length nonce = 12"
    "upsert_secret w name (nonce @ ad_seal (ss_aead ss) (ss_key ss) nonce text) u n (pf_tables p) = Inr ((s, next_version s (pf_tables p)), t1)"
    "insert_secret_revision (next_version s (pf_tables p)) (nonce @ ad_seal (ss_aead ss) (ss_key ss) nonce text) s m t1 = Inr ((), pf_tables p')"
proof -
  from run [unfolded set_secret_def] obtain sealed p1 where enc: "run_state (kms_seal w ss text) p = (Inr sealed, p1)"
    and work: "run_state (transact w SecretStorage (\<lambda>now.
         attempt (exec w (uuid_arg w appID (upsert_secret w name sealed))) (\<lambda>e. Inl (SecretStorage e)) (\<lambda>(secretID, nextVersion).
           attempt (exec w (uuid_arg w secretID (insert_secret_revision nextVersion sealed))) (\<lambda>e. Inl (SecretStorage e))
             (\<lambda>u. ret (Inr ()))))) p1 = (Inr x, p')"
    by (rule attempt_Inr [where h = "\<lambda>e. e"])
  obtain nonce where nonce: "length nonce = 12" "sealed = nonce @ ad_seal (ss_aead ss) (ss_key ss) nonce text" "pf_tables p1 = pf_tables p"
    by (rule kms_sealed [OF enc entropy])
  from work obtain p2 p5 where body: "run_state (attempt (exec w (uuid_arg w appID (upsert_secret w name sealed))) (\<lambda>e. Inl (SecretStorage e))
         (\<lambda>(secretID, nextVersion). attempt (exec w (uuid_arg w secretID (insert_secret_revision nextVersion sealed)))
           (\<lambda>e. Inl (SecretStorage e)) (\<lambda>u. ret (Inr ())))) p2 = (Inr x, p5)"
    and ends: "pf_tables p2 = pf_tables p1" "pf_tables p5 = pf_tables p'"
    by (rule transact_Inr)
  from body obtain sv p3 where ups: "run_state (exec w (uuid_arg w appID (upsert_secret w name sealed))) p2 = (Inr sv, p3)"
    and rest: "run_state (case sv of (secretID, nextVersion) \<Rightarrow> attempt (exec w (uuid_arg w secretID (insert_secret_revision nextVersion sealed)))
           (\<lambda>e. Inl (SecretStorage e)) (\<lambda>u. ret (Inr ()))) p3 = (Inr x, p5)"
    by (rule attempt_Inr)
  obtain s v where sv: "sv = (s, v)" by (cases sv)
  obtain u where u: "db_cast w appID = Some u" and up: "upsert_secret w name sealed u (pf_tick p2) (pf_tables p) = Inr ((s, v), pf_tables p3)"
    using exec_Inr [OF ups] ends nonce(3) by (auto simp: uuid_arg_Inr sv)
  have vers: "v = next_version s (pf_tables p)" by (rule upserted(2) [OF up])
  have "sound_tables w (pf_tables p3)"
    using stmt_keeps_sound [OF schema_upsert_secret, of w name sealed u] sound up by (auto simp: stmt_keeps_def sound_tables_def)
  moreover have "\<lparr>se_id = s, se_app = u, se_name = name, se_ciphertext = sealed\<rparr> \<in> set (tb_secrets (pf_tables p3))"
    using one_row_Inr [OF upserted(1) [OF up]] by simp
  ultimately have canon: "db_cast w s = Some s"
    by (fastforce simp: sound_tables_def schema_ok_def columns_def reads_back_def list_all_iff)
  from rest [unfolded sv prod.case] obtain y p4 where ins: "run_state (exec w (uuid_arg w s (insert_secret_revision v sealed))) p3 = (Inr y, p4)"
    and "run_state (ret (Inr ()) :: (secret_error + unit) op) p4 = (Inr x, p5)"
    by (rule attempt_Inr)
  then have "insert_secret_revision v sealed s (pf_tick p3) (pf_tables p3) = Inr ((), pf_tables p')"
    using exec_Inr [OF ins] canon ends(2) by simp
  then show thesis using that [OF u nonce(1)] up vers nonce(2) by blast
qed



end
