(* ===== verification/Github.thy ===== *)
theory Github
  imports Callers Schema Apps_Handlers
begin

text \<open>
  Binding a GitHub account: \<^verbatim>\<open>auth/github.go\<close> and \<^verbatim>\<open>auth/github_handlers.go\<close>. The HTTP client comes with the
  configuration: it accepts a URL or not, and answers a call with a status and a body, or not at all; the body is \<open>None\<close>
  when reading it fails. The stored token is sealed by the KMS stub.
\<close>

section \<open>The OAuth client\<close>

record http_call =
  hq_method :: string
  hq_url :: string
  hq_headers :: "(string \<times> string) list"
  hq_body :: string

record http_reply =
  hp_status :: int
  hp_body :: "string option"

record GitHubOAuth =
  gh_cipher :: aead
  gh_key :: string
  gh_ClientID :: string
  gh_ClientSecret :: string
  gh_AuthBaseURL :: string
  gh_APIBaseURL :: string
  gh_RedirectURL :: string
  gh_accepts :: "string \<Rightarrow> bool"
  gh_send :: "nat \<Rightarrow> http_call \<Rightarrow> http_reply option"

datatype gh_error =
    GhRandom
  | GhStorage sql_error
  | ErrStateMismatch
  | GhRequest
  | GhUnreachable
  | GhStatus int
  | GhDecode
  | GhEmptyToken
  | GhSeal kms_error

abbreviation (input) githubScope :: string where "githubScope \<equiv> ''repo,read:user''"
abbreviation (input) oauthStateTTL :: duration where "oauthStateTTL \<equiv> 10 * minute"

definition client_do :: "GitHubOAuth \<Rightarrow> http_call \<Rightarrow> (gh_error + http_reply) op" where
  "client_do g q =
     (if \<not> gh_accepts g (hq_url q) then ret (Inl GhRequest)
      else do { n \<leftarrow> event; ret (case gh_send g n q of None \<Rightarrow> Inl GhUnreachable | Some a \<Rightarrow> Inr a) })"

text \<open>A struct with one string field, decoded from the body of an answer.\<close>

definition reply_field :: "outside \<Rightarrow> string \<Rightarrow> http_reply \<Rightarrow> string option" where
  "reply_field w field a =
     (case hp_body a of None \<Rightarrow> None | Some raw \<Rightarrow> map_option (\<lambda>fields. fields field) (js_strings w [field] raw))"

section \<open>Beginning and completing a binding\<close>

definition insert_state :: "outside \<Rightarrow> string \<Rightarrow> string \<Rightarrow> unit stmt" where
  "insert_state w state u n t =
     (if list_ex (\<lambda>r. os_state r = state) (tb_oauth t) then Inl UniqueViolation
      else if \<not> user_exists t u then Inl ForeignKeyViolation
      else Inr ((), t\<lparr>tb_oauth := tb_oauth t @ [\<lparr>os_state = state, os_user = u, os_created = db_now w n\<rparr>]\<rparr>))"

definition begin_binding :: "outside \<Rightarrow> GitHubOAuth \<Rightarrow> string \<Rightarrow> (gh_error + string \<times> string) op" where
  "begin_binding w g userID =
     attempt (random_token w) (\<lambda>e. Inl GhRandom) (\<lambda>state.
       attempt (exec w (uuid_arg w userID (insert_state w state))) (\<lambda>e. Inl (GhStorage e)) (\<lambda>u.
         let q = [(''client_id'', gh_ClientID g), (''scope'', githubScope), (''state'', state), (''redirect_uri'', gh_RedirectURL g)] in
         ret (Inr (gh_AuthBaseURL g @ ''/login/oauth/authorize?'' @ encode_values q, state))))"

text \<open>\<^verbatim>\<open>DELETE ... WHERE state = $1 AND created_at > now() - interval '10 minutes' RETURNING user_id\<close>.\<close>

definition live_state :: "string \<Rightarrow> time \<Rightarrow> OAuthStateRow \<Rightarrow> bool" where
  "live_state state now r = (os_state r = state \<and> os_created r > now - oauthStateTTL)"

definition consume_state :: "outside \<Rightarrow> string \<Rightarrow> string stmt" where
  "consume_state w state n t =
     (case one_row (live_state state (db_now w n)) (tb_oauth t) of
        Inl e \<Rightarrow> Inl e
      | Inr r \<Rightarrow> Inr (os_user r, t\<lparr>tb_oauth := filter (\<lambda>r. \<not> live_state state (db_now w n) r) (tb_oauth t)\<rparr>))"

definition exchange :: "outside \<Rightarrow> GitHubOAuth \<Rightarrow> string \<Rightarrow> string \<Rightarrow> (gh_error + string \<times> string) op" where
  "exchange w g code state =
     attempt (exec w (consume_state w state)) (\<lambda>e. Inl (if e = NoRows then ErrStateMismatch else GhStorage e)) (\<lambda>boundUser.
       let form = [(''client_id'', gh_ClientID g), (''client_secret'', gh_ClientSecret g), (''code'', code), (''redirect_uri'', gh_RedirectURL g)] in
       attempt (client_do g \<lparr>hq_method = ''POST'', hq_url = gh_AuthBaseURL g @ ''/login/oauth/access_token'',
           hq_headers = [(''Accept'', ''application/json''), (''Content-Type'', ''application/x-www-form-urlencoded'')],
           hq_body = encode_values form\<rparr>) Inl (\<lambda>res.
         ret (if hp_status res \<noteq> 200 then Inl (GhStatus (hp_status res))
              else case reply_field w ''access_token'' res of
                None \<Rightarrow> Inl GhDecode
              | Some token \<Rightarrow> if token = [] then Inl GhEmptyToken else Inr (token, boundUser))))"

section \<open>The GitHub API\<close>

definition api_get :: "GitHubOAuth \<Rightarrow> string \<Rightarrow> string \<Rightarrow> (gh_error + http_reply) op" where
  "api_get g path token =
     client_do g \<lparr>hq_method = ''GET'', hq_url = gh_APIBaseURL g @ path,
       hq_headers = [(''Authorization'', ''Bearer '' @ token), (''Accept'', ''application/vnd.github+json'')], hq_body = []\<rparr>"

definition fetch_login :: "outside \<Rightarrow> GitHubOAuth \<Rightarrow> string \<Rightarrow> (gh_error + string) op" where
  "fetch_login w g token =
     attempt (api_get g ''/user'' token) Inl (\<lambda>res.
       ret (case reply_field w ''login'' res of None \<Rightarrow> Inl GhDecode | Some login \<Rightarrow> Inr login))"

definition list_repos :: "GitHubOAuth \<Rightarrow> string \<Rightarrow> int \<Rightarrow> (gh_error + http_reply) op" where
  "list_repos g token page = api_get g (''/user/repos?page='' @ itoa page @ ''&per_page=30&sort=updated'') token"

section \<open>The stored token\<close>

definition set_binding :: "string option \<Rightarrow> string option \<Rightarrow> string \<Rightarrow> unit stmt" where
  "set_binding sealed username u n t =
     Inr ((), t\<lparr>tb_users := update_where (\<lambda>r. us_id r = u) (\<lambda>r. r\<lparr>us_github := sealed, us_login := username\<rparr>) (tb_users t)\<rparr>)"

definition store_binding :: "outside \<Rightarrow> GitHubOAuth \<Rightarrow> string \<Rightarrow> string \<Rightarrow> string \<Rightarrow> (gh_error + unit) op" where
  "store_binding w g userID plainToken username = do {
     nonce \<leftarrow> draw w 12;
     (case kms_encrypt (gh_cipher g) (gh_key g) (case nonce of Inl u \<Rightarrow> None | Inr bytes \<Rightarrow> Some bytes) plainToken of
        Inl e \<Rightarrow> ret (Inl (GhSeal e))
      | Inr sealed \<Rightarrow>
          attempt (exec w (uuid_arg w userID (set_binding (Some sealed) (Some username)))) (\<lambda>e. Inl (GhStorage e)) (\<lambda>u. ret (Inr ())))
   }"

text \<open>A NULL column scans as no bytes.\<close>

definition load_token :: "outside \<Rightarrow> GitHubOAuth \<Rightarrow> string \<Rightarrow> (gh_error + string) op" where
  "load_token w g userID =
     attempt (exec w (uuid_arg w userID (\<lambda>u. reading (\<lambda>t. one_row (\<lambda>r. us_id r = u) (tb_users t))))) (\<lambda>e. Inl (GhStorage e)) (\<lambda>r.
       ret (case kms_decrypt (gh_cipher g) (gh_key g) (coalesce (us_github r)) of Inl e \<Rightarrow> Inl (GhSeal e) | Inr plain \<Rightarrow> Inr plain))"

definition clear_binding :: "outside \<Rightarrow> string \<Rightarrow> (gh_error + unit) op" where
  "clear_binding w userID =
     attempt (exec w (uuid_arg w userID (set_binding None None))) (\<lambda>e. Inl (GhStorage e)) (\<lambda>u. ret (Inr ()))"

definition token_type :: string where "token_type = ''oauth_app''"

section \<open>Handlers\<close>

text \<open>\<^verbatim>\<open>http.Redirect\<close> of a GET to an absolute URL.\<close>

definition html_escape :: "string \<Rightarrow> string" where
  "html_escape s = concat (map (\<lambda>c.
     if c = CHR ''&'' then ''&amp;'' else if c = CHR ''<'' then ''&lt;'' else if c = CHR ''>'' then ''&gt;''
     else if c = CHR 0x22 then ''&#34;'' else if c = CHR 0x27 then ''&#39;'' else [c]) s)"

definition escape_non_ascii :: "string \<Rightarrow> string" where
  "escape_non_ascii s = concat (map (\<lambda>c. if (of_char c :: nat) < 128 then [c] else CHR ''%'' # hex_encode [c]) s)"

definition redirect_found :: "string \<Rightarrow> http_response" where
  "redirect_found url =
     \<lparr>hr_Status = 302,
      hr_Headers = [(''Location'', escape_non_ascii url), (''Content-Type'', ''text/html; charset=utf-8'')],
      hr_Body = Plain (''<a href='' @ [CHR 0x22] @ html_escape url @ [CHR 0x22] @ ''>Found</a>.'' @ [CHR 0x0A, CHR 0x0A])\<rparr>"

definition gh_authenticated :: "outside \<Rightarrow> string \<Rightarrow> handler \<Rightarrow> handler" where
  "gh_authenticated w secret nxt cx r =
     (let token = header r ''Authorization'' in
      if length token < 8 \<or> take 7 token \<noteq> ''Bearer '' then ret (unauthorized ''bearer required'')
      else do {
        u \<leftarrow> parse_token w secret (drop 7 token);
        (case u of None \<Rightarrow> ret (unauthorized ''invalid token'') | Some userID \<Rightarrow> nxt cx r)
      })"

definition handle_start :: "outside \<Rightarrow> string \<Rightarrow> GitHubOAuth \<Rightarrow> handler" where
  "handle_start w secret g cx r = do {
     u \<leftarrow> parse_token w secret (drop 7 (header r ''Authorization''));
     (case u of
        None \<Rightarrow> ret (unauthorized ''invalid token'')
      | Some userID \<Rightarrow>
          attempt (begin_binding w g userID) (\<lambda>e. internal ''oauth start failed'') (\<lambda>(url, state). ret (redirect_found url)))
   }"

abbreviation (input) upstream :: "string \<Rightarrow> http_response" where
  "upstream detail \<equiv> write_problem 502 ''UPSTREAM'' detail"

definition handle_callback :: "outside \<Rightarrow> GitHubOAuth \<Rightarrow> handler" where
  "handle_callback w g cx r =
     attempt (exchange w g (query r ''code'') (query r ''state''))
       (\<lambda>e. if e = ErrStateMismatch then write_problem 403 ''FORBIDDEN'' ''state mismatch'' else upstream ''token exchange failed'')
       (\<lambda>(token, boundUser).
          attempt (fetch_login w g token) (\<lambda>e. upstream ''fetch user failed'') (\<lambda>username.
            attempt (store_binding w g boundUser token username) (\<lambda>e. internal ''store binding failed'') (\<lambda>u.
              ret (write_json 200 (JObj [(''login'', JStr username), (''status'', JStr ''bound'')])))))"

definition user_id_from_bearer :: "outside \<Rightarrow> string \<Rightarrow> http_request \<Rightarrow> string option op" where
  "user_id_from_bearer w secret r =
     (let bearer = header r ''Authorization'' in
      if length bearer < 8 then ret None else parse_token w secret (drop 7 bearer))"

definition repos_page :: "http_request \<Rightarrow> int" where
  "repos_page r =
     (case atoi (query r ''page'') of Some n \<Rightarrow> if query r ''page'' \<noteq> [] \<and> n > 0 then n else 1 | None \<Rightarrow> 1)"

definition handle_repos :: "outside \<Rightarrow> string \<Rightarrow> GitHubOAuth \<Rightarrow> handler" where
  "handle_repos w secret g cx r = do {
     u \<leftarrow> user_id_from_bearer w secret r;
     (case u of
        None \<Rightarrow> ret (unauthorized ''invalid token'')
      | Some userID \<Rightarrow>
          attempt (load_token w g userID) (\<lambda>e. unauthorized ''github not bound'') (\<lambda>token.
            attempt (list_repos g token (repos_page r)) (\<lambda>e. upstream ''repos fetch failed'') (\<lambda>res.
              ret (case hp_body res of
                     None \<Rightarrow> upstream ''repos fetch failed''
                   | Some content \<Rightarrow>
                       if hp_status res \<noteq> 200 then upstream ''repos fetch failed''
                       else \<lparr>hr_Status = 200, hr_Headers = [(''Content-Type'', ''application/json'')], hr_Body = Raw content\<rparr>))))
   }"

definition handle_unbind :: "outside \<Rightarrow> string \<Rightarrow> handler" where
  "handle_unbind w secret cx r = do {
     u \<leftarrow> user_id_from_bearer w secret r;
     (case u of
        None \<Rightarrow> ret (unauthorized ''invalid token'')
      | Some userID \<Rightarrow> attempt (clear_binding w userID) (\<lambda>e. internal ''unbind failed'') (\<lambda>u. ret (bare_status 204)))
   }"

definition github_routes :: "outside \<Rightarrow> string \<Rightarrow> GitHubOAuth \<Rightarrow> ((string \<times> string) \<times> handler) list" where
  "github_routes w secret g =
     [((''GET'', ''/v1/github/start''), gh_authenticated w secret (handle_start w secret g)),
      ((''GET'', ''/v1/github/callback''), gh_authenticated w secret (handle_callback w g)),
      ((''GET'', ''/v1/github/repos''), gh_authenticated w secret (handle_repos w secret g)),
      ((''DELETE'', ''/v1/github/binding''), gh_authenticated w secret (handle_unbind w secret))]"

section \<open>Who can change a binding\<close>

text \<open>A text that reads as a uuid reads as its canonical form, which reads as itself.\<close>

definition cast_law :: "outside \<Rightarrow> bool" where
  "cast_law w = (\<forall>s u. db_cast w s = Some u \<longrightarrow> db_cast w u = Some u)"

definition binding :: "string \<Rightarrow> tables \<Rightarrow> (string option \<times> string option) list" where
  "binding u t = map (\<lambda>r. (us_github r, us_login r)) (filter (\<lambda>r. us_id r = u) (tb_users t))"

text \<open>The request carries a session token of the user, valid at some time.\<close>

definition session_of :: "outside \<Rightarrow> string \<Rightarrow> http_request \<Rightarrow> string \<Rightarrow> bool" where
  "session_of w secret r u =
     (\<exists>t userID. jwt_parse w secret t (drop 7 (header r ''Authorization'')) = Some userID \<and> db_cast w userID = Some u)"

text \<open>The GitHub columns of a user who has no outstanding state.\<close>

definition unbound_as :: "outside \<Rightarrow> string \<Rightarrow> (string option \<times> string option) list \<Rightarrow> tables \<Rightarrow> bool" where
  "unbound_as w u b t = (binding u t = b \<and> (\<forall>s \<in> set (tb_oauth t). db_cast w (os_user s) \<noteq> Some u))"

lemma keeps_parse_token:
  assumes "keeps I (f None)" and "\<And>t userID. jwt_parse w secret t raw = Some userID \<Longrightarrow> keeps I (f (Some userID))"
  shows "keeps I (do { u \<leftarrow> parse_token w secret raw; f u })"
proof (rule keepsI)
  fix p :: platform assume p: "I (pf_tables p)"
  let ?p = "p\<lparr>pf_tick := Suc (pf_tick p)\<rparr>"
  obtain v where v: "run_state (parse_token w secret raw) p = (v, ?p)"
    and "v = (case jwt_parse w secret (go_now w (pf_tick p)) raw of None \<Rightarrow> None | Some uid \<Rightarrow> if uid = [] then None else Some uid)"
    by (simp add: parse_token_def time_now_def)
  then have "v = None \<or> (\<exists>t userID. jwt_parse w secret t raw = Some userID \<and> v = Some userID)" by (auto split: option.splits)
  then have "keeps I (f v)" using assms by auto
  then have "I (pf_tables (snd (run_state (f v) ?p)))" using p by (simp add: keeps_def)
  then show "I (pf_tables (snd (run_state (do { u \<leftarrow> parse_token w secret raw; f u }) p)))" using v by simp
qed

lemma keeps_client_do [keeps_intro]: "keeps I (client_do g q)"
  unfolding client_do_def by (intro keeps_intro)

lemma binding_elsewhere: "v \<noteq> u \<Longrightarrow> set_binding sealed login v n t = Inr (x, t') \<Longrightarrow> binding u t' = binding u t"
proof -
  have "map (\<lambda>r. (us_github r, us_login r)) (filter (\<lambda>r. us_id r = u) (update_where (\<lambda>r. us_id r = v) (\<lambda>r. r\<lparr>us_github := sealed, us_login := login\<rparr>) rows)) =
      map (\<lambda>r. (us_github r, us_login r)) (filter (\<lambda>r. us_id r = u) rows)" if "v \<noteq> u" for rows
    using that by (induction rows) auto
  then show "v \<noteq> u \<Longrightarrow> set_binding sealed login v n t = Inr (x, t') \<Longrightarrow> binding u t' = binding u t"
    by (auto simp: set_binding_def binding_def)
qed

lemma stmt_keeps_set_binding:
  "db_cast w userID \<noteq> Some u \<Longrightarrow> stmt_keeps (\<lambda>t. I (binding u t) (tb_oauth t)) (uuid_arg w userID (set_binding sealed login))"
proof (rule stmt_keepsI)
  fix n t x t'
  assume *: "db_cast w userID \<noteq> Some u" "I (binding u t) (tb_oauth t)" "uuid_arg w userID (set_binding sealed login) n t = Inr (x, t')"
  then obtain v where v: "db_cast w userID = Some v" "v \<noteq> u" "set_binding sealed login v n t = Inr (x, t')"
    by (auto simp: uuid_arg_def split: option.splits)
  then have "tb_oauth t' = tb_oauth t" by (auto simp: set_binding_def)
  then show "I (binding u t') (tb_oauth t')" using binding_elsewhere [OF v(2,3)] *(2) by simp
qed

lemma stmt_keeps_oauth: "stmt_keeps (\<lambda>t. I (tb_oauth t)) (uuid_arg w userID (set_binding sealed login))"
  by (rule stmt_keepsI) (auto simp: uuid_arg_def set_binding_def split: option.splits)

lemma stmt_keeps_insert_state:
  "cast_law w \<Longrightarrow> db_cast w userID \<noteq> Some u \<Longrightarrow> stmt_keeps (unbound_as w u b) (uuid_arg w userID (insert_state w state))"
  by (rule stmt_keepsI)
    (auto simp: uuid_arg_def insert_state_def cast_law_def unbound_as_def binding_def split: option.splits if_splits)

lemma consumed:
  assumes "consume_state w state n t = Inr (boundUser, t')"
  obtains s where "s \<in> set (tb_oauth t)" "os_state s = state" "os_created s > db_now w n - oauthStateTTL" "boundUser = os_user s"
    "t' = t\<lparr>tb_oauth := filter (\<lambda>r. \<not> live_state state (db_now w n) r) (tb_oauth t)\<rparr>"
  using assms by (auto simp: consume_state_def live_state_def split: sum.splits dest!: one_row_Inr)

lemma stmt_keeps_consume: "stmt_keeps (unbound_as w u b) (consume_state w state)"
  by (rule stmt_keepsI) (erule consumed, auto simp: unbound_as_def binding_def)

lemma exchange_keeps: "keeps (unbound_as w u b) (exchange w g code state)"
  unfolding exchange_def Let_def by (intro keeps_intro stmt_keeps_consume)

lemma attempt_Inr': "run_state (attempt m Inl f) p = (Inr x, p') \<Longrightarrow> \<exists>y p1. run_state m p = (Inr y, p1) \<and> run_state (f y) p1 = (Inr x, p')"
  by (cases "run_state m p") (auto simp: run_attempt split: sum.splits)

lemma client_do_tables: "run_state (client_do g q) p = (r, p') \<Longrightarrow> pf_tables p' = pf_tables p"
  by (auto simp: client_do_def split: if_splits)

lemma exchange_Inr:
  assumes "run_state (exchange w g code state) p = (Inr (token, boundUser), p')"
  shows "consume_state w state (pf_tick p) (pf_tables p) = Inr (boundUser, pf_tables p')"
  using assms unfolding exchange_def Let_def
  by (elim attempt_Inr) (auto dest!: attempt_Inr' exec_Inr client_do_tables split: if_splits option.splits)

lemma exchanged_user:
  "run_state (exchange w g code state) p = (Inr (token, boundUser), p') \<Longrightarrow> unbound_as w u b (pf_tables p) \<Longrightarrow> db_cast w boundUser \<noteq> Some u"
  by (drule exchange_Inr, erule consumed) (auto simp: unbound_as_def)

text \<open>What follows a successful exchange.\<close>

definition bind_exchanged :: "outside \<Rightarrow> GitHubOAuth \<Rightarrow> string \<Rightarrow> string \<Rightarrow> http_response op" where
  "bind_exchanged w g token boundUser =
     attempt (fetch_login w g token) (\<lambda>e. upstream ''fetch user failed'') (\<lambda>username.
       attempt (store_binding w g boundUser token username) (\<lambda>e. internal ''store binding failed'') (\<lambda>u.
         ret (write_json 200 (JObj [(''login'', JStr username), (''status'', JStr ''bound'')]))))"

lemma run_handle_callback:
  "run_state (handle_callback w g cx r) p =
     (case run_state (exchange w g (query r ''code'') (query r ''state'')) p of
        (Inl e, p') \<Rightarrow> (if e = ErrStateMismatch then write_problem 403 ''FORBIDDEN'' ''state mismatch'' else upstream ''token exchange failed'', p')
      | (Inr (token, boundUser), p') \<Rightarrow> run_state (bind_exchanged w g token boundUser) p')"
  by (simp add: handle_callback_def bind_exchanged_def run_attempt split: prod.split sum.split)

lemma bind_exchanged_keeps:
  "db_cast w boundUser \<noteq> Some u \<Longrightarrow> keeps (\<lambda>t. I (binding u t) (tb_oauth t)) (bind_exchanged w g token boundUser)"
  "keeps (\<lambda>t. I' (tb_oauth t)) (bind_exchanged w g token boundUser)"
  unfolding bind_exchanged_def fetch_login_def api_get_def store_binding_def
  by (intro keeps_intro stmt_keeps_set_binding stmt_keeps_oauth; assumption)+

lemma handle_callback_keeps: "keeps (unbound_as w u b) (handle_callback w g cx r)"
proof (rule keepsI)
  fix p :: platform assume p: "unbound_as w u b (pf_tables p)"
  obtain x p1 where run: "run_state (exchange w g (query r ''code'') (query r ''state'')) p = (x, p1)"
    by (cases "run_state (exchange w g (query r ''code'') (query r ''state'')) p")
  have p1: "unbound_as w u b (pf_tables p1)" by (rule keepsD [OF exchange_keeps p run])
  show "unbound_as w u b (pf_tables (snd (run_state (handle_callback w g cx r) p)))"
  proof (cases x)
    case (Inr tu)
    obtain token boundUser where tu: "tu = (token, boundUser)" by (cases tu)
    have "db_cast w boundUser \<noteq> Some u" by (rule exchanged_user [OF run [unfolded Inr tu] p])
    then have "keeps (unbound_as w u b) (bind_exchanged w g token boundUser)" unfolding unbound_as_def by (rule bind_exchanged_keeps)
    then show ?thesis using p1 run Inr tu by (simp add: run_handle_callback keeps_def)
  qed (use p1 run in \<open>simp add: run_handle_callback\<close>)
qed

lemma begin_binding_keeps:
  "cast_law w \<Longrightarrow> db_cast w userID \<noteq> Some u \<Longrightarrow> keeps (unbound_as w u b) (begin_binding w g userID)"
  unfolding begin_binding_def random_token_def Let_def by (intro keeps_intro stmt_keeps_insert_state)

lemma clear_binding_keeps: "db_cast w userID \<noteq> Some u \<Longrightarrow> keeps (unbound_as w u b) (clear_binding w userID)"
  unfolding clear_binding_def unbound_as_def by (intro keeps_intro stmt_keeps_set_binding)

lemma github_route_keeps:
  assumes law: "cast_law w" and no: "\<not> session_of w secret r u" and route: "(route, h) \<in> set (github_routes w secret g)"
  shows "keeps (unbound_as w u b) (h cx r)"
proof -
  have other: "jwt_parse w secret t (drop 7 (header r ''Authorization'')) = Some userID \<Longrightarrow> db_cast w userID \<noteq> Some u" for t userID
    using no by (auto simp: session_of_def)
  have "keeps (unbound_as w u b) (handle_start w secret g cx r)"
    unfolding handle_start_def by (rule keeps_parse_token) (auto intro!: keeps_intro begin_binding_keeps law other)
  moreover have "keeps (unbound_as w u b) (handle_repos w secret g cx r)"
    unfolding handle_repos_def user_id_from_bearer_def Let_def parse_token_def load_token_def list_repos_def api_get_def
    by (intro keeps_intro)
  moreover have "keeps (unbound_as w u b) (handle_unbind w secret cx r)"
    unfolding handle_unbind_def user_id_from_bearer_def Let_def
    by (cases "length (header r ''Authorization'') < 8")
      (auto intro!: keeps_intro keeps_parse_token clear_binding_keeps other)
  moreover have "keeps (unbound_as w u b) (gh_authenticated w secret nxt cx r)" if "keeps (unbound_as w u b) (nxt cx r)" for nxt
    unfolding gh_authenticated_def Let_def parse_token_def by (intro keeps_intro that)
  ultimately show ?thesis using route handle_callback_keeps by (auto simp: github_routes_def)
qed

text \<open>Requests to the binding routes, one after the other.\<close>

inductive github_history :: "outside \<Rightarrow> string \<Rightarrow> GitHubOAuth \<Rightarrow> platform \<Rightarrow> http_request list \<Rightarrow> platform \<Rightarrow> bool" for w secret g where
  nothing: "github_history w secret g p [] p"
| request: "github_history w secret g p rs q \<Longrightarrow> (route, h) \<in> set (github_routes w secret g) \<Longrightarrow> pf_tables q' = pf_tables q \<Longrightarrow>
    run_state (h cx r) q' = (resp, p') \<Longrightarrow> github_history w secret g p (rs @ [r]) p'"

text \<open>
  C10: a GitHub account is bound to a user, or taken off one, only by requests of that user: if a history of requests to
  the binding routes changes the stored token or login of a user, one of the requests carried a valid session token of
  the very user, or a binding the user had begun earlier was still outstanding.
\<close>

theorem github_binding_authorised:
  assumes law: "cast_law w" and served: "github_history w secret g p rs p'"
    and changed: "binding u (pf_tables p') \<noteq> binding u (pf_tables p)"
  shows "(\<exists>r \<in> set rs. session_of w secret r u) \<or> (\<exists>s \<in> set (tb_oauth (pf_tables p)). db_cast w (os_user s) = Some u)"
proof (rule ccontr)
  assume "\<not> ?thesis"
  then have none: "\<And>r. r \<in> set rs \<Longrightarrow> \<not> session_of w secret r u" and start: "unbound_as w u (binding u (pf_tables p)) (pf_tables p)"
    by (auto simp: unbound_as_def)
  from served none start have "unbound_as w u (binding u (pf_tables p)) (pf_tables p')"
  proof induction
    case (request p rs q route h q' cx r resp p')
    then have "unbound_as w u (binding u (pf_tables p)) (pf_tables q')" by simp
    then show ?case using keepsD [OF github_route_keeps [OF law _ request.hyps(2)] _ request.hyps(4)] request.prems by simp
  qed
  then show False using changed by (simp add: unbound_as_def)
qed


section \<open>The token at rest\<close>

text \<open>
  The GitHub token bound to a user is read back as it was stored, until the row changes or the connection fails;
  and once the binding is cleared, no token is read any more.
\<close>

theorem github_token_roundtrip:
  assumes A: "aead_laws (gh_cipher g)" "length (gh_key g) = 32"
    and entropy: "\<And>n bytes. go_random w n 12 = Some bytes \<Longrightarrow> length bytes = 12"
    and user: "db_cast w userID = Some u" "u \<in> us_id ` set (tb_users (pf_tables p))"
    and run: "run_state (store_binding w g userID token login) p = (Inr x, p')"
    and later: "tb_users (pf_tables q) = tb_users (pf_tables p')"
    and reads: "run_state (load_token w g userID) q = (res, q')"
    and clear: "run_state (clear_binding w userID) q = (Inr y, q1)" and reads': "run_state (load_token w g userID) q1 = (res', q2)"
  shows "(res = Inr token \<or> res = Inl (GhStorage ConnectionLost)) \<and> (res' = Inl (GhSeal KmsTooShort) \<or> res' = Inl (GhStorage ConnectionLost))"
proof -
  let ?q = "\<lambda>t. one_row (\<lambda>r. us_id r = u) (tb_users t)"
  have found: "\<exists>r. ?q t' = Inr r \<and> us_github r = sealed"
    if "set_binding sealed l u n t = Inr (z, t')" "u \<in> us_id ` set (tb_users t)" for sealed l n t z t'
  proof -
    have "\<exists>r. find (\<lambda>r. us_id r = u) (update_where (\<lambda>r. us_id r = u) (\<lambda>r. r\<lparr>us_github := sealed, us_login := l\<rparr>) rows) = Some r \<and> us_github r = sealed"
      if "u \<in> us_id ` set rows" for rows
      using that by (induction rows) auto
    then show ?thesis using that by (force simp: set_binding_def one_row_def)
  qed
  have loaded: "r' = Inl (GhStorage ConnectionLost) \<or>
      r' = (case kms_decrypt (gh_cipher g) (gh_key g) (coalesce (us_github r)) of Inl e \<Rightarrow> Inl (GhSeal e) | Inr plain \<Rightarrow> Inr plain)"
    if "run_state (load_token w g userID) s = (r', s')" "?q (pf_tables s) = Inr r" for s r' s' r
  proof -
    obtain a s1 where l: "run_state (exec w (reading ?q)) s = (a, s1)" by (cases "run_state (exec w (reading ?q)) s")
    show ?thesis
      using that l user(1) exec_reading(2,3) [OF l] by (cases a) (auto simp: load_token_def run_attempt)
  qed
  obtain nonce n where nonce: "length nonce = 12"
    and set: "set_binding (Some (nonce @ ad_seal (gh_cipher g) (gh_key g) nonce token)) (Some login) u n (pf_tables p) = Inr ((), pf_tables p')"
    using run user(1)
    by (auto simp: store_binding_def draw_def kms_encrypt_def split: option.splits elim!: attempt_Inr dest!: exec_Inr intro: that entropy)
  obtain r where r: "?q (pf_tables q) = Inr r" "us_github r = Some (nonce @ ad_seal (gh_cipher g) (gh_key g) nonce token)"
    using found [OF set] user(2) later by auto
  have "kms_decrypt (gh_cipher g) (gh_key g) (coalesce (us_github r)) = Inr token"
    using aead_open_seal [OF A nonce] nonce by (simp add: kms_decrypt_def r(2) coalesce_def)
  then have "res = Inr token \<or> res = Inl (GhStorage ConnectionLost)" using loaded [OF reads r(1)] by auto
  moreover have "u \<in> us_id ` set (tb_users (pf_tables q))" using one_row_Inr [OF r(1)] by auto
  then obtain r2 where r2: "?q (pf_tables q1) = Inr r2" "us_github r2 = None"
    using clear user(1) found [of None None "pf_tick q" "pf_tables q" "()" "pf_tables q1"]
    by (auto simp: clear_binding_def elim!: attempt_Inr dest!: exec_Inr)
  have "kms_decrypt (gh_cipher g) (gh_key g) (coalesce (us_github r2)) = Inl KmsTooShort"
    by (simp add: kms_decrypt_def r2(2) coalesce_def)
  then have "res' = Inl (GhSeal KmsTooShort) \<or> res' = Inl (GhStorage ConnectionLost)" using loaded [OF reads' r2(1)] by auto
  ultimately show ?thesis by blast
qed

section \<open>A concrete binding\<close>

definition sample_github :: GitHubOAuth where
  "sample_github = \<lparr>gh_cipher = tag_aead, gh_key = replicate 32 CHR ''k'', gh_ClientID = ''id'', gh_ClientSecret = ''cs'',
     gh_AuthBaseURL = ''https://gh'', gh_APIBaseURL = ''https://api'', gh_RedirectURL = ''https://x.io/cb'',
     gh_accepts = (\<lambda>u. True), gh_send = (\<lambda>n q. Some \<lparr>hp_status = 200, hp_body = Some ''octo''\<rparr>)\<rparr>"

definition one_user :: platform where
  "one_user = fresh_platform\<lparr>pf_tables := empty_tables\<lparr>tb_users :=
     [\<lparr>us_id = ''u1'', us_email = ''ann@x.io'', us_hash = [], us_verified = True, us_github = None, us_login = None\<rparr>]\<rparr>\<rparr>"

definition begun :: platform where
  "begun = one_user\<lparr>pf_tables := (pf_tables one_user)\<lparr>tb_oauth := [\<lparr>os_state = ''st'', os_user = ''u1'', os_created = 0\<rparr>]\<rparr>\<rparr>"

definition session_request :: "(string \<times> string) list \<Rightarrow> http_request" where
  "session_request q = \<lparr>rq_Method = ''GET'', rq_Path = ''/v1/github'', rq_Headers = [(''Authorization'', ''Bearer su1'')], rq_Query = q,
     rq_PathValues = [], rq_Body = Some []\<rparr>"

definition callback_request :: http_request where
  "callback_request = session_request [(''code'', ''c''), (''state'', b64_encode b64_url (replicate 32 CHR ''r''))]"

definition start_route :: handler where
  "start_route = gh_authenticated calm ''s'' (handle_start calm ''s'' sample_github)"

definition callback_route :: handler where
  "callback_route = gh_authenticated calm ''s'' (handle_callback calm sample_github)"

lemma sample_routes:
  "((''GET'', ''/v1/github/start''), start_route) \<in> set (github_routes calm ''s'' sample_github)"
  "((''GET'', ''/v1/github/callback''), callback_route) \<in> set (github_routes calm ''s'' sample_github)"
  by (simp_all add: github_routes_def start_route_def callback_route_def)

lemma calm_cast: "cast_law calm"
  by (simp add: cast_law_def calm_def)

lemma bound_login:
  "binding ''u1'' (pf_tables (snd (run_state (callback_route sample_ctx callback_request)
     (snd (run_state (start_route sample_ctx (session_request [])) one_user))))) \<noteq> binding ''u1'' (pf_tables one_user)"
  by code_simp

theorem github_binding_authorised_witness:
  "\<exists>rs p'. github_history calm ''s'' sample_github one_user rs p' \<and> binding ''u1'' (pf_tables p') \<noteq> binding ''u1'' (pf_tables one_user) \<and>
     (\<exists>r \<in> set rs. session_of calm ''s'' r ''u1'')"
proof -
  obtain resp p1 where a: "run_state (start_route sample_ctx (session_request [])) one_user = (resp, p1)"
    by (cases "run_state (start_route sample_ctx (session_request [])) one_user")
  obtain resp' p2 where b: "run_state (callback_route sample_ctx callback_request) p1 = (resp', p2)"
    by (cases "run_state (callback_route sample_ctx callback_request) p1")
  have h: "github_history calm ''s'' sample_github one_user ([] @ [session_request []] @ [callback_request]) p2"
    unfolding append_assoc [symmetric]
    by (rule github_history.request [OF github_history.request [OF github_history.nothing sample_routes(1) refl a] sample_routes(2) refl b])
  have c: "binding ''u1'' (pf_tables p2) \<noteq> binding ''u1'' (pf_tables one_user)" using bound_login a b by simp
  have "tb_oauth (pf_tables one_user) = []" by (simp add: one_user_def fresh_platform_def empty_tables_def)
  then have "\<exists>r \<in> set ([] @ [session_request []] @ [callback_request]). session_of calm ''s'' r ''u1''"
    using github_binding_authorised [OF calm_cast h c] by auto
  then show ?thesis using h c by blast
qed


theorem github_token_roundtrip_witness:
  "\<exists>p' q q1 q2 res'. run_state (store_binding calm sample_github ''u1'' ''tok'' ''octo'') one_user = (Inr (), p') \<and>
     run_state (load_token calm sample_github ''u1'') p' = (Inr ''tok'', q) \<and>
     run_state (clear_binding calm ''u1'') p' = (Inr (), q1) \<and> run_state (load_token calm sample_github ''u1'') q1 = (Inl res', q2)"
proof -
  let ?s = "store_binding calm sample_github ''u1'' ''tok'' ''octo''" and ?l = "load_token calm sample_github ''u1''" and ?c = "clear_binding calm ''u1''"
  obtain x p' where s: "run_state ?s one_user = (x, p')" by (cases "run_state ?s one_user")
  obtain res q where l: "run_state ?l p' = (res, q)" by (cases "run_state ?l p'")
  obtain y q1 where c: "run_state ?c p' = (y, q1)" by (cases "run_state ?c p'")
  obtain res' q2 where l': "run_state ?l q1 = (res', q2)" by (cases "run_state ?l q1")
  have "fst (run_state ?s one_user) = Inr ()" by code_simp
  then have s': "run_state ?s one_user = (Inr (), p')" using s by simp
  have c': "run_state ?c p' = (Inr (), q1)"
    using c by (auto simp: clear_binding_def run_attempt run_exec set_binding_def uuid_arg_def calm_def)
  have "(res = Inr ''tok'' \<or> res = Inl (GhStorage ConnectionLost)) \<and> (res' = Inl (GhSeal KmsTooShort) \<or> res' = Inl (GhStorage ConnectionLost))"
    by (rule github_token_roundtrip [OF _ _ _ _ _ s' refl l c' l', of "''u1''"])
      (auto simp: sample_github_def tag_aead_laws calm_def one_user_def)
  moreover have "res \<noteq> Inl (GhStorage ConnectionLost)"
  proof -
    have "fst (run_state ?l (snd (run_state ?s one_user))) = Inr ''tok''" by code_simp
    then show ?thesis using s l by simp
  qed
  ultimately show ?thesis using s' l c' l' by auto
qed

end
