(* ===== verification/Cloud_Providers.thy ===== *)
theory Cloud_Providers
  imports Providers Go_Http
begin

text \<open>
  The adapters to other clouds: the managed Kubernetes runtimes (\<^verbatim>\<open>providers/runtime/baidu-cce\<close>, \<^verbatim>\<open>tencent-tke\<close>,
  \<^verbatim>\<open>aliyun-ack\<close>), adopted clusters (\<^verbatim>\<open>providers/runtime/selfhosted\<close>), and the Baidu document database, DNS, load
  balancer and object storage. A transport performs one call in an outside world \<open>'s\<close>; request bodies are the JSON values
  that are marshalled (which cannot fail on them), the decoder of answers is a parameter.
\<close>

section \<open>Calls\<close>

datatype cloud_error =
    InvalidClusterSpec
  | CloudUnavailable string
  | CloudFailed string
  | CloudDecode
  | ProvisionUnsupported
  | NilDoer

type_synonym 's doer = "string \<Rightarrow> string \<Rightarrow> body \<Rightarrow> 's \<Rightarrow> (string + int \<times> string) \<times> 's"

record CloudConfig =
  cl_Region :: string
  cl_Endpoint :: string
  cl_AccessKey :: string
  cl_SecretKey :: string

record ClusterSpec =
  cs_Name :: string
  cs_Version :: string
  cs_NodeCount :: int

text \<open>\<^verbatim>\<open>strings.Replace(s, old, new, 1)\<close> for a non-empty \<open>old\<close>.\<close>

fun replace_first :: "string \<Rightarrow> string \<Rightarrow> string \<Rightarrow> string" where
  "replace_first [] old new = []"
| "replace_first (c # s) old new =
     (case cut_prefix (c # s) old of Some rest \<Rightarrow> new @ rest | None \<Rightarrow> c # replace_first s old new)"

definition region_endpoint :: "string \<Rightarrow> CloudConfig \<Rightarrow> string" where
  "region_endpoint template cfg = replace_first (if cl_Endpoint cfg \<noteq> [] then cl_Endpoint cfg else template) ''{region}'' (cl_Region cfg)"

definition http_doer :: "'s wire \<Rightarrow> string \<Rightarrow> 's doer" where
  "http_doer x endpoint meth path payload s =
     (if \<not> wi_accepts x (endpoint @ path) then (Inl ''request'', s)
      else case wi_send x meth (endpoint @ path) [(''content-type'', ''application/json'')] payload s of
        (None, s1) \<Rightarrow> (Inl ''transport'', s1)
      | (Some (status, None), s1) \<Rightarrow> (Inl ''read'', s1)
      | (Some (status, Some content), s1) \<Rightarrow> (Inr (status, content), s1))"

text \<open>The classification every adapter's \<^verbatim>\<open>call\<close> makes; \<open>who\<close> is the adapter's name in the message.\<close>

definition classify_call :: "string \<Rightarrow> 's doer \<Rightarrow> string \<Rightarrow> string \<Rightarrow> body \<Rightarrow> 's \<Rightarrow> (cloud_error + string) \<times> 's" where
  "classify_call who d meth path payload s =
     (case d meth path payload s of
        (Inl e, s1) \<Rightarrow> (Inl (CloudUnavailable (meth @ '' '' @ path @ '': '' @ e)), s1)
      | (Inr (status, content), s1) \<Rightarrow>
          if status \<ge> 400 then (Inl (CloudUnavailable (who @ '' '' @ meth @ '' '' @ path @ '' returned '' @ itoa status)), s1)
          else (Inr content, s1))"

definition then_decode :: "(string \<Rightarrow> string option) \<Rightarrow> (cloud_error + string) \<times> 's \<Rightarrow> (cloud_error + string) \<times> 's" where
  "then_decode decode r =
     (case r of (Inl e, s) \<Rightarrow> (Inl e, s)
      | (Inr content, s) \<Rightarrow> (case decode content of None \<Rightarrow> (Inl CloudDecode, s) | Some v \<Rightarrow> (Inr v, s)))"

definition then_done :: "(cloud_error + string) \<times> 's \<Rightarrow> (cloud_error + unit) \<times> 's" where
  "then_done r = (case r of (Inl e, s) \<Rightarrow> (Inl e, s) | (Inr content, s) \<Rightarrow> (Inr (), s))"

definition then_healthz :: "(cloud_error + string) \<times> 's \<Rightarrow> (cloud_error + unit) \<times> 's" where
  "then_healthz r = (case r of (Inl e, s) \<Rightarrow> (Inl (CloudUnavailable ''healthz''), s) | (Inr content, s) \<Rightarrow> (Inr (), s))"

definition spec_ok :: "ClusterSpec \<Rightarrow> bool" where
  "spec_ok spec = (cs_Name spec \<noteq> [] \<and> cs_Version spec \<noteq> [] \<and> cs_NodeCount spec \<ge> 1)"

section \<open>What a cluster runtime promises\<close>

text \<open>An invalid specification never reaches the cloud; every other failure is reported as the cloud being unavailable or
  its answer unreadable; the workload hooks do nothing.\<close>

locale cluster_runtime =
  fixes create :: "ClusterSpec \<Rightarrow> 's \<Rightarrow> (cloud_error + string) \<times> 's"
    and state_of :: "string \<Rightarrow> 's \<Rightarrow> (cloud_error + string) \<times> 's"
    and remove :: "string \<Rightarrow> 's \<Rightarrow> (cloud_error + unit) \<times> 's"
    and healthz :: "'s \<Rightarrow> (cloud_error + unit) \<times> 's"
  assumes create_invalid: "\<not> spec_ok spec \<Longrightarrow> create spec s = (Inl InvalidClusterSpec, s)"
    and create_error: "spec_ok spec \<Longrightarrow> create spec s = (Inl e, s') \<Longrightarrow> e = CloudDecode \<or> (\<exists>t. e = CloudUnavailable t)"
    and state_error: "state_of i s = (Inl e, s') \<Longrightarrow> e = CloudDecode \<or> (\<exists>t. e = CloudUnavailable t)"
    and remove_error: "remove i s = (Inl e, s') \<Longrightarrow> \<exists>t. e = CloudUnavailable t"
    and healthz_error: "healthz s = (Inl e, s') \<Longrightarrow> e = CloudUnavailable ''healthz''"
begin

text \<open>Creating a cluster, reading its state and removing it: a run that fails with anything but an unreadable answer or an
  unavailable cloud did not start.\<close>

definition cycle :: "ClusterSpec \<Rightarrow> 's \<Rightarrow> (cloud_error + string) \<times> 's" where
  "cycle spec s =
     (case create spec s of
        (Inl e, s1) \<Rightarrow> (Inl e, s1)
      | (Inr i, s1) \<Rightarrow>
          (case state_of i s1 of
             (Inl e, s2) \<Rightarrow> (Inl e, s2)
           | (Inr st, s2) \<Rightarrow> (case remove i s2 of (Inl e, s3) \<Rightarrow> (Inl e, s3) | (Inr u, s3) \<Rightarrow> (Inr st, s3))))"

lemma cycle_untouched:
  assumes "cycle spec s = (Inl e, s')" and "e \<noteq> CloudDecode" "\<And>t. e \<noteq> CloudUnavailable t"
  shows "e = InvalidClusterSpec \<and> s' = s \<and> \<not> spec_ok spec"
proof (cases "spec_ok spec")
  case True
  note no = assms(2,3)
  obtain r1 s1 where c: "create spec s = (r1, s1)" by (cases "create spec s")
  obtain i where i: "r1 = Inr i" using assms(1) c no by (cases r1) (auto simp: cycle_def dest: create_error [OF True])
  obtain r2 s2 where g: "state_of i s1 = (r2, s2)" by (cases "state_of i s1")
  obtain st where st: "r2 = Inr st" using assms(1) c i g no by (cases r2) (auto simp: cycle_def dest: state_error)
  obtain r3 s3 where d: "remove i s2 = (r3, s3)" by (cases "remove i s2")
  have False using assms(1) c i g st d no by (cases r3) (auto simp: cycle_def dest: remove_error)
  then show ?thesis ..
next
  case False
  then show ?thesis using assms(1) by (simp add: cycle_def create_invalid)
qed

end

lemmas cloud_defs = spec_ok_def classify_call_def then_decode_def then_done_def then_healthz_def

section \<open>Baidu CCE\<close>

definition cce_endpoint :: "CloudConfig \<Rightarrow> string" where
  "cce_endpoint cfg = region_endpoint ''https://cce.{region}.baidubce.com'' cfg"

definition cce_do :: "'s wire \<Rightarrow> CloudConfig \<Rightarrow> 's doer" where
  "cce_do x cfg = http_doer x (cce_endpoint cfg)"

definition cce_call :: "'s doer \<Rightarrow> string \<Rightarrow> string \<Rightarrow> body \<Rightarrow> 's \<Rightarrow> (cloud_error + string) \<times> 's" where
  "cce_call d = classify_call ''cce'' d"

definition cce_create_cluster :: "(string \<Rightarrow> string \<Rightarrow> string option) \<Rightarrow> 's doer \<Rightarrow> ClusterSpec \<Rightarrow> 's \<Rightarrow> (cloud_error + string) \<times> 's" where
  "cce_create_cluster decode d spec s =
     (if cs_Name spec = [] \<or> cs_Version spec = [] \<or> cs_NodeCount spec < 1 then (Inl InvalidClusterSpec, s)
      else then_decode (decode ''clusterId'') (cce_call d ''POST'' ''/v1/cluster''
        (Json (JObj [(''name'', JStr (cs_Name spec)), (''clusterVersion'', JStr (cs_Version spec)), (''nodeCount'', JInt (cs_NodeCount spec))])) s))"

definition cce_get_cluster :: "(string \<Rightarrow> string \<Rightarrow> string option) \<Rightarrow> 's doer \<Rightarrow> string \<Rightarrow> 's \<Rightarrow> (cloud_error + string) \<times> 's" where
  "cce_get_cluster decode d clusterID s = then_decode (decode ''state'') (cce_call d ''GET'' (''/v1/cluster/'' @ clusterID) NoBody s)"

definition cce_create_node_pool :: "'s doer \<Rightarrow> string \<Rightarrow> string \<Rightarrow> int \<Rightarrow> 's \<Rightarrow> (cloud_error + unit) \<times> 's" where
  "cce_create_node_pool d clusterID poolName replicas s =
     then_done (cce_call d ''POST'' (''/v1/cluster/'' @ clusterID @ ''/nodepool'')
       (Json (JObj [(''name'', JStr poolName), (''replicas'', JInt replicas)])) s)"

definition cce_delete_cluster :: "'s doer \<Rightarrow> string \<Rightarrow> 's \<Rightarrow> (cloud_error + unit) \<times> 's" where
  "cce_delete_cluster d clusterID s = then_done (cce_call d ''DELETE'' (''/v1/cluster/'' @ clusterID) NoBody s)"

definition cce_install_gateway :: "'s doer \<Rightarrow> string \<Rightarrow> 's \<Rightarrow> (cloud_error + unit) \<times> 's" where
  "cce_install_gateway d clusterID s = then_done (cce_call d ''POST'' (''/v1/cluster/'' @ clusterID @ ''/gateway'') NoBody s)"

definition cce_bind_workload :: "string \<Rightarrow> string \<Rightarrow> 's \<Rightarrow> (cloud_error + unit) \<times> 's" where
  "cce_bind_workload appID namespace s = (Inr (), s)"

definition cce_unbind_workload :: "string \<Rightarrow> string \<Rightarrow> 's \<Rightarrow> (cloud_error + unit) \<times> 's" where
  "cce_unbind_workload appID namespace s = (Inr (), s)"

definition cce_healthz :: "'s doer \<Rightarrow> 's \<Rightarrow> (cloud_error + unit) \<times> 's" where
  "cce_healthz d s = then_healthz (cce_call d ''GET'' ''/v1/cluster'' NoBody s)"

lemmas cce_defs = cce_create_cluster_def cce_get_cluster_def cce_delete_cluster_def cce_healthz_def cce_call_def

interpretation cce: cluster_runtime "cce_create_cluster decode d" "cce_get_cluster decode d" "cce_delete_cluster d" "cce_healthz d" for decode d
  by unfold_locales (auto simp: cce_defs cloud_defs split: prod.splits sum.splits if_splits option.splits)

section \<open>Tencent TKE\<close>

definition tke_endpoint :: "CloudConfig \<Rightarrow> string" where
  "tke_endpoint cfg = region_endpoint ''https://tke.{region}.tencentcloudapi.com'' cfg"

definition tke_do :: "'s wire \<Rightarrow> CloudConfig \<Rightarrow> 's doer" where
  "tke_do x cfg = http_doer x (tke_endpoint cfg)"

definition tke_call :: "'s doer \<Rightarrow> string \<Rightarrow> string \<Rightarrow> body \<Rightarrow> 's \<Rightarrow> (cloud_error + string) \<times> 's" where
  "tke_call d = classify_call ''Tencent TKE'' d"

definition tke_create_cluster :: "(string \<Rightarrow> string \<Rightarrow> string option) \<Rightarrow> 's doer \<Rightarrow> ClusterSpec \<Rightarrow> 's \<Rightarrow> (cloud_error + string) \<times> 's" where
  "tke_create_cluster decode d spec s =
     (if cs_Name spec = [] \<or> cs_Version spec = [] \<or> cs_NodeCount spec < 1 then (Inl InvalidClusterSpec, s)
      else then_decode (decode ''clusterId'') (tke_call d ''POST'' ''/tke/clusters''
        (Json (JObj [(''name'', JStr (cs_Name spec)), (''version'', JStr (cs_Version spec)), (''node_count'', JInt (cs_NodeCount spec))])) s))"

definition tke_get_cluster :: "(string \<Rightarrow> string \<Rightarrow> string option) \<Rightarrow> 's doer \<Rightarrow> string \<Rightarrow> 's \<Rightarrow> (cloud_error + string) \<times> 's" where
  "tke_get_cluster decode d clusterID s = then_decode (decode ''status'') (tke_call d ''GET'' (''/tke/clusters/'' @ clusterID) NoBody s)"

definition tke_create_node_pool :: "'s doer \<Rightarrow> string \<Rightarrow> string \<Rightarrow> int \<Rightarrow> 's \<Rightarrow> (cloud_error + unit) \<times> 's" where
  "tke_create_node_pool d clusterID poolName replicas s =
     then_done (tke_call d ''POST'' (''/tke/clusters/'' @ clusterID @ ''/node-pools'')
       (Json (JObj [(''name'', JStr poolName), (''replicas'', JInt replicas)])) s)"

definition tke_delete_cluster :: "'s doer \<Rightarrow> string \<Rightarrow> 's \<Rightarrow> (cloud_error + unit) \<times> 's" where
  "tke_delete_cluster d clusterID s = then_done (tke_call d ''DELETE'' (''/tke/clusters/'' @ clusterID) NoBody s)"

definition tke_install_gateway :: "'s doer \<Rightarrow> string \<Rightarrow> 's \<Rightarrow> (cloud_error + unit) \<times> 's" where
  "tke_install_gateway d clusterID s = then_done (tke_call d ''POST'' (''/tke/clusters/'' @ clusterID @ ''/gateway'') NoBody s)"

definition tke_bind_workload :: "string \<Rightarrow> string \<Rightarrow> 's \<Rightarrow> (cloud_error + unit) \<times> 's" where
  "tke_bind_workload appID namespace s = (Inr (), s)"

definition tke_unbind_workload :: "string \<Rightarrow> string \<Rightarrow> 's \<Rightarrow> (cloud_error + unit) \<times> 's" where
  "tke_unbind_workload appID namespace s = (Inr (), s)"

definition tke_healthz :: "'s doer \<Rightarrow> 's \<Rightarrow> (cloud_error + unit) \<times> 's" where
  "tke_healthz d s = then_healthz (tke_call d ''GET'' ''/tke/clusters'' NoBody s)"

lemmas tke_defs = tke_create_cluster_def tke_get_cluster_def tke_delete_cluster_def tke_healthz_def tke_call_def

interpretation tke: cluster_runtime "tke_create_cluster decode d" "tke_get_cluster decode d" "tke_delete_cluster d" "tke_healthz d" for decode d
  by unfold_locales (auto simp: tke_defs cloud_defs split: prod.splits sum.splits if_splits option.splits)

section \<open>Aliyun ACK\<close>

definition ack_endpoint :: "CloudConfig \<Rightarrow> string" where
  "ack_endpoint cfg = region_endpoint ''https://cs.{region}.aliyuncs.com'' cfg"

definition ack_do :: "'s wire \<Rightarrow> CloudConfig \<Rightarrow> 's doer" where
  "ack_do x cfg = http_doer x (ack_endpoint cfg)"

definition ack_call :: "'s doer \<Rightarrow> string \<Rightarrow> string \<Rightarrow> body \<Rightarrow> 's \<Rightarrow> (cloud_error + string) \<times> 's" where
  "ack_call d = classify_call ''Aliyun ACK'' d"

definition ack_create_cluster :: "(string \<Rightarrow> string \<Rightarrow> string option) \<Rightarrow> 's doer \<Rightarrow> ClusterSpec \<Rightarrow> 's \<Rightarrow> (cloud_error + string) \<times> 's" where
  "ack_create_cluster decode d spec s =
     (if cs_Name spec = [] \<or> cs_Version spec = [] \<or> cs_NodeCount spec < 1 then (Inl InvalidClusterSpec, s)
      else then_decode (decode ''clusterId'') (ack_call d ''POST'' ''/ack/clusters''
        (Json (JObj [(''name'', JStr (cs_Name spec)), (''version'', JStr (cs_Version spec)), (''node_count'', JInt (cs_NodeCount spec))])) s))"

definition ack_get_cluster :: "(string \<Rightarrow> string \<Rightarrow> string option) \<Rightarrow> 's doer \<Rightarrow> string \<Rightarrow> 's \<Rightarrow> (cloud_error + string) \<times> 's" where
  "ack_get_cluster decode d clusterID s = then_decode (decode ''status'') (ack_call d ''GET'' (''/ack/clusters/'' @ clusterID) NoBody s)"

definition ack_create_node_pool :: "'s doer \<Rightarrow> string \<Rightarrow> string \<Rightarrow> int \<Rightarrow> 's \<Rightarrow> (cloud_error + unit) \<times> 's" where
  "ack_create_node_pool d clusterID poolName replicas s =
     then_done (ack_call d ''POST'' (''/ack/clusters/'' @ clusterID @ ''/node-pools'')
       (Json (JObj [(''name'', JStr poolName), (''replicas'', JInt replicas)])) s)"

definition ack_delete_cluster :: "'s doer \<Rightarrow> string \<Rightarrow> 's \<Rightarrow> (cloud_error + unit) \<times> 's" where
  "ack_delete_cluster d clusterID s = then_done (ack_call d ''DELETE'' (''/ack/clusters/'' @ clusterID) NoBody s)"

definition ack_install_gateway :: "'s doer \<Rightarrow> string \<Rightarrow> 's \<Rightarrow> (cloud_error + unit) \<times> 's" where
  "ack_install_gateway d clusterID s = then_done (ack_call d ''POST'' (''/ack/clusters/'' @ clusterID @ ''/gateway'') NoBody s)"

definition ack_bind_workload :: "string \<Rightarrow> string \<Rightarrow> 's \<Rightarrow> (cloud_error + unit) \<times> 's" where
  "ack_bind_workload appID namespace s = (Inr (), s)"

definition ack_unbind_workload :: "string \<Rightarrow> string \<Rightarrow> 's \<Rightarrow> (cloud_error + unit) \<times> 's" where
  "ack_unbind_workload appID namespace s = (Inr (), s)"

definition ack_healthz :: "'s doer \<Rightarrow> 's \<Rightarrow> (cloud_error + unit) \<times> 's" where
  "ack_healthz d s = then_healthz (ack_call d ''GET'' ''/ack/clusters'' NoBody s)"

lemmas ack_defs = ack_create_cluster_def ack_get_cluster_def ack_delete_cluster_def ack_healthz_def ack_call_def

interpretation ack: cluster_runtime "ack_create_cluster decode d" "ack_get_cluster decode d" "ack_delete_cluster d" "ack_healthz d" for decode d
  by unfold_locales (auto simp: ack_defs cloud_defs split: prod.splits sum.splits if_splits option.splits)

section \<open>Adopted clusters\<close>

definition self_ping :: "'s wire \<Rightarrow> string \<Rightarrow> string \<Rightarrow> 's \<Rightarrow> (cloud_error + unit) \<times> 's" where
  "self_ping x endpoint path s =
     (if \<not> wi_accepts x (endpoint @ path) then (Inl (CloudUnavailable path), s)
      else case wi_send x ''GET'' (endpoint @ path) [] NoBody s of
        (None, s1) \<Rightarrow> (Inl (CloudUnavailable path), s1)
      | (Some (status, content), s1) \<Rightarrow>
          if status \<ge> 400 then (Inl (CloudUnavailable (''readyz returned '' @ itoa status)), s1) else (Inr (), s1))"

definition self_create_cluster :: "ClusterSpec \<Rightarrow> 's \<Rightarrow> (cloud_error + string) \<times> 's" where
  "self_create_cluster spec s = (Inl ProvisionUnsupported, s)"

definition self_get_cluster :: "'s wire \<Rightarrow> string \<Rightarrow> string \<Rightarrow> 's \<Rightarrow> (cloud_error + string) \<times> 's" where
  "self_get_cluster x endpoint clusterID s =
     (case self_ping x endpoint ''/readyz'' s of (Inl e, s1) \<Rightarrow> (Inl e, s1) | (Inr u, s1) \<Rightarrow> (Inr ''adopted'', s1))"

definition self_create_node_pool :: "string \<Rightarrow> string \<Rightarrow> int \<Rightarrow> 's \<Rightarrow> (cloud_error + unit) \<times> 's" where
  "self_create_node_pool clusterID poolName replicas s = (Inl ProvisionUnsupported, s)"

definition self_delete_cluster :: "string \<Rightarrow> 's \<Rightarrow> (cloud_error + unit) \<times> 's" where
  "self_delete_cluster clusterID s = (Inl ProvisionUnsupported, s)"

definition self_install_gateway :: "string \<Rightarrow> 's \<Rightarrow> (cloud_error + unit) \<times> 's" where
  "self_install_gateway clusterID s = (Inr (), s)"

definition self_bind_workload :: "string \<Rightarrow> string \<Rightarrow> 's \<Rightarrow> (cloud_error + unit) \<times> 's" where
  "self_bind_workload appID namespace s = (Inr (), s)"

definition self_unbind_workload :: "string \<Rightarrow> string \<Rightarrow> 's \<Rightarrow> (cloud_error + unit) \<times> 's" where
  "self_unbind_workload appID namespace s = (Inr (), s)"

definition self_healthz :: "'s wire \<Rightarrow> string \<Rightarrow> 's \<Rightarrow> (cloud_error + unit) \<times> 's" where
  "self_healthz x endpoint s = self_ping x endpoint ''/readyz'' s"

text \<open>An adopted cluster is never created, resized or removed.\<close>

lemma adopted_read_only:
  "snd (self_create_cluster spec s) = s" "snd (self_create_node_pool i p n s) = s" "snd (self_delete_cluster i s) = s"
  "snd (self_install_gateway i s) = s"
  by (simp_all add: self_create_cluster_def self_create_node_pool_def self_delete_cluster_def self_install_gateway_def)

section \<open>Baidu document database\<close>

text \<open>\<open>isolation\<close> is the injected classification, \<open>None\<close> when there is none.\<close>

definition docdb_isolation_for :: "(string \<Rightarrow> string) option \<Rightarrow> string \<Rightarrow> string" where
  "docdb_isolation_for isolation appID = (case isolation of None \<Rightarrow> ''shared'' | Some f \<Rightarrow> f appID)"

definition docdb_create :: "(string \<Rightarrow> string) option \<Rightarrow> string \<Rightarrow> string \<Rightarrow> cloud_error + Credential" where
  "docdb_create isolation endpoint appID =
     (if docdb_isolation_for isolation appID = ''dedicated'' then Inl (CloudFailed ''dedicated instance provisioning requires D2 wiring'')
      else let user = ''app_'' @ appID in
        Inr \<lparr>cr_Username = user, cr_Password = [],
             cr_URI = ''mongodb://'' @ user @ ''@'' @ endpoint @ ''/'' @ appID @ ''?authSource='' @ appID\<rparr>)"

definition docdb_delete :: "(string \<Rightarrow> string) option \<Rightarrow> string \<Rightarrow> cloud_error + unit" where
  "docdb_delete isolation appID =
     (if docdb_isolation_for isolation appID = ''dedicated'' then Inl (CloudFailed ''dedicated teardown requires D2 wiring'') else Inr ())"

definition docdb_healthz :: "cloud_error + unit" where
  "docdb_healthz = Inr ()"

section \<open>Baidu DNS, load balancer and object storage\<close>

text \<open>Calls through the injected transport; calling a nil one panics. The body of a TXT record is the text itself.\<close>

definition injected_call :: "'s doer option \<Rightarrow> string \<Rightarrow> string \<Rightarrow> body \<Rightarrow> cloud_error \<Rightarrow> 's \<Rightarrow> (cloud_error + unit) \<times> 's" where
  "injected_call d meth path payload failed s =
     (case d of
        None \<Rightarrow> (Inl NilDoer, s)
      | Some call \<Rightarrow>
          (case call meth path payload s of
             (Inl e, s1) \<Rightarrow> (Inl failed, s1)
           | (Inr (status, content), s1) \<Rightarrow> if status \<ge> 400 then (Inl failed, s1) else (Inr (), s1)))"

definition record_path :: "string \<Rightarrow> string \<Rightarrow> string \<Rightarrow> string" where
  "record_path zone host txt = ''/zone/'' @ zone @ ''/record?host='' @ host @ ''&type=TXT&rdata='' @ txt"

definition dns_create_challenge :: "'s doer option \<Rightarrow> string \<Rightarrow> string \<Rightarrow> string \<Rightarrow> 's \<Rightarrow> (cloud_error + unit) \<times> 's" where
  "dns_create_challenge d zone host txt s =
     injected_call d ''POST'' (record_path zone host txt)
       (Raw (''{'' @ [CHR 0x22] @ ''rdata'' @ [CHR 0x22] @ '':'' @ [CHR 0x22] @ txt @ [CHR 0x22] @ ''}'')) (CloudFailed (''create TXT '' @ host)) s"

definition dns_delete_challenge :: "'s doer option \<Rightarrow> string \<Rightarrow> string \<Rightarrow> string \<Rightarrow> 's \<Rightarrow> (cloud_error + unit) \<times> 's" where
  "dns_delete_challenge d zone host txt s = injected_call d ''DELETE'' (record_path zone host txt) NoBody (CloudFailed (''delete TXT '' @ host)) s"

definition dns_healthz :: "'s doer option \<Rightarrow> 's \<Rightarrow> (cloud_error + unit) \<times> 's" where
  "dns_healthz d s = injected_call d ''GET'' ''/healthz'' NoBody (CloudUnavailable ''dns healthz'') s"

definition listener_path :: "string \<Rightarrow> string \<Rightarrow> string" where
  "listener_path appID host = ''/listener?app='' @ appID @ ''&host='' @ host"

definition blb_bind_domain :: "'s doer option \<Rightarrow> string \<Rightarrow> string \<Rightarrow> 's \<Rightarrow> (cloud_error + unit) \<times> 's" where
  "blb_bind_domain d appID host s = injected_call d ''POST'' (listener_path appID host) NoBody (CloudFailed (''bind '' @ host)) s"

definition blb_unbind_domain :: "'s doer option \<Rightarrow> string \<Rightarrow> string \<Rightarrow> 's \<Rightarrow> (cloud_error + unit) \<times> 's" where
  "blb_unbind_domain d appID host s = injected_call d ''DELETE'' (listener_path appID host) NoBody (CloudFailed (''unbind '' @ host)) s"

definition blb_healthz :: "'s doer option \<Rightarrow> 's \<Rightarrow> (cloud_error + unit) \<times> 's" where
  "blb_healthz d s = injected_call d ''GET'' ''/healthz'' NoBody (CloudUnavailable ''healthz'') s"

definition bos_create :: "string \<Rightarrow> cloud_error + Credential" where
  "bos_create appID = Inl (CloudUnavailable ''baidu bos CreateAppStorage requires D2 wiring'')"

definition bos_delete :: "string \<Rightarrow> cloud_error + unit" where
  "bos_delete appID = Inl (CloudUnavailable ''baidu bos DeleteAppStorage requires D2 wiring'')"

definition bos_healthz :: "'s doer option \<Rightarrow> 's \<Rightarrow> (cloud_error + unit) \<times> 's" where
  "bos_healthz d s = injected_call d ''HEAD'' ''/'' NoBody (CloudFailed ''bos healthz'') s"

section \<open>What is registered\<close>

definition empty_config :: CloudConfig where
  "empty_config = \<lparr>cl_Region = [], cl_Endpoint = [], cl_AccessKey = [], cl_SecretKey = []\<rparr>"

text \<open>The constructors under which the runtimes register yield adapters without a region, whose host has an empty label, and the
  DNS, load balancer and object storage adapters have no transport: probing one of them panics.\<close>

lemma registered_endpoints:
  "cce_endpoint empty_config = ''https://cce..baidubce.com''"
  "tke_endpoint empty_config = ''https://tke..tencentcloudapi.com''"
  "ack_endpoint empty_config = ''https://cs..aliyuncs.com''"
  by code_simp+

lemma registered_without_transport: "dns_healthz None s = (Inl NilDoer, s)" "blb_healthz None s = (Inl NilDoer, s)" "bos_healthz None s = (Inl NilDoer, s)"
  by (simp_all add: dns_healthz_def blb_healthz_def bos_healthz_def injected_call_def)

text \<open>Hosts are pasted into the query as they are: a host may carry further parameters.\<close>

lemma listener_host_unescaped: "listener_path ''a'' ''h&app=b'' = ''/listener?app=a&host=h&app=b''"
  by code_simp

end
