(* ===== verification/Provider_Wiring.thy ===== *)
theory Provider_Wiring
  imports Database_Controller Cloud_Providers Image_Registry
begin

text \<open>
  How the binding controller comes by its providers: the constructors of the local packages read the environment
  (\<^verbatim>\<open>providers/mongo/local\<close>, \<^verbatim>\<open>cache/local\<close>, \<^verbatim>\<open>storage/local\<close>, \<^verbatim>\<open>secret/local\<close>), every package linked into a binary
  registers its own, and \<^verbatim>\<open>controllers/cmd/database-controller/main.go\<close> looks four of them up by name.
\<close>

section \<open>The machine\<close>

text \<open>What a process finds: its environment, the commands it can run, random bytes, temporary files, the cipher, and a client of
  the cluster it is configured for (in-cluster configuration or the user's), if there is one.\<close>

record 's machine =
  ma_env :: "string \<Rightarrow> string"
  ma_exec :: "string \<Rightarrow> string list \<Rightarrow> 's \<Rightarrow> (string + string) \<times> 's"
  ma_random :: "'s \<Rightarrow> string option \<times> 's"
  ma_nonce :: "'s \<Rightarrow> string option \<times> 's"
  ma_files :: "'s tempfs"
  ma_aead :: aead
  ma_cluster :: "('s, kobj) client option"
  ma_quote :: "string \<Rightarrow> string"
  ma_escape_user :: "string \<Rightarrow> string"
  ma_escape_host :: "string \<Rightarrow> string"

definition env_or :: "(string \<Rightarrow> string) \<Rightarrow> string \<Rightarrow> string \<Rightarrow> string" where
  "env_or env key fallback = (if env key \<noteq> [] then env key else fallback)"

text \<open>The runner and the password source of a provider whose command is named in the environment.\<close>

definition runner_world :: "'s machine \<Rightarrow> string \<Rightarrow> string \<Rightarrow> 's world" where
  "runner_world m binEnv defaultBin =
     \<lparr>wd_run = ma_exec m (env_or (ma_env m) binEnv defaultBin),
      wd_random = (\<lambda>s. case ma_random m s of (buf, s1) \<Rightarrow>
        ((case random_hex32 buf of None \<Rightarrow> Inl [] | Some pw \<Rightarrow> Inr pw), s1)),
      wd_quote = ma_quote m, wd_escape_user = ma_escape_user m, wd_escape_host = ma_escape_host m\<rparr>"

section \<open>The constructors\<close>

text \<open>Of a provider only the operation the controller calls is kept: it answers with a credential, possibly nil.\<close>

type_synonym 's create = "string \<Rightarrow> 's \<Rightarrow> (provider_error + Credential option) \<times> 's"

definition credential_of :: "(provider_error + Credential) \<times> 's \<Rightarrow> (provider_error + Credential option) \<times> 's" where
  "credential_of r = (map_sum id Some (fst r), snd r)"

definition mongo_config :: "(string \<Rightarrow> string) \<Rightarrow> MongoConfig" where
  "mongo_config env = \<lparr>mc_Host = env ''TENARA_MONGO_HOST'', mc_AdminUser = env ''TENARA_MONGO_ADMIN_USER'',
     mc_AdminPassword = env ''TENARA_MONGO_ADMIN_PASSWORD''\<rparr>"

definition new_mongo :: "'s machine \<Rightarrow> 's create" where
  "new_mongo m appID s =
     credential_of (create_app_database (runner_world m ''TENARA_MONGOSH_BIN'' ''mongosh'') (mongo_config (ma_env m)) appID s)"

definition cache_config :: "(string \<Rightarrow> string) \<Rightarrow> CacheConfig" where
  "cache_config env = \<lparr>cc_Host = env ''TENARA_REDIS_HOST'', cc_Port = env ''TENARA_REDIS_PORT'',
     cc_AdminPassword = env ''TENARA_REDIS_ADMIN_PASSWORD''\<rparr>"

definition new_cache :: "'s machine \<Rightarrow> 's create" where
  "new_cache m appID s =
     credential_of (create_app_cache (runner_world m ''TENARA_REDIS_CLI_BIN'' ''redis-cli'') (cache_config (ma_env m)) appID s)"

definition new_storage :: "'s machine \<Rightarrow> 's create" where
  "new_storage m appID s =
     credential_of (create_app_storage (runner_world m ''TENARA_MC_BIN'' ''mc'') (ma_files m) (env_or (ma_env m) ''TENARA_MC_ALIAS'' ''local'') appID s)"

text \<open>The compose image registry: its signatures are checked by the command; \<open>send\<close> is the HTTP client.\<close>

definition registry_config :: "(string \<Rightarrow> string) \<Rightarrow> RegistryConfig" where
  "registry_config env = \<lparr>rc_Endpoint = env_or env ''TENARA_REGISTRY_ENDPOINT'' ''http://registry.tenara.local:5000'',
     rc_CosignKeyRef = env ''TENARA_COSIGN_KEY''\<rparr>"

definition cosign_transport :: "'s machine \<Rightarrow> (string \<Rightarrow> string \<Rightarrow> 's \<Rightarrow> (string + int \<times> labels) \<times> 's) \<Rightarrow> 's transport" where
  "cosign_transport m send = \<lparr>tr_send = send, tr_cosign = ma_exec m (env_or (ma_env m) ''TENARA_COSIGN_BIN'' ''cosign'')\<rparr>"

text \<open>The adapters of Baidu, registered with an empty configuration.\<close>

definition lift_cloud :: "cloud_error \<Rightarrow> provider_error" where
  "lift_cloud e = (case e of CloudUnavailable t \<Rightarrow> Unavailable t | CloudFailed t \<Rightarrow> RequestFailed t | _ \<Rightarrow> NotConfigured)"

definition new_docdb :: "'s create" where
  "new_docdb appID s = (map_sum lift_cloud Some (docdb_create None [] appID), s)"

definition new_bos :: "'s create" where
  "new_bos appID s = (map_sum lift_cloud Some (bos_create appID), s)"

record 's secret_ops =
  so_Encrypt :: "string \<Rightarrow> 's \<Rightarrow> (provider_error + string) \<times> 's"
  so_Decrypt :: "string \<Rightarrow> 's \<Rightarrow> (provider_error + string) \<times> 's"
  so_Inject :: "string \<Rightarrow> string \<Rightarrow> (string \<times> string) list \<Rightarrow> 's \<Rightarrow> (provider_error + unit) \<times> 's"

text \<open>\<^verbatim>\<open>NewFromEnv\<close>: first the cluster, then the master key.\<close>

definition secrets_from_env :: "'s machine \<Rightarrow> key_error + ('s, kobj) client \<times> string" where
  "secrets_from_env m =
     (case ma_cluster m of
        None \<Rightarrow> Inl NoCluster
      | Some c \<Rightarrow> and_then (new_secret_provider (ma_env m)) (\<lambda>key. Inr (c, key)))"

definition failing_secrets :: "key_error \<Rightarrow> 's secret_ops" where
  "failing_secrets reason =
     \<lparr>so_Encrypt = (\<lambda>plain s. (Inl (Broken reason), s)), so_Decrypt = (\<lambda>sealed s. (Inl (Broken reason), s)),
      so_Inject = (\<lambda>appID ns entries s. (Inl (Broken reason), s))\<rparr>"

definition sealed_by :: "seal_error + string \<Rightarrow> provider_error + string" where
  "sealed_by r = map_sum Seal id r"

definition local_secret_ops :: "'s machine \<Rightarrow> ('s, kobj) client \<Rightarrow> string \<Rightarrow> 's secret_ops" where
  "local_secret_ops m c key =
     \<lparr>so_Encrypt = (\<lambda>plain s. case ma_nonce m s of (r, s1) \<Rightarrow> (sealed_by (seal_encrypt (ma_aead m) key r plain), s1)),
      so_Decrypt = (\<lambda>sealed s. (sealed_by (seal_decrypt (ma_aead m) key sealed), s)),
      so_Inject = inject_to_namespace (ma_aead m) key c\<rparr>"

definition new_secrets :: "'s machine \<Rightarrow> 's secret_ops" where
  "new_secrets m = (case secrets_from_env m of Inl reason \<Rightarrow> failing_secrets reason | Inr (c, key) \<Rightarrow> local_secret_ops m c key)"

section \<open>Registration\<close>

record 's registries =
  rs_Databases :: "'s create provider_registry"
  rs_Caches :: "'s create provider_registry"
  rs_Storages :: "'s create provider_registry"
  rs_Secrets :: "'s secret_ops provider_registry"

definition empty_registries :: "'s registries" where
  "empty_registries = \<lparr>rs_Databases = new_registry ''database'', rs_Caches = new_registry ''cache'', rs_Storages = new_registry ''storage'',
     rs_Secrets = new_registry ''secret''\<rparr>"

text \<open>The packages of the repository that register one of these four kinds.\<close>

datatype package = MongoLocal | CacheLocal | StorageLocal | SecretLocal | BaiduDocDB | BaiduBOS

fun package_init :: "'s machine \<Rightarrow> package \<Rightarrow> 's registries \<Rightarrow> 's registries" where
  "package_init m MongoLocal r = r\<lparr>rs_Databases := register_provider ''local'' (new_mongo m) (rs_Databases r)\<rparr>"
| "package_init m CacheLocal r = r\<lparr>rs_Caches := register_provider ''local'' (new_cache m) (rs_Caches r)\<rparr>"
| "package_init m StorageLocal r = r\<lparr>rs_Storages := register_provider ''local'' (new_storage m) (rs_Storages r)\<rparr>"
| "package_init m SecretLocal r = r\<lparr>rs_Secrets := register_provider ''local'' (new_secrets m) (rs_Secrets r)\<rparr>"
| "package_init m BaiduDocDB r = r\<lparr>rs_Databases := register_provider ''baidu-docdb'' new_docdb (rs_Databases r)\<rparr>"
| "package_init m BaiduBOS r = r\<lparr>rs_Storages := register_provider ''baidu-bos'' new_bos (rs_Storages r)\<rparr>"

text \<open>The runtime initialises every linked package once, in some order.\<close>

definition linked :: "'s machine \<Rightarrow> package list \<Rightarrow> 's registries" where
  "linked m pkgs = fold (package_init m) pkgs empty_registries"

section \<open>The controller binary\<close>

text \<open>Any provider that is missing ends the process (\<open>None\<close>).\<close>

definition wire_controller :: "'s registries \<Rightarrow> 's deps option" where
  "wire_controller r =
     (case (new_provider (rs_Databases r) ''local'', new_provider (rs_Caches r) ''local'',
            new_provider (rs_Storages r) ''local'', new_provider (rs_Secrets r) ''local'') of
        (Inr db, Inr cache, Inr sto, Inr sec) \<Rightarrow>
          Some \<lparr>dp_Databases = Some db, dp_Caches = Some cache, dp_Storages = Some sto,
                dp_Encrypt = so_Encrypt sec, dp_Inject = so_Inject sec\<rparr>
      | _ \<Rightarrow> None)"

text \<open>The provider packages the binary imports, directly or through another: the registration points come without them.\<close>

definition controller_packages :: "package list" where
  "controller_packages = []"

definition start_controller :: "'s machine \<Rightarrow> 's deps option" where
  "start_controller m = wire_controller (linked m controller_packages)"

definition local_deps :: "'s machine \<Rightarrow> 's deps" where
  "local_deps m =
     \<lparr>dp_Databases = Some (new_mongo m), dp_Caches = Some (new_cache m), dp_Storages = Some (new_storage m),
      dp_Encrypt = so_Encrypt (new_secrets m), dp_Inject = so_Inject (new_secrets m)\<rparr>"

section \<open>What wiring takes\<close>

lemma registered:
  "rg_factories (register_provider n p r) = (rg_factories r)(n \<mapsto> p)" "rg_factories (new_registry k) = Map.empty"
  by (simp_all add: register_provider_def new_registry_def)

text \<open>An entry only one package writes is there after all initialisers iff that package is linked.\<close>

lemma fold_written:
  assumes "\<And>p r. entry (init p r) = (if p = q then Some x else entry r)"
  shows "entry (fold init ps r) = (if q \<in> set ps then Some x else entry r)"
  by (induction ps arbitrary: r) (auto simp: assms)

lemma linked_local:
  "rg_factories (rs_Databases (linked m pkgs)) ''local'' = (if MongoLocal \<in> set pkgs then Some (new_mongo m) else None)"
  "rg_factories (rs_Caches (linked m pkgs)) ''local'' = (if CacheLocal \<in> set pkgs then Some (new_cache m) else None)"
  "rg_factories (rs_Storages (linked m pkgs)) ''local'' = (if StorageLocal \<in> set pkgs then Some (new_storage m) else None)"
  "rg_factories (rs_Secrets (linked m pkgs)) ''local'' = (if SecretLocal \<in> set pkgs then Some (new_secrets m) else None)"
proof -
  let ?at = "\<lambda>sel r. rg_factories (sel r) ''local''"
  have "?at rs_Databases (package_init m p r) = (if p = MongoLocal then Some (new_mongo m) else ?at rs_Databases r)" for p r
    by (cases p) (simp_all add: registered)
  from fold_written [where entry = "?at rs_Databases" and init = "package_init m", OF this]
  show "?at rs_Databases (linked m pkgs) = (if MongoLocal \<in> set pkgs then Some (new_mongo m) else None)"
    by (simp add: linked_def empty_registries_def registered)
  have "?at rs_Caches (package_init m p r) = (if p = CacheLocal then Some (new_cache m) else ?at rs_Caches r)" for p r
    by (cases p) (simp_all add: registered)
  from fold_written [where entry = "?at rs_Caches" and init = "package_init m", OF this]
  show "?at rs_Caches (linked m pkgs) = (if CacheLocal \<in> set pkgs then Some (new_cache m) else None)"
    by (simp add: linked_def empty_registries_def registered)
  have "?at rs_Storages (package_init m p r) = (if p = StorageLocal then Some (new_storage m) else ?at rs_Storages r)" for p r
    by (cases p) (simp_all add: registered)
  from fold_written [where entry = "?at rs_Storages" and init = "package_init m", OF this]
  show "?at rs_Storages (linked m pkgs) = (if StorageLocal \<in> set pkgs then Some (new_storage m) else None)"
    by (simp add: linked_def empty_registries_def registered)
  have "?at rs_Secrets (package_init m p r) = (if p = SecretLocal then Some (new_secrets m) else ?at rs_Secrets r)" for p r
    by (cases p) (simp_all add: registered)
  from fold_written [where entry = "?at rs_Secrets" and init = "package_init m", OF this]
  show "?at rs_Secrets (linked m pkgs) = (if SecretLocal \<in> set pkgs then Some (new_secrets m) else None)"
    by (simp add: linked_def empty_registries_def registered)
qed

text \<open>
  The controller is wired exactly when all four local packages are linked into it, in whichever order they are
  initialised and whatever else registers, and then with the local providers configured from the environment. The binary
  links none of them, so it never gets past its wiring.
\<close>

lemma controller_wiring_exact:
  "wire_controller (linked m pkgs) =
     (if {MongoLocal, CacheLocal, StorageLocal, SecretLocal} \<subseteq> set pkgs then Some (local_deps m) else None) \<and>
   start_controller m = None"
  by (simp add: wire_controller_def new_provider_def linked_local local_deps_def start_controller_def controller_packages_def
      split: option.splits)

section \<open>Without a key or a cluster\<close>

text \<open>
  A secret provider that could not be built is found out late: wiring succeeds, the credential is created at the backend, and
  only sealing it fails, on every pass again.
\<close>

lemma sealing_needs_key:
  assumes "fst (provision_binding (local_deps m) spec s) = Inr out"
  shows "\<exists>c key. secrets_from_env m = Inr (c, key)"
proof (rule ccontr)
  assume "\<nexists>c key. secrets_from_env m = Inr (c, key)"
  then obtain reason where "secrets_from_env m = Inl reason" by (cases "secrets_from_env m") auto
  then have "dp_Encrypt (local_deps m) plain s1 = (Inl (Broken reason), s1)" for plain s1
    by (simp add: local_deps_def new_secrets_def failing_secrets_def)
  then show False using assms
    by (auto simp: provision_binding_def Let_def split: sum.splits option.splits prod.splits if_splits)
qed

end
