(* ===== verification/Logs.thy ===== *)
theory Logs
  imports Sealing
begin

text \<open>
  Log queries over Loki (\<^verbatim>\<open>control-plane/internal/logs/loki.go\<close>): the scoped URL, the call and the flattening of the
  answer. \<^verbatim>\<open>%q\<close> and the decoder of the answer (its streams, each a list of value lists) are parameters.
\<close>

section \<open>The query\<close>

record log_query =
  lq_AppID :: string
  lq_Source :: string
  lq_Limit :: int

abbreviation (input) SourceBuild :: string where "SourceBuild \<equiv> ''build''"
abbreviation (input) SourceApp :: string where "SourceApp \<equiv> ''app''"

datatype logs_error =
    NoAppScope
  | InvalidSource string
  | LokiRequest
  | LokiUnreached
  | LokiStatus int
  | LokiRead
  | LokiParse

definition source_valid :: "string \<Rightarrow> bool" where
  "source_valid s = (s = SourceBuild \<or> s = SourceApp)"

definition log_selector :: "(string \<Rightarrow> string) \<Rightarrow> log_query \<Rightarrow> string" where
  "log_selector quote q = ''{source='' @ quote (lq_Source q) @ '', app_id='' @ quote (lq_AppID q) @ ''}''"

definition build_url :: "(string \<Rightarrow> string) \<Rightarrow> log_query \<Rightarrow> string \<Rightarrow> logs_error + string" where
  "build_url quote q lokiBase =
     (if lq_AppID q = [] then Inl NoAppScope
      else if \<not> source_valid (lq_Source q) then Inl (InvalidSource (lq_Source q))
      else
        (let n = (if lq_Limit q \<le> 0 then 200 else lq_Limit q);
             params = [(''query'', log_selector quote q), (''limit'', itoa n), (''direction'', ''backward'')] in
         Inr (trim_suffix (trim_suffix lokiBase ''/'') ''/'' @ ''/loki/api/v1/query_range?'' @ encode_values params)))"

section \<open>The answer\<close>

record LogLine =
  ll_Text :: string
  ll_TimestampNano :: int

text \<open>\<^verbatim>\<open>strconv.ParseInt(s, 10, 64)\<close> with its error ignored: 0 for a bad syntax, the nearest bound out of range.\<close>

definition parse_int_value :: "string \<Rightarrow> int" where
  "parse_int_value s =
     (let neg = has_prefix s ''-'';
          ds = (if neg \<or> has_prefix s ''+'' then drop 1 s else s);
          n = int (digits_val ds);
          v = (if neg then - n else n) in
      if ds = [] \<or> \<not> list_all is_digit ds then 0 else max int64_min (min int64_max v))"

definition log_line :: "json list \<Rightarrow> LogLine" where
  "log_line pair =
     (case pair of
        [ts, txt] \<Rightarrow>
          \<lparr>ll_Text = (case txt of JStr s \<Rightarrow> s | _ \<Rightarrow> []), ll_TimestampNano = (case ts of JStr s \<Rightarrow> parse_int_value s | _ \<Rightarrow> 0)\<rparr>
      | _ \<Rightarrow> \<lparr>ll_Text = [], ll_TimestampNano = 0\<rparr>)"

definition parse_loki_response :: "(string \<Rightarrow> json list list list option) \<Rightarrow> string \<Rightarrow> logs_error + LogLine list" where
  "parse_loki_response decode content =
     (case decode content of None \<Rightarrow> Inl LokiParse | Some streams \<Rightarrow> Inr (map log_line (concat streams)))"

definition fetch_logs :: "'s wire \<Rightarrow> (string \<Rightarrow> json list list list option) \<Rightarrow> string \<Rightarrow> 's \<Rightarrow> (logs_error + LogLine list) \<times> 's" where
  "fetch_logs x decode lokiURL s =
     (if \<not> wi_accepts x lokiURL then (Inl LokiRequest, s)
      else case wi_send x ''GET'' lokiURL [] NoBody s of
        (None, s1) \<Rightarrow> (Inl LokiUnreached, s1)
      | (Some (status, content), s1) \<Rightarrow>
          (if status \<noteq> 200 then Inl (LokiStatus status)
           else case content of None \<Rightarrow> Inl LokiRead | Some c \<Rightarrow> parse_loki_response decode c, s1))"

text \<open>Lines of several streams are not put in order, and a malformed entry becomes an empty line of the epoch.\<close>

lemma lines_not_ordered:
  "parse_loki_response (\<lambda>c. Some [[[JStr ''2'', JStr ''b'']], [[JStr ''1'', JStr ''a''], [JNull]]]) c =
     Inr [\<lparr>ll_Text = ''b'', ll_TimestampNano = 2\<rparr>, \<lparr>ll_Text = ''a'', ll_TimestampNano = 1\<rparr>, \<lparr>ll_Text = [], ll_TimestampNano = 0\<rparr>]"
  unfolding parse_loki_response_def by code_simp

lemma timestamp_of_itoa: "in_int64 n \<Longrightarrow> parse_int_value (itoa n) = n"
proof -
  assume n: "in_int64 n"
  then have "atoi (itoa n) = Some n" by (rule atoi_itoa)
  then show "parse_int_value (itoa n) = n"
    using n by (auto simp: atoi_def parse_int_value_def in_int64_def Let_def split: if_splits)
qed

section \<open>Scope\<close>

text \<open>The inverse of the query escaping.\<close>

fun query_unescape :: "string \<Rightarrow> string option" where
  "query_unescape [] = Some []"
| "query_unescape (c # s) =
     (if c = CHR ''+'' then map_option (Cons (CHR '' '')) (query_unescape s)
      else if c = CHR ''%'' then
        (case s of
           a # b # s' \<Rightarrow>
             (case (hex_val a, hex_val b, query_unescape s') of
                (Some x, Some y, Some t) \<Rightarrow> Some (char_of (16 * x + y) # t) | _ \<Rightarrow> None)
         | _ \<Rightarrow> None)
      else map_option (Cons c) (query_unescape s))"

lemma unreserved_plain: "unreserved c \<Longrightarrow> c \<noteq> CHR ''+'' \<and> c \<noteq> CHR ''%'' \<and> c \<noteq> CHR ''&'' \<and> c \<noteq> CHR ''=''"
  by (auto simp: unreserved_def)

lemma upper_hex_all: "n < 16 \<Longrightarrow> hex_val (upper_hex n) = Some n \<and> upper_hex n \<noteq> CHR ''&'' \<and> upper_hex n \<noteq> CHR ''=''"
proof -
  have "\<forall>n \<in> set [0..<16]. hex_val (upper_hex n) = Some n \<and> upper_hex n \<noteq> CHR ''&'' \<and> upper_hex n \<noteq> CHR ''=''" by code_simp
  then show "n < 16 \<Longrightarrow> hex_val (upper_hex n) = Some n \<and> upper_hex n \<noteq> CHR ''&'' \<and> upper_hex n \<noteq> CHR ''=''" by simp
qed

lemma char_halves: "(of_char c :: nat) div 16 < 16" "(of_char c :: nat) mod 16 < 16" "char_of (16 * ((of_char c :: nat) div 16) + of_char c mod 16) = c"
proof -
  have "(of_char c :: nat) < 256" by (metis mod_less_divisor of_char_mod_256 zero_less_numeral)
  then show "(of_char c :: nat) div 16 < 16" by (intro less_mult_imp_div_less) simp
  show "(of_char c :: nat) mod 16 < 16" by simp
  show "char_of (16 * ((of_char c :: nat) div 16) + of_char c mod 16) = c" by simp
qed

lemma query_escape_Cons:
  "query_escape (c # s) =
     (if unreserved c then [c] else if c = CHR '' '' then ''+''
      else [CHR ''%'', upper_hex (of_char c div 16), upper_hex (of_char c mod 16)]) @ query_escape s"
  by (simp add: query_escape_def)

lemma query_unescape_escape: "query_unescape (query_escape s) = Some s"
proof (induction s)
  case Nil
  show ?case by (simp add: query_escape_def)
next
  case (Cons c s)
  then show ?case
    using unreserved_plain [of c] upper_hex_all [OF char_halves(1), of c] upper_hex_all [OF char_halves(2), of c] char_halves(3) [of c]
    by (simp add: query_escape_Cons)
qed

lemma query_escape_inject: "query_escape a = query_escape b \<longleftrightarrow> a = b"
  by (metis option.inject query_unescape_escape)

lemma query_escape_plain: "c \<in> set (query_escape s) \<Longrightarrow> c \<noteq> CHR ''&'' \<and> c \<noteq> CHR ''=''"
proof (induction s)
  case (Cons d s)
  then show ?case
    using unreserved_plain [of d] upper_hex_all [OF char_halves(1), of d] upper_hex_all [OF char_halves(2), of d]
    by (auto simp: query_escape_Cons split: if_splits)
qed (simp add: query_escape_def)

lemma encoded_query:
  "encode_values [(''query'', a), (''limit'', b), (''direction'', ''backward'')] =
     join ''&'' [''direction=backward'', ''limit='' @ query_escape b, ''query='' @ query_escape a]"
proof -
  have "sort_key fst [(''query'', a), (''limit'', b), (''direction'', ''backward'')] = [(''direction'', ''backward''), (''limit'', b), (''query'', a)]"
    by (simp add: insort_key_def)
  moreover have "query_escape ''direction'' = ''direction''" "query_escape ''backward'' = ''backward''"
    "query_escape ''limit'' = ''limit''" "query_escape ''query'' = ''query''"
    by code_simp+
  ultimately show ?thesis by (simp add: encode_values_def)
qed

text \<open>\<^verbatim>\<open>%q\<close> loses nothing, and puts a text of small letters between quotes.\<close>

definition quote_law :: "(string \<Rightarrow> string) \<Rightarrow> bool" where
  "quote_law quote =
     (inj quote \<and> (\<forall>s. list_all (\<lambda>c. CHR ''a'' \<le> c \<and> c \<le> CHR ''z'') s \<longrightarrow> quote s = [CHR 0x22] @ s @ [CHR 0x22]))"

lemma selector_inject:
  assumes "quote_law quote" and "source_valid (lq_Source q)" "source_valid (lq_Source q')"
    and "log_selector quote q = log_selector quote q'"
  shows "lq_Source q = lq_Source q' \<and> lq_AppID q = lq_AppID q'"
proof -
  have "inj quote" "quote ''build'' = [CHR 0x22] @ ''build'' @ [CHR 0x22]" "quote ''app'' = [CHR 0x22] @ ''app'' @ [CHR 0x22]"
    using assms(1) by (auto simp: quote_law_def)
  moreover have "lq_Source q = ''build'' \<or> lq_Source q = ''app''" "lq_Source q' = ''build'' \<or> lq_Source q' = ''app''"
    using assms(2,3) by (simp_all add: source_valid_def)
  ultimately have "lq_Source q = lq_Source q' \<and> quote (lq_AppID q) = quote (lq_AppID q')"
    using assms(4) unfolding log_selector_def by (elim disjE) simp_all
  then show ?thesis using injD [OF \<open>inj quote\<close>] by simp
qed

lemma built_url:
  assumes "build_url quote q lokiBase = Inr u"
  obtains l where "lq_AppID q \<noteq> []" "source_valid (lq_Source q)"
    "u = trim_suffix (trim_suffix lokiBase ''/'') ''/'' @ ''/loki/api/v1/query_range?'' @
       join ''&'' [''direction=backward'', ''limit='' @ query_escape l, ''query='' @ query_escape (log_selector quote q)]"
  using assms that unfolding build_url_def Let_def encoded_query by (auto split: if_splits)

text \<open>
  C40: a log query is tied to one application: a URL is only ever built for an application and one of the two sources,
  and two queries against the same server that yield the same URL are for the same application and the same source,
  whatever characters the application id holds.
\<close>

theorem log_query_scoped:
  assumes quoting: "quote_law quote" and u: "build_url quote q lokiBase = Inr u" and u': "build_url quote q' lokiBase = Inr u"
  shows "lq_AppID q = lq_AppID q' \<and> lq_Source q = lq_Source q' \<and> lq_AppID q \<noteq> [] \<and> lq_Source q \<in> {''build'', ''app''}"
proof -
  let ?parts = "\<lambda>l sel. [''direction=backward'', ''limit='' @ query_escape l, ''query='' @ query_escape sel]"
  obtain l where q: "lq_AppID q \<noteq> []" "source_valid (lq_Source q)" "u = trim_suffix (trim_suffix lokiBase ''/'') ''/'' @
      ''/loki/api/v1/query_range?'' @ join ''&'' (?parts l (log_selector quote q))" by (rule built_url [OF u])
  obtain l' where q': "source_valid (lq_Source q')" "u = trim_suffix (trim_suffix lokiBase ''/'') ''/'' @
      ''/loki/api/v1/query_range?'' @ join ''&'' (?parts l' (log_selector quote q'))" by (rule built_url [OF u'])
  have parts: "split_on CHR ''&'' (join ''&'' (?parts a b)) = ?parts a b" for a b
    by (rule split_on_join) (auto dest: query_escape_plain)
  have "join ''&'' (?parts l (log_selector quote q)) = join ''&'' (?parts l' (log_selector quote q'))" using q(3) q'(2) by simp
  then have "?parts l (log_selector quote q) = ?parts l' (log_selector quote q')" using parts by metis
  then have "log_selector quote q = log_selector quote q'" by (simp add: query_escape_inject)
  then show ?thesis using selector_inject [OF quoting q(2) q'(1)] q(1,2) by (auto simp: source_valid_def)
qed

theorem log_query_scoped_witness:
  "\<exists>u. build_url (\<lambda>s. [CHR 0x22] @ s @ [CHR 0x22]) \<lparr>lq_AppID = ''a&1'', lq_Source = ''app'', lq_Limit = 0\<rparr> ''http://loki/'' = Inr u \<and>
     (\<forall>i l. build_url (\<lambda>s. [CHR 0x22] @ s @ [CHR 0x22]) \<lparr>lq_AppID = i, lq_Source = ''app'', lq_Limit = l\<rparr> ''http://loki/'' = Inr u \<longrightarrow> i = ''a&1'')"
proof -
  let ?q = "\<lambda>i l. build_url (\<lambda>s. [CHR 0x22] @ s @ [CHR 0x22]) \<lparr>lq_AppID = i, lq_Source = ''app'', lq_Limit = l\<rparr> ''http://loki/''"
  obtain u where u: "?q ''a&1'' 0 = Inr u" by (simp add: build_url_def source_valid_def Let_def)
  have "quote_law (\<lambda>s. [CHR 0x22] @ s @ [CHR 0x22])" by (simp add: quote_law_def inj_def)
  then have "i = ''a&1''" if "?q i l = Inr u" for i l using log_query_scoped [OF _ u that] by simp
  then show ?thesis using u by metis
qed

end
