(* ===== verification/Handover.thy ===== *)
theory Handover
  imports Tenant_Safety
begin

text \<open>
  What the control plane hands to the cluster: only the deployment route hands anything over, one manifest per accepted
  request, of an application of an organisation the caller was admitted to, and the controller decodes it to that
  application.
\<close>

section \<open>Operations that hand nothing over\<close>

named_theorems quiet_intro \<open>introduction rules for operations that hand nothing to the cluster\<close>

definition quiet :: "'a op \<Rightarrow> bool" where
  "quiet m = (\<forall>p. pf_applied (snd (run_state m p)) = pf_applied p)"

lemma quietD: "quiet m \<Longrightarrow> run_state m p = (x, p') \<Longrightarrow> pf_applied p' = pf_applied p"
  unfolding quiet_def by (metis snd_conv)

lemma quiet_ret [quiet_intro]: "quiet (ret x)"
  by (simp add: quiet_def)

lemma quiet_bind [quiet_intro]: "quiet m \<Longrightarrow> (\<And>x. quiet (f x)) \<Longrightarrow> quiet (do { x \<leftarrow> m; f x })"
  by (auto simp: quiet_def split: prod.split) (metis snd_conv)

lemma quiet_attempt [quiet_intro]: "quiet m \<Longrightarrow> (\<And>x. quiet (f x)) \<Longrightarrow> quiet (attempt m h f)"
  unfolding attempt_def by (intro quiet_bind) (auto split: sum.split intro: quiet_ret)

lemma quiet_exec [quiet_intro]: "quiet (exec w st)"
  by (auto simp: quiet_def exec_def Let_def split: option.split db_fault.split sum.split)

lemma quiet_events [quiet_intro]: "quiet event" "quiet (draw w len)" "quiet (time_now w)"
  by (simp_all add: quiet_def draw_def time_now_def)

lemma quiet_cases [quiet_intro]:
  "(c \<Longrightarrow> quiet a) \<Longrightarrow> (\<not> c \<Longrightarrow> quiet b) \<Longrightarrow> quiet (if c then a else b)"
  "(\<And>e. r = Inl e \<Longrightarrow> quiet (fe e)) \<Longrightarrow> (\<And>x. r = Inr x \<Longrightarrow> quiet (fx x)) \<Longrightarrow> quiet (case r of Inl e \<Rightarrow> fe e | Inr x \<Rightarrow> fx x)"
  "(v = None \<Longrightarrow> quiet fn) \<Longrightarrow> (\<And>x. v = Some x \<Longrightarrow> quiet (fs x)) \<Longrightarrow> quiet (case v of None \<Rightarrow> fn | Some x \<Rightarrow> fs x)"
  "(\<And>y z. d = (y, z) \<Longrightarrow> quiet (fp y z)) \<Longrightarrow> quiet (case d of (y, z) \<Rightarrow> fp y z)"
  "(t \<Longrightarrow> quiet ft) \<Longrightarrow> (\<not> t \<Longrightarrow> quiet ff) \<Longrightarrow> quiet (case t of True \<Rightarrow> ft | False \<Rightarrow> ff)"
  by (simp_all split: sum.split option.split prod.split bool.split)

lemma quiet_transact [quiet_intro]:
  assumes work: "\<And>now. quiet (work now)"
  shows "quiet (transact w wrap work)"
  unfolding quiet_def
proof
  fix p :: platform
  obtain r p1 where run: "run_state (work (db_now w (pf_tick p))) (p\<lparr>pf_tick := Suc (pf_tick p)\<rparr>) = (r, p1)"
    by (cases "run_state (work (db_now w (pf_tick p))) (p\<lparr>pf_tick := Suc (pf_tick p)\<rparr>)")
  have "pf_applied p1 = pf_applied p" using quietD [OF work run] by simp
  then show "pf_applied (snd (run_state (transact w wrap work) p)) = pf_applied p"
    using run by (auto simp: transact_def Let_def split: sum.split option.split db_fault.split)
qed

lemma quiet_credentials [quiet_intro]:
  "quiet (random_token w)" "quiet (hash_password w pw)" "quiet (generate_api_token w)" "quiet (parse_token w secret raw)"
  "quiet (new_access w secret u)" "quiet (new_refresh w secret u)" "quiet (send_mail w addr url)"
  unfolding random_token_def hash_password_def generate_api_token_def random_secret_def parse_token_def new_access_def new_refresh_def new_token_def
  by (intro quiet_intro)+ (auto simp: send_mail_def quiet_def)

lemma quiet_account_store [quiet_intro]:
  "quiet (check_signup_limit w text)" "quiet (create_unverified w email hash)"
  "quiet (store_verification w u h)" "quiet (store_reset_token w u h)"
  "quiet (consume_verification w h)" "quiet (consume_reset_token w h h')"
  "quiet (get_by_email w email)" "quiet (invite_member_by_email w g email role)"
  "quiet (list_members w g)" "quiet (default_org_for_user w u)" "quiet (role_in_org w u g)"
  "quiet (create_api_token w g u name h display)" "quiet (list_api_tokens w u)"
  "quiet (revoke_api_token w u i)" "quiet (list_audit w g action)" "quiet (resolve_api_token w plain)"
  "quiet (insert_security_event w kind ip detail)" "quiet (insert_audit w entry)" "quiet (insert_audit_row w entry)"
  "quiet (claim_idempotency w key g hash)" "quiet (load_idempotent_response w key g hash)" "quiet (complete_idempotency w key g status content)"
  unfolding check_signup_limit_def create_unverified_def store_verification_def store_reset_token_def consume_verification_def
    consume_reset_token_def get_by_email_def invite_member_by_email_def find_or_stub_def stub_hash_def list_members_def
    default_org_for_user_def create_workspace_def role_in_org_def create_api_token_def list_api_tokens_def revoke_api_token_def list_audit_def
    resolve_api_token_def insert_security_event_def insert_audit_def insert_audit_row_def claim_idempotency_def load_idempotent_response_def
    complete_idempotency_def Let_def
  by (intro quiet_intro)+

lemma quiet_account_handlers:
  "quiet (handle_register w sc cx r)" "quiet (handle_verify w cx r)"
  "quiet (handle_login w sc cx r)" "quiet (handle_request_reset w sc cx r)"
  "quiet (handle_reset_password w cx r)" "quiet (handle_me cx r)"
  "quiet (handle_list_members w cx r)" "quiet (handle_audit_logs w cx r)"
  "quiet (handle_invite_member w cx r)" "quiet (handle_create_token w cx r)"
  "quiet (handle_list_tokens w cx r)" "quiet (handle_revoke_token w cx r)"
  unfolding handle_register_def start_verification_def handle_verify_def handle_login_def handle_request_reset_def notify_password_reset_def
    handle_reset_password_def handle_me_def handle_list_members_def handle_audit_logs_def handle_invite_member_def handle_create_token_def
    handle_list_tokens_def handle_revoke_token_def Let_def
  by (intro quiet_intro)+

lemma quiet_app_store [quiet_intro]:
  "quiet (org_tier w g)" "quiet (create_app w g name u)" "quiet (get_app w g i)" "quiet (list_apps w g)" "quiet (rename_app w g i name)"
  "quiet (soft_delete_app w g i)" "quiet (add_service w g i n ty rt pt)" "quiet (add_environment w g i n)"
  "quiet (update_spec w g i doc)" "quiet (save_app_spec w g i doc)" "quiet (get_app_with_spec w g i)" "quiet (save_awaiting_plan w g i env snap)"
  "quiet (approve_plan w g i pl)" "quiet (list_revisions w g i)" "quiet (rollback_latest w g i)"
  "quiet (allocate_default_domain w i slug base)" "quiet (add_custom_domain w i host)" "quiet (list_domains w i)"
  "quiet (verify_custom_domain w i d)" "quiet (request_database w g i n ty)"
  "quiet (set_secret w ss i n v)" "quiet (list_secrets w i)" "quiet (reveal w ss i n)"
  unfolding org_tier_def create_app_def classify_create_rejection_def get_app_def list_apps_def rename_app_def soft_delete_app_def
    exec_or_missing_def add_service_def add_environment_def ensure_environment_def save_app_spec_def update_spec_def get_app_with_spec_def
    save_awaiting_plan_def approve_plan_def list_revisions_def rollback_latest_def save_revision_def rollback_target_def
    allocate_default_domain_def add_custom_domain_def insert_domain_def new_challenge_token_def list_domains_def verify_custom_domain_def
    get_domain_def mark_domain_verified_def lookup_txt_def request_database_def binding_for_def set_secret_def kms_seal_def list_secrets_def
    reveal_def Let_def
  by (intro quiet_intro)+

lemma quiet_with_org [quiet_intro]: "(\<And>orgID. quiet (f orgID)) \<Longrightarrow> quiet (with_org f cx)"
  unfolding with_org_def by (intro quiet_intro)

lemma quiet_answers [quiet_intro]:
  "(\<And>s. quiet (fu s)) \<Longrightarrow> (\<And>s. quiet (ff s)) \<Longrightarrow> quiet (case e of Apps_Handlers.UnsupportedStack s \<Rightarrow> fu s | AnalyzeFailed s \<Rightarrow> ff s)"
  "quiet gu \<Longrightarrow> quiet gb \<Longrightarrow> (\<And>d. quiet (gd d)) \<Longrightarrow> quiet (case a of LokiUnreachable \<Rightarrow> gu | LokiBadBody \<Rightarrow> gb | LokiDocument d \<Rightarrow> gd d)"
  by (simp_all split: analyze_error.split loki_answer.split)

text \<open>Every handler but the one that deploys.\<close>

lemma quiet_app_handlers:
  "quiet (handle_list w hs cx r)" "quiet (handle_create w hs cx r)" "quiet (handle_get w hs cx r)"
  "quiet (handle_rename w hs cx r)" "quiet (handle_delete w hs cx r)" "quiet (handle_add_service w hs cx r)"
  "quiet (handle_add_environment w hs cx r)" "quiet (handle_put_spec w hs cx r)" "quiet (handle_rollback w hs cx r)"
  "quiet (handle_list_deployments w hs cx r)" "quiet (handle_analyze w hs cx r)" "quiet (handle_get_plan w hs cx r)"
  "quiet (handle_request_database w hs cx r)" "quiet (handle_list_domains w hs cx r)" "quiet (handle_list_logs w hs cx r)"
  "quiet (handle_diagnostics w hs cx r)" "quiet (handle_list_secrets w hs cx r)" "quiet (handle_reveal_secret w hs cx r)"
  "quiet (handle_add_domain w hs cx r)" "quiet (handle_verify_domain w hs cx r)" "quiet (handle_put_env w hs cx r)"
  unfolding handle_list_def handle_create_def handle_get_def handle_rename_def handle_delete_def handle_add_service_def
    handle_add_environment_def handle_put_spec_def handle_rollback_def handle_list_deployments_def handle_analyze_def handle_get_plan_def
    handle_request_database_def handle_list_domains_def handle_list_logs_def handle_diagnostics_def handle_list_secrets_def
    handle_reveal_secret_def handle_add_domain_def handle_verify_domain_def handle_put_env_def Let_def
  by (intro quiet_intro)+

text \<open>The middleware.\<close>

lemma quiet_resolve_bearer [quiet_intro]: "quiet (resolve_bearer w secret r)"
  unfolding resolve_bearer_def Let_def by (intro quiet_intro)

lemma quiet_authenticated: "(\<And>cx. quiet (nxt cx r)) \<Longrightarrow> quiet (authenticated w secret nxt cx r)"
  unfolding authenticated_def by (intro quiet_intro)

lemma quiet_require_cap: "(\<And>cx. quiet (nxt cx r)) \<Longrightarrow> quiet (require_cap w secret needed nxt cx r)"
  unfolding require_cap_def by (intro quiet_authenticated quiet_intro)

lemma quiet_idem: "quiet (nxt cx r) \<Longrightarrow> quiet (idem w nxt cx r)"
  unfolding idem_def Let_def by (intro quiet_intro)

lemma quiet_audited: "quiet (nxt cx r) \<Longrightarrow> quiet (audited w action nxt cx r)"
  unfolding audited_def Let_def by (intro quiet_intro)

lemma quiet_account_route: "(route, h) \<in> set (auth_routes w sc) \<Longrightarrow> quiet (h cx r)"
proof -
  have "list_all (\<lambda>(route, h). \<forall>cx r. quiet (h cx r)) (auth_routes w sc)"
    unfolding auth_routes_def Let_def list.pred_inject prod.case
    by (intro conjI TrueI allI list.pred_inject(1) quiet_account_handlers quiet_authenticated quiet_require_cap quiet_idem quiet_audited)
  then show "(route, h) \<in> set (auth_routes w sc) \<Longrightarrow> quiet (h cx r)" by (auto simp: list_all_iff)
qed

definition deploy_route :: "string \<times> string" where
  "deploy_route = (''POST'', ''/v1/apps/{appId}/deployments'')"

definition deploy_chain :: "outside \<Rightarrow> apps_service \<Rightarrow> handler" where
  "deploy_chain w hs = authenticated w (hs_tokenSecret hs) (require_cap w (hs_tokenSecret hs) CapAppDeploy
     (idem w (audited w ''app.deploy'' (handle_deploy w hs))))"

lemma quiet_app_route:
  assumes "(route, h) \<in> set (apps_routes w hs)"
  shows "(\<forall>cx r. quiet (h cx r)) \<or> route = deploy_route \<and> h = deploy_chain w hs"
proof -
  have "list_all (\<lambda>(route, h). (\<forall>cx r. quiet (h cx r)) \<or> route = deploy_route \<and> h = deploy_chain w hs) (apps_routes w hs)"
    unfolding apps_routes_def Let_def list.pred_inject prod.case deploy_chain_def deploy_route_def
    by (intro conjI TrueI)
      ((rule disjI1, intro allI quiet_app_handlers quiet_authenticated quiet_require_cap quiet_idem quiet_audited; fail) | (rule disjI2, rule conjI, rule refl, rule refl) | rule list.pred_inject(1))+
  then show ?thesis using assms by (auto simp: list_all_iff)
qed

section \<open>The deployment route\<close>

text \<open>A caller who reaches a handler, and what was handed over before.\<close>

lemma authenticated_traced:
  assumes run: "run_state (authenticated w secret nxt cx r) p = (resp, p')"
  obtains (through) ident q where "run_state (resolve_bearer w secret r) p = (Some ident, q)" "pf_applied q = pf_applied p"
      "run_state (nxt (cx\<lparr>cx_identity := Some ident\<rparr>) r) q = (resp, p')"
    | (refused) "pf_applied p' = pf_applied p"
proof -
  obtain i q where res: "run_state (resolve_bearer w secret r) p = (i, q)" by (cases "run_state (resolve_bearer w secret r) p")
  note same = quietD [OF quiet_resolve_bearer res]
  show thesis
  proof (cases i)
    case None
    obtain u p2 where ev: "run_state (insert_security_event w ''auth_failure'' (client_ip cx r) ''invalid credentials'') q = (u, p2)"
      by (cases "run_state (insert_security_event w ''auth_failure'' (client_ip cx r) ''invalid credentials'') q")
    have "quiet (insert_security_event w ''auth_failure'' (client_ip cx r) ''invalid credentials'')" by (intro quiet_intro)
    from quietD [OF this ev] show thesis using run res None ev same by (intro refused) (simp add: authenticated_def)
  next
    case (Some ident)
    then show thesis using through [of ident q] run res same by (simp add: authenticated_def)
  qed
qed

lemma require_cap_traced:
  assumes run: "run_state (require_cap w secret needed nxt cx r) p = (resp, p')"
  obtains (through) ident m q p1 where "run_state (resolve_bearer w secret r) p = (Some ident, q)" "admits w needed (pf_tables q) ident m"
      "pf_tables p1 = pf_tables q" "pf_applied p1 = pf_applied p"
      "run_state (nxt (cx\<lparr>cx_identity := Some ident, cx_role := Some (mb_role m)\<rparr>) r) p1 = (resp, p')"
    | (refused) "pf_applied p' = pf_applied p"
proof (rule authenticated_traced [OF run [unfolded require_cap_def]], goal_cases)
  case (1 ident q)
  obtain role p1 where rl: "run_state (role_in_org w (id_UserID ident) (id_OrgID ident)) q = (role, p1)"
    by (cases "run_state (role_in_org w (id_UserID ident) (id_OrgID ident)) q")
  have "keeps (\<lambda>t. t = pf_tables q) (role_in_org w (id_UserID ident) (id_OrgID ident))"
    unfolding role_in_org_def by (intro keeps_intro)
  then have same: "pf_tables p1 = pf_tables q" using keepsD [OF _ _ rl] by blast
  have "quiet (role_in_org w (id_UserID ident) (id_OrgID ident))" by (intro quiet_intro)
  then have quiet: "pf_applied p1 = pf_applied p" using quietD [OF _ rl] 1(4) by simp
  show ?case
  proof (cases "\<exists>ro. role = Inr ro \<and> can ro needed")
    case True
    then obtain ro where ro: "role = Inr ro" "can ro needed" by blast
    obtain m where m: "admits w needed (pf_tables q) ident m" "mb_role m = ro"
      using role_found [OF rl [unfolded ro]] ro(2) by (auto simp: admits_def)
    have "run_state (nxt (cx\<lparr>cx_identity := Some ident, cx_role := Some ro\<rparr>) r) p1 = (resp, p')" using 1(5) rl ro by simp
    then show ?thesis using through [OF 1(3) m(1) same quiet] m(2) by simp
  next
    case False
    then have "p' = p1" using 1(5) rl by (auto split: sum.splits if_splits)
    then show ?thesis using refused quiet by simp
  qed
next
  case 2
  then show ?case using refused by blast
qed

lemma audited_traced:
  assumes "run_state (audited w action nxt cx r) p = (resp, p')"
  obtains p1 where "run_state (nxt cx r) p = (resp, p1)" "pf_applied p' = pf_applied p1"
proof -
  obtain resp1 p1 where run: "run_state (nxt cx r) p = (resp1, p1)" by (cases "run_state (nxt cx r) p")
  have "quiet (insert_audit w e)" for e by (intro quiet_intro)
  then have "resp = resp1 \<and> pf_applied p' = pf_applied p1"
    using assms run by (auto simp: audited_def Let_def split: option.splits prod.splits dest: quietD)
  then show thesis using that run by simp
qed

lemma keeps_apps: "keeps (\<lambda>t. tb_apps t = A) (claim_idempotency w key g hash)" "keeps (\<lambda>t. tb_apps t = A) (approve_plan w g i pl)"
  unfolding claim_idempotency_def approve_plan_def select_plan_def set_deployment_state_def
  by (intro keeps_intro; auto simp: stmt_keeps_def purge_stmt_def claim_stmt_def Let_def split: if_splits)+

lemma idem_traced:
  assumes run: "run_state (idem w nxt cx r) p = (resp, p')"
  obtains (handled) resp1 p1 p2 where "tb_apps (pf_tables p1) = tb_apps (pf_tables p)" "pf_applied p1 = pf_applied p"
      "run_state (nxt cx r) p1 = (resp1, p2)" "pf_applied p' = pf_applied p2"
    | (skipped) "pf_applied p' = pf_applied p"
proof (cases "\<not> mutating_request r \<or> header r ''Idempotency-Key'' = []")
  case True
  then show thesis using handled [of p resp p'] run by (auto simp: idem_def split: if_splits)
next
  case False
  show thesis
  proof (cases "\<exists>ident raw. cx_identity cx = Some ident \<and> rq_Body r = Some raw")
    case False
    then show thesis using \<open>\<not> (\<not> mutating_request r \<or> header r ''Idempotency-Key'' = [])\<close> run skipped
      by (auto simp: idem_def split: option.splits)
  next
    case True
    then obtain ident raw where id: "cx_identity cx = Some ident" "rq_Body r = Some raw" by blast
    let ?key = "header r ''Idempotency-Key''" and ?g = "id_OrgID ident" and ?hash = "request_hash w r raw"
    obtain c p1 where c: "run_state (claim_idempotency w ?key ?g ?hash) p = (c, p1)" by (cases "run_state (claim_idempotency w ?key ?g ?hash) p")
    have q: "quiet (claim_idempotency w ?key ?g ?hash)" "quiet (load_idempotent_response w ?key ?g ?hash)"
        "quiet (complete_idempotency w ?key ?g st ct)" for st ct by (intro quiet_intro)+
    have same: "tb_apps (pf_tables p1) = tb_apps (pf_tables p)" "pf_applied p1 = pf_applied p"
      using keepsD [OF keeps_apps(1) refl c] quietD [OF q(1) c] by simp_all
    show thesis
    proof (cases "c = Inr True")
      case True
      obtain resp1 p2 where n: "run_state (nxt cx r) p1 = (resp1, p2)" by (cases "run_state (nxt cx r) p1")
      have "pf_applied p' = pf_applied p2"
        using run \<open>\<not> (\<not> mutating_request r \<or> header r ''Idempotency-Key'' = [])\<close> id c True n
        by (auto simp: idem_def Let_def run_attempt split: prod.splits dest: quietD [OF q(3)])
      then show thesis using handled [OF same n] by blast
    next
      case no: False
      have "pf_applied p' = pf_applied p1"
        using run \<open>\<not> (\<not> mutating_request r \<or> header r ''Idempotency-Key'' = [])\<close> id c no
        by (auto simp: idem_def Let_def run_attempt split: prod.splits sum.splits dest: quietD [OF q(2)])
      then show thesis using skipped same by simp
    qed
  qed
qed

text \<open>The lookup finds a live application of the organisation.\<close>

lemma got_app:
  assumes "run_state (get_app w orgID appID) p = (Inr a, p1)"
  obtains g row where "db_cast w orgID = Some g" "row \<in> set (tb_apps (pf_tables p))" "live_app g row"
    "app_ID a = ap_id row" "app_Slug a = ap_slug row" "pf_tables p1 = pf_tables p"
proof -
  obtain row p2 where sel: "run_state (exec w (select_app w appID orgID)) p = (Inr row, p2)" "a = app_of w row" "p1 = p2"
    using assms by (auto simp: get_app_def run_attempt split: if_splits prod.splits sum.splits)
  obtain u g where c: "db_cast w appID = Some u" "db_cast w orgID = Some g"
    using sel(1) by (auto simp: select_app_def uuid_arg_def exec_def Let_def split: option.splits db_fault.splits)
  have st: "select_app w appID orgID = reading (\<lambda>t. one_row (the_app u g) (tb_apps t))" using c by (simp add: select_app_def)
  note got = exec_reading [OF sel(1) [unfolded st]]
  have "row \<in> set (tb_apps (pf_tables p)) \<and> the_app u g row" using got(2) [OF refl] one_row_Inr by fast
  then show thesis using that [of g row] c sel got(1) by (auto simp: the_app_def app_of_def)
qed

lemma applied_once:
  assumes "run_state (apply_object applier obj) p = (u, p')"
  shows "pf_applied p' = pf_applied p \<or> pf_applied p' = pf_applied p @ [obj]"
  using assms by (auto simp: apply_object_def split: if_splits)

text \<open>The manifests of an application.\<close>

definition manifest_of :: "ApplicationRow \<Rightarrow> json \<Rightarrow> bool" where
  "manifest_of row obj =
     ((\<exists>spec. decode_app_env obj = Some spec \<and> aes_AppID spec = ap_id row \<and> validate_isolation (aes_Isolation spec) = None \<and>
         (\<forall>svc \<in> set (aes_Services spec). contains (ss_Image svc) ''@sha256:'')) \<or>
      (\<exists>b. obj = build_build b \<and> bi_AppID b = ap_id row))"

lemma built_manifest:
  assumes "ai_AppID inp = ap_id row" "ai_Isolation inp = ''shared''" "\<forall>s \<in> set (ai_Services inp). pv_Port s = 0 \<and> contains (pv_Image s) ''@sha256:''"
  shows "manifest_of row (build_app_env inp)"
proof -
  have "decode_app_env (build_app_env inp) = Some (handed_over inp)" by (rule decoded_app_env) (simp add: assms(3))
  then show ?thesis using assms by (auto simp: manifest_of_def handed_over_def validate_isolation_def)
qed

lemma build_manifest: "bi_AppID b = ap_id row \<Longrightarrow> manifest_of row (build_build b)"
  by (auto simp: manifest_of_def)

lemma bridge_applies:
  assumes run: "run_state (apply_bridge_best_effort w hs orgID i img url sha) p = (u, p')"
  shows "pf_applied p' = pf_applied p \<or>
    (\<exists>g row obj. db_cast w orgID = Some g \<and> row \<in> set (tb_apps (pf_tables p)) \<and> live_app g row \<and> manifest_of row obj \<and>
       pf_applied p' = pf_applied p @ [obj])"
proof (cases "hs_Applier hs")
  case None
  then show ?thesis using run by (simp add: apply_bridge_best_effort_def)
next
  case (Some applier)
  obtain ra p1 where ga: "run_state (get_app w orgID i) p = (ra, p1)" by (cases "run_state (get_app w orgID i) p")
  have "quiet (get_app w orgID i)" by (intro quiet_intro)
  note q1 = quietD [OF this ga]
  show ?thesis
  proof (cases ra)
    case (Inl e)
    then show ?thesis using run Some ga q1 by (simp add: apply_bridge_best_effort_def run_attempt)
  next
    case (Inr a)
    obtain g row where row: "db_cast w orgID = Some g" "row \<in> set (tb_apps (pf_tables p))" "live_app g row" "app_ID a = ap_id row"
      by (rule got_app [OF ga [unfolded Inr]])
    obtain tier p2 where ot: "run_state (org_tier w orgID) p1 = (tier, p2)" by (cases "run_state (org_tier w orgID) p1")
    have "quiet (org_tier w orgID)" by (intro quiet_intro)
    note q2 = quietD [OF this ot]
    define inp where "inp = \<lparr>ai_AppID = app_ID a, ai_Env = ''production'', ai_Name = app_Slug a,
                      ai_QuotaTier = tier_or_free (case tier of Inl e \<Rightarrow> [] | Inr t \<Rightarrow> t), ai_Isolation = ''shared'', ai_Services = []\<rparr>"
    have rest: "run_state (if img \<noteq> [] then
             apply_object applier (build_app_env
               (if contains img ''@sha256:''
                then inp\<lparr>ai_Services := [\<lparr>pv_Name = app_Slug a @ ''-web'', pv_Image = img, pv_Port = 0\<rparr>]\<rparr> else inp))
           else if url \<noteq> [] then do {
             now \<leftarrow> time_now w;
             apply_object applier (build_build
               \<lparr>bi_AppID = app_ID a, bi_Env = ''production'', bi_Name = app_Slug a @ ''-b-'' @ itoa (now smod 100000),
                bi_GitURL = url, bi_GitSHA = sha, bi_Dockerfile = []\<rparr>)
           }
           else ret ()) p2 = (u, p')"
      using run Some ga Inr ot unfolding inp_def by (simp add: apply_bridge_best_effort_def run_attempt Let_def split del: if_split)
    have "\<exists>obj. manifest_of row obj \<and> (pf_applied p' = pf_applied p2 \<or> pf_applied p' = pf_applied p2 @ [obj])"
    proof (cases "img = []")
      case False
      let ?inp = "if contains img ''@sha256:'' then inp\<lparr>ai_Services := [\<lparr>pv_Name = app_Slug a @ ''-web'', pv_Image = img, pv_Port = 0\<rparr>]\<rparr> else inp"
      have "manifest_of row (build_app_env ?inp)" using row(4) by (intro built_manifest) (simp_all add: inp_def)
      then show ?thesis using rest False applied_once [of applier "build_app_env ?inp" p2 u p'] by auto
    next
      case True
      obtain n p3 where now: "run_state (time_now w) p2 = (n, p3)" "pf_applied p3 = pf_applied p2" by (simp add: time_now_def)
      define b where "b = \<lparr>bi_AppID = app_ID a, bi_Env = ''production'', bi_Name = app_Slug a @ ''-b-'' @ itoa (n smod 100000),
                bi_GitURL = url, bi_GitSHA = sha, bi_Dockerfile = []\<rparr>"
      have "manifest_of row (build_build b)" using row(4) by (intro build_manifest) (simp add: b_def)
      moreover have "pf_applied p' = pf_applied p2 \<or> run_state (apply_object applier (build_build b)) p3 = (u, p')"
        using rest True now(1) by (cases "url = []") (simp_all add: b_def)
      ultimately show ?thesis using applied_once [of applier "build_build b" p3 u p'] now(2) by auto
    qed
    then show ?thesis using q1 q2 row(1-3) by metis
  qed
qed

lemma deploy_applies:
  assumes run: "run_state (handle_deploy w hs cx r) p = (resp, p')" and id: "cx_identity cx = Some ident"
  shows "pf_applied p' = pf_applied p \<or>
    (\<exists>g row obj. db_cast w (id_OrgID ident) = Some g \<and> row \<in> set (tb_apps (pf_tables p)) \<and> live_app g row \<and> manifest_of row obj \<and>
       pf_applied p' = pf_applied p @ [obj])"
proof (cases "\<exists>inp. decode_body w [''plan_id'', ''image'', ''git_url'', ''git_sha''] r = Some inp \<and> inp ''plan_id'' \<noteq> []")
  case False
  then show ?thesis using run id by (auto simp: handle_deploy_def with_org_def split: option.splits if_splits)
next
  case True
  then obtain inp where inp: "decode_body w [''plan_id'', ''image'', ''git_url'', ''git_sha''] r = Some inp" "inp ''plan_id'' \<noteq> []" by blast
  obtain ra p1 where ap: "run_state (approve_plan w (id_OrgID ident) (app_param r) (inp ''plan_id'')) p = (ra, p1)"
    by (cases "run_state (approve_plan w (id_OrgID ident) (app_param r) (inp ''plan_id'')) p")
  have "quiet (approve_plan w (id_OrgID ident) (app_param r) (inp ''plan_id''))" by (intro quiet_intro)
  note same = quietD [OF this ap] keepsD [OF keeps_apps(2) refl ap]
  show ?thesis
  proof (cases ra)
    case (Inl e)
    then show ?thesis using run id inp ap same by (simp add: handle_deploy_def with_org_def run_attempt)
  next
    case (Inr dep)
    obtain u p2 where br: "run_state (apply_bridge_best_effort w hs (id_OrgID ident) (app_param r) (inp ''image'') (inp ''git_url'') (inp ''git_sha'')) p1 = (u, p2)"
      by (cases "run_state (apply_bridge_best_effort w hs (id_OrgID ident) (app_param r) (inp ''image'') (inp ''git_url'') (inp ''git_sha'')) p1")
    have "p' = p2" using run id inp ap Inr br by (simp add: handle_deploy_def with_org_def run_attempt)
    then show ?thesis using bridge_applies [OF br] same by simp
  qed
qed


section \<open>A concrete handover\<close>

definition deploying_apps :: apps_service where
  "deploying_apps = sample_apps\<lparr>hs_Applier := Some (\<lambda>n obj. True)\<rparr>"

definition awaiting :: "string \<Rightarrow> string \<Rightarrow> DeploymentRow" where
  "awaiting plan u = \<lparr>dp_id = plan @ ''-d'', dp_app = u, dp_env = ''e1'', dp_state = ''AWAITING_APPROVAL'', dp_plan = Some plan,
     dp_snapshot = Some ''{}''\<rparr>"

text \<open>Two workspaces of different users, each with an application called shop and a plan for it.\<close>

definition two_plans :: platform where
  "two_plans = two_tenants\<lparr>pf_tables := (pf_tables two_tenants)\<lparr>
     tb_deployments := [awaiting ''p1'' ''a1'', awaiting ''p2'' ''a2''],
     tb_members := [\<lparr>mb_user = ''u1'', mb_org = ''g1'', mb_role = ''workspace_admin''\<rparr>, \<lparr>mb_user = ''u2'', mb_org = ''g2'', mb_role = ''workspace_admin''\<rparr>],
     tb_api_tokens := tb_api_tokens (pf_tables two_tenants) @
       [\<lparr>at_id = ''t2'', at_org = ''g2'', at_user = ''u2'', at_name = ''ci'', at_hash = hash_token calm ''tenara_y'',
         at_prefix = ''tenara_y'', at_last_used = None, at_revoked = None, at_created = 0\<rparr>]\<rparr>\<rparr>"

definition deploy_request :: "string \<Rightarrow> string \<Rightarrow> string \<Rightarrow> http_request" where
  "deploy_request token u content = token_request\<lparr>rq_Headers := [(''Authorization'', ''Bearer '' @ token)], rq_PathValues := [(''appId'', u)],
     rq_Body := Some content\<rparr>"

abbreviation (input) first_deploy :: platform where
  "first_deploy \<equiv> snd (run_state (deploy_chain calm deploying_apps sample_ctx (deploy_request ''tenara_x'' ''a1'' ''p1|r/shop@sha256:0||'')) two_plans)"

abbreviation (input) second_deploy :: platform where
  "second_deploy \<equiv> snd (run_state (deploy_chain calm deploying_apps sample_ctx (deploy_request ''tenara_y'' ''a2'' ''p2|r/other@sha256:1||'')) first_deploy)"

lemma first_handover: "map (map_option aes_AppID \<circ> decode_app_env) (pf_applied first_deploy) = [Some ''a1'']"
  by code_simp

lemma deploy_mounted: "(deploy_route, deploy_chain calm deploying_apps) \<in> set (control_plane calm sample_service deploying_apps)"
proof -
  have "hs_tokenSecret deploying_apps = ''s''" by (simp add: deploying_apps_def sample_apps_def)
  then show ?thesis unfolding control_plane_def apps_routes_def deploy_route_def deploy_chain_def Let_def by simp
qed


text \<open>
  The name of a manifest in the cluster is the slug of its application, there is no namespace, and slugs are unique within a
  workspace at most. The second tenant's deployment therefore replaces the first one's AppEnv by its own.
\<close>

definition coalesce_json :: "json option \<Rightarrow> json" where
  "coalesce_json v = (case v of None \<Rightarrow> JStr [] | Some j \<Rightarrow> j)"

definition object_name :: "json \<Rightarrow> (json \<times> json \<times> json) option" where
  "object_name obj =
     (case obj of
        JObj kvs \<Rightarrow>
          (case (map_of kvs ''kind'', map_of kvs ''metadata'') of
             (Some k, Some (JObj m)) \<Rightarrow> Some (k, coalesce_json (map_of m ''namespace''), coalesce_json (map_of m ''name''))
           | _ \<Rightarrow> None)
      | _ \<Rightarrow> None)"

lemma tenants_share_name:
  "map (\<lambda>obj. (object_name obj, map_option aes_AppID (decode_app_env obj))) (pf_applied second_deploy) =
     [(Some (JStr ''AppEnv'', JStr [], JStr ''shop''), Some ''a1''), (Some (JStr ''AppEnv'', JStr [], JStr ''shop''), Some ''a2'')]"
  by code_simp

text \<open>
  The control plane only asks for a digest, the controller also refuses the tag \<^verbatim>\<open>latest\<close> in front of one. An image without a
  digest is logged as skipped, but the AppEnv is handed over all the same, without its service.
\<close>

lemma pinned_latest_refused:
  "contains ''r/shop:latest@sha256:0'' ''@sha256:''" "require_digest_image ''r/shop:latest@sha256:0'' = Some (LatestTag ''r/shop:latest@sha256:0'')"
  by code_simp+

lemma unpinned_handover:
  "map (map_option aes_Services \<circ> decode_app_env)
     (pf_applied (snd (run_state (deploy_chain calm deploying_apps sample_ctx (deploy_request ''tenara_x'' ''a1'' ''p1|r/shop:1||'')) two_plans))) = [Some []]"
  by code_simp

end
