(* ===== verification/Server.thy ===== *)
theory Server
  imports Tenant_Safety Analyzer_Spec Previews
begin

text \<open>
  The control plane server: \<^verbatim>\<open>control-plane/cmd/server/main.go\<close> with \<^verbatim>\<open>internal/config\<close>, the kubectl applier of
  \<^verbatim>\<open>internal/provision/applier.go\<close> and the fallback of \<^verbatim>\<open>internal/httpapi/server.go\<close>. It reads its environment, wires the
  account and application routes with their secrets, adds its own routes, and serves requests while an hourly purge runs.
  Routing is the business of the router library: a request comes with the route it matched.
\<close>

section \<open>Configuration\<close>

text \<open>\<^verbatim>\<open>os.Getenv\<close>: the empty string when a variable is not set.\<close>

type_synonym environment = "string \<Rightarrow> string"

record server_config =
  cf_DatabaseURL :: string
  cf_Port :: string
  cf_LogLevel :: string

datatype start_error = NoDatabaseURL | BadKMSKey kms_error

definition getenv_or :: "environment \<Rightarrow> string \<Rightarrow> string \<Rightarrow> string" where
  "getenv_or env key fallback = (if env key \<noteq> [] then env key else fallback)"

definition load_config :: "environment \<Rightarrow> start_error + server_config" where
  "load_config env =
     (let cfg = \<lparr>cf_DatabaseURL = env ''DATABASE_URL'', cf_Port = getenv_or env ''PORT'' ''8080'', cf_LogLevel = getenv_or env ''LOG_LEVEL'' ''info''\<rparr> in
      if cf_DatabaseURL cfg = [] then Inl NoDatabaseURL else Inr cfg)"

section \<open>The machine it runs on\<close>

text \<open>The file system the analyzer reads at an event, the orders in which it ranges over its maps, the texts of its errors,
  the JSON it renders, and the execution of a command with a manifest on its standard input.\<close>

record host =
  ho_tree :: "nat \<Rightarrow> file_tree"
  ho_json :: json_decoder
  ho_kinds :: "(string \<times> string) list"
  ho_order :: "(string \<times> ServiceFacts) list \<Rightarrow> (string \<times> ServiceFacts) list"
  ho_visit1 :: visit
  ho_visit2 :: visit
  ho_errorText :: "Analyzer_Spec.analyze_error \<Rightarrow> string"
  ho_marshal :: "GenResult \<Rightarrow> string"
  ho_exec :: "nat \<Rightarrow> string \<Rightarrow> string list \<Rightarrow> json \<Rightarrow> bool"

definition analyze_at :: "outside \<Rightarrow> host \<Rightarrow> nat \<Rightarrow> string \<Rightarrow> string + string" where
  "analyze_at w h n repoPath =
     (case analyze_local (ho_json h) (sha256 w) (ho_kinds h) (ho_order h) (ho_visit1 h) (ho_visit2 h) (ho_tree h n) repoPath of
        Inl e \<Rightarrow> Inl (ho_errorText h e)
      | Inr res \<Rightarrow> Inr (ho_marshal h res))"

text \<open>The unsupported-stack error of the analyzer is recognised by its text.\<close>

definition bridge_analyze :: "outside \<Rightarrow> host \<Rightarrow> nat \<Rightarrow> string \<Rightarrow> string \<Rightarrow> Apps_Handlers.analyze_error + string" where
  "bridge_analyze w h n repoPath baseDomain =
     (case analyze_at w h n repoPath of
        Inl txt \<Rightarrow> Inl (if contains txt ''unsupported stack'' then Apps_Handlers.UnsupportedStack (''unsupported stack: '' @ txt) else AnalyzeFailed txt)
      | Inr out \<Rightarrow> Inr out)"

definition kubectl_apply :: "host \<Rightarrow> string \<Rightarrow> nat \<Rightarrow> json \<Rightarrow> bool" where
  "kubectl_apply h bin n obj = ho_exec h n (if bin = [] then ''kubectl'' else bin) [''apply'', ''-f'', ''-''] obj"

section \<open>Wiring\<close>

text \<open>What the libraries bring to the application routes (decoders, texts, Loki's answers) is in \<open>lib\<close>, whose configured fields
  are replaced.\<close>

definition mount_platform_api :: "environment \<Rightarrow> outside \<Rightarrow> host \<Rightarrow> apps_service \<Rightarrow> string \<Rightarrow> start_error + service \<times> apps_service" where
  "mount_platform_api env w h lib port =
     (let tokenSecret = getenv_or env ''TENARA_TOKEN_SECRET'' ''dev-only-secret-key-32-bytes!!'';
          baseURL = getenv_or env ''TENARA_BASE_URL'' (''http://127.0.0.1:'' @ port);
          kmsKey = getenv_or env ''TENARA_KMS_MASTER_KEY_HEX'' (concat (replicate 32 ''ab'')) in
      case new_stub kmsKey of
        Inl e \<Rightarrow> Inl (BadKMSKey e)
      | Inr key \<Rightarrow>
          Inr (\<lparr>sc_secret = tokenSecret, sc_baseURL = baseURL\<rparr>,
               lib\<lparr>hs_tokenSecret := tokenSecret,
                   hs_baseDomain := ''127.0.0.1.nip.io'',
                   hs_secrets := (hs_secrets lib)\<lparr>ss_key := key\<rparr>,
                   hs_Analyze := Some (bridge_analyze w h),
                   hs_Applier := (if getenv_or env ''TENARA_CLUSTER_BRIDGE'' [] = ''kubectl'' then Some (kubectl_apply h []) else None),
                   hs_LokiURL := env ''LOKI_URL''\<rparr>))"

definition start_server :: "environment \<Rightarrow> outside \<Rightarrow> host \<Rightarrow> apps_service \<Rightarrow> start_error + service \<times> apps_service" where
  "start_server env w h lib = and_then (load_config env) (\<lambda>cfg. mount_platform_api env w h lib (cf_Port cfg))"

text \<open>The administrator named in the environment, if any, is ensured; a failure is only logged.\<close>

definition boot :: "environment \<Rightarrow> outside \<Rightarrow> unit op" where
  "boot env w =
     (if env ''ADMIN_EMAIL'' = [] then ret () else do { x \<leftarrow> ensure_platform_admin w (env ''ADMIN_EMAIL''); ret () })"

section \<open>The server's own routes\<close>

definition handle_healthz :: handler where
  "handle_healthz cx r = ret (bare_status 200)"

definition handle_readyz :: "outside \<Rightarrow> handler" where
  "handle_readyz w cx r =
     attempt (exec w (reading (\<lambda>t. Inr ()))) (\<lambda>e. http_error ''not ready'' 503) (\<lambda>u. ret (bare_status 200))"

definition handle_analyze_path :: "outside \<Rightarrow> host \<Rightarrow> handler" where
  "handle_analyze_path w h cx r =
     (case decode_body w [''repo_path''] r of
        None \<Rightarrow> ret (http_error ''repo_path required'' 400)
      | Some inp \<Rightarrow>
          if trim_space (inp ''repo_path'') = [] then ret (http_error ''repo_path required'' 400)
          else do {
            n \<leftarrow> event;
            ret (case analyze_at w h n (inp ''repo_path'') of
                   Inl txt \<Rightarrow> http_error txt 500
                 | Inr result \<Rightarrow> \<lparr>hr_Status = 200, hr_Headers = [(''Content-Type'', ''application/json'')], hr_Body = Raw result\<rparr>)
          })"

text \<open>The account and application routes and the server's own ones, each behind the request id.\<close>

definition server_routes :: "(nat \<Rightarrow> string) \<Rightarrow> outside \<Rightarrow> host \<Rightarrow> service \<times> apps_service \<Rightarrow> ((string \<times> string) \<times> handler) list" where
  "server_routes uuid w h wired =
     (case wired of (sc, hs) \<Rightarrow>
      map (\<lambda>(route, nxt). (route, request_id uuid nxt))
        (control_plane w sc hs @
         [((''GET'', ''/healthz''), handle_healthz), ((''GET'', ''/readyz''), handle_readyz w),
          ((''POST'', ''/v1/analyze''), handle_analyze_path w h)]))"

text \<open>The webhook is mounted when its secret is set, without hooks; its replay guard keeps ten minutes.\<close>

definition mounted_webhook ::
  "environment \<Rightarrow> (string \<Rightarrow> string \<Rightarrow> string) \<Rightarrow> (string \<Rightarrow> pr_payload option) \<Rightarrow>
   (time \<Rightarrow> http_request \<Rightarrow> ReplayGuard \<Rightarrow> http_response \<times> ReplayGuard) option" where
  "mounted_webhook env hmac decode =
     (if env ''GITHUB_WEBHOOK_SECRET'' = [] then None
      else Some (\<lambda>now r g.
        (case serve_webhook hmac decode (env ''GITHUB_WEBHOOK_SECRET'') \<lparr>hk_OnOpen = None, hk_OnClose = None\<rparr> now r (g, ()) of
           (resp, g', u) \<Rightarrow> (resp, g'))))"

definition initial_guard :: ReplayGuard where
  "initial_guard = new_replay_guard (10 * minute)"

text \<open>Everything else falls to the generated contract, whose operations are all stubs; \<open>gen\<close> is the generated router, which
  rejects a request itself or reaches an operation.\<close>

definition not_implemented :: http_response where
  "not_implemented =
     \<lparr>hr_Status = 501, hr_Headers = [(''Content-Type'', ''application/problem+json'')],
      hr_Body = Json (JObj [(''type'', JStr ''about:blank''), (''title'', JStr ''Not Implemented''), (''status'', JInt 501)])\<rparr>"

definition serve_contract :: "(http_request \<Rightarrow> http_response option) \<Rightarrow> http_request \<Rightarrow> http_response" where
  "serve_contract gen r = (case gen r of Some resp \<Rightarrow> resp | None \<Rightarrow> not_implemented)"

section \<open>Runs\<close>

record server =
  sv_platform :: platform
  sv_guard :: ReplayGuard

text \<open>Requests, deliveries and purges, one after the other; the parts of the platform other than the tables may change in
  between.\<close>

inductive server_run for w :: outside and routes hook where
  idle: "server_run w routes hook s s"
| request: "\<lbrakk>server_run w routes hook s s1; (route, nxt) \<in> set routes; pf_tables q = pf_tables (sv_platform s1);
    run_state (nxt cx r) q = (resp, p')\<rbrakk> \<Longrightarrow> server_run w routes hook s (s1\<lparr>sv_platform := p'\<rparr>)"
| delivery: "\<lbrakk>server_run w routes hook s s1; hook = Some serve; serve now r (sv_guard s1) = (resp, g')\<rbrakk> \<Longrightarrow>
    server_run w routes hook s (s1\<lparr>sv_guard := g'\<rparr>)"
| purge: "\<lbrakk>server_run w routes hook s s1; pf_tables q = pf_tables (sv_platform s1);
    run_state (cleanup_expired_idempotency w) q = (x, p')\<rbrakk> \<Longrightarrow> server_run w routes hook s (s1\<lparr>sv_platform := p'\<rparr>)"

lemma server_run_keeps:
  assumes "server_run w routes hook s s'" and "\<And>route nxt cx r. (route, nxt) \<in> set routes \<Longrightarrow> keeps J (nxt cx r)"
    and "keeps J (cleanup_expired_idempotency w)" and "J (pf_tables (sv_platform s))"
  shows "J (pf_tables (sv_platform s'))"
  using assms(1,4)
proof induction
  case (request s s1 route nxt q cx r resp p')
  then show ?case using keepsD [OF assms(2) [OF request.hyps(2)] _ request.hyps(4)] by simp
next
  case (delivery s s1 serve now r resp g')
  then show ?case by simp
next
  case (purge s s1 q x p')
  then show ?case using keepsD [OF assms(3) _ purge.hyps(3)] by simp
qed simp

section \<open>What every route keeps\<close>

context account_invariant
begin

lemma boot_keeps: "keeps J (boot env w)"
  unfolding boot_def ensure_platform_admin_def ensure_bootstrap_user_def stub_hash_def upsert_member_stmt_def
    default_org_for_user_def create_workspace_def random_token_def hash_password_def
  by (intro keeps_intro stmts)

end

lemma request_id_keeps: "keeps J (nxt cx r) \<Longrightarrow> keeps J (request_id uuid nxt cx r)"
  unfolding request_id_def by (intro keeps_intro)

lemma own_routes_keep: "keeps J (handle_healthz cx r)" "keeps J (handle_readyz w cx r)" "keeps J (handle_analyze_path w h cx r)"
  unfolding handle_healthz_def handle_readyz_def handle_analyze_path_def by (intro keeps_intro)+

lemma server_route_keeps:
  assumes "(route, nxt) \<in> set (server_routes uuid w h (sc, hs))"
    and "\<And>route nxt. (route, nxt) \<in> set (control_plane w sc hs) \<Longrightarrow> keeps J (nxt cx r)"
  shows "keeps J (nxt cx r)"
  using assms own_routes_keep by (auto simp: server_routes_def intro!: request_id_keeps)

lemma cleanup_keeps:
  "keeps (sound_tables w) (cleanup_expired_idempotency w)" "keeps (quota_tables w) (cleanup_expired_idempotency w)"
proof -
  let ?st = "\<lambda>n t. Inr (int (length (filter (\<lambda>r. ik_expires r \<le> db_now w n) (tb_idem t))),
    t\<lparr>tb_idem := filter (\<lambda>r. \<not> ik_expires r \<le> db_now w n) (tb_idem t)\<rparr>)"
  have ok: "stmt_keeps (schema_ok w) ?st"
    by (rule stmt_keepsI) (clarsimp simp: schema_defs table_simps)
  have "account_stmt ?st" by (auto simp: account_stmt_def app_tables_def)
  then show "keeps (sound_tables w) (cleanup_expired_idempotency w)" "keeps (quota_tables w) (cleanup_expired_idempotency w)"
    unfolding cleanup_expired_idempotency_def Let_def
    using stmt_keeps_sound [OF ok] account_stmt_quota [OF _ ok] by (auto intro!: keeps_exec)
qed

section \<open>The server as a whole\<close>

text \<open>
  C4: the server keeps the database sound from its start: if the tables satisfy the schema and no organisation exceeds its
  application quota, neither the bootstrap of the administrator nor any run of requests to any route, webhook deliveries
  and hourly purges, with whatever statement failing, leads to a violated constraint or an exceeded quota.
\<close>

theorem server_keeps_database:
  assumes "uuid_law w" "schema_ok w (pf_tables p)" "within_quota (pf_tables p)" and booted: "run_state (boot env w) p = (u, p')"
    and run: "server_run w (server_routes uuid w h wired) (mounted_webhook env hmac decode) \<lparr>sv_platform = p', sv_guard = initial_guard\<rparr> s"
  shows "schema_ok w (pf_tables (sv_platform s)) \<and> within_quota (pf_tables (sv_platform s))"
proof -
  obtain sc hs where wired: "wired = (sc, hs)" by (cases wired)
  have "quota_tables w (pf_tables p)" using assms(1-3) by (simp add: quota_tables_def sound_tables_def)
  then have "quota_tables w (pf_tables p')" by (rule keepsD [OF bounded.boot_keeps _ booted])
  moreover have "keeps (quota_tables w) (nxt cx r)" if "(route, nxt) \<in> set (server_routes uuid w h wired)" for route nxt cx r
    using that unfolding wired by (rule server_route_keeps) (rule control_plane_quota)
  ultimately have "quota_tables w (pf_tables (sv_platform s))" using server_run_keeps [OF run _ cleanup_keeps(2)] by simp
  then show ?thesis by (simp add: quota_tables_def sound_tables_def)
qed

definition public_routes :: "(string \<times> string) list" where
  "public_routes =
     [(''POST'', ''/v1/auth/register''), (''POST'', ''/v1/auth/verify''), (''POST'', ''/v1/auth/login''),
      (''POST'', ''/v1/auth/request-password-reset''), (''POST'', ''/v1/auth/reset-password''),
      (''GET'', ''/healthz''), (''GET'', ''/readyz''), (''POST'', ''/v1/analyze'')]"

lemma refused_without_bearer:
  assumes "take 7 (header r ''Authorization'') \<noteq> ''Bearer ''" and "run_state (authenticated w secret nxt cx r) p = (resp, p')"
  shows "hr_Status resp = 401 \<and> (\<exists>evs. pf_tables p' = (pf_tables p)\<lparr>tb_events := evs\<rparr>) \<and> pf_mails p' = pf_mails p \<and> pf_applied p' = pf_applied p"
proof -
  have "resolve_bearer w secret r = ret None" using assms(1) by (simp add: resolve_bearer_def Let_def)
  moreover have "\<exists>evs. pf_tables p = (pf_tables p)\<lparr>tb_events := evs\<rparr>" by (rule exI [of _ "tb_events (pf_tables p)"]) simp
  ultimately show ?thesis using assms(2)
    by (auto simp: authenticated_def insert_security_event_def exec_def write_problem_def Let_def
        split: option.splits db_fault.splits sum.splits)
qed

lemma protected_routes: "list_all (\<lambda>(route, nxt). route \<in> set public_routes \<or> (\<exists>secret inner. nxt = authenticated w secret inner)) (control_plane w sc hs)"
  by (auto simp: control_plane_def auth_routes_def apps_routes_def public_routes_def require_cap_def Let_def)


section \<open>Defaults\<close>

text \<open>Without a token secret or a master key in the environment the server starts with published ones.\<close>

lemma start_defaults:
  "start_server (\<lambda>k. []) w h lib = Inl NoDatabaseURL"
  "map_sum id (\<lambda>(sc, hs). (sc_secret sc, hs_tokenSecret hs, ss_key (hs_secrets hs))) (start_server ((\<lambda>k. [])(''DATABASE_URL'' := ''db'')) w h lib) =
     Inr (''dev-only-secret-key-32-bytes!!'', ''dev-only-secret-key-32-bytes!!'', replicate 32 CHR 0xAB)"
proof -
  show "start_server (\<lambda>k. []) w h lib = Inl NoDatabaseURL" by (simp add: start_server_def load_config_def and_then_def)
  have "new_stub (concat (replicate 32 ''ab'')) = Inr (replicate 32 CHR 0xAB)" by code_simp
  then show "map_sum id (\<lambda>(sc, hs). (sc_secret sc, hs_tokenSecret hs, ss_key (hs_secrets hs))) (start_server ((\<lambda>k. [])(''DATABASE_URL'' := ''db'')) w h lib) =
     Inr (''dev-only-secret-key-32-bytes!!'', ''dev-only-secret-key-32-bytes!!'', replicate 32 CHR 0xAB)"
    by (simp add: start_server_def load_config_def mount_platform_api_def getenv_or_def and_then_def Let_def)
qed

section \<open>A concrete server\<close>

definition sample_host :: host where
  "sample_host = \<lparr>ho_tree = (\<lambda>n. sample_repo), ho_json = sample_decoder, ho_kinds = prefix_kinds, ho_order = id, ho_visit1 = id, ho_visit2 = id,
     ho_errorText = (\<lambda>e. ''unsupported stack''), ho_marshal = (\<lambda>res. ''{}''), ho_exec = (\<lambda>n b a j. True)\<rparr>"

abbreviation (input) sample_server :: "((string \<times> string) \<times> handler) list" where
  "sample_server \<equiv> server_routes show_nat calm sample_host (sample_service, sample_apps)"

definition admin_env :: environment where
  "admin_env = (\<lambda>k. []) (''ADMIN_EMAIL'' := ''ann@x.io'')"

lemma sample_delete: "((''DELETE'', ''/v1/apps/{appId}''), request_id show_nat delete_route) \<in> set sample_server"
  unfolding server_routes_def prod.case set_map set_append by (rule rev_image_eqI [OF UnI1 [OF delete_route_mounted]]) simp

theorem server_keeps_database_witness:
  "\<exists>u p' s. run_state (boot admin_env calm) two_tenants = (u, p') \<and>
     server_run calm sample_server (mounted_webhook admin_env (\<lambda>k m. m) (\<lambda>b. None)) \<lparr>sv_platform = p', sv_guard = initial_guard\<rparr> s \<and>
     map mb_role (tb_members (pf_tables p')) = [''platform_admin''] \<and>
     schema_ok calm (pf_tables (sv_platform s)) \<and> within_quota (pf_tables (sv_platform s))"
proof -
  let ?hook = "mounted_webhook admin_env (\<lambda>k m. m) (\<lambda>b. None)"
  obtain u p' where b: "run_state (boot admin_env calm) two_tenants = (u, p')" by (cases "run_state (boot admin_env calm) two_tenants")
  have "map mb_role (tb_members (pf_tables (snd (run_state (boot admin_env calm) two_tenants)))) = [''platform_admin'']" by code_simp
  then have role: "map mb_role (tb_members (pf_tables p')) = [''platform_admin'']" using b by simp
  let ?s0 = "\<lparr>sv_platform = p', sv_guard = initial_guard\<rparr>"
  obtain resp q where d: "run_state (request_id show_nat delete_route sample_ctx delete_request) p' = (resp, q)"
    by (cases "run_state (request_id show_nat delete_route sample_ctx delete_request) p'")
  have run: "server_run calm sample_server ?hook ?s0 (?s0\<lparr>sv_platform := q\<rparr>)"
    by (rule server_run.request [OF server_run.idle sample_delete _ d]) simp
  note keep = server_keeps_database [OF calm_laws(1) two_tenants_sound b run]
  show ?thesis
    by (rule exI [of _ u], rule exI [of _ p'], rule exI [of _ "?s0\<lparr>sv_platform := q\<rparr>"])
      (intro conjI b run role keep [THEN conjunct1] keep [THEN conjunct2])
qed


end
