(* ===== verification/Spec2Isabelle.thy ===== *)
theory Spec2Isabelle
  imports Rollback_Plan Delete_Pipeline Rate_Limits Previews Repair Rbac Cells Billing Plan_Generator
    Analyzer_Spec Analyzer_Command Verify Appenv Tenant_Manifests Build_Controller Image_Registry Database_Controller
    Secret_Laws Github Cloud_Providers Provider_Wiring Logs Handover Server
begin

text \<open>
  A verification development for Tenara, a platform that takes a repository, plans, builds, deploys and verifies it as an
  application on Kubernetes.

  \<^bold>\<open>The program.\<close> Five Go modules. The control plane (\<^verbatim>\<open>control-plane\<close>) is an HTTP server over PostgreSQL: accounts,
  organisations and their members, applications with their services, plans, revisions, domains, databases and secrets, and
  libraries for deployments, limits, billing and previews. The analyzer (\<^verbatim>\<open>analyzer\<close>) reads a repository and renders an
  application spec. The controllers (\<^verbatim>\<open>controllers\<close>) reconcile the custom resources the control plane hands over into
  namespaces, deployments, builds and credentials. The providers (\<^verbatim>\<open>providers\<close>) are the adapters to databases, registries and
  clouds the controllers use. The verifier (\<^verbatim>\<open>verifier\<close>) judges a deployment. They interact as follows: a request reaches a route of
  \<^verbatim>\<open>cmd/server/main.go\<close> through the middleware (request id, bearer, capability, idempotency, audit), whose handler calls
  the stores; an approved plan is handed to the cluster as an AppEnv resource; the AppEnv controller turns it into a
  namespace and deployments of digest-pinned images, the Build controller produces those images and writes their digests back, the
  DatabaseBinding controller asks a provider for a credential and seals it into the tenant's secret.

  \<^bold>\<open>Which theory models what.\<close>
  \<^item> \<open>Prelude\<close>, \<open>Contracts\<close>: the result type (a Go \<^verbatim>\<open>(T, error)\<close> is a sum, \<^verbatim>\<open>nil\<close> pointers are \<open>None\<close>), Go maps, and
    the contracts several components share, as locales.
  \<^item> \<open>Go_Strings\<close>, \<open>Go_Numbers\<close>, \<open>Go_Files\<close>, \<open>Go_Http\<close>, \<open>Kube\<close>, \<open>Database\<close>: what the program uses of Go's library, of Kubernetes
    and of PostgreSQL. A string is a list of bytes; float64 is the rational it denotes, rounded after every operation; a file tree
    is a table of clean paths; tables are lists of rows, one statement is one atomic step that may fail.
  \<^item> \<open>Credentials\<close>, \<open>Auth_Store\<close>, \<open>Auth_Gate\<close>, \<open>Auth_Handlers\<close>: \<^verbatim>\<open>control-plane/internal/auth\<close> without GitHub, which is \<open>Github\<close>;
    \<open>Rbac\<close>: \<^verbatim>\<open>rbac\<close>.
  \<^item> \<open>Apps_Store\<close>, \<open>Releases\<close>, \<open>Secret_Store\<close>, \<open>Apps_Handlers\<close>: \<^verbatim>\<open>apps\<close> and \<^verbatim>\<open>secrets\<close>; \<open>Sealing\<close> holds \<^verbatim>\<open>kms\<close> and the
    sealer of \<^verbatim>\<open>providers/secret/local\<close>.
  \<^item> \<open>Deploy_State\<close>, \<open>Rollback_Plan\<close>, \<open>Delete_Pipeline\<close>, \<open>Plan_Generator\<close>: \<^verbatim>\<open>orchestrator\<close>; \<open>Rate_Limits\<close>: \<^verbatim>\<open>limits\<close>; \<open>Billing\<close>: \<^verbatim>\<open>billing\<close>
    and \<^verbatim>\<open>metering\<close>; \<open>Cells\<close>: \<^verbatim>\<open>cells\<close>; \<open>Previews\<close>: \<^verbatim>\<open>previews\<close>; \<open>Repair\<close>: \<^verbatim>\<open>repair\<close> and \<^verbatim>\<open>securityevent\<close>; \<open>Appspec\<close>: \<^verbatim>\<open>appspec\<close>; \<open>Logs\<close>: \<^verbatim>\<open>logs\<close>.
  \<^item> \<open>Server\<close>: \<^verbatim>\<open>cmd/server/main.go\<close> with \<^verbatim>\<open>config\<close>, \<^verbatim>\<open>provision/applier.go\<close> and \<^verbatim>\<open>httpapi/server.go\<close>.
  \<^item> \<open>Analyzer_Detect\<close>, \<open>Analyzer_Spec\<close>, \<open>Analyzer_Command\<close>: \<^verbatim>\<open>analyzer\<close>. \<open>Verify\<close>: \<^verbatim>\<open>verifier\<close>.
  \<^item> \<open>Controller_Types\<close>, \<open>Appenv\<close>, \<open>Tenant_Manifests\<close>, \<open>Build_Controller\<close>, \<open>Database_Controller\<close>: \<^verbatim>\<open>controllers/internal\<close> and the
    manifests of \<^verbatim>\<open>control-plane/internal/provision\<close>.
  \<^item> \<open>Providers\<close>, \<open>Image_Registry\<close>, \<open>Cloud_Providers\<close>, \<open>Provider_Wiring\<close>: \<^verbatim>\<open>providers\<close> and the wiring of \<^verbatim>\<open>controllers/cmd/database-controller\<close>.

  A struct is a record with its fields prefixed, a method is a definition named after it in lower case with underscores; a
  statement of SQL is a definition of its own (\<open>insert_app\<close>, \<open>update_app\<close>). Store and handler operations are in the state monad over the
  record \<open>platform\<close> (tables, event counter, mails, manifests handed to the cluster); controllers pass the state of the cluster explicitly.

  \<^bold>\<open>What the lemmas show.\<close>
  \<^item> \<open>Schema\<close>, \<open>App_Invariants\<close>, \<open>App_Conduct\<close>, \<open>Callers\<close>, \<open>Tenancy\<close>, \<open>Tenant_Rows\<close>, \<open>Tenant_Safety\<close>: what holds of all routes together. The locale
    \<open>app_invariant\<close> states what each statement must do to an invariant of the tables and derives the same of every handler; it is
    interpreted for the schema, for the rows of another organisation and for the quota, \<open>account_invariant\<close> likewise for the
    account routes. From it: organisations are separated, the schema and the quotas hold in every history of requests, with
    any statement failing. \<open>Server\<close> extends this to the bootstrap, the purge and the webhook, and shows which routes need a bearer.
  \<^item> \<open>Handover\<close>: which manifests requests hand to the cluster, and what the controller reads in them.
  \<^item> \<open>Auth_Gate\<close>, \<open>Auth_Handlers\<close>, \<open>Credentials\<close>, \<open>Github\<close>: who passes the gate, that a repeated request is answered from the store, which accounts can
    log in, that hashes verify, and that a GitHub binding is only made by its user with a state used once.
  \<^item> \<open>Secret_Laws\<close>, \<open>Sealing\<close>: secrets come back as they were set; sealing opens exactly what it sealed.
  \<^item> \<open>Deploy_State\<close>, \<open>Delete_Pipeline\<close>, \<open>Rollback_Plan\<close>, \<open>Repair\<close>, \<open>Rate_Limits\<close>, \<open>Previews\<close>: state machines and guards under every interleaving of
    calls, termination of the loops, the rate bound in spite of float rounding.
  \<^item> \<open>Appspec\<close>, \<open>Plan_Generator\<close>, \<open>Analyzer_Detect\<close>, \<open>Analyzer_Spec\<close>, \<open>Tenant_Manifests\<close>: grammars and generators: what is accepted, that map order does not
    matter, that what one part produces the next accepts (or, for build digests in \<open>Build_Controller\<close>, does not).
  \<^item> \<open>Appenv\<close>, \<open>Build_Controller\<close>, \<open>Database_Controller\<close>, \<open>Image_Registry\<close>, \<open>Provider_Wiring\<close>: what a reconcile pass may write, that it converges, which
    images and credentials it lets through, and what a controller needs to start.

  \<^bold>\<open>Parameters and what is assumed of them.\<close> Code outside the repository is an argument: the record \<open>outside\<close> (clock, random bytes, hashes, the JWT
  library, decoders, the faults of the database), the record \<open>host\<close> of the server, clients, transports and runners. Named laws: \<open>uuid_law\<close>
  (an id the database generated reads as itself when it is passed back), \<open>cast_law\<close> (so does whatever a text was read as), \<open>one_user_per_token\<close> (the JWT library reads one user
  from a token), \<open>aead_laws\<close> (AES-GCM opens what it sealed), \<open>client_laws\<close> (the API client acts on the stored objects), \<open>quote_law\<close> (\<^verbatim>\<open>%q\<close> is
  injective and only puts quotes around lower-case words). Each has an instance in a witness. Random ids, nonces and faults range over everything their type allows.

  \<^bold>\<open>Bounds.\<close> No definition takes fuel: recursion is structural, or \<open>function\<close> with a measure; the auto-repair loop is a
  \<open>partial_function\<close> and proved to return within its three attempts. Go's 64-bit integers are \<open>int\<close> with \<^verbatim>\<open>wrap64\<close> where
  sums may overflow; float64 steps are rounded by \<open>fl64\<close>, which is exact on whole numbers below 2^53.

  \<^bold>\<open>Not modelled, and why.\<close>
  \<^item> Generated code: the API types and router (\<^verbatim>\<open>gen.gen.go\<close>, twice), its stub operations (which all answer \<open>not_implemented\<close>) and the deep copies of the
    resources. It makes up a third of the lines of the repository and holds no decision of its own.
  \<^item> Start-up that only calls libraries: the connection pool, the manager of the controllers, logging, signal handling and graceful shutdown.
  \<^item> Concurrency below a statement: statements and guarded calls are atomic and serialised. Two transactions that interleave between their
    statements are not; under \<^verbatim>\<open>READ COMMITTED\<close> two concurrent inserts can both pass the quota check of \<open>insert_app\<close>, so the quota results speak of
    serialised statements only. The goroutine of the purge is a step between requests.
  \<^item> Panics: a nil dereference is a value of an error type where the code can reach one; the recovery middleware, which answers it with 500, is left out.
  \<^item> Text PostgreSQL cannot store (NUL bytes, invalid UTF-8), sizes beyond a column, and the texts of foreign errors.
  \<^item> Routing: a request comes with the route it matched and its path values.
\<close>

end
